(* ===== verification/Wara_Prelude.thy ===== *)
theory Wara_Prelude
  imports Main "HOL-Library.Word" "HOL-Library.Sublist"
begin

section \<open>Shared vocabulary: effects, results and their weakest preconditions\<close>

text \<open>
  What every component of the model rests on.

  An asynchronous method of the backend is a function of the world it runs in: it returns a
  value or fails, and either way it leaves a world behind.  The world type \<open>'w\<close> is a parameter:
  the database server, the clock, the random generators are reached only through the operations
  the theory \<open>Store\<close> collects, so nothing is assumed of a world but what those
  operations' laws say.  A failing method keeps the effects it had before it failed, as the
  Rust code does: there is no implicit rollback.

  The weakest precondition \<open>wp m Q E w\<close> reads: run from \<open>w\<close>, the method \<open>m\<close> either returns
  a value and a world that satisfy \<open>Q\<close>, or fails with an error and a world that satisfy \<open>E\<close>.
  Methods are total functions, so \<open>wp\<close> is total correctness.  Each operation of a component gets
  a rule in the collection \<open>wp_rules\<close>; the composition rules are simplification rules.
\<close>

subsection \<open>Collections of facts\<close>

named_theorems wp_rules \<open>introduction rules: the weakest precondition of an operation\<close>
named_theorems str_simps \<open>equations of the string operations of the Rust library\<close>
named_theorems codec_simps \<open>the printed names of the enumerations and what they parse to\<close>

subsection \<open>Methods that read and change the world and may fail\<close>

type_synonym ('w, 'e, 'a) io = "'w \<Rightarrow> ('e + 'a) \<times> 'w"

definition returnE :: "'a \<Rightarrow> ('w, 'e, 'a) io" where
  "returnE x = (\<lambda>w. (Inr x, w))"

definition throwE :: "'e \<Rightarrow> ('w, 'e, 'a) io" where
  "throwE e = (\<lambda>w. (Inl e, w))"

text \<open>\<open>let x = m.await?; f(x)\<close>: an error of \<open>m\<close> is returned at once.\<close>

definition bindE :: "('w, 'e, 'a) io \<Rightarrow> ('a \<Rightarrow> ('w, 'e, 'b) io) \<Rightarrow> ('w, 'e, 'b) io" where
  "bindE m f = (\<lambda>w. case m w of (Inl e, w') \<Rightarrow> (Inl e, w') | (Inr x, w') \<Rightarrow> f x w')"

text \<open>\<open>match m.await { Ok(x) => f(x), Err(e) => g(e) }\<close>.\<close>

definition matchE ::
  "('w, 'e, 'a) io \<Rightarrow> ('a \<Rightarrow> ('w, 'f, 'b) io) \<Rightarrow> ('e \<Rightarrow> ('w, 'f, 'b) io) \<Rightarrow> ('w, 'f, 'b) io" where
  "matchE m f g = (\<lambda>w. case m w of (Inl e, w') \<Rightarrow> g e w' | (Inr x, w') \<Rightarrow> f x w')"

text \<open>A pure \<open>Result\<close> followed by \<open>?\<close>, and an effect that cannot fail.\<close>

definition liftE :: "'e + 'a \<Rightarrow> ('w, 'e, 'a) io" where
  "liftE r = (\<lambda>w. (r, w))"

definition effectE :: "('w \<Rightarrow> 'a \<times> 'w) \<Rightarrow> ('w, 'e, 'a) io" where
  "effectE m = (\<lambda>w. case m w of (x, w') \<Rightarrow> (Inr x, w'))"

text \<open>\<open>map_err\<close> on an effectful call.\<close>

definition map_errE :: "('d \<Rightarrow> 'e) \<Rightarrow> ('w, 'd, 'a) io \<Rightarrow> ('w, 'e, 'a) io" where
  "map_errE h m = (\<lambda>w. case m w of (Inl e, w') \<Rightarrow> (Inl (h e), w') | (Inr x, w') \<Rightarrow> (Inr x, w'))"

text \<open>A \<open>for\<close> loop that pushes one result for each element and stops at the first error.\<close>

fun mapE :: "('a \<Rightarrow> ('w, 'e, 'b) io) \<Rightarrow> 'a list \<Rightarrow> ('w, 'e, 'b list) io" where
  "mapE f [] = returnE []"
| "mapE f (x # xs) = bindE (f x) (\<lambda>y. bindE (mapE f xs) (\<lambda>ys. returnE (y # ys)))"

subsection \<open>Pure results\<close>

definition map_err :: "('d \<Rightarrow> 'e) \<Rightarrow> 'd + 'a \<Rightarrow> 'e + 'a" where
  "map_err h r = (case r of Inl e \<Rightarrow> Inl (h e) | Inr x \<Rightarrow> Inr x)"

definition bind_result :: "'e + 'a \<Rightarrow> ('a \<Rightarrow> 'e + 'b) \<Rightarrow> 'e + 'b" where
  "bind_result r f = (case r of Inl e \<Rightarrow> Inl e | Inr x \<Rightarrow> f x)"

definition ok_or :: "'e \<Rightarrow> 'a option \<Rightarrow> 'e + 'a" where
  "ok_or e x = (case x of None \<Rightarrow> Inl e | Some y \<Rightarrow> Inr y)"

lemma map_err_simps [simp]:
  "map_err h (Inl e) = Inl (h e)" "map_err h (Inr x) = Inr x"
  by (simp_all add: map_err_def)

lemma map_err_eq_Inr [simp]: "map_err h r = Inr x \<longleftrightarrow> r = Inr x"
  by (cases r) simp_all

lemma map_err_eq_Inl [simp]: "map_err h r = Inl e \<longleftrightarrow> (\<exists>d. r = Inl d \<and> e = h d)"
  by (cases r) auto

lemma case_map_err [simp]: "case_sum f g (map_err h r) = case_sum (\<lambda>e. f (h e)) g r"
  by (cases r) simp_all

lemma bind_result_simps [simp]:
  "bind_result (Inl e) f = Inl e" "bind_result (Inr x) f = f x"
  by (simp_all add: bind_result_def)

lemma bind_result_eq_Inr: "bind_result r f = Inr y \<longleftrightarrow> (\<exists>x. r = Inr x \<and> f x = Inr y)"
  by (cases r) simp_all

lemma ok_or_simps [simp]: "ok_or e None = Inl e" "ok_or e (Some x) = Inr x"
  by (simp_all add: ok_or_def)

lemma ok_or_eq_Inr [simp]: "ok_or e x = Inr y \<longleftrightarrow> x = Some y"
  by (cases x) simp_all

subsection \<open>Laws of the composition\<close>

lemma bindE_returnE [simp]: "bindE (returnE x) f = f x"
  by (simp add: bindE_def returnE_def)

lemma bindE_throwE [simp]: "bindE (throwE e) f = throwE e"
  by (simp add: bindE_def throwE_def)

lemma bindE_assoc: "bindE (bindE m f) g = bindE m (\<lambda>x. bindE (f x) g)"
  by (auto simp: bindE_def fun_eq_iff split: prod.splits sum.splits)

lemma liftE_simps [simp]: "liftE (Inr x) = returnE x" "liftE (Inl e) = throwE e"
  by (simp_all add: liftE_def returnE_def throwE_def)

subsection \<open>Weakest preconditions\<close>

definition wp ::
  "('w, 'e, 'a) io \<Rightarrow> ('a \<Rightarrow> 'w \<Rightarrow> bool) \<Rightarrow> ('e \<Rightarrow> 'w \<Rightarrow> bool) \<Rightarrow> 'w \<Rightarrow> bool" where
  "wp m Q E w = (case m w of (Inl e, w') \<Rightarrow> E e w' | (Inr x, w') \<Rightarrow> Q x w')"

lemma wp_returnE [simp]: "wp (returnE x) Q E = Q x"
  by (simp add: wp_def returnE_def fun_eq_iff)

lemma wp_throwE [simp]: "wp (throwE e) Q E = E e"
  by (simp add: wp_def throwE_def fun_eq_iff)

lemma wp_bindE [simp]: "wp (bindE m f) Q E = wp m (\<lambda>x. wp (f x) Q E) E"
  by (auto simp: wp_def bindE_def fun_eq_iff split: prod.splits sum.splits)

lemma wp_matchE [simp]:
  "wp (matchE m f g) Q E = wp m (\<lambda>x. wp (f x) Q E) (\<lambda>e. wp (g e) Q E)"
  by (auto simp: wp_def matchE_def fun_eq_iff split: prod.splits sum.splits)

lemma wp_liftE [simp]:
  "wp (liftE r) Q E = (case r of Inl e \<Rightarrow> E e | Inr x \<Rightarrow> Q x)"
  by (auto simp: wp_def liftE_def fun_eq_iff split: sum.splits)

lemma wp_map_errE [simp]: "wp (map_errE h m) Q E = wp m Q (\<lambda>e. E (h e))"
  by (auto simp: wp_def map_errE_def fun_eq_iff split: prod.splits sum.splits)

lemma effectE_never_fails [simp]: "effectE m w \<noteq> (Inl e, w')"
  by (simp add: effectE_def split: prod.splits)

lemma wp_effectE_run: "wp (effectE m) Q E w = (case m w of (x, w') \<Rightarrow> Q x w')"
  by (simp add: wp_def effectE_def split: prod.splits)

lemma wp_if [simp]:
  "wp (if b then m else n) Q E = (if b then wp m Q E else wp n Q E)"
  by simp

lemma wp_case_option [simp]:
  "wp (case x of None \<Rightarrow> m | Some y \<Rightarrow> n y) Q E =
   (case x of None \<Rightarrow> wp m Q E | Some y \<Rightarrow> wp (n y) Q E)"
  by (cases x) simp_all

lemma wp_case_sum [simp]:
  "wp (case x of Inl y \<Rightarrow> m y | Inr z \<Rightarrow> n z) Q E =
   (case x of Inl y \<Rightarrow> wp (m y) Q E | Inr z \<Rightarrow> wp (n z) Q E)"
  by (cases x) simp_all

lemma wp_case_prod [simp]:
  "wp (case p of (a, b) \<Rightarrow> m a b) Q E = (case p of (a, b) \<Rightarrow> wp (m a b) Q E)"
  by (cases p) simp

lemma wp_mono:
  assumes "wp m Q E w"
    and "\<And>x w'. Q x w' \<Longrightarrow> Q' x w'"
    and "\<And>e w'. E e w' \<Longrightarrow> E' e w'"
  shows "wp m Q' E' w"
  using assms by (auto simp: wp_def split: prod.splits sum.splits)

lemma wp_conj:
  "wp m Q E w \<Longrightarrow> wp m Q' E' w \<Longrightarrow> wp m (\<lambda>x w. Q x w \<and> Q' x w) (\<lambda>e w. E e w \<and> E' e w) w"
  by (auto simp: wp_def split: prod.splits sum.splits)

text \<open>From a weakest precondition to one run of the method, and back.\<close>

lemma wp_okD: "wp m Q E w \<Longrightarrow> m w = (Inr x, w') \<Longrightarrow> Q x w'"
  by (simp add: wp_def)

lemma wp_errD: "wp m Q E w \<Longrightarrow> m w = (Inl e, w') \<Longrightarrow> E e w'"
  by (simp add: wp_def)

lemma wp_runI:
  assumes "\<And>x w'. m w = (Inr x, w') \<Longrightarrow> Q x w'"
    and "\<And>e w'. m w = (Inl e, w') \<Longrightarrow> E e w'"
  shows "wp m Q E w"
  using assms by (auto simp: wp_def split: prod.splits sum.splits)

lemma wp_iff_run:
  "wp m Q E w \<longleftrightarrow>
   (\<forall>r w'. m w = (r, w') \<longrightarrow> (case r of Inl e \<Rightarrow> E e w' | Inr x \<Rightarrow> Q x w'))"
  by (auto simp: wp_def split: prod.splits sum.splits)

text \<open>
  The loop rule: an invariant over the elements already handled and their results.  An error
  leaves the loop at the element that failed, in the world its body left.
\<close>

lemma wp_mapE_invariant:
  assumes step: "\<And>done x rest ys w. xs = done @ x # rest \<Longrightarrow> I done ys w \<Longrightarrow>
      wp (f x) (\<lambda>y. I (done @ [x]) (ys @ [y])) E w"
    and start: "I [] [] w"
    and stop: "\<And>ys w. I xs ys w \<Longrightarrow> Q ys w"
  shows "wp (mapE f xs) Q E w"
proof -
  have "wp (mapE f rest) (\<lambda>zs. I xs (ys @ zs)) E w"
    if "xs = done @ rest" "I done ys w" for "done" rest ys w
    using that
  proof (induction rest arbitrary: "done" ys w)
    case Nil
    then show ?case by simp
  next
    case (Cons x rest)
    have "wp (f x) (\<lambda>y. I (done @ [x]) (ys @ [y])) E w"
      using Cons.prems by (rule step)
    moreover have "wp (mapE f rest) (\<lambda>zs. I xs (ys @ y # zs)) E w'"
      if "I (done @ [x]) (ys @ [y]) w'" for y w'
      using Cons.IH[of "done @ [x]" "ys @ [y]" w'] Cons.prems(1) that by simp
    ultimately show ?case by (auto elim: wp_mono)
  qed
  from this[of "[]" xs "[]" w] start have "wp (mapE f xs) (I xs) E w" by simp
  then show ?thesis by (rule wp_mono) (simp_all add: stop)
qed

lemma mapE_length: "mapE f xs w = (Inr ys, w') \<Longrightarrow> length ys = length xs"
  by (induction xs arbitrary: ys w w')
    (auto simp: returnE_def bindE_def split: prod.splits sum.splits)

text \<open>A loop that fails has gone through the elements before the one it fails at.\<close>

lemma mapE_stops:
  "mapE f xs w = (Inl e, w') \<Longrightarrow>
    \<exists>done x rest ys w1. xs = done @ x # rest \<and> mapE f done w = (Inr ys, w1) \<and> f x w1 = (Inl e, w')"
proof (induction xs arbitrary: w)
  case Nil
  then show ?case by (simp add: returnE_def)
next
  case (Cons x xs)
  show ?case
  proof (cases "f x w")
    case (Pair r w2)
    show ?thesis
    proof (cases r)
      case (Inl e')
      then have "mapE f [] w = (Inr [], w)" "f x w = (Inl e, w')"
        using Cons.prems Pair by (simp_all add: returnE_def bindE_def)
      then show ?thesis by (intro exI[of _ "[]"]) force
    next
      case (Inr y)
      then have "mapE f xs w2 = (Inl e, w')"
        using Cons.prems Pair by (auto simp: returnE_def bindE_def split: prod.splits sum.splits)
      from Cons.IH[OF this] obtain d z rest ys w1
        where d: "xs = d @ z # rest" "mapE f d w2 = (Inr ys, w1)" "f z w1 = (Inl e, w')" by blast
      then have "mapE f (x # d) w = (Inr (y # ys), w1)"
        using Pair Inr by (simp add: returnE_def bindE_def)
      then show ?thesis using d(1,3) by (intro exI[of _ "x # d"]) auto
    qed
  qed
qed

subsection \<open>Sorted lists without duplicates\<close>

lemma sorted_wrt_less_unique:
  fixes xs ys :: "'a :: linorder list"
  assumes "sorted_wrt (<) xs" and "sorted_wrt (<) ys" and "set xs = set ys"
  shows "xs = ys"
  using assms by (metis strict_sorted_equal)

end
