(* ===== verification/Rust_Str.thy ===== *)
theory Rust_Str
  imports Wara_Prelude "HOL-Library.List_Lexorder" "HOL-Library.Char_ord"
begin

section \<open>Strings, integers and their text, as the Rust standard library has them\<close>

text \<open>
  A Rust \<open>String\<close> is a sequence of bytes in UTF-8, and a HOL \<open>char\<close> is one byte, so \<open>string\<close>
  is the type of Rust strings: \<open>length\<close> is \<open>str::len\<close>, the order of \<open>List_Lexorder\<close> over
  \<open>Char_ord\<close> is \<open>Ord for str\<close>.  Operations on characters (\<open>chars\<close>, \<open>trim\<close>) go through
  \<open>chars\<close>, which cuts a string into the byte sequences of its characters.  The
  unsigned integers of the code are words of their width.
\<close>

type_synonym u8 = "8 word"
type_synonym u16 = "16 word"
type_synonym u64 = "64 word"
type_synonym i32 = "32 word"

subsection \<open>Bytes and UTF-8\<close>

abbreviation byte :: "char \<Rightarrow> nat" where
  "byte c \<equiv> of_char c"

definition as_bytes :: "string \<Rightarrow> u8 list" where
  "as_bytes s = map (\<lambda>c. word_of_nat (byte c)) s"

definition is_cont :: "nat \<Rightarrow> bool" where
  "is_cont b \<longleftrightarrow> 128 \<le> b \<and> b < 192"

text \<open>The well-formed byte sequences (Unicode table 3-7), which \<open>str::from_utf8\<close> accepts.\<close>

fun utf8_ok :: "nat list \<Rightarrow> bool" where
  "utf8_ok [] = True"
| "utf8_ok (b # bs) =
    (if b < 128 then utf8_ok bs
     else if 194 \<le> b \<and> b < 224 then
       (case bs of c # r \<Rightarrow> is_cont c \<and> utf8_ok r | _ \<Rightarrow> False)
     else if 224 \<le> b \<and> b < 240 then
       (case bs of c # d # r \<Rightarrow>
          is_cont c \<and> (b = 224 \<longrightarrow> 160 \<le> c) \<and> (b = 237 \<longrightarrow> c < 160) \<and> is_cont d \<and> utf8_ok r
        | _ \<Rightarrow> False)
     else if 240 \<le> b \<and> b < 245 then
       (case bs of c # d # e # r \<Rightarrow>
          is_cont c \<and> (b = 240 \<longrightarrow> 144 \<le> c) \<and> (b = 244 \<longrightarrow> c < 144) \<and>
          is_cont d \<and> is_cont e \<and> utf8_ok r
        | _ \<Rightarrow> False)
     else False)"

definition utf8 :: "string \<Rightarrow> bool" where
  "utf8 s \<longleftrightarrow> utf8_ok (map byte s)"

definition from_utf8 :: "u8 list \<Rightarrow> string option" where
  "from_utf8 bs = (if utf8_ok (map unat bs) then Some (map (\<lambda>b. char_of (unat b)) bs) else None)"

text \<open>
  Characters and bytes have the same eight bits: equations that evaluate faster than the numbers in
  between.
\<close>

definition append_bit :: "bool \<Rightarrow> int \<Rightarrow> int" where
  "append_bit b n = (if b then n + n + 1 else n + n)"

fun char_byte :: "char \<Rightarrow> u8" where
  "char_byte (Char b0 b1 b2 b3 b4 b5 b6 b7) = word_of_int
    (append_bit b0 (append_bit b1 (append_bit b2 (append_bit b3
      (append_bit b4 (append_bit b5 (append_bit b6 (append_bit b7 0))))))))"

definition byte_char :: "u8 \<Rightarrow> char" where
  "byte_char b =
    Char (bit b 0) (bit b 1) (bit b 2) (bit b 3) (bit b 4) (bit b 5) (bit b 6) (bit b 7)"

lemma char_byte: "word_of_nat (byte c) = char_byte c"
  by (cases c) (simp add: append_bit_def)

lemma byte_char: "char_of (unat b) = byte_char b"
  by (simp add: byte_char_def char_of_def bit_unsigned_iff)

lemma as_bytes_code [code]: "as_bytes s = map char_byte s"
  by (simp add: as_bytes_def char_byte)

lemma from_utf8_code [code]:
  "from_utf8 bs = (if utf8_ok (map unat bs) then Some (map byte_char bs) else None)"
  by (simp add: from_utf8_def byte_char)

lemma unat_word_of_byte [simp]: "unat (word_of_nat (byte c) :: u8) = byte c"
  by (simp add: unat_of_nat take_bit_eq_mod nat_less_le)

lemma byte_char_of_word [simp]: "word_of_nat (byte (char_of (unat (b :: u8)))) = b"
proof -
  have "unat b < 256" using unsigned_less[of b, where ?'a = nat] by simp
  then show ?thesis by simp
qed

lemma from_utf8_as_bytes [simp]: "from_utf8 (as_bytes s) = (if utf8 s then Some s else None)"
  by (simp add: from_utf8_def as_bytes_def utf8_def comp_def)

lemma length_as_bytes [simp]: "length (as_bytes s) = length s"
  by (simp add: as_bytes_def)

lemma as_bytes_inj: "as_bytes s = as_bytes t \<longleftrightarrow> s = t"
proof
  assume "as_bytes s = as_bytes t"
  then have "map byte s = map byte t"
    unfolding as_bytes_def by (metis (no_types, lifting) map_eq_conv map_map comp_def unat_word_of_byte)
  then show "s = t" by (simp add: inj_map_eq_map inj_on_def)
qed simp

subsection \<open>Characters of a string\<close>

function chars :: "string \<Rightarrow> string list" where
  "chars [] = []"
| "chars (c # cs) =
    (c # takeWhile (\<lambda>b. is_cont (byte b)) cs) # chars (dropWhile (\<lambda>b. is_cont (byte b)) cs)"
  by pat_completeness auto
termination
  by (relation "measure length") (auto simp: less_Suc_eq_le length_dropWhile_le)

lemma concat_chars [simp]: "concat (chars s) = s"
  by (induction s rule: chars.induct) simp_all

lemma chars_nonempty: "c \<in> set (chars s) \<Longrightarrow> c \<noteq> []"
  by (induction s rule: chars.induct) auto

lemma chars_eq_Nil [simp]: "chars s = [] \<longleftrightarrow> s = []"
  by (cases s) simp_all

lemma length_chars_le: "length (chars s) \<le> length s"
proof (induction s rule: chars.induct)
  case (2 c cs)
  then show ?case
    using length_dropWhile_le[of "\<lambda>b. is_cont (byte b)" cs] by simp
qed simp

text \<open>Ascii text has one byte for each character.\<close>

definition ascii :: "string \<Rightarrow> bool" where
  "ascii s \<longleftrightarrow> list_all (\<lambda>c. byte c < 128) s"

lemma chars_ascii: "ascii s \<Longrightarrow> chars s = map (\<lambda>c. [c]) s"
proof (induction s)
  case (Cons c s)
  then have s: "chars s = map (\<lambda>c. [c]) s" "\<forall>d \<in> set s. byte d < 128"
    by (simp_all add: ascii_def list_all_iff)
  have "takeWhile (\<lambda>b. is_cont (byte b)) s = []" "dropWhile (\<lambda>b. is_cont (byte b)) s = s"
    using s(2) by (cases s; simp add: is_cont_def)+
  with s(1) show ?case by simp
qed simp

lemma ascii_utf8: "ascii s \<Longrightarrow> utf8 s"
  by (induction s) (simp_all add: ascii_def utf8_def)

text \<open>\<open>s.chars().count()\<close>, \<open>s.chars().take(n).collect()\<close>.\<close>

definition chars_count :: "string \<Rightarrow> nat" where
  "chars_count s = length (chars s)"

definition chars_take :: "nat \<Rightarrow> string \<Rightarrow> string" where
  "chars_take n s = concat (take n (chars s))"

lemma prefix_chars_take: "prefix (chars_take n s) s"
proof -
  have "s = concat (take n (chars s)) @ concat (drop n (chars s))"
    by (metis append_take_drop_id concat_append concat_chars)
  then show ?thesis unfolding chars_take_def prefix_def by blast
qed

subsection \<open>White space\<close>

text \<open>The characters with the Unicode property \<open>White_Space\<close>, as their bytes.\<close>

definition white_space :: "nat list list" where
  "white_space =
    map (\<lambda>b. [b]) [9, 10, 11, 12, 13, 32] @ [[194, 133], [194, 160], [225, 154, 128]] @
    map (\<lambda>b. [226, 128, b])
      [128, 129, 130, 131, 132, 133, 134, 135, 136, 137, 138, 168, 169, 175] @
    [[226, 129, 159], [227, 128, 128]]"

definition is_whitespace :: "string \<Rightarrow> bool" where
  "is_whitespace c \<longleftrightarrow> map byte c \<in> set white_space"

definition trim_start :: "string \<Rightarrow> string" where
  "trim_start s = concat (dropWhile is_whitespace (chars s))"

definition trim_end :: "string \<Rightarrow> string" where
  "trim_end s = concat (rev (dropWhile is_whitespace (rev (chars s))))"

definition trim :: "string \<Rightarrow> string" where
  "trim s = trim_end (trim_start s)"

lemma suffix_trim_start: "suffix (trim_start s) s"
proof -
  have "s = concat (takeWhile is_whitespace (chars s)) @ trim_start s"
    unfolding trim_start_def by (metis concat_append concat_chars takeWhile_dropWhile_id)
  then show ?thesis unfolding suffix_def by blast
qed

lemma prefix_trim_end: "prefix (trim_end s) s"
proof -
  let ?r = "rev (chars s)"
  have "rev (dropWhile is_whitespace ?r) @ rev (takeWhile is_whitespace ?r) = chars s"
    by (metis rev_append rev_rev_ident takeWhile_dropWhile_id)
  then have "s = trim_end s @ concat (rev (takeWhile is_whitespace ?r))"
    unfolding trim_end_def by (metis concat_append concat_chars)
  then show ?thesis unfolding prefix_def by blast
qed

lemma sublist_trim: "sublist (trim s) s"
  unfolding trim_def
  by (rule sublist_order.order.trans [OF prefix_imp_sublist [OF prefix_trim_end]
        suffix_imp_sublist [OF suffix_trim_start]])

lemma chars_concat_drop: "chars (concat (drop n (chars s))) = drop n (chars s)"
proof (induction s arbitrary: n rule: chars.induct)
  case (2 c cs)
  then show ?case by (cases n) simp_all
qed simp

lemma chars_trim_start: "chars (trim_start s) = dropWhile is_whitespace (chars s)"
  unfolding trim_start_def dropWhile_eq_drop by (rule chars_concat_drop)

lemma concat_nonempty_eq_Nil: "[] \<notin> set xs \<Longrightarrow> concat xs = [] \<longleftrightarrow> xs = []"
  by (cases xs) auto

lemma trim_eq_Nil: "trim s = [] \<longleftrightarrow> list_all is_whitespace (chars s)"
proof -
  let ?cs = "dropWhile is_whitespace (chars s)"
  have ne: "[] \<notin> set (chars s)" using chars_nonempty by blast
  have "[] \<notin> set (rev (dropWhile is_whitespace (rev ?cs)))"
    using ne by (metis set_dropWhileD set_rev)
  then have "trim s = [] \<longleftrightarrow> dropWhile is_whitespace (rev ?cs) = []"
    unfolding trim_def trim_end_def chars_trim_start by (subst concat_nonempty_eq_Nil) auto
  also have "\<dots> \<longleftrightarrow> list_all is_whitespace (chars s)"
    by (simp add: list_all_iff)
      (metis dropWhile_eq_Nil_conv hd_dropWhile hd_in_set set_dropWhileD)
  finally show ?thesis .
qed

text \<open>A text that starts with a visible ascii character is not blank.\<close>

lemma trim_visible:
  assumes "\<not> is_whitespace [c]" and "\<not> is_cont (byte d)"
  shows "trim (c # d # s) \<noteq> []"
  using assms by (simp add: trim_eq_Nil)

lemma trim_Nil [simp]: "trim_start [] = []" "trim_end [] = []" "trim [] = []"
  by (simp_all add: trim_start_def trim_end_def trim_def)

text \<open>\<open>trim_end_matches('/')\<close> and \<open>trim_matches('/')\<close>: an ascii pattern, so bytes do.\<close>

definition trim_start_matches :: "char \<Rightarrow> string \<Rightarrow> string" where
  "trim_start_matches p s = dropWhile (\<lambda>c. c = p) s"

definition trim_end_matches :: "char \<Rightarrow> string \<Rightarrow> string" where
  "trim_end_matches p s = rev (dropWhile (\<lambda>c. c = p) (rev s))"

definition trim_matches :: "char \<Rightarrow> string \<Rightarrow> string" where
  "trim_matches p s = trim_end_matches p (trim_start_matches p s)"

lemma set_trim_start_matches: "set (trim_start_matches p s) \<subseteq> set s"
  by (auto simp: trim_start_matches_def dest: set_dropWhileD)

lemma set_trim_end_matches: "set (trim_end_matches p s) \<subseteq> set s"
  by (auto simp: trim_end_matches_def dest: set_dropWhileD)

lemma set_trim_matches: "set (trim_matches p s) \<subseteq> set s"
  using set_trim_start_matches set_trim_end_matches by (fastforce simp: trim_matches_def)

lemma trim_end_matches_last: "trim_end_matches p s \<noteq> [] \<Longrightarrow> last (trim_end_matches p s) \<noteq> p"
  unfolding trim_end_matches_def
  by (metis (mono_tags, lifting) hd_dropWhile last_rev rev_is_Nil_conv)

lemma trim_end_matches_id: "s = [] \<or> last s \<noteq> p \<Longrightarrow> trim_end_matches p s = s"
  unfolding trim_end_matches_def
  by (cases s rule: rev_cases) auto

lemma trim_matches_id: "p \<notin> set s \<Longrightarrow> trim_matches p s = s"
proof -
  assume p: "p \<notin> set s"
  then have "dropWhile (\<lambda>c. c = p) s = s" by (cases s) auto
  moreover have "s = [] \<or> last s \<noteq> p" using p last_in_set by fastforce
  ultimately show ?thesis
    by (simp add: trim_matches_def trim_start_matches_def trim_end_matches_id)
qed

subsection \<open>Searching and replacing\<close>

definition starts_with :: "string \<Rightarrow> string \<Rightarrow> bool" where
  "starts_with s p \<longleftrightarrow> prefix p s"

definition strip_prefix :: "string \<Rightarrow> string \<Rightarrow> string option" where
  "strip_prefix s p = (if prefix p s then Some (drop (length p) s) else None)"

fun contains :: "string \<Rightarrow> string \<Rightarrow> bool" where
  "contains [] p \<longleftrightarrow> p = []"
| "contains (c # cs) p \<longleftrightarrow> prefix p (c # cs) \<or> contains cs p"

lemma contains_iff_sublist [str_simps]: "contains s p \<longleftrightarrow> sublist p s"
  by (induction s) (auto simp: sublist_Cons_right)

text \<open>
  \<open>s.replace(p, r)\<close>: the leftmost, non-overlapping matches.  The empty pattern matches at every
  character boundary.
\<close>

function replace_ne :: "string \<Rightarrow> string \<Rightarrow> string \<Rightarrow> string" where
  "replace_ne p r s =
    (case s of [] \<Rightarrow> []
     | c # cs \<Rightarrow>
       (if p \<noteq> [] \<and> prefix p s then r @ replace_ne p r (drop (length p) s)
        else c # replace_ne p r cs))"
  by pat_completeness auto
termination
  by (relation "measure (\<lambda>(p, r, s). length s)") auto

declare replace_ne.simps [simp del]

definition replace :: "string \<Rightarrow> string \<Rightarrow> string \<Rightarrow> string" where
  "replace s p r = (if p = [] then r @ concat (map (\<lambda>c. c @ r) (chars s)) else replace_ne p r s)"

lemma replace_ne_Nil [simp]: "replace_ne p r [] = []"
  by (simp add: replace_ne.simps)

lemma replace_ne_match:
  "p \<noteq> [] \<Longrightarrow> replace_ne p r (p @ s) = r @ replace_ne p r s"
proof -
  assume "p \<noteq> []"
  then obtain c cs where ps: "p @ s = c # cs" by (cases p) auto
  have "prefix p (c # cs)" "drop (length p) (c # cs) = s"
    unfolding ps [symmetric] by simp_all
  then show ?thesis
    using \<open>p \<noteq> []\<close> unfolding ps by (subst replace_ne.simps) simp
qed

lemma replace_ne_skip:
  "\<not> prefix p (c # cs) \<Longrightarrow> replace_ne p r (c # cs) = c # replace_ne p r cs"
  by (simp add: replace_ne.simps[of p r "c # cs"])

lemma replace_ne_cases:
  assumes "p \<noteq> []"
  obtains (Nil) "s = []"
    | (Match) rest where "s = p @ rest" "replace_ne p r s = r @ replace_ne p r rest"
    | (Skip) c cs where "s = c # cs" "\<not> prefix p s" "replace_ne p r s = c # replace_ne p r cs"
proof (cases s)
  case (Cons c cs)
  show ?thesis
  proof (cases "prefix p s")
    case True
    then obtain rest where "s = p @ rest" by (auto simp: prefix_def)
    then show ?thesis using Match replace_ne_match[OF assms] by blast
  next
    case False
    then show ?thesis using Cons Skip replace_ne_skip by blast
  qed
qed (rule Nil)

lemma replace_ne_no_match: "\<not> sublist p s \<Longrightarrow> replace_ne p r s = s"
proof (induction s)
  case (Cons c s)
  then have "\<not> prefix p (c # s)" "\<not> sublist p s" by (simp_all add: sublist_Cons_right)
  then show ?case using Cons.IH by (simp add: replace_ne_skip)
qed simp

lemma replace_no_match: "p \<noteq> [] \<Longrightarrow> \<not> sublist p s \<Longrightarrow> replace s p r = s"
  by (simp add: replace_def replace_ne_no_match)

text \<open>One-byte patterns are replaced byte by byte.\<close>

lemma replace_ne_single: "replace_ne [q] r s = concat (map (\<lambda>c. if c = q then r else [c]) s)"
proof (induction s)
  case (Cons c s)
  show ?case
  proof (cases "c = q")
    case True
    then show ?thesis using Cons.IH replace_ne_match[of "[q]" r s] by simp
  next
    case False
    then show ?thesis using Cons.IH by (simp add: replace_ne_skip)
  qed
qed simp

text \<open>
  After a replacement whose text shares no byte with the pattern, the pattern is gone: a match in
  the result would lie between two replacements, where the scan had found none.
\<close>

lemma prefix_replace_ne:
  assumes "p \<noteq> []" "r \<noteq> []" "set q \<inter> set r = {}" "prefix q (replace_ne p r s)"
  shows "prefix q s"
  using assms(3,4)
proof (induction s arbitrary: q)
  case Nil
  then show ?case by simp
next
  case (Cons c s)
  show ?case
  proof (cases q)
    case Nil
    then show ?thesis by simp
  next
    case q: (Cons d q')
    show ?thesis
    proof (cases "prefix p (c # s)")
      case True
      then obtain rest where "c # s = p @ rest" by (auto simp: prefix_def)
      with Cons.prems(2) have "prefix q (r @ replace_ne p r rest)"
        using replace_ne_match[OF assms(1)] by simp
      then have "d \<in> set r" using q \<open>r \<noteq> []\<close> by (cases r) auto
      with Cons.prems(1) q show ?thesis by auto
    next
      case False
      with Cons.prems(2) q have "d = c" "prefix q' (replace_ne p r s)"
        by (simp_all add: replace_ne_skip)
      moreover have "set q' \<inter> set r = {}" using Cons.prems(1) q by auto
      ultimately show ?thesis using Cons.IH q by simp
    qed
  qed
qed

lemma sublist_disjoint_append:
  assumes "q \<noteq> []" "set q \<inter> set r = {}" "sublist q (r @ s)"
  shows "sublist q s"
  using assms(2,3)
proof (induction r)
  case (Cons c r)
  from Cons.prems(2) have "prefix q (c # r @ s) \<or> sublist q (r @ s)"
    by (simp add: sublist_Cons_right)
  moreover have "\<not> prefix q (c # r @ s)"
    using Cons.prems(1) assms(1) by (cases q) auto
  ultimately show ?case using Cons by simp
qed simp

theorem replace_ne_removes:
  assumes "p \<noteq> []" "r \<noteq> []" "set p \<inter> set r = {}"
  shows "\<not> sublist p (replace_ne p r s)"
proof (induction s rule: length_induct)
  case (1 s)
  from assms(1) show ?case
  proof (cases rule: replace_ne_cases[where s = s and r = r])
    case Nil
    then show ?thesis using assms(1) by simp
  next
    case (Match rest)
    then have "\<not> sublist p (replace_ne p r rest)" using 1 assms(1) by simp
    then show ?thesis using Match(2) sublist_disjoint_append[OF assms(1,3)] by auto
  next
    case (Skip c cs)
    then have "\<not> sublist p (replace_ne p r cs)" using 1 by simp
    moreover have "\<not> prefix p (replace_ne p r s)"
      using Skip(2) prefix_replace_ne[OF assms(1,2,3)] by blast
    ultimately show ?thesis using Skip(3) by (simp add: sublist_Cons_right)
  qed
qed

text \<open>Nothing disjoint from the replacement text appears that was not there before.\<close>

lemma sublist_replace_ne:
  assumes "p \<noteq> []" "r \<noteq> []" "q \<noteq> []" "set q \<inter> set r = {}" "sublist q (replace_ne p r s)"
  shows "sublist q s"
  using assms(5)
proof (induction s rule: length_induct)
  case (1 s)
  from assms(1) show ?case
  proof (cases rule: replace_ne_cases[where s = s and r = r])
    case Nil
    then show ?thesis using 1(2) by simp
  next
    case (Match rest)
    then have "sublist q (replace_ne p r rest)"
      using 1(2) sublist_disjoint_append[OF assms(3,4)] by simp
    then have "sublist q rest" using 1(1) Match(1) assms(1) by simp
    then show ?thesis unfolding Match(1) by (auto simp: sublist_append)
  next
    case (Skip c cs)
    then consider "prefix q (replace_ne p r s)" | "sublist q (replace_ne p r cs)"
      using 1(2) by (auto simp: sublist_Cons_right)
    then show ?thesis
    proof cases
      case 1
      then have "prefix q s" using prefix_replace_ne[OF assms(1,2,4)] by blast
      then show ?thesis by (rule prefix_imp_sublist)
    next
      case 2
      then have "sublist q cs" using 1(1) Skip(1) by simp
      then show ?thesis unfolding Skip(1) by (simp add: sublist_Cons_right)
    qed
  qed
qed

subsection \<open>Lines and joining\<close>

definition strip_cr :: "string \<Rightarrow> string" where
  "strip_cr l = (if l \<noteq> [] \<and> last l = CHR 0x0D then butlast l else l)"

text \<open>
  \<open>str::lines\<close>: the text before each newline, less one carriage return before it, and the rest
  after the last newline if there is any.
\<close>

fun lines_from :: "string \<Rightarrow> string \<Rightarrow> string list" where
  "lines_from acc [] = (if acc = [] then [] else [acc])"
| "lines_from acc (c # cs) =
    (if c = CHR 0x0A then strip_cr acc # lines_from [] cs else lines_from (acc @ [c]) cs)"

definition lines :: "string \<Rightarrow> string list" where
  "lines s = lines_from [] s"

fun join :: "string \<Rightarrow> string list \<Rightarrow> string" where
  "join sep [] = []"
| "join sep [x] = x"
| "join sep (x # y # ys) = x @ sep @ join sep (y # ys)"

lemma join_Cons: "join sep (x # xs) = (if xs = [] then x else x @ sep @ join sep xs)"
  by (cases xs) simp_all

lemma sublist_join: "x \<in> set xs \<Longrightarrow> sublist x (join sep xs)"
proof (induction xs)
  case (Cons y ys)
  show ?case
  proof (cases "x = y")
    case True
    then show ?thesis by (simp add: join_Cons)
  next
    case False
    with Cons have "sublist x (join sep ys)" "ys \<noteq> []" by auto
    then have "sublist x (sep @ join sep ys)" by (auto simp: sublist_append)
    then have "sublist x (y @ sep @ join sep ys)" by (auto simp: sublist_append)
    with \<open>ys \<noteq> []\<close> show ?thesis by (simp add: join_Cons)
  qed
qed simp

subsection \<open>Ascii classes and cases\<close>

definition is_ascii_lowercase :: "char \<Rightarrow> bool" where
  "is_ascii_lowercase c \<longleftrightarrow> 97 \<le> byte c \<and> byte c \<le> 122"

definition is_ascii_uppercase :: "char \<Rightarrow> bool" where
  "is_ascii_uppercase c \<longleftrightarrow> 65 \<le> byte c \<and> byte c \<le> 90"

definition is_ascii_digit :: "char \<Rightarrow> bool" where
  "is_ascii_digit c \<longleftrightarrow> 48 \<le> byte c \<and> byte c \<le> 57"

definition is_ascii_alphanumeric :: "char \<Rightarrow> bool" where
  "is_ascii_alphanumeric c \<longleftrightarrow>
    is_ascii_lowercase c \<or> is_ascii_uppercase c \<or> is_ascii_digit c"

definition to_ascii_lowercase :: "string \<Rightarrow> string" where
  "to_ascii_lowercase s =
    map (\<lambda>c. if is_ascii_uppercase c then char_of (byte c + 32) else c) s"

subsection \<open>Numbers as text\<close>

definition digit_char :: "nat \<Rightarrow> char" where
  "digit_char d = char_of (48 + d)"

fun nat_str :: "nat \<Rightarrow> string" where
  "nat_str n = (if n < 10 then [digit_char n] else nat_str (n div 10) @ [digit_char (n mod 10)])"

declare nat_str.simps [simp del]

definition i32_str :: "i32 \<Rightarrow> string" where
  "i32_str n = (if sint n < 0 then ''-'' @ nat_str (nat (- sint n)) else nat_str (nat (sint n)))"

text \<open>\<open>parse::<u16>\<close> and \<open>parse::<u64>\<close>: an optional plus sign, then digits, no overflow.\<close>

definition digits_value :: "string \<Rightarrow> nat" where
  "digits_value s = foldl (\<lambda>n c. 10 * n + (byte c - 48)) 0 s"

definition parse_uint :: "nat \<Rightarrow> string \<Rightarrow> nat option" where
  "parse_uint maximum s =
    (let t = (case s of [] \<Rightarrow> s | c # cs \<Rightarrow> if c = CHR ''+'' then cs else s) in
     if t \<noteq> [] \<and> list_all is_ascii_digit t \<and> digits_value t \<le> maximum
     then Some (digits_value t) else None)"

definition parse_u16 :: "string \<Rightarrow> u16 option" where
  "parse_u16 s = map_option word_of_nat (parse_uint 65535 s)"

definition parse_u64 :: "string \<Rightarrow> u64 option" where
  "parse_u64 s = map_option word_of_nat (parse_uint 18446744073709551615 s)"

subsection \<open>Debug text of a string\<close>

definition hex_digit :: "nat \<Rightarrow> char" where
  "hex_digit d = (if d < 10 then char_of (48 + d) else char_of (87 + d))"

text \<open>
  \<open>{:?}\<close> of a string, for one character.  Whether a character outside ascii is printed or escaped
  depends on the generated Unicode tables of the library; \<open>esc\<close> stands for that choice.
\<close>

definition debug_char :: "(string \<Rightarrow> string) \<Rightarrow> string \<Rightarrow> string" where
  "debug_char esc c =
    (case c of
       [b] \<Rightarrow>
        (if byte b = 0 then [CHR 0x5C, CHR ''0'']
         else if byte b = 9 then [CHR 0x5C, CHR ''t'']
         else if byte b = 10 then [CHR 0x5C, CHR ''n'']
         else if byte b = 13 then [CHR 0x5C, CHR ''r'']
         else if byte b = 34 then [CHR 0x5C, CHR 0x22]
         else if byte b = 92 then [CHR 0x5C, CHR 0x5C]
         else if byte b < 16 then [CHR 0x5C] @ ''u{'' @ [hex_digit (byte b)] @ ''}''
         else if byte b < 32 \<or> byte b = 127
           then [CHR 0x5C] @ ''u{'' @ [hex_digit (byte b div 16), hex_digit (byte b mod 16)] @ ''}''
         else if byte b < 128 then [b]
         else esc c)
     | _ \<Rightarrow> esc c)"

definition debug_str :: "(string \<Rightarrow> string) \<Rightarrow> string \<Rightarrow> string" where
  "debug_str esc s = [CHR 0x22] @ concat (map (debug_char esc) (chars s)) @ [CHR 0x22]"

subsection \<open>Enumerations as text\<close>

text \<open>
  The enumerations of the code are stored as text: \<open>as_str\<close> prints a constructor and
  \<open>From<&str>\<close> reads one, with one constructor for every text that is not a printed name.  The
  contract of such a pair, interpreted for each enumeration where it is defined.
\<close>

locale enum_codec =
  fixes print :: "'a \<Rightarrow> string" and parse :: "string \<Rightarrow> 'a" and fallback :: 'a
  assumes parse_print [simp]: "parse (print x) = x"
    and parse_other: "s \<notin> range print \<Longrightarrow> parse s = fallback"
begin

lemma print_inj [simp]: "print x = print y \<longleftrightarrow> x = y"
  by (metis parse_print)

lemma parse_eq_iff: "parse s = x \<longleftrightarrow> s = print x \<or> x = fallback \<and> s \<notin> range print"
  by (metis parse_other parse_print rangeI rangeE)

text \<open>Every constructor but the fallback is read from its printed name alone.\<close>

lemma parse_eq_proper: "x \<noteq> fallback \<Longrightarrow> parse s = x \<longleftrightarrow> s = print x"
  by (simp add: parse_eq_iff)

lemma print_parse: "s \<in> range print \<Longrightarrow> print (parse s) = s"
  by (metis parse_print rangeE)

end

end
