(* ===== verification/Externals.thy ===== *)
theory Externals
  imports Rust_Str
begin

section \<open>The pure parts of the packages the backend calls\<close>

text \<open>
  The code under \<open>src/\<close> calls packages whose source is not there (\<open>sha2\<close>, \<open>base64\<close>, \<open>uuid\<close>,
  \<open>chrono\<close>, \<open>argon2\<close>, \<open>rsa\<close>, \<open>jsonwebtoken\<close>, \<open>serde_json\<close>, \<open>validator\<close>).  Each function it
  uses of them is a field of the record \<open>prims\<close>, and every definition that uses one takes the
  record as an argument.  Nothing is known of a field but what a named predicate
  (\<open>b64_laws\<close>, \<open>uuid_laws\<close>, \<open>rfc3339_laws\<close>) says, which a theorem states as its hypothesis where
  it relies on it.
\<close>

subsection \<open>Identifiers and instants\<close>

text \<open>\<open>uuid::Uuid\<close>: 128 bits, ordered by its big-endian bytes.\<close>

datatype uuid = Uuid (uuid_bits: "128 word")

instantiation uuid :: linorder
begin

definition less_eq_uuid :: "uuid \<Rightarrow> uuid \<Rightarrow> bool" where
  "less_eq_uuid a b \<longleftrightarrow> uuid_bits a \<le> uuid_bits b"

definition less_uuid :: "uuid \<Rightarrow> uuid \<Rightarrow> bool" where
  "less_uuid a b \<longleftrightarrow> uuid_bits a < uuid_bits b"

instance
  by standard (auto simp: less_eq_uuid_def less_uuid_def uuid.expand)

end

text \<open>\<open>chrono::DateTime<Utc>\<close>: an instant in nanoseconds since the epoch, ordered by it.\<close>

datatype datetime = DateTime (nanos: int)

instantiation datetime :: linorder
begin

definition less_eq_datetime :: "datetime \<Rightarrow> datetime \<Rightarrow> bool" where
  "less_eq_datetime a b \<longleftrightarrow> nanos a \<le> nanos b"

definition less_datetime :: "datetime \<Rightarrow> datetime \<Rightarrow> bool" where
  "less_datetime a b \<longleftrightarrow> nanos a < nanos b"

instance
  by standard (auto simp: less_eq_datetime_def less_datetime_def datetime.expand)

end

subsection \<open>JSON objects and tokens\<close>

datatype json =
    JNull
  | JBool bool
  | JNum nat
  | JStr string
  | JArr "json list"
  | JObj "(string \<times> json) list"

type_synonym json_object = "(string \<times> json) list"

text \<open>
  What a derived \<open>Deserialize\<close> reads of a field: the value of the one entry with that name; a
  missing or repeated entry is an error.
\<close>

definition json_field :: "json_object \<Rightarrow> string \<Rightarrow> json option" where
  "json_field obj k =
    (case filter (\<lambda>e. fst e = k) obj of [(_, v)] \<Rightarrow> Some v | _ \<Rightarrow> None)"

definition json_str :: "json_object \<Rightarrow> string \<Rightarrow> string option" where
  "json_str obj k = (case json_field obj k of Some (JStr s) \<Rightarrow> Some s | _ \<Rightarrow> None)"

definition json_u64 :: "json_object \<Rightarrow> string \<Rightarrow> u64 option" where
  "json_u64 obj k =
    (case json_field obj k of
       Some (JNum n) \<Rightarrow> (if int n < 2 ^ 64 then Some (word_of_nat n) else None)
     | _ \<Rightarrow> None)"

text \<open>\<open>jsonwebtoken::Header\<close> with \<open>Algorithm::RS256\<close>, and \<open>Validation\<close>.\<close>

record jwt_header =
  kid :: "string option"

record validation =
  v_audience :: "string list"
  v_issuer :: "string list"
  v_required :: "string list"

type_synonym encoding_key = string
type_synonym decoding_key = string

subsection \<open>Error envelope\<close>

record error_response =
  er_code :: string
  er_message :: string
  er_details :: "string option"

subsection \<open>The functions the code calls\<close>

record prims =
  sha256 :: "u8 list \<Rightarrow> u8 list"
  b64_encode :: "u8 list \<Rightarrow> string"
  b64_decode :: "string \<Rightarrow> string + u8 list"
  b64url_encode :: "u8 list \<Rightarrow> string"
  utf8_error_text :: "u8 list \<Rightarrow> string"
  unicode_debug :: "string \<Rightarrow> string"
  uuid_to_string :: "uuid \<Rightarrow> string"
  uuid_simple :: "uuid \<Rightarrow> string"
  uuid_parse :: "string \<Rightarrow> uuid option"
  to_rfc3339 :: "datetime \<Rightarrow> string"
  parse_from_rfc3339 :: "string \<Rightarrow> string + datetime"
  datetime_from_str :: "string \<Rightarrow> datetime option"
  add_seconds :: "datetime \<Rightarrow> int \<Rightarrow> datetime option"
  timestamp :: "datetime \<Rightarrow> int"
  phc_parses :: "string \<Rightarrow> bool"
  argon2_verifies :: "u8 list \<Rightarrow> string \<Rightarrow> bool"
  encoding_key_from_rsa_pem :: "string \<Rightarrow> string + encoding_key"
  decoding_key_from_rsa_pem :: "string \<Rightarrow> string + decoding_key"
  decoding_key_from_rsa_components :: "string \<Rightarrow> string \<Rightarrow> string + decoding_key"
  rsa_public_key_parts :: "string \<Rightarrow> string + u8 list \<times> u8 list"
  jwt_encode :: "jwt_header \<Rightarrow> json_object \<Rightarrow> encoding_key \<Rightarrow> string + string"
  jwt_decode_header :: "string \<Rightarrow> string + jwt_header"
  serde_error_text :: "json_object \<Rightarrow> string"
  error_response_to_json :: "error_response \<Rightarrow> u8 list"
  error_response_from_json :: "u8 list \<Rightarrow> error_response option"
  valid_email :: "string \<Rightarrow> bool"
  valid_url :: "string \<Rightarrow> bool"

subsection \<open>What the code relies on\<close>

definition b64_laws :: "'a prims_scheme \<Rightarrow> bool" where
  "b64_laws P \<longleftrightarrow> (\<forall>bs. b64_decode P (b64_encode P bs) = Inr bs)"

definition sha256_laws :: "'a prims_scheme \<Rightarrow> bool" where
  "sha256_laws P \<longleftrightarrow> (\<forall>bs. length (sha256 P bs) = 32)"

definition uuid_laws :: "'a prims_scheme \<Rightarrow> bool" where
  "uuid_laws P \<longleftrightarrow> (\<forall>u. uuid_parse P (uuid_to_string P u) = Some u)"

definition rfc3339_laws :: "'a prims_scheme \<Rightarrow> bool" where
  "rfc3339_laws P \<longleftrightarrow>
    (\<forall>t. parse_from_rfc3339 P (to_rfc3339 P t) = Inr t \<and> to_rfc3339 P t \<noteq> [])"

lemma b64_lawsD: "b64_laws P \<Longrightarrow> b64_decode P (b64_encode P bs) = Inr bs"
  by (simp add: b64_laws_def)

lemma sha256_lawsD: "sha256_laws P \<Longrightarrow> length (sha256 P bs) = 32"
  by (simp add: sha256_laws_def)

lemma uuid_lawsD: "uuid_laws P \<Longrightarrow> uuid_parse P (uuid_to_string P u) = Some u"
  by (simp add: uuid_laws_def)

lemma rfc3339_lawsD:
  "rfc3339_laws P \<Longrightarrow> parse_from_rfc3339 P (to_rfc3339 P t) = Inr t"
  "rfc3339_laws P \<Longrightarrow> to_rfc3339 P t \<noteq> []"
  by (simp_all add: rfc3339_laws_def)

end
