(* ===== verification/Errors.thy ===== *)
theory Errors
  imports Externals
begin

section \<open>Errors: \<open>errors/wara.rs\<close> and \<open>errors/api.rs\<close>\<close>

text \<open>
  The two error enumerations with their printed texts, the mapping of an API error to its HTTP
  status and its public envelope, and the middleware that turns every other error response of
  the API into that envelope.  The middleware works on the status and the bytes of a response;
  a status is its number.
\<close>

subsection \<open>\<open>WaraError\<close>\<close>

datatype wara_error =
    MissingConfiguration string
  | InvalidConfiguration string string
  | JwtSigning string
  | JwtVerification string
  | ConfigFile string
  | Database string
  | Crypto string
  | Ssh string
  | Telemetry string
  | DeploymentExecution string
  | InvalidQueue string
  | Application string

fun wara_error_str :: "wara_error \<Rightarrow> string" where
  "wara_error_str (MissingConfiguration a) = a @ '' cannot be empty or missing''"
| "wara_error_str (InvalidConfiguration a b) = ''invalid '' @ a @ '' configuration: '' @ b"
| "wara_error_str (JwtSigning a) = ''JWT key signing error: '' @ a"
| "wara_error_str (JwtVerification a) = ''JWT key verification error: '' @ a"
| "wara_error_str (ConfigFile a) = ''configuration file error: '' @ a"
| "wara_error_str (Database a) = ''database error: '' @ a"
| "wara_error_str (Crypto a) = ''cryptography error: '' @ a"
| "wara_error_str (Ssh a) = ''SSH error: '' @ a"
| "wara_error_str (Telemetry a) = ''telemetry error: '' @ a"
| "wara_error_str (DeploymentExecution a) = ''deployment execution error: '' @ a"
| "wara_error_str (InvalidQueue a) = ''invalid queue: '' @ a"
| "wara_error_str (Application a) = ''application error: '' @ a"

text \<open>
  The conversions behind \<open>?\<close>, given the printed text of the other package's error.
\<close>

definition wara_error_of_toasty :: "string \<Rightarrow> wara_error" where
  [simp]: "wara_error_of_toasty = Database"

definition wara_error_of_io :: "string \<Rightarrow> wara_error" where
  [simp]: "wara_error_of_io = ConfigFile"

definition wara_error_of_yaml :: "string \<Rightarrow> wara_error" where
  [simp]: "wara_error_of_yaml = ConfigFile"

definition wara_error_of_base64 :: "string \<Rightarrow> wara_error" where
  [simp]: "wara_error_of_base64 = Crypto"

definition wara_error_of_utf8 :: "string \<Rightarrow> wara_error" where
  [simp]: "wara_error_of_utf8 = Crypto"

subsection \<open>\<open>ApiError\<close>\<close>

datatype api_error =
    Unauthorized
  | Forbidden
  | NotFound string
  | BadRequest string
  | Internal string

fun api_error_str :: "api_error \<Rightarrow> string" where
  "api_error_str Unauthorized = ''authentication required''"
| "api_error_str Forbidden = ''forbidden''"
| "api_error_str (NotFound a) = a @ '' not found''"
| "api_error_str (BadRequest a) = ''invalid request: '' @ a"
| "api_error_str (Internal a) = ''internal error: '' @ a"

definition api_error_of_wara :: "wara_error \<Rightarrow> api_error" where
  "api_error_of_wara e = Internal (wara_error_str e)"

definition wara_error_of_api :: "api_error \<Rightarrow> wara_error" where
  "wara_error_of_api e = Application (api_error_str e)"

type_synonym status = nat

fun api_status :: "api_error \<Rightarrow> status" where
  "api_status Unauthorized = 401"
| "api_status Forbidden = 403"
| "api_status (NotFound _) = 404"
| "api_status (BadRequest _) = 400"
| "api_status (Internal _) = 500"

fun api_code :: "api_error \<Rightarrow> string" where
  "api_code Unauthorized = ''unauthorized''"
| "api_code Forbidden = ''forbidden''"
| "api_code (NotFound _) = ''not_found''"
| "api_code (BadRequest _) = ''bad_request''"
| "api_code (Internal _) = ''internal_error''"

fun public_message :: "api_error \<Rightarrow> string" where
  "public_message (Internal _) = ''internal server error''"
| "public_message e = api_error_str e"

definition response_body :: "api_error \<Rightarrow> error_response" where
  "response_body e =
    \<lparr>er_code = api_code e, er_message = public_message e, er_details = None\<rparr>"

subsection \<open>Responses\<close>

definition is_client_error :: "status \<Rightarrow> bool" where
  "is_client_error s \<longleftrightarrow> 400 \<le> s \<and> s < 500"

definition is_server_error :: "status \<Rightarrow> bool" where
  "is_server_error s \<longleftrightarrow> 500 \<le> s \<and> s < 600"

text \<open>
  A response: its status, its content type and its body; \<open>Inl\<close> is a body whose stream fails.
\<close>

record response =
  r_status :: status
  r_content_type :: "string option"
  r_body :: "string + u8 list"

definition json_response :: "'a prims_scheme \<Rightarrow> status \<Rightarrow> error_response \<Rightarrow> response" where
  "json_response P s b =
    \<lparr>r_status = s, r_content_type = Some ''application/json'',
     r_body = Inr (error_response_to_json P b)\<rparr>"

definition into_response :: "'a prims_scheme \<Rightarrow> api_error \<Rightarrow> response" where
  "into_response P e = json_response P (api_status e) (response_body e)"

definition from_status :: "status \<Rightarrow> string option \<Rightarrow> error_response" where
  "from_status s details =
    (let (code, message) =
       (if s = 400 then (''bad_request'', ''invalid request'')
        else if s = 401 then (''unauthorized'', ''authentication required'')
        else if s = 403 then (''forbidden'', ''forbidden'')
        else if s = 404 then (''not_found'', ''route not found'')
        else if s = 405 then (''method_not_allowed'', ''method not allowed'')
        else if s = 422 then (''bad_request'', ''invalid request'')
        else if is_server_error s then (''internal_error'', ''internal server error'')
        else (''request_error'', ''request failed''))
     in \<lparr>er_code = code, er_message = message,
         er_details = (if is_server_error s then None else details)\<rparr>)"

text \<open>\<open>to_bytes(body, 64 * 1024)\<close>: the whole body, or an error if it fails or is longer.\<close>

definition to_bytes :: "string + u8 list \<Rightarrow> nat \<Rightarrow> u8 list option" where
  "to_bytes body limit =
    (case body of Inl _ \<Rightarrow> None | Inr bs \<Rightarrow> if length bs \<le> limit then Some bs else None)"

definition error_details :: "u8 list \<Rightarrow> string option" where
  "error_details bs =
    (case from_utf8 bs of
       None \<Rightarrow> None
     | Some s \<Rightarrow> if trim s = [] then None else Some (trim s))"

definition normalize_error_response :: "'a prims_scheme \<Rightarrow> response \<Rightarrow> response" where
  "normalize_error_response P r =
    (let s = r_status r in
     if \<not> is_client_error s \<and> \<not> is_server_error s then r
     else case to_bytes (r_body r) (64 * 1024) of
       None \<Rightarrow> into_response P (Internal ''failed to serialize error response'')
     | Some bs \<Rightarrow>
        (case error_response_from_json P bs of
           Some _ \<Rightarrow> r\<lparr>r_body := Inr bs\<rparr>
         | None \<Rightarrow> json_response P s (from_status s (error_details bs))))"

subsection \<open>What the envelope guarantees\<close>

text \<open>
  The JSON of an envelope is read back as that envelope: what \<open>serde_json\<close> does for the derived
  \<open>Serialize\<close> and \<open>Deserialize\<close> of \<open>ErrorResponse\<close>.
\<close>

definition envelope_laws :: "'a prims_scheme \<Rightarrow> bool" where
  "envelope_laws P \<longleftrightarrow>
    (\<forall>b. error_response_from_json P (error_response_to_json P b) = Some b)"

text \<open>A response carries an envelope when its body is the JSON of one.\<close>

definition envelope_of :: "'a prims_scheme \<Rightarrow> response \<Rightarrow> error_response option" where
  "envelope_of P r = (case r_body r of Inl _ \<Rightarrow> None | Inr bs \<Rightarrow> error_response_from_json P bs)"

lemma envelope_json_response:
  "envelope_laws P \<Longrightarrow> envelope_of P (json_response P s b) = Some b"
  by (simp add: envelope_laws_def envelope_of_def json_response_def)

lemma normalize_status_unless_500:
  "r_status (normalize_error_response P r) = r_status r \<or>
   r_status (normalize_error_response P r) = 500"
  by (simp add: normalize_error_response_def Let_def into_response_def json_response_def
      split: option.splits)

lemma envelope_into_response:
  "envelope_laws P \<Longrightarrow> envelope_of P (into_response P e) = Some (response_body e)"
  by (simp add: into_response_def envelope_json_response)

text \<open>The four outcomes of the middleware, one equation each.\<close>

lemma normalize_error_response_simps:
  "\<not> is_client_error (r_status r) \<Longrightarrow> \<not> is_server_error (r_status r) \<Longrightarrow>
    normalize_error_response P r = r"
  "is_client_error (r_status r) \<or> is_server_error (r_status r) \<Longrightarrow>
    to_bytes (r_body r) (64 * 1024) = None \<Longrightarrow>
    normalize_error_response P r =
      into_response P (Internal ''failed to serialize error response'')"
  "is_client_error (r_status r) \<or> is_server_error (r_status r) \<Longrightarrow>
    to_bytes (r_body r) (64 * 1024) = Some bs \<Longrightarrow> error_response_from_json P bs = Some b \<Longrightarrow>
    normalize_error_response P r = r"
  "is_client_error (r_status r) \<or> is_server_error (r_status r) \<Longrightarrow>
    to_bytes (r_body r) (64 * 1024) = Some bs \<Longrightarrow> error_response_from_json P bs = None \<Longrightarrow>
    normalize_error_response P r =
      json_response P (r_status r) (from_status (r_status r) (error_details bs))"
  by (auto simp: normalize_error_response_def Let_def to_bytes_def
      split: sum.splits if_splits)

lemma normalize_cases:
  obtains (success) "\<not> is_client_error (r_status r)" "\<not> is_server_error (r_status r)"
      "normalize_error_response P r = r"
    | (unread) "normalize_error_response P r =
        into_response P (Internal ''failed to serialize error response'')"
    | (kept) b where "envelope_of P r = Some b" "normalize_error_response P r = r"
    | (wrapped) b where "is_client_error (r_status r) \<or> is_server_error (r_status r)"
        "normalize_error_response P r = json_response P (r_status r) b"
proof (cases "is_client_error (r_status r) \<or> is_server_error (r_status r)")
  case False
  then show ?thesis using success normalize_error_response_simps(1) by blast
next
  case error: True
  show ?thesis
  proof (cases "to_bytes (r_body r) (64 * 1024)")
    case None
    then show ?thesis using unread normalize_error_response_simps(2)[OF error] by blast
  next
    case bs: (Some bs)
    show ?thesis
    proof (cases "error_response_from_json P bs")
      case None
      then show ?thesis using wrapped normalize_error_response_simps(4)[OF error bs] error by blast
    next
      case (Some b)
      moreover have "r_body r = Inr bs"
        using bs by (auto simp: to_bytes_def split: sum.splits if_splits)
      ultimately show ?thesis
        using kept normalize_error_response_simps(3)[OF error bs] by (auto simp: envelope_of_def)
    qed
  qed
qed

lemma normalize_error_has_envelope:
  assumes "envelope_laws P" and "is_client_error (r_status r) \<or> is_server_error (r_status r)"
  shows "\<exists>b. envelope_of P (normalize_error_response P r) = Some b"
  by (cases rule: normalize_cases[of r P])
    (use assms in \<open>auto simp: envelope_json_response envelope_into_response\<close>)

lemma normalize_json_response:
  assumes "envelope_laws P" and "length (error_response_to_json P b) \<le> 64 * 1024"
  shows "normalize_error_response P (json_response P s b) = json_response P s b"
  using assms
  by (auto simp: normalize_error_response_def json_response_def Let_def to_bytes_def
      envelope_laws_def)

end
