(* ===== verification/Docker.thy ===== *)
theory Docker
  imports Errors
begin

section \<open>Remote commands: \<open>libs/docker.rs\<close>\<close>

text \<open>
  The kinds of deployment and proxy, the typed shell commands with their rendering, the checks
  on names and image references, and the commands of each kind of deployment.  The contract of
  the rendering is stated against a reading of the POSIX shell's token rules, \<open>sh_lex\<close>:
  the rendered line is split by the shell into exactly the words the command was built from.
\<close>

subsection \<open>Kinds\<close>

datatype deploy_kind = DockerImage | DockerCompose | Dockerfile

fun deploy_kind_str :: "deploy_kind \<Rightarrow> string" where
  "deploy_kind_str DockerImage = ''docker_image''"
| "deploy_kind_str DockerCompose = ''docker_compose''"
| "deploy_kind_str Dockerfile = ''dockerfile''"

definition deploy_kind_of :: "string \<Rightarrow> deploy_kind" where
  "deploy_kind_of s =
    (if s = ''docker_compose'' then DockerCompose
     else if s = ''dockerfile'' then Dockerfile
     else DockerImage)"

datatype proxy_kind = Nginx | Traefik

fun proxy_kind_str :: "proxy_kind \<Rightarrow> string" where
  "proxy_kind_str Nginx = ''nginx''"
| "proxy_kind_str Traefik = ''traefik''"

definition proxy_kind_of :: "string \<Rightarrow> proxy_kind" where
  "proxy_kind_of s = (if s = ''traefik'' then Traefik else Nginx)"

interpretation dk: enum_codec deploy_kind_str deploy_kind_of DockerImage
proof unfold_locales
  fix x show "deploy_kind_of (deploy_kind_str x) = x"
    by (cases x) (simp_all add: deploy_kind_of_def)
next
  fix s assume s: "s \<notin> range deploy_kind_str"
  have "s \<noteq> deploy_kind_str DockerCompose" "s \<noteq> deploy_kind_str Dockerfile"
    using s by blast+
  then show "deploy_kind_of s = DockerImage" by (simp add: deploy_kind_of_def)
qed

interpretation pk: enum_codec proxy_kind_str proxy_kind_of Nginx
proof unfold_locales
  fix x show "proxy_kind_of (proxy_kind_str x) = x"
    by (cases x) (simp_all add: proxy_kind_of_def)
next
  fix s assume s: "s \<notin> range proxy_kind_str"
  have "s \<noteq> proxy_kind_str Traefik" using s by blast
  then show "proxy_kind_of s = Nginx" by (simp add: proxy_kind_of_def)
qed

subsection \<open>Commands\<close>

datatype token = Literal string | Arg string

record remote_command =
  tokens :: "token list"

definition new_command :: remote_command where
  "new_command = \<lparr>tokens = []\<rparr>"

definition lit :: "string \<Rightarrow> remote_command \<Rightarrow> remote_command" where
  "lit l c = c\<lparr>tokens := tokens c @ [Literal l]\<rparr>"

definition arg :: "string \<Rightarrow> remote_command \<Rightarrow> remote_command" where
  "arg v c = c\<lparr>tokens := tokens c @ [Arg v]\<rparr>"

text \<open>A single quote inside is closed, escaped and reopened.\<close>

definition shell_quote :: "string \<Rightarrow> string" where
  "shell_quote v =
    CHR 0x27 # replace v [CHR 0x27] [CHR 0x27, CHR 0x5C, CHR 0x27, CHR 0x27] @ [CHR 0x27]"

fun render_token :: "token \<Rightarrow> string" where
  "render_token (Literal l) = l"
| "render_token (Arg v) = shell_quote v"

definition render :: "remote_command \<Rightarrow> string" where
  "render c = join '' '' (map render_token (tokens c))"

subsection \<open>Checks of user input\<close>

text \<open>A predicate on ascii characters, applied to a character of a string.\<close>

definition char_is :: "(char \<Rightarrow> bool) \<Rightarrow> string \<Rightarrow> bool" where
  "char_is p c = (case c of [b] \<Rightarrow> p b | _ \<Rightarrow> False)"

definition service_name_char :: "char \<Rightarrow> bool" where
  "service_name_char c \<longleftrightarrow> is_ascii_lowercase c \<or> is_ascii_digit c \<or>
    c = CHR ''.'' \<or> c = CHR ''-'' \<or> c = CHR ''_''"

definition validate_service_name :: "'a prims_scheme \<Rightarrow> string \<Rightarrow> string + unit" where
  "validate_service_name P name =
    (let valid =
       (case chars name of
          [] \<Rightarrow> False
        | first # rest \<Rightarrow>
           if char_is is_ascii_lowercase first \<or> char_is is_ascii_digit first
           then length name \<le> 63 \<and> list_all (char_is service_name_char) rest
           else False)
     in if valid then Inr ()
        else Inl (''service name must start with a lowercase letter or digit and contain only [a-z0-9._-] (got ''
          @ debug_str (unicode_debug P) name @ '')''))"

definition image_reference_char :: "char \<Rightarrow> bool" where
  "image_reference_char c \<longleftrightarrow> is_ascii_alphanumeric c \<or>
    c = CHR ''.'' \<or> c = CHR ''_'' \<or> c = CHR ''-'' \<or> c = CHR '':'' \<or> c = CHR ''/'' \<or> c = CHR ''@''"

definition validate_image_reference :: "'a prims_scheme \<Rightarrow> string \<Rightarrow> string + unit" where
  "validate_image_reference P reference =
    (if reference \<noteq> [] \<and> length reference \<le> 255 \<and>
        list_all (char_is image_reference_char) (chars reference)
     then Inr ()
     else Inl (''invalid image reference '' @ debug_str (unicode_debug P) reference))"

subsection \<open>The commands of a deployment\<close>

record docker_command_config =
  remote_services_root :: string
  dockerfile_context_dir :: string

definition path_join :: "string \<Rightarrow> string \<Rightarrow> string" where
  "path_join parent child =
    (let parent = trim_end_matches (CHR ''/'') parent;
         child = trim_matches (CHR ''/'') child
     in case (parent = [], child = []) of
          (True, True) \<Rightarrow> ''/''
        | (True, False) \<Rightarrow> ''/'' @ child
        | (False, True) \<Rightarrow> parent
        | (False, False) \<Rightarrow> parent @ ''/'' @ child)"

definition service_dir :: "string \<Rightarrow> string \<Rightarrow> string" where
  "service_dir root service = path_join root service"

definition container_name :: "string \<Rightarrow> string" where
  "container_name service = ''wara-'' @ service"

definition built_image_name :: "string \<Rightarrow> string" where
  "built_image_name service = ''wara/'' @ service @ '':latest''"

definition image_deploy_commands :: "string \<Rightarrow> string \<Rightarrow> remote_command list" where
  "image_deploy_commands reference service =
    (let container = container_name service in
     [arg reference (lit ''docker pull'' new_command),
      lit ''|| true'' (arg container (lit ''docker rm -f'' new_command)),
      arg reference (lit ''--restart unless-stopped''
        (arg container (lit ''docker run -d --name'' new_command)))])"

definition compose_deploy_commands ::
  "string \<Rightarrow> docker_command_config \<Rightarrow> remote_command list" where
  "compose_deploy_commands service config =
    (let dir = service_dir (remote_services_root config) service in
     [arg dir (lit ''mkdir -p'' new_command),
      lit ''&& docker compose up -d'' (arg dir (lit ''cd'' new_command))])"

definition dockerfile_deploy_commands ::
  "string \<Rightarrow> docker_command_config \<Rightarrow> remote_command list" where
  "dockerfile_deploy_commands service config =
    (let dir = service_dir (remote_services_root config) service;
         context_dir = path_join dir (dockerfile_context_dir config);
         built = built_image_name service;
         container = container_name service
     in [arg context_dir (arg built (lit ''docker build -t'' new_command)),
         lit ''|| true'' (arg container (lit ''docker rm -f'' new_command)),
         arg built (lit ''--restart unless-stopped''
           (arg container (lit ''docker run -d --name'' new_command)))])"

definition restart_command :: "string \<Rightarrow> remote_command" where
  "restart_command service = arg (container_name service) (lit ''docker restart'' new_command)"

subsection \<open>How the shell reads a line\<close>

text \<open>
  The token recognition of the POSIX shell on lines that need no expansion: blanks separate,
  single quotes take everything literally, a backslash takes the next character literally, and
  \<open>&&\<close> and \<open>||\<close> are operators.  A line with any other special character, an unfinished quote
  or a zero byte has no reading here (\<open>None\<close>): such a line may be expanded.
\<close>

datatype sh_token = Word string | Op string

datatype sh_mode = Gap | Bare string | Quoted string | Escaped string | Half char

definition sh_plain :: "char \<Rightarrow> bool" where
  "sh_plain c \<longleftrightarrow> is_ascii_alphanumeric c \<or> c \<in> set ''_-./:@''"

definition sh_blank :: "char \<Rightarrow> bool" where
  "sh_blank c \<longleftrightarrow> c = CHR '' '' \<or> c = CHR 0x09"

fun sh_step :: "sh_mode \<Rightarrow> char \<Rightarrow> (sh_token list \<times> sh_mode) option" where
  "sh_step (Quoted w) c =
    (if c = CHR 0x00 then None
     else if c = CHR 0x27 then Some ([], Bare w)
     else Some ([], Quoted (w @ [c])))"
| "sh_step (Escaped w) c =
    (if c = CHR 0x00 \<or> c = CHR 0x0A then None else Some ([], Bare (w @ [c])))"
| "sh_step (Half h) c = (if c = h then Some ([Op [h, c]], Gap) else None)"
| "sh_step Gap c =
    (if sh_blank c then Some ([], Gap)
     else if c = CHR 0x27 then Some ([], Quoted [])
     else if c = CHR 0x5C then Some ([], Escaped [])
     else if c = CHR ''&'' \<or> c = CHR ''|'' then Some ([], Half c)
     else if sh_plain c then Some ([], Bare [c])
     else None)"
| "sh_step (Bare w) c =
    (if sh_blank c then Some ([Word w], Gap)
     else if c = CHR 0x27 then Some ([], Quoted w)
     else if c = CHR 0x5C then Some ([], Escaped w)
     else if c = CHR ''&'' \<or> c = CHR ''|'' then Some ([Word w], Half c)
     else if sh_plain c then Some ([], Bare (w @ [c]))
     else None)"

fun sh_end :: "sh_mode \<Rightarrow> sh_token list option" where
  "sh_end Gap = Some []"
| "sh_end (Bare w) = Some [Word w]"
| "sh_end _ = None"

fun sh_run :: "sh_mode \<Rightarrow> string \<Rightarrow> sh_token list option" where
  "sh_run m [] = sh_end m"
| "sh_run m (c # cs) =
    (case sh_step m c of
       None \<Rightarrow> None
     | Some (ts, m') \<Rightarrow> map_option ((@) ts) (sh_run m' cs))"

definition sh_lex :: "string \<Rightarrow> sh_token list option" where
  "sh_lex s = sh_run Gap s"

subsection \<open>A rendered command is read back as its words\<close>

text \<open>A complete line followed by a blank: its tokens, then those of the rest.\<close>

lemma sh_run_append:
  "sh_run m s = Some ts \<Longrightarrow>
    sh_run m (s @ CHR '' '' # rest) = map_option ((@) ts) (sh_run Gap rest)"
proof (induction s arbitrary: m ts)
  case Nil
  have "(@) [] = (\<lambda>ts :: sh_token list. ts)" by (simp add: fun_eq_iff)
  with Nil show ?case by (cases m) (auto simp: sh_blank_def option.map_ident)
next
  case (Cons c s)
  have "(@) (a @ b) = (\<lambda>ts :: sh_token list. a @ b @ ts)" for a b by (simp add: fun_eq_iff)
  with Cons show ?case
    by (auto split: option.splits prod.splits simp: option.map_comp comp_def)
qed

lemma sh_run_quoted:
  "CHR 0x00 \<notin> set v \<Longrightarrow>
    sh_run (Quoted w) (concat (map (\<lambda>c. if c = CHR 0x27
        then [CHR 0x27, CHR 0x5C, CHR 0x27, CHR 0x27] else [c]) v) @ [CHR 0x27])
    = Some [Word (w @ v)]"
  by (induction v arbitrary: w) (auto simp: sh_blank_def option.map_comp comp_def)

lemma sh_lex_shell_quote: "CHR 0x00 \<notin> set v \<Longrightarrow> sh_lex (shell_quote v) = Some [Word v]"
  by (simp add: sh_lex_def shell_quote_def replace_def replace_ne_single sh_blank_def
      sh_run_quoted)

lemma sh_lex_join:
  assumes "list_all2 (\<lambda>l ts. sh_lex l = Some ts) ls tss"
  shows "sh_lex (join '' '' ls) = Some (concat tss)"
  using assms
proof (induction rule: list_all2_induct)
  case Nil
  then show ?case by (simp add: sh_lex_def)
next
  case (Cons l ls ts tss)
  show ?case
  proof (cases "ls = []")
    case True
    then show ?thesis using Cons by simp
  next
    case False
    then show ?thesis
      using Cons by (simp add: join_Cons sh_lex_def sh_run_append)
  qed
qed

fun token_words :: "token \<Rightarrow> sh_token list" where
  "token_words (Literal l) = the (sh_lex l)"
| "token_words (Arg v) = [Word v]"

fun token_ok :: "token \<Rightarrow> bool" where
  "token_ok (Literal l) \<longleftrightarrow> sh_lex l \<noteq> None"
| "token_ok (Arg v) \<longleftrightarrow> CHR 0x00 \<notin> set v"

lemma sh_lex_render:
  assumes "list_all token_ok (tokens c)"
  shows "sh_lex (render c) = Some (concat (map token_words (tokens c)))"
proof -
  have "sh_lex (render_token t) = Some (token_words t)" if "token_ok t" for t
    using that by (cases t) (auto simp: sh_lex_shell_quote)
  then have "list_all2 (\<lambda>l ts. sh_lex l = Some ts)
      (map render_token (tokens c)) (map token_words (tokens c))"
    using assms by (simp add: list_all2_conv_all_nth list_all_length)
  then show ?thesis unfolding render_def by (rule sh_lex_join)
qed

lemma tokens_build [simp]:
  "tokens new_command = []"
  "tokens (lit l c) = tokens c @ [Literal l]"
  "tokens (arg v c) = tokens c @ [Arg v]"
  by (simp_all add: new_command_def lit_def arg_def)

lemma sh_lex_literals [simp]:
  "sh_lex ''docker pull'' = Some [Word ''docker'', Word ''pull'']"
  "sh_lex ''docker rm -f'' = Some [Word ''docker'', Word ''rm'', Word ''-f'']"
  "sh_lex ''|| true'' = Some [Op ''||'', Word ''true'']"
  "sh_lex ''docker run -d --name'' =
    Some [Word ''docker'', Word ''run'', Word ''-d'', Word ''--name'']"
  "sh_lex ''--restart unless-stopped'' = Some [Word ''--restart'', Word ''unless-stopped'']"
  "sh_lex ''mkdir -p'' = Some [Word ''mkdir'', Word ''-p'']"
  "sh_lex ''cd'' = Some [Word ''cd'']"
  "sh_lex ''&& docker compose up -d'' =
    Some [Op ''&&'', Word ''docker'', Word ''compose'', Word ''up'', Word ''-d'']"
  "sh_lex ''docker build -t'' = Some [Word ''docker'', Word ''build'', Word ''-t'']"
  "sh_lex ''docker restart'' = Some [Word ''docker'', Word ''restart'']"
  by code_simp+

subsection \<open>What the checks accept\<close>

lemma list_all_char_is:
  assumes "\<And>c. p c \<Longrightarrow> byte c < 128"
  shows "list_all (char_is p) (chars s) \<longleftrightarrow> list_all p s"
proof
  assume all: "list_all (char_is p) (chars s)"
  have "list_all p c" if "c \<in> set (chars s)" for c
  proof -
    have "char_is p c" using all that by (simp add: list_all_iff)
    then show ?thesis by (cases c) (auto simp: char_is_def split: list.splits)
  qed
  moreover have "set s = \<Union> (set ` set (chars s))" by (metis concat_chars set_concat)
  ultimately show "list_all p s" by (auto simp: list_all_iff)
next
  assume all: "list_all p s"
  then have "ascii s" using assms by (auto simp: ascii_def list_all_iff)
  then show "list_all (char_is p) (chars s)"
    using all by (simp add: chars_ascii list_all_iff char_is_def)
qed

lemma ascii_class_bound:
  "is_ascii_lowercase c \<Longrightarrow> byte c < 128" "is_ascii_digit c \<Longrightarrow> byte c < 128"
  "is_ascii_uppercase c \<Longrightarrow> byte c < 128" "is_ascii_alphanumeric c \<Longrightarrow> byte c < 128"
  "service_name_char c \<Longrightarrow> byte c < 128" "image_reference_char c \<Longrightarrow> byte c < 128"
  by (auto simp: is_ascii_lowercase_def is_ascii_digit_def is_ascii_uppercase_def
      is_ascii_alphanumeric_def service_name_char_def image_reference_char_def)

text \<open>The classes as the characters they are.\<close>

lemma char_interval:
  assumes "map byte s = [m..<n]"
  shows "c \<in> set s \<longleftrightarrow> m \<le> byte c \<and> byte c < n"
proof -
  have "c \<in> set s \<longleftrightarrow> byte c \<in> byte ` set s" by (auto simp: image_iff)
  also have "byte ` set s = set [m..<n]" using assms by (metis set_map)
  finally show ?thesis by simp
qed

lemma ascii_letters:
  "is_ascii_lowercase c \<longleftrightarrow> c \<in> set ''abcdefghijklmnopqrstuvwxyz''"
  "is_ascii_uppercase c \<longleftrightarrow> c \<in> set ''ABCDEFGHIJKLMNOPQRSTUVWXYZ''"
  "is_ascii_digit c \<longleftrightarrow> c \<in> set ''0123456789''"
proof -
  have "map byte ''abcdefghijklmnopqrstuvwxyz'' = [97..<123]"
    "map byte ''ABCDEFGHIJKLMNOPQRSTUVWXYZ'' = [65..<91]"
    "map byte ''0123456789'' = [48..<58]"
    by (simp_all add: upt_conv_Cons)
  note members = this[THEN char_interval]
  show "is_ascii_lowercase c \<longleftrightarrow> c \<in> set ''abcdefghijklmnopqrstuvwxyz''"
    "is_ascii_uppercase c \<longleftrightarrow> c \<in> set ''ABCDEFGHIJKLMNOPQRSTUVWXYZ''"
    "is_ascii_digit c \<longleftrightarrow> c \<in> set ''0123456789''"
    unfolding members is_ascii_lowercase_def is_ascii_uppercase_def is_ascii_digit_def by auto
qed

lemma ascii_classes:
  "is_ascii_lowercase c \<or> is_ascii_digit c \<longleftrightarrow>
    c \<in> set (''abcdefghijklmnopqrstuvwxyz'' @ ''0123456789'')"
  "service_name_char c \<longleftrightarrow> c \<in> set (''abcdefghijklmnopqrstuvwxyz'' @ ''0123456789'' @ ''._-'')"
  "image_reference_char c \<longleftrightarrow> c \<in> set (''abcdefghijklmnopqrstuvwxyz'' @
    ''ABCDEFGHIJKLMNOPQRSTUVWXYZ'' @ ''0123456789'' @ ''._-:/@'')"
  unfolding service_name_char_def image_reference_char_def is_ascii_alphanumeric_def ascii_letters
    set_append
  by auto

definition service_name_ok :: "string \<Rightarrow> bool" where
  "service_name_ok name \<longleftrightarrow>
    name \<noteq> [] \<and> length name \<le> 63 \<and> list_all service_name_char name \<and>
    (is_ascii_lowercase (hd name) \<or> is_ascii_digit (hd name))"

lemma validate_service_name_iff:
  "validate_service_name P name = Inr () \<longleftrightarrow> service_name_ok name"
proof (cases "chars name")
  case Nil
  then show ?thesis by (simp add: validate_service_name_def service_name_ok_def)
next
  case (Cons first rest)
  then obtain c cs where name: "name = c # cs" by (cases name) auto
  have first: "first = c # takeWhile (\<lambda>b. is_cont (byte b)) cs" using Cons name by simp
  let ?start = "\<lambda>c. is_ascii_lowercase c \<or> is_ascii_digit c"
  have lift: "char_is is_ascii_lowercase first \<or> char_is is_ascii_digit first \<longleftrightarrow>
      first = [c] \<and> ?start c"
    using first by (auto simp: char_is_def split: list.splits)
  have all: "list_all (char_is service_name_char) (first # rest) \<longleftrightarrow>
      list_all service_name_char name"
    using list_all_char_is[OF ascii_class_bound(5), where s = name] Cons by simp
  have "char_is service_name_char [c]" if "?start c"
    using that by (auto simp: char_is_def service_name_char_def)
  then have "first = [c] \<and> ?start c \<and> list_all (char_is service_name_char) rest \<longleftrightarrow>
      ?start c \<and> list_all service_name_char name"
  proof (cases "?start c \<and> list_all service_name_char name")
    case True
    then have "char_is service_name_char first" using all by simp
    then have "first = [c]" using first by (auto simp: char_is_def split: list.splits)
    then show ?thesis using True all by simp
  qed (use all in auto)
  then show ?thesis
    using Cons lift name by (auto simp: validate_service_name_def service_name_ok_def Let_def)
qed

lemma validate_image_reference_iff:
  "validate_image_reference P reference = Inr () \<longleftrightarrow>
    reference \<noteq> [] \<and> length reference \<le> 255 \<and> list_all image_reference_char reference"
  using list_all_char_is[OF ascii_class_bound(6), where s = reference]
  by (simp add: validate_image_reference_def)

subsection \<open>Paths\<close>

text \<open>The names a path is made of: the non-empty texts between its slashes.\<close>

fun components_from :: "string \<Rightarrow> string \<Rightarrow> string list" where
  "components_from acc [] = (if acc = [] then [] else [acc])"
| "components_from acc (c # cs) =
    (if c = CHR ''/'' then (if acc = [] then [] else [acc]) @ components_from [] cs
     else components_from (acc @ [c]) cs)"

definition components :: "string \<Rightarrow> string list" where
  "components p = components_from [] p"

lemma components_from_slash:
  "components_from acc (a @ CHR ''/'' # b) = components_from acc a @ components_from [] b"
  by (induction a arbitrary: acc) auto

lemma components_Nil [simp]: "components [] = []"
  by (simp add: components_def)

lemma components_slash [simp]:
  "components (a @ CHR ''/'' # b) = components a @ components b"
  "components (CHR ''/'' # b) = components b"
  "components (a @ [CHR ''/'']) = components a"
  using components_from_slash[of "[]" a b] components_from_slash[of "[]" "[]" b]
    components_from_slash[of "[]" a "[]"]
  by (simp_all add: components_def)

lemma components_trim_start [simp]:
  "components (trim_start_matches (CHR ''/'') p) = components p"
  by (induction p) (auto simp: trim_start_matches_def)

lemma components_trim_end [simp]:
  "components (trim_end_matches (CHR ''/'') p) = components p"
  by (induction p rule: rev_induct) (auto simp: trim_end_matches_def)

lemma components_trim [simp]: "components (trim_matches (CHR ''/'') p) = components p"
  by (simp add: trim_matches_def)

lemma components_path_join: "components (path_join parent child) = components parent @ components child"
proof -
  define p where "p = trim_end_matches (CHR ''/'') parent"
  define c where "c = trim_matches (CHR ''/'') child"
  have "components parent = components p" "components child = components c"
    by (simp_all add: p_def c_def)
  moreover have "components (path_join parent child) = components p @ components c"
    unfolding path_join_def Let_def p_def [symmetric] c_def [symmetric]
    by (cases "p = []"; cases "c = []") simp_all
  ultimately show ?thesis by simp
qed

lemma components_no_slash:
  "CHR ''/'' \<notin> set s \<Longrightarrow> s \<noteq> [] \<Longrightarrow> components s = [s]"
proof -
  have "components_from acc s = [acc @ s]" if "CHR ''/'' \<notin> set s" "acc @ s \<noteq> []" for acc
    using that by (induction s arbitrary: acc) auto
  then show "CHR ''/'' \<notin> set s \<Longrightarrow> s \<noteq> [] \<Longrightarrow> components s = [s]"
    by (simp add: components_def)
qed

lemma service_name_no_slash: "service_name_ok name \<Longrightarrow> CHR ''/'' \<notin> set name"
  by (auto simp: service_name_ok_def list_all_iff service_name_char_def
      is_ascii_lowercase_def is_ascii_digit_def)

lemma service_name_no_nul: "service_name_ok name \<Longrightarrow> CHR 0x00 \<notin> set name"
  by (auto simp: service_name_ok_def list_all_iff service_name_char_def
      is_ascii_lowercase_def is_ascii_digit_def)

lemma service_name_not_dots: "service_name_ok name \<Longrightarrow> name \<noteq> ''.'' \<and> name \<noteq> ''..''"
  by (auto simp: service_name_ok_def is_ascii_lowercase_def is_ascii_digit_def)

lemma service_dir_components:
  "service_name_ok name \<Longrightarrow> components (service_dir root name) = components root @ [name]"
  by (simp add: service_dir_def components_path_join components_no_slash service_name_no_slash
      service_name_ok_def)

lemma path_join_absolute:
  "prefix ''/'' root \<Longrightarrow> prefix ''/'' (path_join root child)"
proof -
  assume "prefix ''/'' root"
  then obtain r where r: "root = CHR ''/'' # r" by (auto simp: prefix_def)
  show ?thesis
  proof (cases "trim_end_matches (CHR ''/'') root = []")
    case True
    then show ?thesis by (auto simp: path_join_def Let_def split: bool.split)
  next
    case False
    have "prefix (trim_end_matches (CHR ''/'') root) root"
      unfolding trim_end_matches_def
      by (metis suffix_dropWhile suffix_to_prefix rev_rev_ident)
    with False r have "hd (trim_end_matches (CHR ''/'') root) = CHR ''/''"
      by (cases "trim_end_matches (CHR ''/'') root") auto
    then show ?thesis
      using False by (cases "trim_end_matches (CHR ''/'') root") (auto simp: path_join_def Let_def split: bool.split)
  qed
qed

lemma set_path_join: "set (path_join parent child) \<subseteq> insert (CHR ''/'') (set parent \<union> set child)"
proof -
  have "set (trim_end_matches (CHR ''/'') parent) \<subseteq> set parent"
    "set (trim_matches (CHR ''/'') child) \<subseteq> set child"
    by (rule set_trim_end_matches set_trim_matches)+
  then show ?thesis unfolding path_join_def Let_def by (auto split: bool.split)
qed

lemma path_join_no_nul:
  "CHR 0x00 \<notin> set parent \<Longrightarrow> CHR 0x00 \<notin> set child \<Longrightarrow> CHR 0x00 \<notin> set (path_join parent child)"
  using set_path_join[of parent child] by auto

end
