(* ===== verification/Models.thy ===== *)
theory Models
  imports Docker
begin

section \<open>The data model: \<open>models/*.rs\<close>\<close>

text \<open>
  One record for each struct, with its fields in order, and the conversions between the rows of
  the database and the values the API works with.  A row keeps its enumerations and instants as
  text; \<open>From\<close> reads them back.
\<close>

subsection \<open>Users: \<open>models/users.rs\<close>\<close>

datatype role = SuperAdmin | Admin | Operator | Viewer

datatype user_status = Invited | Active | Disabled

record workspace_role =
  wro_workspace_id :: uuid
  wro_role :: role

record user =
  u_id :: uuid
  u_email :: string
  u_name :: string
  u_role :: role
  u_status :: user_status
  u_workspace_roles :: "workspace_role list"

fun user_status_str :: "user_status \<Rightarrow> string" where
  "user_status_str Invited = ''invited''"
| "user_status_str Active = ''active''"
| "user_status_str Disabled = ''disabled''"

definition user_status_of :: "string \<Rightarrow> user_status" where
  "user_status_of s =
    (if s = ''active'' then Active else if s = ''disabled'' then Disabled else Invited)"

fun role_str :: "role \<Rightarrow> string" where
  "role_str SuperAdmin = ''super_admin''"
| "role_str Admin = ''admin''"
| "role_str Operator = ''operator''"
| "role_str Viewer = ''viewer''"

definition role_of :: "string \<Rightarrow> role" where
  "role_of s =
    (if s = ''super_admin'' then SuperAdmin
     else if s = ''admin'' then Admin
     else if s = ''operator'' then Operator
     else Viewer)"

record user_record =
  ur_id :: uuid
  ur_email :: string
  ur_name :: string
  ur_role :: string
  ur_status :: string
  ur_password_hash :: string

record user_invite_record =
  ui_id :: uuid
  ui_user_id :: uuid
  ui_token_hash :: string
  ui_expires_at :: string
  ui_accepted_at :: string
  ui_created_at :: string

record workspace_user_role_record =
  wu_id :: uuid
  wu_user_id :: uuid
  wu_workspace_id :: uuid
  wu_role :: string

record user_api_token_record =
  ut_id :: uuid
  ut_user_id :: uuid
  ut_name :: string
  ut_token_hash :: string
  ut_token_prefix :: string
  ut_created_at :: string
  ut_revoked_at :: "string option"
  ut_last_used_at :: "string option"

record user_refresh_token_record =
  rt_id :: uuid
  rt_user_id :: uuid
  rt_created_at :: string
  rt_expires_at :: string
  rt_revoked_at :: "string option"

record jwt_public_key =
  jwk_kty :: string
  jwk_use :: string
  jwk_alg :: string
  jwk_kid :: string
  jwk_n :: string
  jwk_e :: string

record jwks =
  jwks_keys :: "jwt_public_key list"

record jwt_public_key_record =
  jk_id :: uuid
  jk_key_type :: string
  jk_key_use :: string
  jk_algorithm :: string
  jk_modulus :: string
  jk_exponent :: string
  jk_is_active :: bool
  jk_created_at :: string

definition jwt_public_key_of :: "'a prims_scheme \<Rightarrow> jwt_public_key_record \<Rightarrow> jwt_public_key" where
  "jwt_public_key_of P r =
    \<lparr>jwk_kty = jk_key_type r, jwk_use = jk_key_use r, jwk_alg = jk_algorithm r,
     jwk_kid = uuid_to_string P (jk_id r), jwk_n = jk_modulus r, jwk_e = jk_exponent r\<rparr>"

definition user_of :: "user_record \<Rightarrow> user" where
  "user_of r =
    \<lparr>u_id = ur_id r, u_email = ur_email r, u_name = ur_name r, u_role = role_of (ur_role r),
     u_status = user_status_of (ur_status r), u_workspace_roles = []\<rparr>"

definition workspace_role_of :: "workspace_user_role_record \<Rightarrow> workspace_role" where
  "workspace_role_of r =
    \<lparr>wro_workspace_id = wu_workspace_id r, wro_role = role_of (wu_role r)\<rparr>"

interpretation role: enum_codec role_str role_of Viewer
proof unfold_locales
  fix x show "role_of (role_str x) = x" by (cases x) (simp_all add: role_of_def)
next
  fix s assume s: "s \<notin> range role_str"
  have "s \<noteq> role_str SuperAdmin" "s \<noteq> role_str Admin" "s \<noteq> role_str Operator"
    using s by blast+
  then show "role_of s = Viewer" by (simp add: role_of_def)
qed

interpretation ustat: enum_codec user_status_str user_status_of Invited
proof unfold_locales
  fix x show "user_status_of (user_status_str x) = x"
    by (cases x) (simp_all add: user_status_of_def)
next
  fix s assume s: "s \<notin> range user_status_str"
  have "s \<noteq> user_status_str Active" "s \<noteq> user_status_str Disabled" using s by blast+
  then show "user_status_of s = Invited" by (simp add: user_status_of_def)
qed

text \<open>The names the code compares with, as the constructors they stand for.\<close>

lemma role_of_eq_SuperAdmin [codec_simps]: "role_of s = SuperAdmin \<longleftrightarrow> s = ''super_admin''"
  using role.parse_eq_proper[of SuperAdmin s] by simp

lemma role_of_eq_Admin [codec_simps]: "role_of s = Admin \<longleftrightarrow> s = ''admin''"
  using role.parse_eq_proper[of Admin s] by simp

lemma user_status_of_eq_Active [codec_simps]: "user_status_of s = Active \<longleftrightarrow> s = ''active''"
  using ustat.parse_eq_proper[of Active s] by simp

lemma user_status_of_eq_Disabled [codec_simps]:
  "user_status_of s = Disabled \<longleftrightarrow> s = ''disabled''"
  using ustat.parse_eq_proper[of Disabled s] by simp

lemma user_of_sel [simp]:
  "u_id (user_of r) = ur_id r" "u_email (user_of r) = ur_email r"
  "u_role (user_of r) = role_of (ur_role r)"
  "u_status (user_of r) = user_status_of (ur_status r)" "u_workspace_roles (user_of r) = []"
  by (simp_all add: user_of_def)

lemma workspace_role_of_sel [simp]:
  "wro_workspace_id (workspace_role_of r) = wu_workspace_id r"
  "wro_role (workspace_role_of r) = role_of (wu_role r)"
  by (simp_all add: workspace_role_of_def)

subsection \<open>Workspaces and environments\<close>

record workspace =
  w_id :: uuid
  w_name :: string
  w_description :: "string option"

record environment =
  e_id :: uuid
  e_workspace_id :: uuid
  e_name :: string

subsection \<open>Servers: \<open>models/servers.rs\<close>\<close>

record server =
  sv_id :: uuid
  sv_name :: string
  sv_host :: string
  sv_port :: u16
  sv_username :: string
  sv_public_key :: string
  sv_private_key_fingerprint :: string
  sv_encrypted_private_key :: string
  sv_encrypted_private_key_passphrase :: "string option"
  sv_default_proxy :: proxy_kind
  sv_docker_status :: string
  sv_docker_version :: string
  sv_last_check_at :: string
  sv_last_check_error :: string

record server_record =
  sr_id :: uuid
  sr_name :: string
  sr_host :: string
  sr_port :: u16
  sr_username :: string
  sr_public_key :: string
  sr_private_key_fingerprint :: string
  sr_encrypted_private_key :: string
  sr_encrypted_private_key_passphrase :: "string option"
  sr_default_proxy :: string
  sr_docker_status :: string
  sr_docker_version :: string
  sr_last_check_at :: string
  sr_last_check_error :: string

definition server_of :: "server_record \<Rightarrow> server" where
  "server_of r =
    \<lparr>sv_id = sr_id r, sv_name = sr_name r, sv_host = sr_host r, sv_port = sr_port r,
     sv_username = sr_username r, sv_public_key = sr_public_key r,
     sv_private_key_fingerprint = sr_private_key_fingerprint r,
     sv_encrypted_private_key = sr_encrypted_private_key r,
     sv_encrypted_private_key_passphrase = sr_encrypted_private_key_passphrase r,
     sv_default_proxy = proxy_kind_of (sr_default_proxy r),
     sv_docker_status = sr_docker_status r, sv_docker_version = sr_docker_version r,
     sv_last_check_at = sr_last_check_at r, sv_last_check_error = sr_last_check_error r\<rparr>"

text \<open>The derived \<open>Serialize\<close>: the two encrypted fields are skipped.\<close>

definition server_json :: "'a prims_scheme \<Rightarrow> server \<Rightarrow> json_object" where
  "server_json P s =
    [(''id'', JStr (uuid_to_string P (sv_id s))),
     (''name'', JStr (sv_name s)),
     (''host'', JStr (sv_host s)),
     (''port'', JNum (unat (sv_port s))),
     (''username'', JStr (sv_username s)),
     (''public_key'', JStr (sv_public_key s)),
     (''private_key_fingerprint'', JStr (sv_private_key_fingerprint s)),
     (''default_proxy'', JStr (proxy_kind_str (sv_default_proxy s))),
     (''docker_status'', JStr (sv_docker_status s)),
     (''docker_version'', JStr (sv_docker_version s)),
     (''last_check_at'', JStr (sv_last_check_at s)),
     (''last_check_error'', JStr (sv_last_check_error s))]"

lemma server_of_sel [simp]:
  "sv_id (server_of r) = sr_id r" "sv_host (server_of r) = sr_host r"
  "sv_port (server_of r) = sr_port r" "sv_username (server_of r) = sr_username r"
  "sv_public_key (server_of r) = sr_public_key r"
  "sv_encrypted_private_key (server_of r) = sr_encrypted_private_key r"
  "sv_encrypted_private_key_passphrase (server_of r) = sr_encrypted_private_key_passphrase r"
  by (simp_all add: server_of_def)

subsection \<open>Services of a workspace: \<open>models/services.rs\<close>\<close>

record app_service =
  sc_id :: uuid
  sc_workspace_id :: uuid
  sc_environment_id :: uuid
  sc_name :: string
  sc_deploy_kind :: deploy_kind
  sc_image :: "string option"
  sc_compose_file :: "string option"
  sc_dockerfile :: "string option"
  sc_internal_port :: "u16 option"

record app_service_record =
  asr_id :: uuid
  asr_workspace_id :: uuid
  asr_environment_id :: uuid
  asr_name :: string
  asr_deploy_kind :: string
  asr_image :: "string option"
  asr_compose_file :: "string option"
  asr_dockerfile :: "string option"
  asr_internal_port :: "u16 option"

definition app_service_of :: "app_service_record \<Rightarrow> app_service" where
  "app_service_of r =
    \<lparr>sc_id = asr_id r, sc_workspace_id = asr_workspace_id r,
     sc_environment_id = asr_environment_id r, sc_name = asr_name r,
     sc_deploy_kind = deploy_kind_of (asr_deploy_kind r), sc_image = asr_image r,
     sc_compose_file = asr_compose_file r, sc_dockerfile = asr_dockerfile r,
     sc_internal_port = asr_internal_port r\<rparr>"

lemma app_service_of_sel [simp]:
  "sc_id (app_service_of r) = asr_id r" "sc_workspace_id (app_service_of r) = asr_workspace_id r"
  "sc_environment_id (app_service_of r) = asr_environment_id r"
  "sc_name (app_service_of r) = asr_name r"
  "sc_deploy_kind (app_service_of r) = deploy_kind_of (asr_deploy_kind r)"
  "sc_image (app_service_of r) = asr_image r"
  by (simp_all add: app_service_of_def)

subsection \<open>Credentials and environment variables: \<open>models/credentials.rs\<close>\<close>

record docker_credential =
  dc_id :: uuid
  dc_workspace_id :: uuid
  dc_registry :: string
  dc_username :: string
  dc_encrypted_password :: string

record env_var =
  ev_id :: uuid
  ev_workspace_id :: uuid
  ev_environment_id :: "uuid option"
  ev_service_id :: "uuid option"
  ev_key :: string
  ev_encrypted_value :: string

record docker_credential_record =
  dcr_id :: uuid
  dcr_workspace_id :: uuid
  dcr_registry :: string
  dcr_username :: string
  dcr_encrypted_password :: string

record env_var_record =
  evr_id :: uuid
  evr_workspace_id :: uuid
  evr_environment_id :: "uuid option"
  evr_service_id :: "uuid option"
  evr_key :: string
  evr_encrypted_value :: string

definition docker_credential_of :: "docker_credential_record \<Rightarrow> docker_credential" where
  "docker_credential_of r =
    \<lparr>dc_id = dcr_id r, dc_workspace_id = dcr_workspace_id r, dc_registry = dcr_registry r,
     dc_username = dcr_username r, dc_encrypted_password = dcr_encrypted_password r\<rparr>"

definition env_var_of :: "env_var_record \<Rightarrow> env_var" where
  "env_var_of r =
    \<lparr>ev_id = evr_id r, ev_workspace_id = evr_workspace_id r,
     ev_environment_id = evr_environment_id r, ev_service_id = evr_service_id r,
     ev_key = evr_key r, ev_encrypted_value = evr_encrypted_value r\<rparr>"

subsection \<open>Domains, deployments and templates\<close>

record domain =
  d_id :: uuid
  d_service_id :: uuid
  d_hostname :: string
  d_proxy :: proxy_kind
  d_tls_enabled :: bool

record domain_record =
  dr_id :: uuid
  dr_service_id :: uuid
  dr_hostname :: string
  dr_proxy :: string
  dr_tls_enabled :: bool

definition domain_of :: "domain_record \<Rightarrow> domain" where
  "domain_of r =
    \<lparr>d_id = dr_id r, d_service_id = dr_service_id r, d_hostname = dr_hostname r,
     d_proxy = proxy_kind_of (dr_proxy r), d_tls_enabled = dr_tls_enabled r\<rparr>"

lemma domain_of_sel [simp]:
  "d_id (domain_of r) = dr_id r" "d_service_id (domain_of r) = dr_service_id r"
  by (simp_all add: domain_of_def)

datatype deployment_status = Queued | Running | Succeeded | Failed

fun deployment_status_str :: "deployment_status \<Rightarrow> string" where
  "deployment_status_str Queued = ''queued''"
| "deployment_status_str Running = ''running''"
| "deployment_status_str Succeeded = ''succeeded''"
| "deployment_status_str Failed = ''failed''"

definition deployment_status_of :: "string \<Rightarrow> deployment_status" where
  "deployment_status_of s =
    (if s = ''running'' then Running
     else if s = ''succeeded'' then Succeeded
     else if s = ''failed'' then Failed
     else Queued)"

record deployment =
  dp_id :: uuid
  dp_service_id :: uuid
  dp_status :: deployment_status
  dp_workflow_id :: string
  dp_output :: string
  dp_created_at :: datetime

record deployment_record =
  dpr_id :: uuid
  dpr_service_id :: uuid
  dpr_status :: string
  dpr_workflow_id :: string
  dpr_output :: string
  dpr_created_at :: string

interpretation dstat: enum_codec deployment_status_str deployment_status_of Queued
proof unfold_locales
  fix x show "deployment_status_of (deployment_status_str x) = x"
    by (cases x) (simp_all add: deployment_status_of_def)
next
  fix s assume s: "s \<notin> range deployment_status_str"
  have "s \<noteq> deployment_status_str Running" "s \<noteq> deployment_status_str Succeeded"
    "s \<noteq> deployment_status_str Failed" using s by blast+
  then show "deployment_status_of s = Queued" by (simp add: deployment_status_of_def)
qed

record workspace_template =
  wt_id :: uuid
  wt_source_workspace_id :: uuid
  wt_name :: string
  wt_description :: "string option"

record workspace_template_record =
  wtr_id :: uuid
  wtr_source_workspace_id :: uuid
  wtr_name :: string
  wtr_description :: "string option"

definition workspace_template_of :: "workspace_template_record \<Rightarrow> workspace_template" where
  "workspace_template_of r =
    \<lparr>wt_id = wtr_id r, wt_source_workspace_id = wtr_source_workspace_id r,
     wt_name = wtr_name r, wt_description = wtr_description r\<rparr>"

lemma workspace_template_of_sel [simp]:
  "wt_id (workspace_template_of r) = wtr_id r"
  "wt_source_workspace_id (workspace_template_of r) = wtr_source_workspace_id r"
  "wt_description (workspace_template_of r) = wtr_description r"
  by (simp_all add: workspace_template_of_def)

text \<open>The instant is read back from its text, or taken from the clock if that fails.\<close>

definition deployment_of :: "'a prims_scheme \<Rightarrow> datetime \<Rightarrow> deployment_record \<Rightarrow> deployment" where
  "deployment_of P current r =
    \<lparr>dp_id = dpr_id r, dp_service_id = dpr_service_id r,
     dp_status = deployment_status_of (dpr_status r), dp_workflow_id = dpr_workflow_id r,
     dp_output = dpr_output r,
     dp_created_at = (case datetime_from_str P (dpr_created_at r) of
        None \<Rightarrow> current | Some t \<Rightarrow> t)\<rparr>"

end
