(* ===== verification/Store.thy ===== *)
theory Store
  imports Models
begin

section \<open>The world: the database, the clock and the generators\<close>

text \<open>
  \<open>libs/db.rs\<close> hands out a handle of the database package (Toasty over PostgreSQL), whose source
  is not under \<open>src/\<close>.  The operations the code calls on it, and the other calls that depend on
  more than their arguments (the clock, the random generators, the check of a token against the
  clock), are fields of the record \<open>ext\<close>, over an abstract world \<open>'w\<close>.

  What the code relies on is the predicate \<open>store_ok\<close>.  It speaks of a view of the world: for
  each of the two ways to reach the database, a connection and the open transaction, the set of
  rows of each table.  A query returns the matching rows, each once and in any order, and
  changes nothing.  A write that succeeds has changed the one table it names.  A write that
  fails has changed nothing, or all it would have changed had it succeeded (the answer may be
  lost after the server applied it).  A transaction starts from the committed rows, and its
  commit publishes its rows.  Every statement of the model about the database is derived from
  these laws alone.
\<close>

subsection \<open>Tables\<close>

datatype executor = Conn | Tx

text \<open>A value \<open>Update::set(column, value)\<close> writes; the columns are numbered as the struct's fields.\<close>

datatype sqlval = VText string | VBool bool

record ('w, 'r) table =
  tbl_select :: "executor \<Rightarrow> ('r \<Rightarrow> bool) \<Rightarrow> ('w, string, 'r list) io"
  tbl_first :: "executor \<Rightarrow> ('r \<Rightarrow> bool) \<Rightarrow> ('w, string, 'r option) io"
  tbl_insert :: "executor \<Rightarrow> 'r \<Rightarrow> ('w, string, 'r) io"
  tbl_update :: "executor \<Rightarrow> ('r \<Rightarrow> bool) \<Rightarrow> (nat \<times> sqlval) list \<Rightarrow> ('w, string, unit) io"

text \<open>The tables of \<open>toasty::models!\<close>, in its order.\<close>

record tables =
  t_workspaces :: "workspace set"
  t_environments :: "environment set"
  t_servers :: "server_record set"
  t_app_services :: "app_service_record set"
  t_credentials :: "docker_credential_record set"
  t_env_vars :: "env_var_record set"
  t_domains :: "domain_record set"
  t_deployments :: "deployment_record set"
  t_templates :: "workspace_template_record set"
  t_users :: "user_record set"
  t_invites :: "user_invite_record set"
  t_api_tokens :: "user_api_token_record set"
  t_user_roles :: "workspace_user_role_record set"
  t_refresh_tokens :: "user_refresh_token_record set"
  t_jwt_keys :: "jwt_public_key_record set"

subsection \<open>Columns\<close>

text \<open>Only the tables the code updates have columns that are written; the others keep their rows.\<close>

definition user_set :: "nat \<times> sqlval \<Rightarrow> user_record \<Rightarrow> user_record" where
  "user_set c r =
    (case c of
       (i, VText s) \<Rightarrow>
        (if i = 3 then r\<lparr>ur_role := s\<rparr>
         else if i = 4 then r\<lparr>ur_status := s\<rparr>
         else if i = 5 then r\<lparr>ur_password_hash := s\<rparr>
         else r)
     | _ \<Rightarrow> r)"

definition invite_set :: "nat \<times> sqlval \<Rightarrow> user_invite_record \<Rightarrow> user_invite_record" where
  "invite_set c r =
    (case c of
       (i, VText s) \<Rightarrow>
        (if i = 4 then r\<lparr>ui_accepted_at := s\<rparr>
         else r)
     | _ \<Rightarrow> r)"

definition api_token_set :: "nat \<times> sqlval \<Rightarrow> user_api_token_record \<Rightarrow> user_api_token_record" where
  "api_token_set c r =
    (case c of
       (i, VText s) \<Rightarrow>
        (if i = 6 then r\<lparr>ut_revoked_at := Some s\<rparr>
         else if i = 7 then r\<lparr>ut_last_used_at := Some s\<rparr>
         else r)
     | _ \<Rightarrow> r)"

definition refresh_token_set :: "nat \<times> sqlval \<Rightarrow> user_refresh_token_record \<Rightarrow> user_refresh_token_record" where
  "refresh_token_set c r =
    (case c of
       (i, VText s) \<Rightarrow>
        (if i = 4 then r\<lparr>rt_revoked_at := Some s\<rparr>
         else r)
     | _ \<Rightarrow> r)"

definition jwt_key_set :: "nat \<times> sqlval \<Rightarrow> jwt_public_key_record \<Rightarrow> jwt_public_key_record" where
  "jwt_key_set c r =
    (case c of
       (i, VText s) \<Rightarrow>
        (if i = 1 then r\<lparr>jk_key_type := s\<rparr>
         else if i = 2 then r\<lparr>jk_key_use := s\<rparr>
         else if i = 3 then r\<lparr>jk_algorithm := s\<rparr>
         else if i = 4 then r\<lparr>jk_modulus := s\<rparr>
         else if i = 5 then r\<lparr>jk_exponent := s\<rparr>
         else r)
     | (i, VBool b) \<Rightarrow> (if i = 6 then r\<lparr>jk_is_active := b\<rparr> else r))"

definition server_set :: "nat \<times> sqlval \<Rightarrow> server_record \<Rightarrow> server_record" where
  "server_set c r =
    (case c of
       (i, VText s) \<Rightarrow>
        (if i = 10 then r\<lparr>sr_docker_status := s\<rparr>
         else if i = 11 then r\<lparr>sr_docker_version := s\<rparr>
         else if i = 12 then r\<lparr>sr_last_check_at := s\<rparr>
         else if i = 13 then r\<lparr>sr_last_check_error := s\<rparr>
         else r)
     | _ \<Rightarrow> r)"

definition no_set :: "nat \<times> sqlval \<Rightarrow> 'r \<Rightarrow> 'r" where
  "no_set c r = r"

text \<open>The effect of an \<open>UPDATE\<close> on one row.\<close>

definition update_row ::
  "(nat \<times> sqlval \<Rightarrow> 'r \<Rightarrow> 'r) \<Rightarrow> ('r \<Rightarrow> bool) \<Rightarrow> (nat \<times> sqlval) list \<Rightarrow> 'r \<Rightarrow> 'r" where
  "update_row setc P cols r = (if P r then fold setc cols r else r)"

lemma set_simps [simp]:
  "user_set (3, VText s) u = u\<lparr>ur_role := s\<rparr>" "user_set (4, VText s) u = u\<lparr>ur_status := s\<rparr>"
  "user_set (5, VText s) u = u\<lparr>ur_password_hash := s\<rparr>"
  "invite_set (4, VText s) i = i\<lparr>ui_accepted_at := s\<rparr>"
  "api_token_set (6, VText s) t = t\<lparr>ut_revoked_at := Some s\<rparr>"
  "api_token_set (7, VText s) t = t\<lparr>ut_last_used_at := Some s\<rparr>"
  "refresh_token_set (4, VText s) r = r\<lparr>rt_revoked_at := Some s\<rparr>"
  "jwt_key_set (1, VText s) k = k\<lparr>jk_key_type := s\<rparr>"
  "jwt_key_set (Suc 0, VText s) k = k\<lparr>jk_key_type := s\<rparr>"
  "jwt_key_set (2, VText s) k = k\<lparr>jk_key_use := s\<rparr>"
  "jwt_key_set (3, VText s) k = k\<lparr>jk_algorithm := s\<rparr>"
  "jwt_key_set (4, VText s) k = k\<lparr>jk_modulus := s\<rparr>"
  "jwt_key_set (5, VText s) k = k\<lparr>jk_exponent := s\<rparr>"
  "jwt_key_set (6, VBool b) k = k\<lparr>jk_is_active := b\<rparr>"
  "server_set (10, VText s) v = v\<lparr>sr_docker_status := s\<rparr>"
  "server_set (11, VText s) v = v\<lparr>sr_docker_version := s\<rparr>"
  "server_set (12, VText s) v = v\<lparr>sr_last_check_at := s\<rparr>"
  "server_set (13, VText s) v = v\<lparr>sr_last_check_error := s\<rparr>"
  by (simp_all add: user_set_def invite_set_def api_token_set_def refresh_token_set_def
      jwt_key_set_def server_set_def)

text \<open>What a written row keeps: a field no column of the update writes.\<close>

lemma update_row_keeps:
  assumes "\<And>c r. f (setc c r) = f r"
  shows "f (update_row setc P cols r) = f r"
proof -
  have "f (fold setc cols r) = f r" for r
    by (induction cols arbitrary: r) (simp_all add: assms)
  then show ?thesis by (simp add: update_row_def)
qed

lemma update_row_ids [simp]:
  "ur_id (update_row user_set PU cols u) = ur_id u"
  "ur_email (update_row user_set PU cols u) = ur_email u"
  "ui_id (update_row invite_set PI cols i) = ui_id i"
  "ui_user_id (update_row invite_set PI cols i) = ui_user_id i"
  "ui_token_hash (update_row invite_set PI cols i) = ui_token_hash i"
  "ut_id (update_row api_token_set PT cols t) = ut_id t"
  "ut_user_id (update_row api_token_set PT cols t) = ut_user_id t"
  "ut_token_hash (update_row api_token_set PT cols t) = ut_token_hash t"
  "rt_id (update_row refresh_token_set PR cols r) = rt_id r"
  "rt_user_id (update_row refresh_token_set PR cols r) = rt_user_id r"
  "jk_id (update_row jwt_key_set PK cols k) = jk_id k"
  "sr_id (update_row server_set PS cols v) = sr_id v"
  by (rule update_row_keeps;
      simp add: user_set_def invite_set_def api_token_set_def refresh_token_set_def
        jwt_key_set_def server_set_def split: prod.splits sqlval.splits)+

lemma update_row_if:
  "f (update_row setc P cols r) = (if P r then f (fold setc cols r) else f r)"
  by (simp add: update_row_def)

subsection \<open>What the code calls\<close>

record 'w ext = prims +
  x_now :: "'w \<Rightarrow> datetime \<times> 'w"
  x_now_v7 :: "'w \<Rightarrow> uuid \<times> 'w"
  x_random32 :: "'w \<Rightarrow> u8 list \<times> 'w"
  x_timestamp :: "'w \<Rightarrow> u64 \<times> 'w"
  x_argon2_hash :: "u8 list \<Rightarrow> 'w \<Rightarrow> (string + string) \<times> 'w"
  x_jwt_decode :: "string \<Rightarrow> decoding_key \<Rightarrow> validation \<Rightarrow> 'w \<Rightarrow> (string + json_object) \<times> 'w"
  x_begin :: "('w, string, unit) io"
  x_commit :: "('w, string, unit) io"
  x_workspaces :: "('w, workspace) table"
  x_environments :: "('w, environment) table"
  x_servers :: "('w, server_record) table"
  x_app_services :: "('w, app_service_record) table"
  x_credentials :: "('w, docker_credential_record) table"
  x_env_vars :: "('w, env_var_record) table"
  x_domains :: "('w, domain_record) table"
  x_deployments :: "('w, deployment_record) table"
  x_templates :: "('w, workspace_template_record) table"
  x_users :: "('w, user_record) table"
  x_invites :: "('w, user_invite_record) table"
  x_api_tokens :: "('w, user_api_token_record) table"
  x_user_roles :: "('w, workspace_user_role_record) table"
  x_refresh_tokens :: "('w, user_refresh_token_record) table"
  x_jwt_keys :: "('w, jwt_public_key_record) table"

text \<open>Failures of a request: an API error, a panic, or a rejection by an extractor of axum.\<close>

datatype exn =
    Api api_error
  | Panicked
  | Rejected status string

text \<open>\<open>map_toasty_error\<close>, which each service declares for itself.\<close>

definition map_toasty_error :: "string \<Rightarrow> exn" where
  "map_toasty_error e = Api (Internal (''database operation failed: '' @ e))"

text \<open>\<open>Database\<close>: the handle is missing in \<open>unavailable_for_tests\<close> only.\<close>

record database =
  db_url :: string
  db_toasty :: bool

definition unavailable_for_tests :: database where
  "unavailable_for_tests = \<lparr>db_url = ''postgres://test-unavailable'', db_toasty = False\<rparr>"

definition db_handle :: "database \<Rightarrow> ('w, exn, unit) io" where
  "db_handle d =
    (if db_toasty d then returnE ()
     else throwE (Api (Internal ''database handle is unavailable'')))"

text \<open>The calls as the services make them: an error of the database becomes an internal error.\<close>

definition db_select ::
  "('w, 'r) table \<Rightarrow> executor \<Rightarrow> ('r \<Rightarrow> bool) \<Rightarrow> ('w, exn, 'r list) io" where
  "db_select t ex P = map_errE map_toasty_error (tbl_select t ex P)"

definition db_first ::
  "('w, 'r) table \<Rightarrow> executor \<Rightarrow> ('r \<Rightarrow> bool) \<Rightarrow> ('w, exn, 'r option) io" where
  "db_first t ex P = map_errE map_toasty_error (tbl_first t ex P)"

definition db_insert :: "('w, 'r) table \<Rightarrow> executor \<Rightarrow> 'r \<Rightarrow> ('w, exn, 'r) io" where
  "db_insert t ex r = map_errE map_toasty_error (tbl_insert t ex r)"

definition db_update ::
  "('w, 'r) table \<Rightarrow> executor \<Rightarrow> ('r \<Rightarrow> bool) \<Rightarrow> (nat \<times> sqlval) list \<Rightarrow> ('w, exn, unit) io" where
  "db_update t ex P cols = map_errE map_toasty_error (tbl_update t ex P cols)"

definition db_transaction :: "('w, 'a) ext_scheme \<Rightarrow> ('w, exn, unit) io" where
  "db_transaction X = map_errE map_toasty_error (x_begin X)"

definition db_commit :: "('w, 'a) ext_scheme \<Rightarrow> ('w, exn, unit) io" where
  "db_commit X = map_errE map_toasty_error (x_commit X)"

subsection \<open>The laws of the store\<close>

type_synonym 'w view = "'w \<Rightarrow> executor \<Rightarrow> tables"

text \<open>An effect that leaves every table alone.\<close>

definition silent :: "'w view \<Rightarrow> ('w \<Rightarrow> 'a \<times> 'w) \<Rightarrow> bool" where
  "silent vw m \<longleftrightarrow> (\<forall>w. vw (snd (m w)) = vw w)"

text \<open>
  The laws of a table: \<open>get\<close> and \<open>upd\<close> are its field of the view, \<open>clash\<close> says when two rows
  violate a key or a unique index, \<open>setc\<close> is the writing of a column.
\<close>

definition table_ok ::
  "'w view \<Rightarrow> (tables \<Rightarrow> 'r set) \<Rightarrow> (('r set \<Rightarrow> 'r set) \<Rightarrow> tables \<Rightarrow> tables) \<Rightarrow>
   ('r \<Rightarrow> 'r \<Rightarrow> bool) \<Rightarrow> (nat \<times> sqlval \<Rightarrow> 'r \<Rightarrow> 'r) \<Rightarrow> ('w, 'r) table \<Rightarrow> bool" where
  "table_ok vw get upd clash setc t \<longleftrightarrow>
    (\<forall>ex P w. wp (tbl_select t ex P)
       (\<lambda>rs w'. vw w' = vw w \<and> distinct rs \<and> set rs = {r \<in> get (vw w ex). P r})
       (\<lambda>_ w'. vw w' = vw w) w) \<and>
    (\<forall>ex P w. wp (tbl_first t ex P)
       (\<lambda>x w'. vw w' = vw w \<and>
          (case x of None \<Rightarrow> \<forall>r \<in> get (vw w ex). \<not> P r | Some r \<Rightarrow> r \<in> get (vw w ex) \<and> P r))
       (\<lambda>_ w'. vw w' = vw w) w) \<and>
    (\<forall>ex r w. let vw' = (vw w)(ex := upd (insert r) (vw w ex));
                  fresh = (\<forall>x \<in> get (vw w ex). \<not> clash x r)
       in wp (tbl_insert t ex r)
       (\<lambda>r' w'. r' = r \<and> fresh \<and> vw w' = vw')
       (\<lambda>_ w'. vw w' = vw w \<or> fresh \<and> vw w' = vw') w) \<and>
    (\<forall>ex P cols w. let vw' = (vw w)(ex := upd ((`) (update_row setc P cols)) (vw w ex))
       in wp (tbl_update t ex P cols)
       (\<lambda>_ w'. vw w' = vw') (\<lambda>_ w'. vw w' = vw w \<or> vw w' = vw') w)"

definition transactions_ok :: "'w view \<Rightarrow> ('w, 'a) ext_scheme \<Rightarrow> bool" where
  "transactions_ok vw X \<longleftrightarrow>
    (\<forall>w. wp (x_begin X) (\<lambda>_ w'. vw w' = (vw w)(Tx := vw w Conn)) (\<lambda>_ w'. vw w' = vw w) w) \<and>
    (\<forall>w. wp (x_commit X) (\<lambda>_ w'. vw w' = (vw w)(Conn := vw w Tx))
       (\<lambda>_ w'. vw w' = vw w \<or> vw w' = (vw w)(Conn := vw w Tx)) w)"

definition generators_ok :: "'w view \<Rightarrow> ('w, 'a) ext_scheme \<Rightarrow> bool" where
  "generators_ok vw X \<longleftrightarrow>
    silent vw (x_now X) \<and> silent vw (x_now_v7 X) \<and> silent vw (x_random32 X) \<and>
    silent vw (x_timestamp X) \<and> (\<forall>pw. silent vw (x_argon2_hash X pw)) \<and>
    (\<forall>t k v. silent vw (x_jwt_decode X t k v))"

definition store_ok :: "('w, 'a) ext_scheme \<Rightarrow> 'w view \<Rightarrow> bool" where
  "store_ok X vw \<longleftrightarrow> generators_ok vw X \<and> transactions_ok vw X \<and>
    table_ok vw t_workspaces t_workspaces_update (\<lambda>x y. w_id x = w_id y)
      no_set (x_workspaces X) \<and>
    table_ok vw t_environments t_environments_update (\<lambda>x y. e_id x = e_id y)
      no_set (x_environments X) \<and>
    table_ok vw t_servers t_servers_update (\<lambda>x y. sr_id x = sr_id y)
      server_set (x_servers X) \<and>
    table_ok vw t_app_services t_app_services_update (\<lambda>x y. asr_id x = asr_id y)
      no_set (x_app_services X) \<and>
    table_ok vw t_credentials t_credentials_update (\<lambda>x y. dcr_id x = dcr_id y)
      no_set (x_credentials X) \<and>
    table_ok vw t_env_vars t_env_vars_update (\<lambda>x y. evr_id x = evr_id y)
      no_set (x_env_vars X) \<and>
    table_ok vw t_domains t_domains_update (\<lambda>x y. dr_id x = dr_id y)
      no_set (x_domains X) \<and>
    table_ok vw t_deployments t_deployments_update (\<lambda>x y. dpr_id x = dpr_id y)
      no_set (x_deployments X) \<and>
    table_ok vw t_templates t_templates_update (\<lambda>x y. wtr_id x = wtr_id y)
      no_set (x_templates X) \<and>
    table_ok vw t_users t_users_update (\<lambda>x y. ur_id x = ur_id y \<or> ur_email x = ur_email y)
      user_set (x_users X) \<and>
    table_ok vw t_invites t_invites_update (\<lambda>x y. ui_id x = ui_id y \<or> ui_token_hash x = ui_token_hash y)
      invite_set (x_invites X) \<and>
    table_ok vw t_api_tokens t_api_tokens_update (\<lambda>x y. ut_id x = ut_id y \<or> ut_token_hash x = ut_token_hash y)
      api_token_set (x_api_tokens X) \<and>
    table_ok vw t_user_roles t_user_roles_update (\<lambda>x y. wu_id x = wu_id y)
      no_set (x_user_roles X) \<and>
    table_ok vw t_refresh_tokens t_refresh_tokens_update (\<lambda>x y. rt_id x = rt_id y)
      refresh_token_set (x_refresh_tokens X) \<and>
    table_ok vw t_jwt_keys t_jwt_keys_update (\<lambda>x y. jk_id x = jk_id y)
      jwt_key_set (x_jwt_keys X)"

text \<open>
  A token carries the claims it was signed over: whatever key, check and time it is accepted
  under, these are the claims that are read from it.
\<close>

definition jwt_laws :: "('w, 'a) ext_scheme \<Rightarrow> bool" where
  "jwt_laws X \<longleftrightarrow>
    (\<forall>h obj ek token. jwt_encode X h obj ek = Inr token \<longrightarrow>
      (\<forall>key v w obj' w'. x_jwt_decode X token key v w = (Inr obj', w') \<longrightarrow> obj' = obj))"

subsection \<open>The laws as rules\<close>

lemma table_ok_select:
  assumes "table_ok vw get upd clash setc t"
    and "\<And>rs w'. vw w' = vw w \<Longrightarrow> distinct rs \<Longrightarrow> set rs = {r \<in> get (vw w ex). P r} \<Longrightarrow> Q rs w'"
    and "\<And>e w'. vw w' = vw w \<Longrightarrow> E (map_toasty_error e) w'"
  shows "wp (db_select t ex P) Q E w"
proof -
  have "wp (tbl_select t ex P)
       (\<lambda>rs w'. vw w' = vw w \<and> distinct rs \<and> set rs = {r \<in> get (vw w ex). P r})
       (\<lambda>_ w'. vw w' = vw w) w"
    using assms(1) unfolding table_ok_def by blast
  then show ?thesis
    unfolding db_select_def wp_map_errE by (rule wp_mono) (use assms(2,3) in blast)+
qed

lemma table_ok_first:
  assumes "table_ok vw get upd clash setc t"
    and "\<And>r w'. vw w' = vw w \<Longrightarrow> r \<in> get (vw w ex) \<Longrightarrow> P r \<Longrightarrow> Q (Some r) w'"
    and "\<And>w'. vw w' = vw w \<Longrightarrow> \<forall>r \<in> get (vw w ex). \<not> P r \<Longrightarrow> Q None w'"
    and "\<And>e w'. vw w' = vw w \<Longrightarrow> E (map_toasty_error e) w'"
  shows "wp (db_first t ex P) Q E w"
proof -
  have "wp (tbl_first t ex P)
       (\<lambda>x w'. vw w' = vw w \<and>
          (case x of None \<Rightarrow> \<forall>r \<in> get (vw w ex). \<not> P r | Some r \<Rightarrow> r \<in> get (vw w ex) \<and> P r))
       (\<lambda>_ w'. vw w' = vw w) w"
    using assms(1) unfolding table_ok_def by blast
  then show ?thesis
    unfolding db_first_def wp_map_errE
    by (rule wp_mono) (use assms(2-4) in \<open>auto split: option.splits\<close>)
qed

lemma table_ok_insert:
  assumes "table_ok vw get upd clash setc t"
    and "\<And>w'. vw w' = (vw w)(ex := upd (insert r) (vw w ex)) \<Longrightarrow>
      \<forall>x \<in> get (vw w ex). \<not> clash x r \<Longrightarrow> Q r w'"
    and "\<And>e w'. vw w' = vw w \<Longrightarrow> E (map_toasty_error e) w'"
    and "\<And>e w'. vw w' = (vw w)(ex := upd (insert r) (vw w ex)) \<Longrightarrow>
      \<forall>x \<in> get (vw w ex). \<not> clash x r \<Longrightarrow> E (map_toasty_error e) w'"
  shows "wp (db_insert t ex r) Q E w"
proof -
  have "wp (tbl_insert t ex r)
       (\<lambda>r' w'. r' = r \<and> (\<forall>x \<in> get (vw w ex). \<not> clash x r) \<and>
          vw w' = (vw w)(ex := upd (insert r) (vw w ex)))
       (\<lambda>_ w'. vw w' = vw w \<or> (\<forall>x \<in> get (vw w ex). \<not> clash x r) \<and>
          vw w' = (vw w)(ex := upd (insert r) (vw w ex))) w"
    using assms(1) unfolding table_ok_def Let_def by blast
  then show ?thesis
    unfolding db_insert_def wp_map_errE by (rule wp_mono) (use assms(2-4) in blast)+
qed

lemma table_ok_update:
  assumes "table_ok vw get upd clash setc t"
    and "\<And>w'. vw w' = (vw w)(ex := upd ((`) (update_row setc P cols)) (vw w ex)) \<Longrightarrow> Q () w'"
    and "\<And>e w'. vw w' = vw w \<Longrightarrow> E (map_toasty_error e) w'"
    and "\<And>e w'. vw w' = (vw w)(ex := upd ((`) (update_row setc P cols)) (vw w ex)) \<Longrightarrow>
      E (map_toasty_error e) w'"
  shows "wp (db_update t ex P cols) Q E w"
proof -
  have "wp (tbl_update t ex P cols)
       (\<lambda>_ w'. vw w' = (vw w)(ex := upd ((`) (update_row setc P cols)) (vw w ex)))
       (\<lambda>_ w'. vw w' = vw w \<or>
          vw w' = (vw w)(ex := upd ((`) (update_row setc P cols)) (vw w ex))) w"
    using assms(1) unfolding table_ok_def Let_def by blast
  then show ?thesis
    unfolding db_update_def wp_map_errE by (rule wp_mono) (use assms(2-4) in auto)
qed

lemma store_okD:
  assumes "store_ok X vw"
  shows store_generators: "generators_ok vw X"
    and store_transactions: "transactions_ok vw X"
    and workspaces_ok: "table_ok vw t_workspaces t_workspaces_update (\<lambda>x y. w_id x = w_id y)
      no_set (x_workspaces X)"
    and environments_ok: "table_ok vw t_environments t_environments_update (\<lambda>x y. e_id x = e_id y)
      no_set (x_environments X)"
    and servers_ok: "table_ok vw t_servers t_servers_update (\<lambda>x y. sr_id x = sr_id y)
      server_set (x_servers X)"
    and app_services_ok: "table_ok vw t_app_services t_app_services_update (\<lambda>x y. asr_id x = asr_id y)
      no_set (x_app_services X)"
    and credentials_ok: "table_ok vw t_credentials t_credentials_update (\<lambda>x y. dcr_id x = dcr_id y)
      no_set (x_credentials X)"
    and env_vars_ok: "table_ok vw t_env_vars t_env_vars_update (\<lambda>x y. evr_id x = evr_id y)
      no_set (x_env_vars X)"
    and domains_ok: "table_ok vw t_domains t_domains_update (\<lambda>x y. dr_id x = dr_id y)
      no_set (x_domains X)"
    and deployments_ok: "table_ok vw t_deployments t_deployments_update (\<lambda>x y. dpr_id x = dpr_id y)
      no_set (x_deployments X)"
    and templates_ok: "table_ok vw t_templates t_templates_update (\<lambda>x y. wtr_id x = wtr_id y)
      no_set (x_templates X)"
    and users_ok: "table_ok vw t_users t_users_update (\<lambda>x y. ur_id x = ur_id y \<or> ur_email x = ur_email y)
      user_set (x_users X)"
    and invites_ok: "table_ok vw t_invites t_invites_update (\<lambda>x y. ui_id x = ui_id y \<or> ui_token_hash x = ui_token_hash y)
      invite_set (x_invites X)"
    and api_tokens_ok: "table_ok vw t_api_tokens t_api_tokens_update (\<lambda>x y. ut_id x = ut_id y \<or> ut_token_hash x = ut_token_hash y)
      api_token_set (x_api_tokens X)"
    and user_roles_ok: "table_ok vw t_user_roles t_user_roles_update (\<lambda>x y. wu_id x = wu_id y)
      no_set (x_user_roles X)"
    and refresh_tokens_ok: "table_ok vw t_refresh_tokens t_refresh_tokens_update (\<lambda>x y. rt_id x = rt_id y)
      refresh_token_set (x_refresh_tokens X)"
    and jwt_keys_ok: "table_ok vw t_jwt_keys t_jwt_keys_update (\<lambda>x y. jk_id x = jk_id y)
      jwt_key_set (x_jwt_keys X)"
  using assms unfolding store_ok_def by simp_all

lemma wp_effectE:
  assumes "silent vw m" and "\<And>x w'. vw w' = vw w \<Longrightarrow> Q x w'"
  shows "wp (effectE m) Q E w"
  using assms unfolding silent_def effectE_def wp_def
  by (auto split: prod.splits) (metis snd_conv)

lemma wp_transaction:
  assumes "store_ok X vw"
    and "\<And>w'. vw w' = (vw w)(Tx := vw w Conn) \<Longrightarrow> Q () w'"
    and "\<And>e w'. vw w' = vw w \<Longrightarrow> E (map_toasty_error e) w'"
  shows "wp (db_transaction X) Q E w"
proof -
  have "wp (x_begin X) (\<lambda>_ w'. vw w' = (vw w)(Tx := vw w Conn)) (\<lambda>_ w'. vw w' = vw w) w"
    using store_transactions[OF assms(1)] unfolding transactions_ok_def by blast
  then show ?thesis
    unfolding db_transaction_def wp_map_errE by (rule wp_mono) (use assms(2,3) in auto)
qed

lemma wp_commit:
  assumes "store_ok X vw"
    and "\<And>w'. vw w' = (vw w)(Conn := vw w Tx) \<Longrightarrow> Q () w'"
    and "\<And>e w'. vw w' = vw w \<Longrightarrow> E (map_toasty_error e) w'"
    and "\<And>e w'. vw w' = (vw w)(Conn := vw w Tx) \<Longrightarrow> E (map_toasty_error e) w'"
  shows "wp (db_commit X) Q E w"
proof -
  have "wp (x_commit X) (\<lambda>_ w'. vw w' = (vw w)(Conn := vw w Tx))
       (\<lambda>_ w'. vw w' = vw w \<or> vw w' = (vw w)(Conn := vw w Tx)) w"
    using store_transactions[OF assms(1)] unfolding transactions_ok_def by blast
  then show ?thesis
    unfolding db_commit_def wp_map_errE by (rule wp_mono) (use assms(2-4) in auto)
qed

lemma wp_db_handle [simp]:
  "wp (db_handle d) Q E =
    (if db_toasty d then Q () else E (Api (Internal ''database handle is unavailable'')))"
  by (simp add: db_handle_def)

lemma generators_silent:
  assumes "store_ok X vw"
  shows "silent vw (x_now X)" "silent vw (x_now_v7 X)" "silent vw (x_random32 X)"
    "silent vw (x_timestamp X)" "silent vw (x_argon2_hash X pw)" "silent vw (x_jwt_decode X t k v)"
  using store_generators[OF assms] unfolding generators_ok_def by simp_all

text \<open>The generators, and each operation on each table, as introduction rules.\<close>

lemma wp_generators [wp_rules]:
  assumes "store_ok X vw"
  shows "(\<And>t w'. vw w' = vw w \<Longrightarrow> Q1 t w') \<Longrightarrow> wp (effectE (x_now X)) Q1 E w"
    and "(\<And>i w'. vw w' = vw w \<Longrightarrow> Q2 i w') \<Longrightarrow> wp (effectE (x_now_v7 X)) Q2 E w"
    and "(\<And>bs w'. vw w' = vw w \<Longrightarrow> Q3 bs w') \<Longrightarrow> wp (effectE (x_random32 X)) Q3 E w"
    and "(\<And>t w'. vw w' = vw w \<Longrightarrow> Q4 t w') \<Longrightarrow> wp (effectE (x_timestamp X)) Q4 E w"
  using generators_silent[OF assms] by (auto intro: wp_effectE)

lemma wp_silent_io:
  assumes "silent vw m"
    and "\<And>x w'. vw w' = vw w \<Longrightarrow> Q x w'" and "\<And>e w'. vw w' = vw w \<Longrightarrow> E e w'"
  shows "wp m Q E w"
  using assms unfolding silent_def wp_def
  by (auto split: prod.splits sum.splits) (metis snd_conv)+

lemma wp_argon2_hash [wp_rules]:
  assumes "store_ok X vw"
    and "\<And>h w'. x_argon2_hash X pw w = (Inr h, w') \<Longrightarrow> vw w' = vw w \<Longrightarrow> Q h w'"
    and "\<And>e w'. vw w' = vw w \<Longrightarrow> E e w'"
  shows "wp (x_argon2_hash X pw) Q E w"
  using assms(2,3) generators_silent(5)[OF assms(1), of pw] unfolding silent_def
  by (auto intro!: wp_runI) (metis snd_conv)+

text \<open>The check of a token: its answer is kept, for the statements about accepted tokens.\<close>

lemma wp_jwt_decode [wp_rules]:
  assumes "store_ok X vw"
    and "\<And>obj w'. x_jwt_decode X t k v w = (Inr obj, w') \<Longrightarrow> vw w' = vw w \<Longrightarrow> Q obj w'"
    and "\<And>e w'. x_jwt_decode X t k v w = (Inl e, w') \<Longrightarrow> vw w' = vw w \<Longrightarrow> E e w'"
  shows "wp (x_jwt_decode X t k v) Q E w"
  using assms(2,3) generators_silent(6)[OF assms(1), of t k v] unfolding silent_def
  by (auto intro!: wp_runI) (metis snd_conv)+

lemmas wp_select [wp_rules] =
  table_ok_select[OF workspaces_ok]
  table_ok_select[OF environments_ok]
  table_ok_select[OF servers_ok]
  table_ok_select[OF app_services_ok]
  table_ok_select[OF credentials_ok]
  table_ok_select[OF env_vars_ok]
  table_ok_select[OF domains_ok]
  table_ok_select[OF deployments_ok]
  table_ok_select[OF templates_ok]
  table_ok_select[OF users_ok]
  table_ok_select[OF invites_ok]
  table_ok_select[OF api_tokens_ok]
  table_ok_select[OF user_roles_ok]
  table_ok_select[OF refresh_tokens_ok]
  table_ok_select[OF jwt_keys_ok]

lemmas wp_first [wp_rules] =
  table_ok_first[OF workspaces_ok]
  table_ok_first[OF environments_ok]
  table_ok_first[OF servers_ok]
  table_ok_first[OF app_services_ok]
  table_ok_first[OF credentials_ok]
  table_ok_first[OF env_vars_ok]
  table_ok_first[OF domains_ok]
  table_ok_first[OF deployments_ok]
  table_ok_first[OF templates_ok]
  table_ok_first[OF users_ok]
  table_ok_first[OF invites_ok]
  table_ok_first[OF api_tokens_ok]
  table_ok_first[OF user_roles_ok]
  table_ok_first[OF refresh_tokens_ok]
  table_ok_first[OF jwt_keys_ok]

lemmas wp_insert [wp_rules] =
  table_ok_insert[OF workspaces_ok]
  table_ok_insert[OF environments_ok]
  table_ok_insert[OF servers_ok]
  table_ok_insert[OF app_services_ok]
  table_ok_insert[OF credentials_ok]
  table_ok_insert[OF env_vars_ok]
  table_ok_insert[OF domains_ok]
  table_ok_insert[OF deployments_ok]
  table_ok_insert[OF templates_ok]
  table_ok_insert[OF users_ok]
  table_ok_insert[OF invites_ok]
  table_ok_insert[OF api_tokens_ok]
  table_ok_insert[OF user_roles_ok]
  table_ok_insert[OF refresh_tokens_ok]
  table_ok_insert[OF jwt_keys_ok]

lemmas wp_update [wp_rules] =
  table_ok_update[OF servers_ok]
  table_ok_update[OF users_ok]
  table_ok_update[OF invites_ok]
  table_ok_update[OF api_tokens_ok]
  table_ok_update[OF refresh_tokens_ok]
  table_ok_update[OF jwt_keys_ok]

lemmas wp_tx [wp_rules] = wp_transaction wp_commit

subsection \<open>Server errors\<close>

definition server_error :: "exn \<Rightarrow> bool" where
  "server_error e \<longleftrightarrow> (\<exists>m. e = Api (Internal m))"

lemma server_error_simps [simp]:
  "server_error (map_toasty_error e)" "server_error (Api (Internal m))"
  "\<not> server_error (Api Unauthorized)" "\<not> server_error (Api Forbidden)"
  "\<not> server_error (Api (NotFound m))" "\<not> server_error (Api (BadRequest m))"
  "\<not> server_error Panicked" "\<not> server_error (Rejected s m)"
  by (simp_all add: server_error_def map_toasty_error_def)

end
