(* ===== verification/Auth.thy ===== *)
theory Auth
  imports Config
begin

section \<open>Authentication and users: \<open>services/auth.rs\<close>\<close>

text \<open>
  The operations of \<open>AuthService\<close>, in the order of dependence rather than of the source: pure
  helpers, reads of the store, tokens, sessions, invitations, users, API tokens, start-up, and
  the two extractors.  What they guarantee is in the theories \<open>Auth_Access\<close>, \<open>Auth_Sessions\<close>
  and \<open>Auth_Users\<close>.
\<close>

subsection \<open>Inputs and outputs\<close>

record login_input =
  li_email :: string
  li_password :: string

record login_output =
  lo_token :: string
  lo_refresh_token :: string
  lo_user :: user

record invite_user_input =
  ii_inviter :: user
  ii_workspace_id :: uuid
  ii_email :: string
  ii_name :: string
  ii_role :: role

record invite_user_output =
  io_user :: user
  io_invite_link :: string
  io_expires_at :: datetime

record accept_invite_input =
  ai_token :: string
  ai_password :: string

record refresh_session_input =
  rs_refresh_token :: string

record logout_input =
  lg_refresh_token :: string

record create_api_token_input =
  ca_user :: user
  ca_name :: string

record create_api_token_output =
  co_token :: string
  co_api_token :: user_api_token_record

record change_user_role_input =
  cr_user_id :: uuid
  cr_role :: role

record claims =
  cl_jti :: string
  cl_ret :: string
  cl_sub :: string
  cl_email :: string
  cl_role :: string
  cl_iss :: string
  cl_aud :: string
  cl_iat :: u64
  cl_exp :: u64

record refresh_claims =
  rc_jti :: string
  rc_sub :: string
  rc_typ :: string
  rc_iss :: string
  rc_aud :: string
  rc_iat :: u64
  rc_exp :: u64

record refresh_token_issue =
  ri_token :: string
  ri_record :: user_refresh_token_record

record auth_service =
  as_db :: database
  as_config :: config

text \<open>The derived \<open>Serialize\<close> and \<open>Deserialize\<close> of the claims.\<close>

definition claims_json :: "claims \<Rightarrow> json_object" where
  "claims_json c =
    [(''jti'', JStr (cl_jti c)), (''ret'', JStr (cl_ret c)), (''sub'', JStr (cl_sub c)),
     (''email'', JStr (cl_email c)), (''role'', JStr (cl_role c)), (''iss'', JStr (cl_iss c)),
     (''aud'', JStr (cl_aud c)), (''iat'', JNum (unat (cl_iat c))),
     (''exp'', JNum (unat (cl_exp c)))]"

definition claims_from_json :: "json_object \<Rightarrow> claims option" where
  "claims_from_json obj =
    (case (json_str obj ''jti'', json_str obj ''ret'', json_str obj ''sub'',
           json_str obj ''email'', json_str obj ''role'', json_str obj ''iss'',
           json_str obj ''aud'', json_u64 obj ''iat'', json_u64 obj ''exp'') of
       (Some jti, Some ret, Some sub, Some email, Some role, Some iss, Some aud,
        Some iat, Some ex) \<Rightarrow>
         Some \<lparr>cl_jti = jti, cl_ret = ret, cl_sub = sub, cl_email = email, cl_role = role,
               cl_iss = iss, cl_aud = aud, cl_iat = iat, cl_exp = ex\<rparr>
     | _ \<Rightarrow> None)"

definition refresh_claims_json :: "refresh_claims \<Rightarrow> json_object" where
  "refresh_claims_json c =
    [(''jti'', JStr (rc_jti c)), (''sub'', JStr (rc_sub c)), (''typ'', JStr (rc_typ c)),
     (''iss'', JStr (rc_iss c)), (''aud'', JStr (rc_aud c)), (''iat'', JNum (unat (rc_iat c))),
     (''exp'', JNum (unat (rc_exp c)))]"

definition refresh_claims_from_json :: "json_object \<Rightarrow> refresh_claims option" where
  "refresh_claims_from_json obj =
    (case (json_str obj ''jti'', json_str obj ''sub'', json_str obj ''typ'',
           json_str obj ''iss'', json_str obj ''aud'', json_u64 obj ''iat'',
           json_u64 obj ''exp'') of
       (Some jti, Some sub, Some typ, Some iss, Some aud, Some iat, Some ex) \<Rightarrow>
         Some \<lparr>rc_jti = jti, rc_sub = sub, rc_typ = typ, rc_iss = iss, rc_aud = aud,
               rc_iat = iat, rc_exp = ex\<rparr>
     | _ \<Rightarrow> None)"

subsection \<open>Pure helpers\<close>

abbreviation unauthorized :: "('w, exn, 'b) io" where
  "unauthorized \<equiv> throwE (Api Unauthorized)"

definition can_access_workspace :: "user \<Rightarrow> uuid \<Rightarrow> bool" where
  "can_access_workspace user workspace_id \<longleftrightarrow>
    u_role user = SuperAdmin \<or>
    list_ex (\<lambda>role. wro_workspace_id role = workspace_id) (u_workspace_roles user)"

definition can_administer_workspace :: "user \<Rightarrow> uuid \<Rightarrow> bool" where
  "can_administer_workspace user workspace_id \<longleftrightarrow>
    u_role user = SuperAdmin \<or>
    list_ex (\<lambda>role. wro_workspace_id role = workspace_id \<and> wro_role role = Admin)
      (u_workspace_roles user)"

definition ensure_workspace_access :: "user \<Rightarrow> uuid \<Rightarrow> exn + unit" where
  "ensure_workspace_access user workspace_id =
    (if can_access_workspace user workspace_id then Inr () else Inl (Api Forbidden))"

definition ensure_super_admin :: "user \<Rightarrow> exn + unit" where
  "ensure_super_admin user =
    (if u_role user = SuperAdmin then Inr () else Inl (Api Forbidden))"

definition hash_password :: "('w, 'a) ext_scheme \<Rightarrow> string \<Rightarrow> ('w, exn, string) io" where
  "hash_password X password =
    map_errE (\<lambda>error. Api (Internal (''failed to hash password: '' @ error)))
      (x_argon2_hash X (as_bytes password))"

definition verify_password :: "'a prims_scheme \<Rightarrow> string \<Rightarrow> string \<Rightarrow> exn + unit" where
  "verify_password P password password_hash =
    (if \<not> phc_parses P password_hash then Inl (Api Unauthorized)
     else if argon2_verifies P (as_bytes password) password_hash then Inr ()
     else Inl (Api Unauthorized))"

definition generate_invite_token :: "('w, 'a) ext_scheme \<Rightarrow> ('w, exn, string) io" where
  "generate_invite_token X =
    bindE (effectE (x_random32 X)) (\<lambda>bytes. returnE (b64url_encode X bytes))"

definition generate_api_token :: "('w, 'a) ext_scheme \<Rightarrow> ('w, exn, string) io" where
  "generate_api_token X =
    bindE (effectE (x_random32 X)) (\<lambda>bytes. returnE (''wara_'' @ b64url_encode X bytes))"

definition hash_invite_token :: "'a prims_scheme \<Rightarrow> string \<Rightarrow> string" where
  "hash_invite_token P token = b64url_encode P (sha256 P (as_bytes token))"

definition hash_api_token :: "'a prims_scheme \<Rightarrow> string \<Rightarrow> string" where
  "hash_api_token P token = b64url_encode P (sha256 P (as_bytes token))"

definition rsa_public_key_components :: "'a prims_scheme \<Rightarrow> string \<Rightarrow> exn + string \<times> string" where
  "rsa_public_key_components P public_key_pem =
    (case rsa_public_key_parts P public_key_pem of
       Inl error \<Rightarrow> Inl (Api (Internal (''invalid JWT public key PEM: '' @ error)))
     | Inr (n, e) \<Rightarrow> Inr (b64url_encode P n, b64url_encode P e))"

definition token_prefix :: "string \<Rightarrow> string" where
  "token_prefix token = chars_take 12 token"

definition invite_link :: "string \<Rightarrow> string \<Rightarrow> string" where
  "invite_link app_base_url token =
    trim_end_matches (CHR ''/'') app_base_url @ ''/accept-invite?token='' @ token"

definition parse_rfc3339 :: "'a prims_scheme \<Rightarrow> string \<Rightarrow> exn + datetime" where
  "parse_rfc3339 P s =
    map_err (\<lambda>error. Api (Internal (''invalid timestamp: '' @ error))) (parse_from_rfc3339 P s)"

text \<open>\<open>now + Duration::seconds(ttl as i64)\<close>: a cast, and a panic if the sum is out of range.\<close>

definition after_seconds :: "'a prims_scheme \<Rightarrow> datetime \<Rightarrow> u64 \<Rightarrow> exn + datetime" where
  "after_seconds P t ttl = ok_or Panicked (add_seconds P t (sint ttl))"

text \<open>\<open>max_by\<close>: the last of the greatest elements.\<close>

fun max_by_key :: "('a \<Rightarrow> 'k :: linorder) \<Rightarrow> 'a list \<Rightarrow> 'a option" where
  "max_by_key f [] = None"
| "max_by_key f (x # xs) = Some (fold (\<lambda>y best. if f best \<le> f y then y else best) xs x)"

subsection \<open>Reads\<close>

definition get_user_record ::
  "('w, 'a) ext_scheme \<Rightarrow> auth_service \<Rightarrow> uuid \<Rightarrow> ('w, exn, user_record) io" where
  "get_user_record X S i =
    bindE (db_handle (as_db S)) (\<lambda>_.
    bindE (db_first (x_users X) Conn (\<lambda>r. ur_id r = i)) (\<lambda>record.
    liftE (ok_or (Api Unauthorized) record)))"

definition user_from_record ::
  "('w, 'a) ext_scheme \<Rightarrow> auth_service \<Rightarrow> user_record \<Rightarrow> ('w, exn, user) io" where
  "user_from_record X S record =
    (let user_id = ur_id record; user = user_of record in
     if u_role user = SuperAdmin then returnE user
     else bindE (db_handle (as_db S)) (\<lambda>_.
       bindE (db_select (x_user_roles X) Conn (\<lambda>r. wu_user_id r = user_id)) (\<lambda>roles.
       returnE (user\<lparr>u_workspace_roles := map workspace_role_of roles\<rparr>))))"

definition get_user :: "('w, 'a) ext_scheme \<Rightarrow> auth_service \<Rightarrow> uuid \<Rightarrow> ('w, exn, user) io" where
  "get_user X S i = bindE (get_user_record X S i) (user_from_record X S)"

definition ensure_workspace_exists ::
  "('w, 'a) ext_scheme \<Rightarrow> auth_service \<Rightarrow> uuid \<Rightarrow> ('w, exn, unit) io" where
  "ensure_workspace_exists X S i =
    bindE (db_handle (as_db S)) (\<lambda>_.
    bindE (db_first (x_workspaces X) Conn (\<lambda>r. w_id r = i)) (\<lambda>record.
    liftE (ok_or (Api (NotFound ''workspace'')) (map_option (\<lambda>_. ()) record))))"

definition find_user_by_email ::
  "('w, 'a) ext_scheme \<Rightarrow> auth_service \<Rightarrow> string \<Rightarrow> ('w, exn, user_record) io" where
  "find_user_by_email X S email =
    bindE (db_handle (as_db S)) (\<lambda>_.
    bindE (db_first (x_users X) Conn (\<lambda>r. ur_email r = email)) (\<lambda>record.
    liftE (ok_or (Api Unauthorized) record)))"

definition find_open_invite ::
  "('w, 'a) ext_scheme \<Rightarrow> auth_service \<Rightarrow> string \<Rightarrow> ('w, exn, user_invite_record) io" where
  "find_open_invite X S token_hash =
    bindE (db_handle (as_db S)) (\<lambda>_.
    bindE (db_first (x_invites X) Conn (\<lambda>r. ui_token_hash r = token_hash)) (\<lambda>record.
    bindE (liftE (ok_or (Api Unauthorized) record)) (\<lambda>invite.
    if ui_accepted_at invite \<noteq> [] then unauthorized else returnE invite)))"

definition active_super_admin_count ::
  "('w, 'a) ext_scheme \<Rightarrow> auth_service \<Rightarrow> ('w, exn, nat) io" where
  "active_super_admin_count X S =
    bindE (db_handle (as_db S)) (\<lambda>_.
    bindE (db_select (x_users X) Conn (\<lambda>r. ur_role r = role_str SuperAdmin)) (\<lambda>records.
    returnE (length (filter (\<lambda>r. ur_status r = user_status_str Active) records))))"

subsection \<open>Signing keys\<close>

definition valid_jwk_metadata :: "jwt_public_key_record \<Rightarrow> bool" where
  "valid_jwk_metadata r \<longleftrightarrow>
    jk_key_type r = ''RSA'' \<and> jk_key_use r = ''sig'' \<and> jk_algorithm r = ''RS256''"

definition jwt_public_key_record ::
  "('w, 'a) ext_scheme \<Rightarrow> auth_service \<Rightarrow> uuid \<Rightarrow> ('w, exn, jwt_public_key_record) io" where
  "jwt_public_key_record X S key_id =
    bindE (db_handle (as_db S)) (\<lambda>_.
    bindE (db_first (x_jwt_keys X) Conn (\<lambda>r. jk_id r = key_id)) (\<lambda>record.
    bindE (liftE (ok_or (Api Unauthorized) record)) (\<lambda>record.
    if \<not> valid_jwk_metadata record then unauthorized else returnE record)))"

definition active_jwt_public_key_record ::
  "('w, 'a) ext_scheme \<Rightarrow> auth_service \<Rightarrow> ('w, exn, jwt_public_key_record) io" where
  "active_jwt_public_key_record X S =
    bindE (db_handle (as_db S)) (\<lambda>_.
    bindE (db_select (x_jwt_keys X) Conn (\<lambda>_. True)) (\<lambda>records.
    bindE (liftE (ok_or (Api (Internal ''active JWT public key is missing''))
        (max_by_key jk_created_at (filter jk_is_active records)))) (\<lambda>record.
    if \<not> valid_jwk_metadata record
    then throwE (Api (Internal ''active JWT public key has invalid JWK metadata''))
    else returnE record)))"

definition decoding_key_for_token ::
  "('w, 'a) ext_scheme \<Rightarrow> auth_service \<Rightarrow> string \<Rightarrow> ('w, exn, decoding_key) io" where
  "decoding_key_for_token X S token =
    bindE (liftE (map_err (\<lambda>_. Api Unauthorized) (jwt_decode_header X token))) (\<lambda>header.
    bindE (liftE (ok_or (Api Unauthorized) (kid header))) (\<lambda>key_id.
    bindE (liftE (ok_or (Api Unauthorized) (uuid_parse X key_id))) (\<lambda>key_id.
    bindE (jwt_public_key_record X S key_id) (\<lambda>record.
    liftE (map_err (\<lambda>error. Api (Internal (''invalid JWT public key components for ''
          @ uuid_to_string X key_id @ '': '' @ error)))
        (decoding_key_from_rsa_components X (jk_modulus record) (jk_exponent record)))))))"

subsection \<open>Tokens\<close>

text \<open>\<open>now + ttl\<close> is a sum of \<open>u64\<close>, which wraps around in a release build.\<close>

definition sign_access_token ::
  "('w, 'a) ext_scheme \<Rightarrow> auth_service \<Rightarrow> user \<Rightarrow> uuid \<Rightarrow> ('w, exn, string) io" where
  "sign_access_token X S user refresh_token_id =
    bindE (effectE (x_timestamp X)) (\<lambda>now.
    bindE (effectE (x_now_v7 X)) (\<lambda>jti.
    let claims = \<lparr>cl_jti = uuid_to_string X jti, cl_ret = uuid_to_string X refresh_token_id,
          cl_sub = uuid_to_string X (u_id user), cl_email = u_email user,
          cl_role = role_str (u_role user), cl_iss = cfg_jwt_issuer (as_config S),
          cl_aud = cfg_jwt_audience (as_config S), cl_iat = now,
          cl_exp = now + cfg_jwt_access_token_ttl_seconds (as_config S)\<rparr> in
    bindE (liftE (map_err (\<lambda>error. Api (Internal (''invalid JWT private key: '' @ error)))
        (encoding_key_from_rsa_pem X (cfg_jwt_private_key_pem (as_config S))))) (\<lambda>key.
    bindE (active_jwt_public_key_record X S) (\<lambda>active_key.
    liftE (map_err (\<lambda>error. Api (Internal (''failed to sign JWT: '' @ error)))
        (jwt_encode X \<lparr>kid = Some (uuid_to_string X (jk_id active_key))\<rparr>
          (claims_json claims) key))))))"

definition sign_refresh_token ::
  "('w, 'a) ext_scheme \<Rightarrow> auth_service \<Rightarrow> uuid \<Rightarrow> uuid \<Rightarrow> datetime \<Rightarrow> datetime \<Rightarrow>
   ('w, exn, string) io" where
  "sign_refresh_token X S refresh_token_id user_id issued_at expires_at =
    (let claims = \<lparr>rc_jti = uuid_to_string X refresh_token_id, rc_sub = uuid_to_string X user_id,
          rc_typ = ''refresh'', rc_iss = cfg_jwt_issuer (as_config S),
          rc_aud = cfg_jwt_audience (as_config S),
          rc_iat = word_of_int (timestamp X issued_at),
          rc_exp = word_of_int (timestamp X expires_at)\<rparr> in
    bindE (liftE (map_err (\<lambda>error. Api (Internal (''invalid JWT private key: '' @ error)))
        (encoding_key_from_rsa_pem X (cfg_jwt_private_key_pem (as_config S))))) (\<lambda>key.
    bindE (active_jwt_public_key_record X S) (\<lambda>active_key.
    liftE (map_err (\<lambda>error. Api (Internal (''failed to sign refresh JWT: '' @ error)))
        (jwt_encode X \<lparr>kid = Some (uuid_to_string X (jk_id active_key))\<rparr>
          (refresh_claims_json claims) key)))))"

definition verify_access_token ::
  "('w, 'a) ext_scheme \<Rightarrow> auth_service \<Rightarrow> string \<Rightarrow> ('w, exn, claims) io" where
  "verify_access_token X S token =
    bindE (decoding_key_for_token X S token) (\<lambda>key.
    let v = \<lparr>v_audience = [cfg_jwt_audience (as_config S)],
             v_issuer = [cfg_jwt_issuer (as_config S)],
             v_required = [''exp'', ''iss'', ''aud'', ''sub'']\<rparr> in
    bindE (map_errE (\<lambda>_. Api Unauthorized) (x_jwt_decode X token key v)) (\<lambda>obj.
    liftE (ok_or (Api Unauthorized) (claims_from_json obj))))"

definition verify_refresh_token ::
  "('w, 'a) ext_scheme \<Rightarrow> auth_service \<Rightarrow> string \<Rightarrow> ('w, exn, refresh_claims) io" where
  "verify_refresh_token X S token =
    bindE (decoding_key_for_token X S token) (\<lambda>key.
    let v = \<lparr>v_audience = [cfg_jwt_audience (as_config S)],
             v_issuer = [cfg_jwt_issuer (as_config S)],
             v_required = [''exp'', ''iss'', ''aud'', ''sub'', ''jti'']\<rparr> in
    bindE (map_errE (\<lambda>_. Api Unauthorized) (x_jwt_decode X token key v)) (\<lambda>obj.
    bindE (liftE (ok_or (Api Unauthorized) (refresh_claims_from_json obj))) (\<lambda>claims.
    if rc_typ claims \<noteq> ''refresh'' then unauthorized else returnE claims)))"

definition issue_refresh_token ::
  "('w, 'a) ext_scheme \<Rightarrow> auth_service \<Rightarrow> executor \<Rightarrow> uuid \<Rightarrow> ('w, exn, refresh_token_issue) io" where
  "issue_refresh_token X S ex user_id =
    bindE (effectE (x_now_v7 X)) (\<lambda>i.
    bindE (effectE (x_now X)) (\<lambda>now.
    bindE (liftE (after_seconds X now (cfg_refresh_token_ttl_seconds (as_config S))))
      (\<lambda>expires_at.
    bindE (db_insert (x_refresh_tokens X) ex
        \<lparr>rt_id = i, rt_user_id = user_id, rt_created_at = to_rfc3339 X now,
         rt_expires_at = to_rfc3339 X expires_at, rt_revoked_at = None\<rparr>) (\<lambda>record.
    bindE (sign_refresh_token X S i user_id now expires_at) (\<lambda>raw_token.
    returnE \<lparr>ri_token = raw_token, ri_record = record\<rparr>)))))"

definition active_refresh_token_record ::
  "('w, 'a) ext_scheme \<Rightarrow> auth_service \<Rightarrow> string \<Rightarrow> ('w, exn, user_refresh_token_record) io" where
  "active_refresh_token_record X S token =
    bindE (verify_refresh_token X S token) (\<lambda>claims.
    bindE (liftE (ok_or (Api Unauthorized) (uuid_parse X (rc_jti claims)))) (\<lambda>token_id.
    bindE (liftE (ok_or (Api Unauthorized) (uuid_parse X (rc_sub claims)))) (\<lambda>user_id.
    bindE (db_handle (as_db S)) (\<lambda>_.
    bindE (db_first (x_refresh_tokens X) Conn (\<lambda>r. rt_id r = token_id)) (\<lambda>record.
    bindE (liftE (ok_or (Api Unauthorized) record)) (\<lambda>record.
    if rt_user_id record \<noteq> user_id then unauthorized
    else if rt_revoked_at record \<noteq> None then unauthorized
    else bindE (liftE (parse_rfc3339 X (rt_expires_at record))) (\<lambda>expires_at.
      bindE (effectE (x_now X)) (\<lambda>now.
      if expires_at \<le> now then unauthorized else returnE record))))))))"

subsection \<open>Sessions\<close>

definition login ::
  "('w, 'a) ext_scheme \<Rightarrow> auth_service \<Rightarrow> login_input \<Rightarrow> ('w, exn, login_output) io" where
  "login X S input =
    bindE (find_user_by_email X S (li_email input)) (\<lambda>user_record.
    if ur_status user_record \<noteq> user_status_str Active then unauthorized
    else if ur_password_hash user_record = [] then unauthorized
    else bindE (liftE (verify_password X (li_password input) (ur_password_hash user_record))) (\<lambda>_.
      bindE (user_from_record X S user_record) (\<lambda>user.
      bindE (db_handle (as_db S)) (\<lambda>_.
      bindE (issue_refresh_token X S Conn (u_id user)) (\<lambda>refresh_token.
      bindE (sign_access_token X S user (rt_id (ri_record refresh_token))) (\<lambda>token.
      returnE \<lparr>lo_token = token, lo_refresh_token = ri_token refresh_token, lo_user = user\<rparr>))))))"

definition refresh_session ::
  "('w, 'a) ext_scheme \<Rightarrow> auth_service \<Rightarrow> refresh_session_input \<Rightarrow> ('w, exn, login_output) io" where
  "refresh_session X S input =
    bindE (active_refresh_token_record X S (rs_refresh_token input)) (\<lambda>record.
    bindE (get_user_record X S (rt_user_id record)) (\<lambda>user_record.
    if ur_status user_record \<noteq> user_status_str Active then unauthorized
    else bindE (user_from_record X S user_record) (\<lambda>user.
      bindE (db_handle (as_db S)) (\<lambda>_.
      bindE (db_transaction X) (\<lambda>_.
      bindE (issue_refresh_token X S Tx (u_id user)) (\<lambda>refresh_token.
      bindE (effectE (x_now X)) (\<lambda>now.
      bindE (db_update (x_refresh_tokens X) Tx (\<lambda>r. rt_id r = rt_id record)
          [(4, VText (to_rfc3339 X now))]) (\<lambda>_.
      bindE (db_commit X) (\<lambda>_.
      bindE (sign_access_token X S user (rt_id (ri_record refresh_token))) (\<lambda>token.
      returnE \<lparr>lo_token = token, lo_refresh_token = ri_token refresh_token,
               lo_user = user\<rparr>))))))))))"

definition logout ::
  "('w, 'a) ext_scheme \<Rightarrow> auth_service \<Rightarrow> logout_input \<Rightarrow> ('w, exn, unit) io" where
  "logout X S input =
    bindE (active_refresh_token_record X S (lg_refresh_token input)) (\<lambda>record.
    bindE (db_handle (as_db S)) (\<lambda>_.
    bindE (effectE (x_now X)) (\<lambda>now.
    db_update (x_refresh_tokens X) Conn (\<lambda>r. rt_id r = rt_id record)
      [(4, VText (to_rfc3339 X now))])))"

definition authenticate_api_token ::
  "('w, 'a) ext_scheme \<Rightarrow> auth_service \<Rightarrow> string \<Rightarrow> ('w, exn, user) io" where
  "authenticate_api_token X S token =
    (if \<not> starts_with token ''wara_'' then unauthorized
     else let token_hash = hash_api_token X token in
      bindE (db_handle (as_db S)) (\<lambda>_.
      bindE (db_first (x_api_tokens X) Conn (\<lambda>r. ut_token_hash r = token_hash)) (\<lambda>record.
      bindE (liftE (ok_or (Api Unauthorized) record)) (\<lambda>record.
      if ut_revoked_at record \<noteq> None then unauthorized
      else bindE (get_user_record X S (ut_user_id record)) (\<lambda>user_record.
        if ur_status user_record \<noteq> user_status_str Active then unauthorized
        else bindE (effectE (x_now X)) (\<lambda>now.
          bindE (db_update (x_api_tokens X) Conn (\<lambda>r. ut_id r = ut_id record)
              [(7, VText (to_rfc3339 X now))]) (\<lambda>_.
          user_from_record X S user_record)))))))"

definition authenticate_bearer ::
  "('w, 'a) ext_scheme \<Rightarrow> auth_service \<Rightarrow> string \<Rightarrow> ('w, exn, user) io" where
  "authenticate_bearer X S token =
    matchE (verify_access_token X S token)
      (\<lambda>claims.
        bindE (liftE (ok_or (Api Unauthorized) (uuid_parse X (cl_sub claims)))) (\<lambda>user_id.
        bindE (get_user_record X S user_id) (\<lambda>user_record.
        if ur_status user_record \<noteq> user_status_str Active then unauthorized
        else user_from_record X S user_record)))
      (\<lambda>error.
        if error = Api Unauthorized then authenticate_api_token X S token else throwE error)"

subsection \<open>Invitations\<close>

text \<open>\<open>result.is_ok()\<close>: every API error counts as no; a panic is not caught.\<close>

definition is_okE :: "('w, exn, 'b) io \<Rightarrow> ('w, exn, bool) io" where
  "is_okE m = matchE m (\<lambda>_. returnE True)
    (\<lambda>e. case e of Api _ \<Rightarrow> returnE False | _ \<Rightarrow> throwE e)"

definition invite_user ::
  "('w, 'a) ext_scheme \<Rightarrow> auth_service \<Rightarrow> invite_user_input \<Rightarrow> ('w, exn, invite_user_output) io" where
  "invite_user X S input =
    (if ii_role input = SuperAdmin
     then throwE (Api (BadRequest ''super_admin is a global bootstrap-only role''))
     else if \<not> can_administer_workspace (ii_inviter input) (ii_workspace_id input)
     then throwE (Api Forbidden)
     else bindE (is_okE (find_user_by_email X S (ii_email input))) (\<lambda>exists.
      if exists then throwE (Api (BadRequest ''user already exists''))
      else bindE (ensure_workspace_exists X S (ii_workspace_id input)) (\<lambda>_.
      bindE (effectE (x_now X)) (\<lambda>now.
      bindE (liftE (after_seconds X now (cfg_invite_token_ttl_seconds (as_config S))))
        (\<lambda>expires_at.
      bindE (generate_invite_token X) (\<lambda>raw_token.
      bindE (db_handle (as_db S)) (\<lambda>_.
      bindE (db_transaction X) (\<lambda>_.
      bindE (effectE (x_now_v7 X)) (\<lambda>user_id.
      bindE (db_insert (x_users X) Tx
          \<lparr>ur_id = user_id, ur_email = ii_email input, ur_name = ii_name input,
           ur_role = role_str Viewer, ur_status = user_status_str Invited,
           ur_password_hash = []\<rparr>) (\<lambda>user_record.
      bindE (effectE (x_now_v7 X)) (\<lambda>invite_id.
      bindE (db_insert (x_invites X) Tx
          \<lparr>ui_id = invite_id, ui_user_id = ur_id user_record,
           ui_token_hash = hash_invite_token X raw_token,
           ui_expires_at = to_rfc3339 X expires_at, ui_accepted_at = [],
           ui_created_at = to_rfc3339 X now\<rparr>) (\<lambda>_.
      bindE (effectE (x_now_v7 X)) (\<lambda>role_id.
      bindE (db_insert (x_user_roles X) Tx
          \<lparr>wu_id = role_id, wu_user_id = ur_id user_record,
           wu_workspace_id = ii_workspace_id input, wu_role = role_str (ii_role input)\<rparr>)
        (\<lambda>workspace_role.
      bindE (db_commit X) (\<lambda>_.
      returnE \<lparr>io_user = (user_of user_record)\<lparr>u_workspace_roles := [workspace_role_of workspace_role]\<rparr>,
               io_invite_link = invite_link (cfg_app_base_url (as_config S)) raw_token,
               io_expires_at = expires_at\<rparr>)))))))))))))))"

definition accept_invite ::
  "('w, 'a) ext_scheme \<Rightarrow> auth_service \<Rightarrow> accept_invite_input \<Rightarrow> ('w, exn, login_output) io" where
  "accept_invite X S input =
    bindE (find_open_invite X S (hash_invite_token X (ai_token input))) (\<lambda>invite.
    bindE (liftE (parse_rfc3339 X (ui_expires_at invite))) (\<lambda>expires_at.
    bindE (effectE (x_now X)) (\<lambda>now.
    if expires_at < now then unauthorized
    else bindE (get_user_record X S (ui_user_id invite)) (\<lambda>user.
      if ur_status user = user_status_str Active
      then throwE (Api (BadRequest ''invite has already been accepted''))
      else if ur_status user = user_status_str Disabled then unauthorized
      else bindE (hash_password X (ai_password input)) (\<lambda>password_hash.
        bindE (db_handle (as_db S)) (\<lambda>_.
        bindE (db_update (x_users X) Conn (\<lambda>r. ur_id r = ui_user_id invite)
            [(4, VText (user_status_str Active)), (5, VText password_hash)]) (\<lambda>_.
        bindE (effectE (x_now X)) (\<lambda>accepted_at.
        bindE (db_update (x_invites X) Conn (\<lambda>r. ui_id r = ui_id invite)
            [(4, VText (to_rfc3339 X accepted_at))]) (\<lambda>_.
        bindE (get_user X S (ui_user_id invite)) (\<lambda>user.
        bindE (issue_refresh_token X S Conn (u_id user)) (\<lambda>refresh_token.
        bindE (sign_access_token X S user (rt_id (ri_record refresh_token))) (\<lambda>token.
        returnE \<lparr>lo_token = token, lo_refresh_token = ri_token refresh_token,
                 lo_user = user\<rparr>))))))))))))"

subsection \<open>Users\<close>

definition list_users :: "('w, 'a) ext_scheme \<Rightarrow> auth_service \<Rightarrow> ('w, exn, user list) io" where
  "list_users X S =
    bindE (db_handle (as_db S)) (\<lambda>_.
    bindE (db_select (x_users X) Conn (\<lambda>_. True)) (\<lambda>records.
    mapE (user_from_record X S) records))"

definition update_user_status ::
  "('w, 'a) ext_scheme \<Rightarrow> auth_service \<Rightarrow> uuid \<Rightarrow> user_status \<Rightarrow> ('w, exn, user) io" where
  "update_user_status X S user_id status =
    bindE (db_handle (as_db S)) (\<lambda>_.
    bindE (db_update (x_users X) Conn (\<lambda>r. ur_id r = user_id)
        [(4, VText (user_status_str status))]) (\<lambda>_.
    get_user X S user_id))"

definition disable_user :: "('w, 'a) ext_scheme \<Rightarrow> auth_service \<Rightarrow> uuid \<Rightarrow> ('w, exn, user) io" where
  "disable_user X S user_id =
    bindE (get_user_record X S user_id) (\<lambda>record.
    if ur_status record = user_status_str Disabled then user_from_record X S record
    else bindE (if ur_role record = role_str SuperAdmin
                then bindE (active_super_admin_count X S) (\<lambda>n. returnE (n \<le> 1))
                else returnE False) (\<lambda>last.
      if last then throwE (Api (BadRequest ''cannot disable the last active platform admin''))
      else update_user_status X S user_id Disabled))"

definition reactivate_user ::
  "('w, 'a) ext_scheme \<Rightarrow> auth_service \<Rightarrow> uuid \<Rightarrow> ('w, exn, user) io" where
  "reactivate_user X S user_id =
    bindE (get_user_record X S user_id) (\<lambda>record.
    if ur_status record \<noteq> user_status_str Disabled
    then throwE (Api (BadRequest ''only disabled users can be reactivated''))
    else if ur_password_hash record = []
    then throwE (Api (BadRequest ''invited users must accept their invite before reactivation''))
    else update_user_status X S user_id Active)"

definition change_user_role ::
  "('w, 'a) ext_scheme \<Rightarrow> auth_service \<Rightarrow> change_user_role_input \<Rightarrow> ('w, exn, user) io" where
  "change_user_role X S input =
    bindE (get_user_record X S (cr_user_id input)) (\<lambda>record.
    bindE (if ur_role record = role_str SuperAdmin \<and> cr_role input \<noteq> SuperAdmin \<and>
              ur_status record = user_status_str Active
           then bindE (active_super_admin_count X S) (\<lambda>n. returnE (n \<le> 1))
           else returnE False) (\<lambda>last.
    if last then throwE (Api (BadRequest ''cannot remove the last active platform admin''))
    else bindE (db_handle (as_db S)) (\<lambda>_.
      bindE (db_update (x_users X) Conn (\<lambda>r. ur_id r = cr_user_id input)
          [(3, VText (role_str (cr_role input)))]) (\<lambda>_.
      get_user X S (cr_user_id input)))))"

subsection \<open>API tokens\<close>

definition create_api_token ::
  "('w, 'a) ext_scheme \<Rightarrow> auth_service \<Rightarrow> create_api_token_input \<Rightarrow>
   ('w, exn, create_api_token_output) io" where
  "create_api_token X S input =
    bindE (generate_api_token X) (\<lambda>raw_token.
    bindE (effectE (x_now X)) (\<lambda>now.
    bindE (db_handle (as_db S)) (\<lambda>_.
    bindE (effectE (x_now_v7 X)) (\<lambda>i.
    bindE (db_insert (x_api_tokens X) Conn
        \<lparr>ut_id = i, ut_user_id = u_id (ca_user input), ut_name = ca_name input,
         ut_token_hash = hash_api_token X raw_token, ut_token_prefix = token_prefix raw_token,
         ut_created_at = to_rfc3339 X now, ut_revoked_at = None, ut_last_used_at = None\<rparr>)
      (\<lambda>record.
    returnE \<lparr>co_token = raw_token, co_api_token = record\<rparr>)))))"

text \<open>A stable sort with the newest first.\<close>

definition sort_by_desc :: "('r \<Rightarrow> 'k :: linorder) \<Rightarrow> 'r list \<Rightarrow> 'r list" where
  "sort_by_desc f rs = rev (sort_key f (rev rs))"

definition list_api_tokens ::
  "('w, 'a) ext_scheme \<Rightarrow> auth_service \<Rightarrow> user \<Rightarrow> ('w, exn, user_api_token_record list) io" where
  "list_api_tokens X S user =
    bindE (db_handle (as_db S)) (\<lambda>_.
    bindE (db_select (x_api_tokens X) Conn (\<lambda>r. ut_user_id r = u_id user)) (\<lambda>records.
    returnE (sort_by_desc ut_created_at records)))"

definition revoke_api_token ::
  "('w, 'a) ext_scheme \<Rightarrow> auth_service \<Rightarrow> user \<Rightarrow> uuid \<Rightarrow> ('w, exn, user_api_token_record) io" where
  "revoke_api_token X S user token_id =
    bindE (db_handle (as_db S)) (\<lambda>_.
    bindE (db_first (x_api_tokens X) Conn (\<lambda>r. ut_id r = token_id)) (\<lambda>record.
    bindE (liftE (ok_or (Api (NotFound ''api token'')) record)) (\<lambda>record.
    if ut_user_id record \<noteq> u_id user then throwE (Api (NotFound ''api token''))
    else bindE (case ut_revoked_at record of
          Some t \<Rightarrow> returnE t
        | None \<Rightarrow> bindE (effectE (x_now X)) (\<lambda>now. returnE (to_rfc3339 X now))) (\<lambda>revoked_at.
      bindE (db_update (x_api_tokens X) Conn (\<lambda>r. ut_id r = token_id)
          [(6, VText revoked_at)]) (\<lambda>_.
      bindE (db_first (x_api_tokens X) Conn (\<lambda>r. ut_id r = token_id)) (\<lambda>record.
      liftE (ok_or (Api (NotFound ''api token'')) record)))))))"

subsection \<open>Keys and start-up\<close>

definition jwks_keys_of ::
  "('w, 'a) ext_scheme \<Rightarrow> auth_service \<Rightarrow> ('w, exn, jwks) io" where
  "jwks_keys_of X S =
    bindE (db_handle (as_db S)) (\<lambda>_.
    bindE (db_select (x_jwt_keys X) Conn (\<lambda>_. True)) (\<lambda>records.
    returnE \<lparr>jwks_keys = map (jwt_public_key_of X) (sort_key jk_created_at records)\<rparr>))"

text \<open>The columns of the key that becomes the active one.\<close>

definition activated_columns :: "string \<Rightarrow> string \<Rightarrow> (nat \<times> sqlval) list" where
  "activated_columns modulus exponent =
    [(1, VText ''RSA''), (2, VText ''sig''), (3, VText ''RS256''), (4, VText modulus),
     (5, VText exponent), (6, VBool True)]"

definition sync_active_jwt_public_key ::
  "('w, 'a) ext_scheme \<Rightarrow> auth_service \<Rightarrow> ('w, exn, unit) io" where
  "sync_active_jwt_public_key X S =
    bindE (db_handle (as_db S)) (\<lambda>_.
    bindE (liftE (rsa_public_key_components X (cfg_jwt_public_key (as_config S)))) (\<lambda>(modulus, exponent).
    bindE (db_select (x_jwt_keys X) Conn (\<lambda>_. True)) (\<lambda>records.
    bindE (case find (\<lambda>r. jk_modulus r = modulus \<and> jk_exponent r = exponent) records of
          Some r \<Rightarrow> returnE (jk_id r)
        | None \<Rightarrow> effectE (x_now_v7 X)) (\<lambda>active_key_id.
    bindE (db_update (x_jwt_keys X) Conn jk_is_active [(6, VBool False)]) (\<lambda>_.
    bindE (db_first (x_jwt_keys X) Conn (\<lambda>r. jk_id r = active_key_id)) (\<lambda>existing.
    if existing \<noteq> None
    then db_update (x_jwt_keys X) Conn (\<lambda>r. jk_id r = active_key_id)
      (activated_columns modulus exponent)
    else bindE (effectE (x_now X)) (\<lambda>now.
      bindE (db_insert (x_jwt_keys X) Conn
        \<lparr>jk_id = active_key_id, jk_key_type = ''RSA'', jk_key_use = ''sig'',
         jk_algorithm = ''RS256'', jk_modulus = modulus, jk_exponent = exponent,
         jk_is_active = True, jk_created_at = to_rfc3339 X now\<rparr>) (\<lambda>_. returnE ()))))))))"

definition bootstrap_admin :: "('w, 'a) ext_scheme \<Rightarrow> auth_service \<Rightarrow> ('w, exn, unit) io" where
  "bootstrap_admin X S =
    bindE (sync_active_jwt_public_key X S) (\<lambda>_.
    bindE (db_handle (as_db S)) (\<lambda>_.
    bindE (db_select (x_users X) Conn (\<lambda>_. True)) (\<lambda>users.
    if users \<noteq> [] then returnE ()
    else bindE (hash_password X (cfg_bootstrap_admin_password (as_config S))) (\<lambda>password_hash.
      bindE (effectE (x_now_v7 X)) (\<lambda>i.
      bindE (db_insert (x_users X) Conn
          \<lparr>ur_id = i, ur_email = cfg_bootstrap_admin_email (as_config S),
           ur_name = cfg_bootstrap_admin_name (as_config S), ur_role = role_str SuperAdmin,
           ur_status = user_status_str Active, ur_password_hash = password_hash\<rparr>) (\<lambda>_.
      returnE ()))))))"

subsection \<open>The extractors\<close>

text \<open>\<open>state.rs\<close>.\<close>

record app_state =
  st_config :: config
  st_db :: database

definition new_app_state :: "config \<Rightarrow> database \<Rightarrow> app_state" where
  "new_app_state config db = \<lparr>st_config = config, st_db = db\<rparr>"

text \<open>\<open>HeaderValue::to_str\<close>: visible ascii and tabs only.\<close>

definition header_to_str :: "string \<Rightarrow> string option" where
  "header_to_str v =
    (if list_all (\<lambda>c. 32 \<le> byte c \<and> byte c < 127 \<or> byte c = 9) v then Some v else None)"

definition bearer_token :: "string option \<Rightarrow> string option" where
  "bearer_token authorization =
    Option.bind (Option.bind authorization header_to_str) (\<lambda>v. strip_prefix v ''Bearer '')"

definition auth_of_state :: "app_state \<Rightarrow> auth_service" where
  "auth_of_state st = \<lparr>as_db = st_db st, as_config = st_config st\<rparr>"

text \<open>\<open>CurrentUser::from_request_parts\<close>, given the value of the header \<open>authorization\<close>.\<close>

definition current_user ::
  "('w, 'a) ext_scheme \<Rightarrow> app_state \<Rightarrow> string option \<Rightarrow> ('w, exn, user) io" where
  "current_user X st authorization =
    bindE (liftE (ok_or (Api Unauthorized) (bearer_token authorization))) (\<lambda>token.
    authenticate_bearer X (auth_of_state st) token)"

definition admin_user ::
  "('w, 'a) ext_scheme \<Rightarrow> app_state \<Rightarrow> string option \<Rightarrow> ('w, exn, user) io" where
  "admin_user X st authorization =
    bindE (current_user X st authorization) (\<lambda>user.
    if u_role user \<noteq> SuperAdmin then throwE (Api Forbidden) else returnE user)"

end
