(* ===== verification/Auth_Access.thy ===== *)
theory Auth_Access
  imports Auth
begin

section \<open>Who a request is taken for\<close>

text \<open>
  The reads of \<open>services/auth.rs\<close> as weakest preconditions, the check of access tokens, refresh
  tokens and API tokens, and what a caller holds once \<open>authenticate_bearer\<close> has accepted it:
  the user it returns is active and has exactly the rights the store gives it.
\<close>

subsection \<open>Reads leave the store alone\<close>

lemma wp_get_user_record [wp_rules]:
  assumes "store_ok X vw"
    and "\<And>r w'. vw w' = vw w \<Longrightarrow> r \<in> t_users (vw w Conn) \<Longrightarrow> ur_id r = i \<Longrightarrow> Q r w'"
    and "\<And>e w'. vw w' = vw w \<Longrightarrow> server_error e \<or>
      e = Api Unauthorized \<and> (\<forall>r \<in> t_users (vw w Conn). ur_id r \<noteq> i) \<Longrightarrow> E e w'"
  shows "wp (get_user_record X S i) Q E w"
  unfolding get_user_record_def
  by (auto intro!: wp_rules[OF assms(1)] assms(2,3))

lemma wp_find_user_by_email [wp_rules]:
  assumes "store_ok X vw"
    and "\<And>r w'. vw w' = vw w \<Longrightarrow> r \<in> t_users (vw w Conn) \<Longrightarrow> ur_email r = m \<Longrightarrow> Q r w'"
    and "\<And>e w'. vw w' = vw w \<Longrightarrow> server_error e \<or>
      e = Api Unauthorized \<and> (\<forall>r \<in> t_users (vw w Conn). ur_email r \<noteq> m) \<Longrightarrow> E e w'"
  shows "wp (find_user_by_email X S m) Q E w"
  unfolding find_user_by_email_def
  by (auto intro!: wp_rules[OF assms(1)] assms(2,3))

text \<open>
  The value of a user row: its workspace roles are those the store holds for it, or none for a
  platform admin, who needs none.
\<close>

definition user_matches :: "tables \<Rightarrow> user_record \<Rightarrow> user \<Rightarrow> bool" where
  "user_matches T r u \<longleftrightarrow>
    u = (user_of r)\<lparr>u_workspace_roles := u_workspace_roles u\<rparr> \<and>
    set (u_workspace_roles u) =
      (if role_of (ur_role r) = SuperAdmin then {}
       else workspace_role_of ` {x \<in> t_user_roles T. wu_user_id x = ur_id r})"

lemma wp_user_from_record [wp_rules]:
  assumes "store_ok X vw"
    and "\<And>u w'. vw w' = vw w \<Longrightarrow> user_matches (vw w Conn) r u \<Longrightarrow> Q u w'"
    and "\<And>e w'. vw w' = vw w \<Longrightarrow> server_error e \<Longrightarrow> E e w'"
  shows "wp (user_from_record X S r) Q E w"
  unfolding user_from_record_def Let_def
  by (auto intro!: wp_rules[OF assms(1)] assms(2,3) simp: user_matches_def)

lemma wp_get_user [wp_rules]:
  assumes "store_ok X vw"
    and "\<And>r u w'. vw w' = vw w \<Longrightarrow> r \<in> t_users (vw w Conn) \<Longrightarrow> ur_id r = i \<Longrightarrow>
      user_matches (vw w Conn) r u \<Longrightarrow> Q u w'"
    and "\<And>e w'. vw w' = vw w \<Longrightarrow> server_error e \<or>
      e = Api Unauthorized \<and> (\<forall>r \<in> t_users (vw w Conn). ur_id r \<noteq> i) \<Longrightarrow> E e w'"
  shows "wp (get_user X S i) Q E w"
  unfolding get_user_def
  by (auto intro!: wp_get_user_record[OF assms(1)] wp_user_from_record[OF assms(1)] assms(2,3))

lemma wp_jwt_public_key_record [wp_rules]:
  assumes "store_ok X vw"
    and "\<And>r w'. vw w' = vw w \<Longrightarrow> r \<in> t_jwt_keys (vw w Conn) \<Longrightarrow> jk_id r = i \<Longrightarrow>
      valid_jwk_metadata r \<Longrightarrow> Q r w'"
    and "\<And>e w'. vw w' = vw w \<Longrightarrow> server_error e \<or> e = Api Unauthorized \<Longrightarrow> E e w'"
  shows "wp (jwt_public_key_record X S i) Q E w"
  unfolding jwt_public_key_record_def
  by (auto intro!: wp_rules[OF assms(1)] assms(2,3))

lemma wp_active_jwt_public_key_record [wp_rules]:
  assumes "store_ok X vw"
    and "\<And>r w'. vw w' = vw w \<Longrightarrow> Q r w'"
    and "\<And>e w'. vw w' = vw w \<Longrightarrow> server_error e \<Longrightarrow> E e w'"
  shows "wp (active_jwt_public_key_record X S) Q E w"
  unfolding active_jwt_public_key_record_def
  by (auto intro!: wp_rules[OF assms(1)] assms(2,3)
      simp: ok_or_def split: option.splits)

lemma wp_active_super_admin_count [wp_rules]:
  assumes "store_ok X vw"
    and "\<And>w'. vw w' = vw w \<Longrightarrow>
      Q (card {r \<in> t_users (vw w Conn). ur_role r = ''super_admin'' \<and> ur_status r = ''active''}) w'"
    and "\<And>e w'. vw w' = vw w \<Longrightarrow> server_error e \<Longrightarrow> E e w'"
  shows "wp (active_super_admin_count X S) Q E w"
proof -
  have count: "length (filter (\<lambda>r. ur_status r = ''active'') rs) =
      card {r \<in> T. ur_role r = ''super_admin'' \<and> ur_status r = ''active''}"
    if "distinct rs" "set rs = {r \<in> T. ur_role r = ''super_admin''}" for rs T
  proof -
    have "card (set (filter (\<lambda>r. ur_status r = ''active'') rs)) =
        length (filter (\<lambda>r. ur_status r = ''active'') rs)"
      using that(1) by (intro distinct_card distinct_filter)
    moreover have "set (filter (\<lambda>r. ur_status r = ''active'') rs) =
        {r \<in> T. ur_role r = ''super_admin'' \<and> ur_status r = ''active''}"
      unfolding set_filter that(2) by blast
    ultimately show ?thesis by (simp only:)
  qed
  have "Q (length (filter (\<lambda>r. ur_status r = ''active'') rs)) w'"
    if "vw w' = vw w" "distinct rs" "set rs = {r \<in> t_users (vw w Conn). ur_role r = ''super_admin''}"
    for rs w'
    using assms(2)[OF that(1)] count[OF that(2,3)] by simp
  then show ?thesis
    unfolding active_super_admin_count_def
    by (auto intro!: wp_rules[OF assms(1)] assms(3))
qed

lemma wp_decoding_key_for_token [wp_rules]:
  assumes "store_ok X vw"
    and "\<And>h k i r key w'. vw w' = vw w \<Longrightarrow> jwt_decode_header X token = Inr h \<Longrightarrow> kid h = Some k \<Longrightarrow>
      uuid_parse X k = Some i \<Longrightarrow> r \<in> t_jwt_keys (vw w Conn) \<Longrightarrow> jk_id r = i \<Longrightarrow>
      valid_jwk_metadata r \<Longrightarrow>
      decoding_key_from_rsa_components X (jk_modulus r) (jk_exponent r) = Inr key \<Longrightarrow> Q key w'"
    and "\<And>e w'. vw w' = vw w \<Longrightarrow> server_error e \<or> e = Api Unauthorized \<Longrightarrow> E e w'"
  shows "wp (decoding_key_for_token X S token) Q E w"
  unfolding decoding_key_for_token_def
  by (auto intro!: wp_jwt_public_key_record[OF assms(1)] assms(2,3)
      simp: ok_or_def split: sum.splits option.splits)

subsection \<open>Access tokens\<close>

definition access_validation :: "auth_service \<Rightarrow> validation" where
  "access_validation S =
    \<lparr>v_audience = [cfg_jwt_audience (as_config S)], v_issuer = [cfg_jwt_issuer (as_config S)],
     v_required = [''exp'', ''iss'', ''aud'', ''sub'']\<rparr>"

text \<open>
  The token names a stored signing key, its check under that key, the configured audience and
  the configured issuer succeeded at some moment, and its claims are those of an access token.
\<close>

definition access_token_accepted ::
  "('w, 'a) ext_scheme \<Rightarrow> auth_service \<Rightarrow> tables \<Rightarrow> string \<Rightarrow> claims \<Rightarrow> bool" where
  "access_token_accepted X S T token c \<longleftrightarrow>
    (\<exists>h k r key obj w w'.
       jwt_decode_header X token = Inr h \<and> kid h = Some k \<and> uuid_parse X k = Some (jk_id r) \<and>
       r \<in> t_jwt_keys T \<and> valid_jwk_metadata r \<and>
       decoding_key_from_rsa_components X (jk_modulus r) (jk_exponent r) = Inr key \<and>
       x_jwt_decode X token key (access_validation S) w = (Inr obj, w') \<and>
       claims_from_json obj = Some c)"

lemma wp_verify_access_token:
  assumes "store_ok X vw"
    and "\<And>c w'. vw w' = vw w \<Longrightarrow> access_token_accepted X S (vw w Conn) token c \<Longrightarrow> Q c w'"
    and "\<And>e w'. vw w' = vw w \<Longrightarrow> server_error e \<or> e = Api Unauthorized \<Longrightarrow> E e w'"
  shows "wp (verify_access_token X S token) Q E w"
proof -
  have "wp (x_jwt_decode X token key (access_validation S))
      (\<lambda>obj. case ok_or (Api Unauthorized) (claims_from_json obj) of Inl e \<Rightarrow> E e | Inr c \<Rightarrow> Q c)
      (\<lambda>_. E (Api Unauthorized)) w'"
    if "vw w' = vw w" "jwt_decode_header X token = Inr h" "kid h = Some k"
      "uuid_parse X k = Some i" "r \<in> t_jwt_keys (vw w Conn)" "jk_id r = i" "valid_jwk_metadata r"
      "decoding_key_from_rsa_components X (jk_modulus r) (jk_exponent r) = Inr key"
    for h k i r key w'
  proof (rule wp_jwt_decode[OF assms(1)])
    fix obj w2
    assume obj: "x_jwt_decode X token key (access_validation S) w' = (Inr obj, w2)"
      and "vw w2 = vw w'"
    then have w2: "vw w2 = vw w" using that(1) by simp
    show "(case ok_or (Api Unauthorized) (claims_from_json obj) of
        Inl e \<Rightarrow> E e | Inr c \<Rightarrow> Q c) w2"
    proof (cases "claims_from_json obj")
      case None
      then show ?thesis using assms(3)[OF w2] by simp
    next
      case (Some c)
      then have "access_token_accepted X S (vw w Conn) token c"
        unfolding access_token_accepted_def using that obj by blast
      then show ?thesis using assms(2)[OF w2] Some by simp
    qed
  next
    fix e w2 assume "vw w2 = vw w'"
    then show "E (Api Unauthorized) w2" using that(1) assms(3) by simp
  qed
  then show ?thesis
    unfolding verify_access_token_def Let_def access_validation_def
    by (auto intro!: wp_decoding_key_for_token[OF assms(1)] assms(3))
qed

text \<open>Access and refresh tokens have different claims; neither is read as the other.\<close>

lemma claims_of_other_kind:
  "claims_from_json (refresh_claims_json rc) = None"
  "refresh_claims_from_json (claims_json c) = None"
  by (simp_all add: claims_from_json_def refresh_claims_json_def refresh_claims_from_json_def
      claims_json_def json_str_def json_field_def)

lemma claims_round:
  "claims_from_json (claims_json c) = Some c"
  "refresh_claims_from_json (refresh_claims_json rc) = Some rc"
  by (simp_all add: claims_from_json_def claims_json_def refresh_claims_from_json_def
      refresh_claims_json_def json_str_def json_u64_def json_field_def uint_u64_less)

subsection \<open>API tokens\<close>

text \<open>The one write of an authentication: the time of the last use of an API token.\<close>

definition touched :: "tables \<Rightarrow> tables \<Rightarrow> bool" where
  "touched T T' \<longleftrightarrow>
    T' = T \<or> (\<exists>i s. T' = t_api_tokens_update
      ((`) (update_row api_token_set (\<lambda>x. ut_id x = i) [(7, VText s)])) T)"

lemma touched_refl [simp]: "touched T T"
  by (simp add: touched_def)

lemma touched_update [simp]:
  "touched T (t_api_tokens_update
    ((`) (update_row api_token_set (\<lambda>x. ut_id x = i) [(7, VText s)])) T)"
  by (auto simp: touched_def)

lemma touched_other_tables:
  "touched T T' \<Longrightarrow> T' = t_api_tokens_update (\<lambda>_. t_api_tokens T') T"
  by (auto simp: touched_def)

text \<open>An API token is good for a user: stored under its digest, for that user, not revoked.\<close>

definition api_token_accepted :: "'a prims_scheme \<Rightarrow> tables \<Rightarrow> string \<Rightarrow> uuid \<Rightarrow> bool" where
  "api_token_accepted P T token i \<longleftrightarrow>
    prefix ''wara_'' token \<and>
    (\<exists>t \<in> t_api_tokens T. ut_token_hash t = hash_api_token P token \<and> ut_revoked_at t = None \<and>
      ut_user_id t = i)"

lemma user_matches_touched [simp]:
  "user_matches (t_api_tokens_update f T) r u = user_matches T r u"
  by (simp add: user_matches_def)

lemma wp_authenticate_api_token:
  assumes "store_ok X vw"
    and "\<And>r u w' T'. vw w' = (vw w)(Conn := T') \<Longrightarrow> touched (vw w Conn) T' \<Longrightarrow>
      r \<in> t_users (vw w Conn) \<Longrightarrow> ur_status r = ''active'' \<Longrightarrow>
      user_matches (vw w Conn) r u \<Longrightarrow> api_token_accepted X (vw w Conn) token (ur_id r) \<Longrightarrow> Q u w'"
    and "\<And>e w' T'. vw w' = (vw w)(Conn := T') \<Longrightarrow> touched (vw w Conn) T' \<Longrightarrow>
      server_error e \<or> e = Api Unauthorized \<Longrightarrow> E e w'"
  shows "wp (authenticate_api_token X S token) Q E w"
proof -
  have E0: "E e w'" if "vw w' = vw w" "server_error e \<or> e = Api Unauthorized" for e w'
    using assms(3)[where T' = "vw w Conn"] that by simp
  have Q0: "Q u w'"
    if "vw w' = (vw w)(Conn := t_api_tokens_update
        ((`) (update_row api_token_set (\<lambda>x. ut_id x = ut_id t) [(7, VText s)])) (vw w Conn))"
      and "starts_with token ''wara_''" "t \<in> t_api_tokens (vw w Conn)"
      "ut_token_hash t = hash_api_token X token" "ut_revoked_at t = None"
      "r \<in> t_users (vw w Conn)" "ur_id r = ut_user_id t" "ur_status r = ''active''"
      "user_matches (vw w Conn) r u"
    for u w' t s r
  proof (rule assms(2)[OF that(1) touched_update that(6,8,9)])
    show "api_token_accepted X (vw w Conn) token (ur_id r)"
      using that unfolding api_token_accepted_def starts_with_def by auto
  qed
  show ?thesis
    unfolding authenticate_api_token_def Let_def
    by (auto intro!: wp_first[OF assms(1)] wp_get_user_record[OF assms(1)]
        wp_generators[OF assms(1)] wp_update[OF assms(1)] wp_user_from_record[OF assms(1)])
      (fastforce intro: E0 Q0 assms(3)[OF _ touched_update])+
qed

subsection \<open>A bearer\<close>

text \<open>
  What holds of the user an authentication returns: there is an active row of that user, the
  token is a good access token or API token for it, and the rights are those the store has.
\<close>

definition authenticated ::
  "('w, 'a) ext_scheme \<Rightarrow> auth_service \<Rightarrow> string \<Rightarrow> tables \<Rightarrow> user \<Rightarrow> bool" where
  "authenticated X S token T u \<longleftrightarrow>
    (\<exists>r \<in> t_users T. ur_status r = ''active'' \<and> user_matches T r u \<and>
       ((\<exists>c. access_token_accepted X S T token c \<and> uuid_parse X (cl_sub c) = Some (ur_id r)) \<or>
        api_token_accepted X T token (ur_id r)))"

lemma wp_authenticate_bearer:
  assumes "store_ok X vw"
    and Q: "\<And>u w' T'. vw w' = (vw w)(Conn := T') \<Longrightarrow> touched (vw w Conn) T' \<Longrightarrow>
      authenticated X S token (vw w Conn) u \<Longrightarrow> Q u w'"
    and E: "\<And>e w' T'. vw w' = (vw w)(Conn := T') \<Longrightarrow> touched (vw w Conn) T' \<Longrightarrow>
      server_error e \<or> e = Api Unauthorized \<Longrightarrow> E e w'"
  shows "wp (authenticate_bearer X S token) Q E w"
proof -
  have E0: "E e w'" if "vw w' = vw w" "server_error e \<or> e = Api Unauthorized" for e w'
    using E[where T' = "vw w Conn"] that by simp
  have jwt: "Q u w'"
    if "vw w' = vw w" "access_token_accepted X S (vw w Conn) token c"
      "uuid_parse X (cl_sub c) = Some (ur_id r)" "r \<in> t_users (vw w Conn)"
      "ur_status r = ''active''" "user_matches (vw w Conn) r u" for u w' c r
  proof (rule Q[where T' = "vw w Conn"])
    show "authenticated X S token (vw w Conn) u"
      unfolding authenticated_def using that by blast
  qed (simp_all add: that(1))
  have api: "Q u w'"
    if "vw w' = (vw w)(Conn := T')" "touched (vw w Conn) T'" "r \<in> t_users (vw w Conn)"
      "ur_status r = ''active''" "user_matches (vw w Conn) r u"
      "api_token_accepted X (vw w Conn) token (ur_id r)" for u w' T' r
    using Q[OF that(1,2)] that(3-6) unfolding authenticated_def by blast
  show ?thesis
    unfolding authenticate_bearer_def
    by (auto intro!: wp_verify_access_token[OF assms(1)] wp_get_user_record[OF assms(1)]
        wp_user_from_record[OF assms(1)] wp_authenticate_api_token[OF assms(1)]
        simp: ok_or_def split: option.splits)
      (fastforce intro: E0 E jwt api)+
qed

lemma wp_current_user:
  assumes "store_ok X vw"
    and Q: "\<And>u w' T' token. vw w' = (vw w)(Conn := T') \<Longrightarrow> touched (vw w Conn) T' \<Longrightarrow>
      bearer_token header = Some token \<Longrightarrow>
      authenticated X (auth_of_state st) token (vw w Conn) u \<Longrightarrow> Q u w'"
    and E: "\<And>e w' T'. vw w' = (vw w)(Conn := T') \<Longrightarrow> touched (vw w Conn) T' \<Longrightarrow>
      server_error e \<or> e = Api Unauthorized \<Longrightarrow> E e w'"
  shows "wp (current_user X st header) Q E w"
proof (cases "bearer_token header")
  case None
  then show ?thesis
    using E[where T' = "vw w Conn" and w' = w and e = "Api Unauthorized"]
    by (simp add: current_user_def)
next
  case (Some token)
  then show ?thesis
    by (auto simp: current_user_def intro!: wp_authenticate_bearer[OF assms(1)] Q E)
qed

lemma wp_admin_user:
  assumes "store_ok X vw"
    and Q: "\<And>u w' T' token. vw w' = (vw w)(Conn := T') \<Longrightarrow> touched (vw w Conn) T' \<Longrightarrow>
      bearer_token header = Some token \<Longrightarrow>
      authenticated X (auth_of_state st) token (vw w Conn) u \<Longrightarrow> u_role u = SuperAdmin \<Longrightarrow> Q u w'"
    and E: "\<And>e w' T'. vw w' = (vw w)(Conn := T') \<Longrightarrow> touched (vw w Conn) T' \<Longrightarrow>
      server_error e \<or> e = Api Unauthorized \<or> e = Api Forbidden \<Longrightarrow> E e w'"
  shows "wp (admin_user X st header) Q E w"
  unfolding admin_user_def
  by (auto intro!: wp_current_user[OF assms(1)] Q E)

subsection \<open>Rights\<close>

text \<open>
  A row may enter a workspace when it is a platform admin or the store has a role of it there.
\<close>

definition may_access :: "tables \<Rightarrow> user_record \<Rightarrow> uuid \<Rightarrow> bool" where
  "may_access T r ws \<longleftrightarrow>
    ur_role r = ''super_admin'' \<or>
    (\<exists>x \<in> t_user_roles T. wu_user_id x = ur_id r \<and> wu_workspace_id x = ws)"

definition may_administer :: "tables \<Rightarrow> user_record \<Rightarrow> uuid \<Rightarrow> bool" where
  "may_administer T r ws \<longleftrightarrow>
    ur_role r = ''super_admin'' \<or>
    (\<exists>x \<in> t_user_roles T. wu_user_id x = ur_id r \<and> wu_workspace_id x = ws \<and> wu_role x = ''admin'')"

lemma user_matches_sel:
  assumes "user_matches T r u"
  shows "u_id u = ur_id r \<and> u_role u = role_of (ur_role r) \<and>
    u_status u = user_status_of (ur_status r) \<and> u_email u = ur_email r"
proof -
  obtain roles where "u = (user_of r)\<lparr>u_workspace_roles := roles\<rparr>"
    using assms unfolding user_matches_def by blast
  then show ?thesis by simp
qed

lemma can_access_workspace_iff:
  assumes "user_matches T r u"
  shows "can_access_workspace u ws \<longleftrightarrow> may_access T r ws"
proof -
  have role: "u_role u = role_of (ur_role r)" using user_matches_sel[OF assms] by simp
  have roles: "set (u_workspace_roles u) =
      (if role_of (ur_role r) = SuperAdmin then {}
       else workspace_role_of ` {x \<in> t_user_roles T. wu_user_id x = ur_id r})"
    using assms by (simp add: user_matches_def)
  show ?thesis
    unfolding can_access_workspace_def may_access_def role list_ex_iff roles
    by (auto simp: codec_simps)
qed

lemma can_administer_workspace_iff:
  assumes "user_matches T r u"
  shows "can_administer_workspace u ws \<longleftrightarrow> may_administer T r ws"
proof -
  have role: "u_role u = role_of (ur_role r)" using user_matches_sel[OF assms] by simp
  have roles: "set (u_workspace_roles u) =
      (if role_of (ur_role r) = SuperAdmin then {}
       else workspace_role_of ` {x \<in> t_user_roles T. wu_user_id x = ur_id r})"
    using assms by (simp add: user_matches_def)
  show ?thesis
    unfolding can_administer_workspace_def may_administer_def role list_ex_iff roles
    by (auto simp: codec_simps)
qed

text \<open>Who administers a workspace may enter it.\<close>

lemma may_administer_access: "may_administer T r ws \<Longrightarrow> may_access T r ws"
  by (auto simp: may_administer_def may_access_def)

lemma ensure_workspace_access_eq_Inr [simp]:
  "ensure_workspace_access u ws = Inr x \<longleftrightarrow> can_access_workspace u ws"
  by (simp add: ensure_workspace_access_def)

lemma ensure_super_admin_eq_Inr [simp]:
  "ensure_super_admin u = Inr x \<longleftrightarrow> u_role u = SuperAdmin"
  by (simp add: ensure_super_admin_def)

end
