(* ===== verification/Auth_Users.thy ===== *)
theory Auth_Users
  imports Auth_Access
begin

section \<open>Users and API tokens\<close>

text \<open>
  The administration of users with its guard for the last platform admin, and API tokens: what
  these operations of \<open>services/auth.rs\<close> write.
\<close>

subsection \<open>Status and role\<close>

definition set_status :: "uuid \<Rightarrow> user_status \<Rightarrow> tables \<Rightarrow> tables" where
  "set_status i s = t_users_update
    ((`) (update_row user_set (\<lambda>x. ur_id x = i) [(4, VText (user_status_str s))]))"

definition set_role :: "uuid \<Rightarrow> role \<Rightarrow> tables \<Rightarrow> tables" where
  "set_role i r = t_users_update
    ((`) (update_row user_set (\<lambda>x. ur_id x = i) [(3, VText (role_str r))]))"

definition active_admins :: "tables \<Rightarrow> user_record set" where
  "active_admins T = {r \<in> t_users T. ur_role r = ''super_admin'' \<and> ur_status r = ''active''}"

text \<open>Identifiers and e-mail addresses are unique, as the key and the unique index demand.\<close>

definition users_unique :: "tables \<Rightarrow> bool" where
  "users_unique T \<longleftrightarrow>
    (\<forall>x \<in> t_users T. \<forall>y \<in> t_users T. ur_id x = ur_id y \<or> ur_email x = ur_email y \<longrightarrow> x = y)"

lemma wp_get_user_after:
  assumes "store_ok X vw"
    and "\<And>u w'. vw w' = vw w \<Longrightarrow> u_id u = i \<Longrightarrow> Q u w'" and "\<And>e w'. vw w' = vw w \<Longrightarrow> E e w'"
  shows "wp (get_user X S i) Q E w"
  by (rule wp_get_user[OF assms(1)]) (use assms(2,3) user_matches_sel in blast)+

lemma wp_update_user_status:
  assumes "store_ok X vw"
    and "\<And>u w'. vw w' = (vw w)(Conn := set_status i s (vw w Conn)) \<Longrightarrow> u_id u = i \<Longrightarrow> Q u w'"
    and "\<And>e w'. vw w' = vw w \<or> vw w' = (vw w)(Conn := set_status i s (vw w Conn)) \<Longrightarrow> E e w'"
  shows "wp (update_user_status X S i s) Q E w"
  unfolding update_user_status_def
  by (auto intro!: wp_update[OF assms(1)] wp_get_user_after[OF assms(1)] assms(2,3)
      simp: set_status_def)

lemma wp_disable_user:
  assumes "store_ok X vw"
    and same: "\<And>r u w'. vw w' = vw w \<Longrightarrow> r \<in> t_users (vw w Conn) \<Longrightarrow> ur_id r = i \<Longrightarrow>
      ur_status r = ''disabled'' \<Longrightarrow> u_id u = i \<Longrightarrow> Q u w'"
    and set: "\<And>r u w'. vw w' = (vw w)(Conn := set_status i Disabled (vw w Conn)) \<Longrightarrow>
      r \<in> t_users (vw w Conn) \<Longrightarrow> ur_id r = i \<Longrightarrow>
      (ur_role r = ''super_admin'' \<longrightarrow> 1 < card (active_admins (vw w Conn))) \<Longrightarrow> u_id u = i \<Longrightarrow> Q u w'"
    and E: "\<And>e w'. vw w' = vw w \<Longrightarrow> E e w'"
    and E': "\<And>e r w'. vw w' = (vw w)(Conn := set_status i Disabled (vw w Conn)) \<Longrightarrow>
      r \<in> t_users (vw w Conn) \<Longrightarrow> ur_id r = i \<Longrightarrow>
      (ur_role r = ''super_admin'' \<longrightarrow> 1 < card (active_admins (vw w Conn))) \<Longrightarrow> E e w'"
  shows "wp (disable_user X S i) Q E w"
  unfolding disable_user_def
  by (auto intro!: wp_get_user_record[OF assms(1)] wp_user_from_record[OF assms(1)]
      wp_active_super_admin_count[OF assms(1)] wp_update_user_status[OF assms(1)]
      dest: user_matches_sel)
    (fastforce intro: same set E E' simp: active_admins_def dest: user_matches_sel)+

lemma wp_reactivate_user:
  assumes "store_ok X vw"
    and "\<And>r u w'. vw w' = (vw w)(Conn := set_status i Active (vw w Conn)) \<Longrightarrow>
      r \<in> t_users (vw w Conn) \<Longrightarrow> ur_id r = i \<Longrightarrow> ur_status r = ''disabled'' \<Longrightarrow>
      ur_password_hash r \<noteq> [] \<Longrightarrow> u_id u = i \<Longrightarrow> Q u w'"
    and "\<And>e w'. vw w' = vw w \<Longrightarrow> E e w'"
    and "\<And>e r w'. vw w' = (vw w)(Conn := set_status i Active (vw w Conn)) \<Longrightarrow>
      r \<in> t_users (vw w Conn) \<Longrightarrow> ur_id r = i \<Longrightarrow> ur_status r = ''disabled'' \<Longrightarrow>
      ur_password_hash r \<noteq> [] \<Longrightarrow> E e w'"
  shows "wp (reactivate_user X S i) Q E w"
  unfolding reactivate_user_def
  by (auto intro!: wp_get_user_record[OF assms(1)] wp_update_user_status[OF assms(1)])
    (fastforce intro: assms(2-4))+

lemma wp_change_user_role:
  assumes "store_ok X vw"
    and Q: "\<And>r u w'. vw w' = (vw w)(Conn := set_role (cr_user_id input) (cr_role input) (vw w Conn)) \<Longrightarrow>
      r \<in> t_users (vw w Conn) \<Longrightarrow> ur_id r = cr_user_id input \<Longrightarrow>
      (ur_role r = ''super_admin'' \<and> ur_status r = ''active'' \<and> cr_role input \<noteq> SuperAdmin \<longrightarrow>
        1 < card (active_admins (vw w Conn))) \<Longrightarrow> u_id u = cr_user_id input \<Longrightarrow> Q u w'"
    and E: "\<And>e w'. vw w' = vw w \<Longrightarrow> E e w'"
    and E': "\<And>e r w'. vw w' = (vw w)(Conn := set_role (cr_user_id input) (cr_role input) (vw w Conn)) \<Longrightarrow>
      r \<in> t_users (vw w Conn) \<Longrightarrow> ur_id r = cr_user_id input \<Longrightarrow>
      (ur_role r = ''super_admin'' \<and> ur_status r = ''active'' \<and> cr_role input \<noteq> SuperAdmin \<longrightarrow>
        1 < card (active_admins (vw w Conn))) \<Longrightarrow> E e w'"
  shows "wp (change_user_role X S input) Q E w"
  unfolding change_user_role_def
  by (auto intro!: wp_get_user_record[OF assms(1)] wp_active_super_admin_count[OF assms(1)]
      wp_update[OF assms(1)] wp_get_user_after[OF assms(1)])
    (fastforce intro: Q E E' simp: active_admins_def set_role_def)+

subsection \<open>The last platform admin\<close>

lemma other_admin_stays:
  assumes "a \<in> active_admins T" and "ur_id a \<noteq> i"
  shows "a \<in> active_admins (set_status i s T)" and "a \<in> active_admins (set_role i r T)"
proof -
  have "update_row user_set (\<lambda>x. ur_id x = i) cols a = a" for cols
    using assms(2) by (simp add: update_row_def)
  then have "a \<in> update_row user_set (\<lambda>x. ur_id x = i) cols ` t_users T" for cols
    using assms(1) by (metis (no_types, lifting) active_admins_def image_eqI mem_Collect_eq)
  then show "a \<in> active_admins (set_status i s T)" "a \<in> active_admins (set_role i r T)"
    using assms(1) by (auto simp: active_admins_def set_status_def set_role_def)
qed

lemma second_admin:
  assumes "1 < card (active_admins T)"
  obtains a where "a \<in> active_admins T" "a \<noteq> r"
proof -
  have "\<not> active_admins T \<subseteq> {r}"
    using assms card_mono[of "{r}" "active_admins T"] by auto
  then show ?thesis using that by blast
qed

lemma set_status_keeps_admin:
  assumes "users_unique T" "r \<in> t_users T" "ur_id r = i" "active_admins T \<noteq> {}"
    and guard: "ur_role r = ''super_admin'' \<longrightarrow> 1 < card (active_admins T)"
  shows "active_admins (set_status i s T) \<noteq> {}"
proof -
  obtain a where a: "a \<in> active_admins T" "a \<noteq> r"
  proof (cases "ur_role r = ''super_admin''")
    case True
    then show ?thesis using that second_admin guard by blast
  next
    case False
    then show ?thesis using that assms(4) unfolding active_admins_def by fastforce
  qed
  then have "ur_id a \<noteq> i"
    using assms(1-3) unfolding users_unique_def active_admins_def by blast
  then show ?thesis using other_admin_stays(1)[OF a(1)] by blast
qed

lemma set_role_keeps_admin:
  assumes "users_unique T" "r \<in> t_users T" "ur_id r = i" "active_admins T \<noteq> {}"
    and guard: "ur_role r = ''super_admin'' \<and> ur_status r = ''active'' \<and> q \<noteq> SuperAdmin \<longrightarrow>
      1 < card (active_admins T)"
  shows "active_admins (set_role i q T) \<noteq> {}"
proof (cases "r \<in> active_admins T \<and> active_admins T \<subseteq> {r}")
  case True
  then have r: "ur_role r = ''super_admin''" "ur_status r = ''active''"
    by (auto simp: active_admins_def)
  have "card (active_admins T) \<le> 1"
    using True card_mono[of "{r}" "active_admins T"] by auto
  then have "q = SuperAdmin" using guard r by auto
  then have "update_row user_set (\<lambda>x. ur_id x = i) [(3, VText (role_str q))] r
      \<in> active_admins (set_role i q T)"
    using assms(2,3) r by (auto simp: active_admins_def set_role_def update_row_if)
  then show ?thesis by blast
next
  case False
  then obtain a where a: "a \<in> active_admins T" "a \<noteq> r" using assms(4) by blast
  then have "ur_id a \<noteq> i"
    using assms(1-3) unfolding users_unique_def active_admins_def by blast
  then show ?thesis using other_admin_stays(2)[OF a(1)] by blast
qed

lemma users_unique_update:
  "users_unique T \<Longrightarrow> users_unique (t_users_update ((`) (update_row user_set P cols)) T)"
  by (auto simp: users_unique_def)

lemma users_unique_set [simp]:
  "users_unique T \<Longrightarrow> users_unique (set_status i s T)"
  "users_unique T \<Longrightarrow> users_unique (set_role i r T)"
  by (simp_all add: set_status_def set_role_def users_unique_update)

subsection \<open>API tokens\<close>

text \<open>The row of a new API token: the digest of the raw token and its first characters only.\<close>

definition api_token_row ::
  "'a prims_scheme \<Rightarrow> create_api_token_input \<Rightarrow> string \<Rightarrow> user_api_token_record \<Rightarrow> bool" where
  "api_token_row P input raw t \<longleftrightarrow>
    ut_user_id t = u_id (ca_user input) \<and> ut_name t = ca_name input \<and>
    ut_token_hash t = hash_api_token P raw \<and> ut_token_prefix t = token_prefix raw \<and>
    ut_revoked_at t = None \<and> ut_last_used_at t = None"

definition add_api_token :: "user_api_token_record \<Rightarrow> tables \<Rightarrow> tables" where
  "add_api_token t = t_api_tokens_update (insert t)"

definition fresh_api_token :: "tables \<Rightarrow> user_api_token_record \<Rightarrow> bool" where
  "fresh_api_token T t \<longleftrightarrow>
    (\<forall>x \<in> t_api_tokens T. ut_id x \<noteq> ut_id t \<and> ut_token_hash x \<noteq> ut_token_hash t)"

lemma wp_create_api_token:
  assumes "store_ok X vw"
    and Q: "\<And>bs t out w'. vw w' = (vw w)(Conn := add_api_token t (vw w Conn)) \<Longrightarrow>
      fresh_api_token (vw w Conn) t \<Longrightarrow> api_token_row X input (''wara_'' @ b64url_encode X bs) t \<Longrightarrow>
      out = \<lparr>co_token = ''wara_'' @ b64url_encode X bs, co_api_token = t\<rparr> \<Longrightarrow> Q out w'"
    and E: "\<And>e w'. vw w' = vw w \<Longrightarrow> server_error e \<Longrightarrow> E e w'"
    and E': "\<And>e raw t w'. vw w' = (vw w)(Conn := add_api_token t (vw w Conn)) \<Longrightarrow>
      fresh_api_token (vw w Conn) t \<Longrightarrow> api_token_row X input raw t \<Longrightarrow> server_error e \<Longrightarrow> E e w'"
  shows "wp (create_api_token X S input) Q E w"
proof -
  let ?row = "\<lambda>i raw c. \<lparr>ut_id = i, ut_user_id = u_id (ca_user input), ut_name = ca_name input,
    ut_token_hash = hash_api_token X raw, ut_token_prefix = token_prefix raw, ut_created_at = c,
    ut_revoked_at = None, ut_last_used_at = None\<rparr>"
  have row: "api_token_row X input raw (?row i raw c)" for i raw c
    by (simp add: api_token_row_def)
  have fresh: "fresh_api_token (vw w Conn) (?row i raw c)"
    if "\<forall>x \<in> t_api_tokens (vw w Conn). ut_id x \<noteq> i \<and> ut_token_hash x \<noteq> hash_api_token X raw"
    for i raw c
    using that by (simp add: fresh_api_token_def)
  have "wp (db_insert (x_api_tokens X) Conn (?row i raw c))
      (\<lambda>t w'. Q \<lparr>co_token = raw, co_api_token = t\<rparr> w') E w'"
    if w': "vw w' = vw w" and raw: "raw = ''wara_'' @ b64url_encode X bs" for i raw c bs w'
  proof (rule wp_insert(12)[OF assms(1)])
    fix w2
    assume "vw w2 = (vw w')(Conn := t_api_tokens_update (insert (?row i raw c)) (vw w' Conn))"
      and "\<forall>x \<in> t_api_tokens (vw w' Conn).
        \<not> (ut_id x = ut_id (?row i raw c) \<or> ut_token_hash x = ut_token_hash (?row i raw c))"
    then show "Q \<lparr>co_token = raw, co_api_token = ?row i raw c\<rparr> w2"
      using w' row[of "''wara_'' @ b64url_encode X bs"] fresh unfolding raw
      by (intro Q[where bs = bs]) (auto simp: add_api_token_def)
  next
    fix e w2 assume "vw w2 = vw w'"
    then show "E (map_toasty_error e) w2" using w' by (intro E) simp_all
  next
    fix e w2
    assume "vw w2 = (vw w')(Conn := t_api_tokens_update (insert (?row i raw c)) (vw w' Conn))"
      and "\<forall>x \<in> t_api_tokens (vw w' Conn).
        \<not> (ut_id x = ut_id (?row i raw c) \<or> ut_token_hash x = ut_token_hash (?row i raw c))"
    then show "E (map_toasty_error e) w2"
      using w' row[of raw] fresh by (intro E'[where raw = raw]) (auto simp: add_api_token_def)
  qed
  then show ?thesis
    unfolding create_api_token_def generate_api_token_def
    by (auto intro!: wp_generators[OF assms(1)] E)
qed

lemma sort_by_desc_sorted: "sorted_wrt (\<lambda>a b. f b \<le> f a) (sort_by_desc f rs)"
proof -
  have "sorted_wrt (\<lambda>a b. f a \<le> f b) (sort_key f (rev rs))"
    using sorted_sort_key[of f "rev rs"] by (simp add: sorted_wrt_map)
  then show ?thesis by (simp add: sort_by_desc_def sorted_wrt_rev)
qed

lemma sort_by_desc_simps [simp]:
  "set (sort_by_desc f rs) = set rs" "distinct (sort_by_desc f rs) = distinct rs"
  by (simp_all add: sort_by_desc_def)

lemma wp_list_api_tokens:
  assumes "store_ok X vw"
    and "\<And>ts w'. vw w' = vw w \<Longrightarrow> distinct ts \<Longrightarrow>
      set ts = {t \<in> t_api_tokens (vw w Conn). ut_user_id t = u_id user} \<Longrightarrow>
      sorted_wrt (\<lambda>a b. ut_created_at b \<le> ut_created_at a) ts \<Longrightarrow> Q ts w'"
    and "\<And>e w'. vw w' = vw w \<Longrightarrow> server_error e \<Longrightarrow> E e w'"
  shows "wp (list_api_tokens X S user) Q E w"
  by (cases "db_toasty (as_db S)", simp_all add: list_api_tokens_def assms(3))
    (rule wp_select(12)[OF assms(1)]; simp add: assms(2,3) sort_by_desc_sorted)

definition revoke_api :: "uuid \<Rightarrow> string \<Rightarrow> tables \<Rightarrow> tables" where
  "revoke_api i s = t_api_tokens_update
    ((`) (update_row api_token_set (\<lambda>x. ut_id x = i) [(6, VText s)]))"

text \<open>A token that was revoked before keeps the time it was revoked at.\<close>

lemma wp_revoke_api_token:
  assumes "store_ok X vw"
    and Q: "\<And>t s r w'. vw w' = (vw w)(Conn := revoke_api token_id s (vw w Conn)) \<Longrightarrow>
      t \<in> t_api_tokens (vw w Conn) \<Longrightarrow> ut_id t = token_id \<Longrightarrow> ut_user_id t = u_id user \<Longrightarrow>
      (\<forall>s'. ut_revoked_at t = Some s' \<longrightarrow> s' = s) \<Longrightarrow>
      ut_id r = token_id \<Longrightarrow> ut_revoked_at r = Some s \<Longrightarrow> Q r w'"
    and E: "\<And>e w'. vw w' = vw w \<Longrightarrow> server_error e \<or> e = Api (NotFound ''api token'') \<Longrightarrow> E e w'"
    and E': "\<And>e t s w'. vw w' = (vw w)(Conn := revoke_api token_id s (vw w Conn)) \<Longrightarrow>
      t \<in> t_api_tokens (vw w Conn) \<Longrightarrow> ut_id t = token_id \<Longrightarrow> ut_user_id t = u_id user \<Longrightarrow> E e w'"
  shows "wp (revoke_api_token X S user token_id) Q E w"
proof -
  have revoked: "ut_revoked_at r = Some s"
    if "r \<in> update_row api_token_set (\<lambda>x. ut_id x = token_id) [(6, VText s)] ` A" "ut_id r = token_id"
    for r s A
  proof -
    from that obtain x where r: "r = update_row api_token_set (\<lambda>x. ut_id x = token_id) [(6, VText s)] x"
      by blast
    have "ut_id x = token_id" using that(2) unfolding r by simp
    then show ?thesis unfolding r by (simp add: update_row_def)
  qed
  have tail: "wp (bindE (db_update (x_api_tokens X) Conn (\<lambda>r. ut_id r = token_id) [(6, VText s)])
      (\<lambda>_. bindE (db_first (x_api_tokens X) Conn (\<lambda>r. ut_id r = token_id)) (\<lambda>record.
        liftE (ok_or (Api (NotFound ''api token'')) record)))) Q E w'"
    if t: "t \<in> t_api_tokens (vw w Conn)" "ut_id t = token_id" "ut_user_id t = u_id user"
      "\<forall>s'. ut_revoked_at t = Some s' \<longrightarrow> s' = s" and w': "vw w' = vw w" for t s w'
  proof -
    have E0: "E e w2" if "vw w2 = vw w" "server_error e \<or> e = Api (NotFound ''api token'')" for e w2
      using that by (rule E)
    have E2: "E e w2" if "vw w2 = (vw w)(Conn := revoke_api token_id s (vw w Conn))" for e w2
      using that t(1-3) by (rule E')
    have Q2: "Q r w2" if "vw w2 = (vw w)(Conn := revoke_api token_id s (vw w Conn))"
        "r \<in> t_api_tokens (revoke_api token_id s (vw w Conn))" "ut_id r = token_id" for r w2
      using that by (intro Q[OF that(1) t]) (auto simp: revoke_api_def revoked)
    show ?thesis
      unfolding wp_bindE wp_liftE
    proof (rule wp_update(4)[OF assms(1)], goal_cases)
      case (1 w2)
      then have w2: "vw w2 = (vw w)(Conn := revoke_api token_id s (vw w Conn))"
        by (simp add: w' revoke_api_def)
      show ?case
        by (rule wp_first(12)[OF assms(1)]) (simp_all add: w2 E2 Q2)
    qed (simp_all add: w' E0 E2 revoke_api_def)
  qed
  have own: "wp (bindE (case ut_revoked_at t of Some s \<Rightarrow> returnE s
        | None \<Rightarrow> bindE (effectE (x_now X)) (\<lambda>now. returnE (to_rfc3339 X now))) (\<lambda>s.
      bindE (db_update (x_api_tokens X) Conn (\<lambda>r. ut_id r = token_id) [(6, VText s)])
      (\<lambda>_. bindE (db_first (x_api_tokens X) Conn (\<lambda>r. ut_id r = token_id)) (\<lambda>record.
        liftE (ok_or (Api (NotFound ''api token'')) record))))) Q E w'"
    if t: "t \<in> t_api_tokens (vw w Conn)" "ut_id t = token_id" "ut_user_id t = u_id user"
      and w': "vw w' = vw w" for t w'
  proof (cases "ut_revoked_at t")
    case None
    then show ?thesis
      using tail[OF t] w'
      by (auto intro!: wp_generators(1)[OF assms(1)] simp del: wp_bindE
          simp: wp_bindE[of "effectE _"] wp_bindE[of "bindE (effectE _) _"])
  next
    case (Some s)
    then show ?thesis using tail[OF t _ w', of s] by simp
  qed
  show ?thesis
  proof (cases "db_toasty (as_db S)")
    case False
    then show ?thesis using E[of w] by (simp add: revoke_api_token_def)
  next
    case True
    show ?thesis
      unfolding revoke_api_token_def wp_bindE[of "db_handle _"] wp_bindE[of "db_first _ _ _"]
        wp_db_handle if_P[OF True]
    proof (rule wp_first(12)[OF assms(1)], goal_cases)
      case (1 t w')
      then show ?case using own[OF 1(2,3) _ 1(1)] E[OF 1(1)]
        by (cases "ut_user_id t = u_id user") (simp_all del: wp_bindE)
    qed (simp_all add: E)
  qed
qed

end
