(* ===== verification/Auth_Keys.thy ===== *)
theory Auth_Keys
  imports Auth_Users
begin

section \<open>Signing keys and the first admin\<close>

text \<open>
  What \<open>sync_active_jwt_public_key\<close> and \<open>bootstrap_admin\<close> leave in the store at start-up: one
  active signing key, which is the configured one, and at least one user.
\<close>

definition keys_unique :: "tables \<Rightarrow> bool" where
  "keys_unique T \<longleftrightarrow> (\<forall>x \<in> t_jwt_keys T. \<forall>y \<in> t_jwt_keys T. jk_id x = jk_id y \<longrightarrow> x = y)"

definition active_keys :: "tables \<Rightarrow> jwt_public_key_record set" where
  "active_keys T = {k \<in> t_jwt_keys T. jk_is_active k}"

definition deactivate_keys :: "tables \<Rightarrow> tables" where
  "deactivate_keys = t_jwt_keys_update
    ((`) (update_row jwt_key_set jk_is_active [(6, VBool False)]))"

definition activate_key :: "uuid \<Rightarrow> string \<Rightarrow> string \<Rightarrow> tables \<Rightarrow> tables" where
  "activate_key i n e = t_jwt_keys_update
    ((`) (update_row jwt_key_set (\<lambda>r. jk_id r = i)
      (activated_columns n e)))"

text \<open>The configured key is the one active key, and no other table has changed.\<close>

definition configured_key :: "string \<Rightarrow> string \<Rightarrow> jwt_public_key_record \<Rightarrow> bool" where
  "configured_key n e k \<longleftrightarrow>
    jk_modulus k = n \<and> jk_exponent k = e \<and> jk_is_active k \<and> valid_jwk_metadata k"

definition keys_synced :: "string \<Rightarrow> string \<Rightarrow> tables \<Rightarrow> tables \<Rightarrow> bool" where
  "keys_synced n e T T' \<longleftrightarrow>
    (\<exists>k. active_keys T' = {k} \<and> configured_key n e k) \<and>
    (\<exists>K. T' = t_jwt_keys_update (\<lambda>_. K) T) \<and> keys_unique T'"

lemma keys_update_const: "\<exists>K. t_jwt_keys_update f T = t_jwt_keys_update (\<lambda>_. K) T"
  by (cases T) auto

lemma deactivated:
  "active_keys (deactivate_keys T) = {}"
  "keys_unique T \<Longrightarrow> keys_unique (deactivate_keys T)"
  "\<exists>K. deactivate_keys T = t_jwt_keys_update (\<lambda>_. K) T"
proof -
  show "active_keys (deactivate_keys T) = {}"
    by (auto simp: active_keys_def deactivate_keys_def update_row_def split: if_splits)
  show "keys_unique T \<Longrightarrow> keys_unique (deactivate_keys T)"
    by (auto simp: keys_unique_def deactivate_keys_def)
  show "\<exists>K. deactivate_keys T = t_jwt_keys_update (\<lambda>_. K) T"
    unfolding deactivate_keys_def by (rule keys_update_const)
qed

lemma activated_row:
  "update_row jwt_key_set (\<lambda>r. jk_id r = i)
      (activated_columns n e) k =
    (if jk_id k = i then k\<lparr>jk_key_type := ''RSA'', jk_key_use := ''sig'', jk_algorithm := ''RS256'',
       jk_modulus := n, jk_exponent := e, jk_is_active := True\<rparr> else k)"
  by (simp add: update_row_def activated_columns_def)

lemma activate_synced:
  assumes "keys_unique T" "active_keys T = {}" "k \<in> t_jwt_keys T" "jk_id k = i"
  shows "keys_synced n e T (activate_key i n e T)"
proof -
  let ?f = "update_row jwt_key_set (\<lambda>r. jk_id r = i)
      (activated_columns n e)"
  have "active_keys (activate_key i n e T) = {?f k}"
    using assms unfolding activate_key_def active_keys_def keys_unique_def
    by (auto simp: activated_row)
  moreover have "configured_key n e (?f k)"
    using assms(4) by (simp add: activated_row configured_key_def valid_jwk_metadata_def)
  moreover have "keys_unique (activate_key i n e T)"
    using assms(1) by (auto simp: keys_unique_def activate_key_def)
  ultimately show ?thesis
    unfolding keys_synced_def using keys_update_const by (auto simp: activate_key_def)
qed

lemma insert_synced:
  assumes "keys_unique T" "active_keys T = {}" "\<forall>x \<in> t_jwt_keys T. jk_id x \<noteq> jk_id k"
    and "configured_key n e k"
  shows "keys_synced n e T (t_jwt_keys_update (insert k) T)"
proof -
  have "active_keys (t_jwt_keys_update (insert k) T) = {k}"
    using assms(2,4) by (auto simp: active_keys_def configured_key_def)
  moreover have "keys_unique (t_jwt_keys_update (insert k) T)"
    using assms(1,3) unfolding keys_unique_def by simp metis
  ultimately show ?thesis
    using assms(4) keys_update_const unfolding keys_synced_def by blast
qed

lemma synced_after_deactivation:
  "keys_synced n e (deactivate_keys T) T' \<Longrightarrow> keys_synced n e T T'"
  by (auto simp: keys_synced_def deactivate_keys_def comp_def)

lemma rsa_public_key_components_error: "rsa_public_key_components P pem = Inl e \<Longrightarrow> server_error e"
  by (auto simp: rsa_public_key_components_def split: sum.splits prod.splits)

text \<open>How far a synchronisation that fails has come.\<close>

definition keys_partly_synced :: "string \<Rightarrow> string \<Rightarrow> tables \<Rightarrow> tables \<Rightarrow> bool" where
  "keys_partly_synced n e T T' \<longleftrightarrow> T' = deactivate_keys T \<or> keys_synced n e T T'"

lemma wp_sync_active_jwt_public_key:
  assumes "store_ok X vw" and unique: "keys_unique (vw w Conn)"
    and Q: "\<And>n e T w'. rsa_public_key_components X (cfg_jwt_public_key (as_config S)) = Inr (n, e) \<Longrightarrow>
      vw w' = (vw w)(Conn := T) \<Longrightarrow> keys_synced n e (vw w Conn) T \<Longrightarrow> Q () w'"
    and E: "\<And>er w'. vw w' = vw w \<Longrightarrow> server_error er \<Longrightarrow> E er w'"
    and E': "\<And>er n e T w'. vw w' = (vw w)(Conn := T) \<Longrightarrow>
      keys_partly_synced n e (vw w Conn) T \<Longrightarrow> server_error er \<Longrightarrow> E er w'"
  shows "wp (sync_active_jwt_public_key X S) Q E w"
proof (cases "db_toasty (as_db S)")
  case False
  then show ?thesis using E[of w] by (simp add: sync_active_jwt_public_key_def)
next
  case True
  let ?D = "deactivate_keys (vw w Conn)"
  have D: "keys_unique ?D" "active_keys ?D = {}"
    using unique by (simp_all add: deactivated)
  show ?thesis
  proof (cases "rsa_public_key_components X (cfg_jwt_public_key (as_config S))")
    case (Inl er)
    then show ?thesis
      using True E[of w er] rsa_public_key_components_error[OF Inl]
      by (simp add: sync_active_jwt_public_key_def)
  next
    case (Inr ne)
    obtain n e where ne: "ne = (n, e)" by (cases ne)
    have act: "keys_synced n e (vw w Conn) (activate_key i n e ?D)"
      if "k \<in> t_jwt_keys ?D" "jk_id k = i" for k i
      using synced_after_deactivation activate_synced[OF D that] by blast
    have ins: "keys_synced n e (vw w Conn) (t_jwt_keys_update (insert k) ?D)"
      if "\<forall>x \<in> t_jwt_keys ?D. jk_id x \<noteq> jk_id k" "configured_key n e k" for k
      using synced_after_deactivation insert_synced[OF D that] by blast
    have Q': "Q () w'" if "vw w' = (vw w)(Conn := T)" "keys_synced n e (vw w Conn) T" for w' T
      using Q[of n e] Inr ne that by blast
    have Es: "E (map_toasty_error er) w'"
      if "vw w' = (vw w)(Conn := T)" "keys_synced n e (vw w Conn) T" for w' T er
      using E'[of w' T n e] that by (simp add: keys_partly_synced_def)
    have Ed: "E (map_toasty_error er) w'" if "vw w' = (vw w)(Conn := ?D)" for w' er
      using E'[of w' ?D n e] that by (simp add: keys_partly_synced_def)
    have tail: "wp (bindE (db_first (x_jwt_keys X) Conn (\<lambda>r. jk_id r = i)) (\<lambda>existing.
        if existing \<noteq> None
        then db_update (x_jwt_keys X) Conn (\<lambda>r. jk_id r = i)
          (activated_columns n e)
        else bindE (effectE (x_now X)) (\<lambda>now.
          bindE (db_insert (x_jwt_keys X) Conn
            \<lparr>jk_id = i, jk_key_type = ''RSA'', jk_key_use = ''sig'',
             jk_algorithm = ''RS256'', jk_modulus = n, jk_exponent = e,
             jk_is_active = True, jk_created_at = to_rfc3339 X now\<rparr>) (\<lambda>_. returnE ())))) Q E w'"
      if w': "vw w' = (vw w)(Conn := ?D)" for i w'
    proof -
      have up: "wp (db_update (x_jwt_keys X) Conn (\<lambda>r. jk_id r = i)
          (activated_columns n e)) Q E w2"
        if "vw w2 = (vw w)(Conn := ?D)" "k \<in> t_jwt_keys ?D" "jk_id k = i" for k w2
      proof (rule wp_update(6)[OF assms(1)], goal_cases)
        case (1 w3)
        then show ?case
          using act[OF that(2,3)] that(1) by (intro Q') (simp_all add: activate_key_def)
      next
        case (3 er w3)
        then show ?case
          using act[OF that(2,3)] that(1) by (intro Es) (simp_all add: activate_key_def)
      qed (use that(1) Ed in simp)
      have add: "wp (db_insert (x_jwt_keys X) Conn
            \<lparr>jk_id = i, jk_key_type = ''RSA'', jk_key_use = ''sig'', jk_algorithm = ''RS256'',
             jk_modulus = n, jk_exponent = e, jk_is_active = True, jk_created_at = s\<rparr>)
          (\<lambda>_. Q ()) E w2"
        if "vw w2 = (vw w)(Conn := ?D)" "\<forall>x \<in> t_jwt_keys ?D. jk_id x \<noteq> i" for s w2
      proof -
        let ?k = "\<lparr>jk_id = i, jk_key_type = ''RSA'', jk_key_use = ''sig'',
          jk_algorithm = ''RS256'', jk_modulus = n, jk_exponent = e, jk_is_active = True,
          jk_created_at = s\<rparr>"
        have k: "keys_synced n e (vw w Conn) (t_jwt_keys_update (insert ?k) ?D)"
          using that(2) by (intro ins) (simp_all add: configured_key_def valid_jwk_metadata_def)
        show ?thesis
          by (rule wp_insert(15)[OF assms(1)])
            (use k that(1) in \<open>auto intro: Q' Es Ed\<close>)
      qed
      show ?thesis
        unfolding wp_bindE[of "db_first _ _ _"]
      proof (rule wp_first(15)[OF assms(1)], goal_cases)
        case (1 k w2)
        then show ?case using up[of w2 k] w' by simp
      next
        case (2 w2)
        then show ?case using add[of _] w' by (auto intro!: wp_generators(1)[OF assms(1)])
      next
        case (3 er w2)
        then show ?case using Ed w' by simp
      qed
    qed
    have mid: "wp (bindE (db_update (x_jwt_keys X) Conn jk_is_active [(6, VBool False)]) (\<lambda>_.
        bindE (db_first (x_jwt_keys X) Conn (\<lambda>r. jk_id r = i)) (\<lambda>existing.
        if existing \<noteq> None
        then db_update (x_jwt_keys X) Conn (\<lambda>r. jk_id r = i)
          (activated_columns n e)
        else bindE (effectE (x_now X)) (\<lambda>now.
          bindE (db_insert (x_jwt_keys X) Conn
            \<lparr>jk_id = i, jk_key_type = ''RSA'', jk_key_use = ''sig'',
             jk_algorithm = ''RS256'', jk_modulus = n, jk_exponent = e,
             jk_is_active = True, jk_created_at = to_rfc3339 X now\<rparr>) (\<lambda>_. returnE ()))))) Q E w'"
      if w': "vw w' = vw w" for i w'
      unfolding wp_bindE[of "db_update _ _ _ _"]
    proof (rule wp_update(6)[OF assms(1)], goal_cases)
      case (1 w2)
      then show ?case using tail[of w2 i] w' by (simp del: wp_bindE add: deactivate_keys_def)
    qed (use w' E Ed in \<open>simp_all add: deactivate_keys_def\<close>)
    show ?thesis
      unfolding sync_active_jwt_public_key_def
      using True Inr ne
      by (auto simp del: wp_bindE not_None_eq simp: wp_bindE[of "db_handle _"] wp_bindE[of "liftE _"]
          wp_bindE[of "db_select _ _ _"] wp_bindE[of "effectE _"] E
          intro!: wp_select[OF assms(1)] wp_generators[OF assms(1)] mid split: option.split)
  qed
qed

subsection \<open>The first admin\<close>

text \<open>The row of the admin that is made when there is no user.\<close>

definition bootstrap_row :: "('w, 'a) ext_scheme \<Rightarrow> config \<Rightarrow> user_record \<Rightarrow> bool" where
  "bootstrap_row X c u \<longleftrightarrow>
    ur_email u = cfg_bootstrap_admin_email c \<and> ur_name u = cfg_bootstrap_admin_name c \<and>
    ur_role u = ''super_admin'' \<and> ur_status u = ''active'' \<and>
    (\<exists>w w'. x_argon2_hash X (as_bytes (cfg_bootstrap_admin_password c)) w = (Inr (ur_password_hash u), w'))"

text \<open>A hash that argon2 makes of a password parses, is not empty, and is verified by that password.\<close>

definition argon2_laws :: "('w, 'a) ext_scheme \<Rightarrow> bool" where
  "argon2_laws X \<longleftrightarrow> (\<forall>pw w h w'. x_argon2_hash X pw w = (Inr h, w') \<longrightarrow>
    h \<noteq> [] \<and> phc_parses X h \<and> argon2_verifies X pw h)"

definition add_user :: "user_record \<Rightarrow> tables \<Rightarrow> tables" where
  "add_user u = t_users_update (insert u)"

lemma wp_bootstrap_admin:
  assumes "store_ok X vw" and "keys_unique (vw w Conn)"
    and Qsome: "\<And>n e T w'. rsa_public_key_components X (cfg_jwt_public_key (as_config S)) = Inr (n, e) \<Longrightarrow>
      vw w' = (vw w)(Conn := T) \<Longrightarrow> keys_synced n e (vw w Conn) T \<Longrightarrow>
      t_users (vw w Conn) \<noteq> {} \<Longrightarrow> Q () w'"
    and Qnone: "\<And>n e T u w'. rsa_public_key_components X (cfg_jwt_public_key (as_config S)) = Inr (n, e) \<Longrightarrow>
      vw w' = (vw w)(Conn := add_user u T) \<Longrightarrow>
      keys_synced n e (vw w Conn) T \<Longrightarrow> t_users (vw w Conn) = {} \<Longrightarrow>
      bootstrap_row X (as_config S) u \<Longrightarrow> Q () w'"
    and E: "\<And>er w'. vw w' = vw w \<Longrightarrow> E er w'"
    and Ekeys: "\<And>er n e T w'. vw w' = (vw w)(Conn := T) \<Longrightarrow>
      keys_partly_synced n e (vw w Conn) T \<Longrightarrow> E er w'"
    and Euser: "\<And>er n e T u w'. vw w' = (vw w)(Conn := add_user u T) \<Longrightarrow>
      keys_synced n e (vw w Conn) T \<Longrightarrow> t_users (vw w Conn) = {} \<Longrightarrow>
      bootstrap_row X (as_config S) u \<Longrightarrow> E er w'"
  shows "wp (bootstrap_admin X S) Q E w"
proof -
  have users: "t_users T = t_users T0" if "keys_synced n e T0 T" for n e T0 T
    using that by (auto simp: keys_synced_def)
  show ?thesis
    unfolding bootstrap_admin_def wp_bindE[of "sync_active_jwt_public_key _ _"]
  proof (rule wp_sync_active_jwt_public_key[OF assms(1,2)], goal_cases)
    case (1 n e T w1)
    note u = users[OF 1(3)]
    have Qs: "Q () w'" if "vw w' = (vw w)(Conn := T)" "r \<in> t_users T" for r w'
      using Qsome[OF 1(1) that(1) 1(3)] that(2) u by auto
    have Qn: "Q () w'" if "vw w' = (vw w)(Conn := t_users_update (insert r) T)"
      "t_users T = {}" "bootstrap_row X (as_config S) r" for r w'
      using Qnone[OF 1(1) _ 1(3), of w' r] that u by (auto simp: add_user_def)
    have Ek: "E er w'" if "vw w' = (vw w)(Conn := T)" for er w'
      using Ekeys[OF that, of n e] 1(3) by (simp add: keys_partly_synced_def)
    have Eu: "E er w'" if "vw w' = (vw w)(Conn := t_users_update (insert r) T)"
      "t_users T = {}" "bootstrap_row X (as_config S) r" for r er w'
      using Euser[OF _ 1(3), of w' r] that u by (auto simp: add_user_def)
    have ins: "wp (db_insert (x_users X) Conn r) (\<lambda>_. Q ()) E w'"
      if "vw w' = (vw w)(Conn := T)" "t_users T = {}" "bootstrap_row X (as_config S) r" for r w'
      by (rule wp_insert(10)[OF assms(1)]) (use that in \<open>auto intro: Qn Eu Ek\<close>)
    show ?case
    proof (cases "t_users T = {}")
      case True
      show ?thesis
        unfolding hash_password_def
        by (auto intro!: wp_select(10)[OF assms(1)] wp_generators[OF assms(1)] Ek
            wp_argon2_hash[OF assms(1)] ins simp: 1(2) True bootstrap_row_def) blast+
    next
      case False
      then obtain r where "r \<in> t_users T" by blast
      then show ?thesis
        by (auto intro!: wp_select(10)[OF assms(1)] Ek Qs simp: 1(2))
    qed
  qed (use E Ekeys in blast)+
qed

end
