(* ===== verification/Auth_Sessions.thy ===== *)
theory Auth_Sessions
  imports Auth_Access
begin

section \<open>Sessions and invitations\<close>

text \<open>
  What \<open>login\<close>, \<open>refresh_session\<close>, \<open>logout\<close>, \<open>invite_user\<close> and \<open>accept_invite\<close> do to the store, on
  success and on failure: which rows they write, which rows they rely on, and that a spent or
  revoked refresh token and an accepted invitation are never good again.
\<close>

subsection \<open>Signing\<close>

lemma wp_sign_access_token [wp_rules]:
  assumes "store_ok X vw"
    and "\<And>token w'. vw w' = vw w \<Longrightarrow> Q token w'"
    and "\<And>e w'. vw w' = vw w \<Longrightarrow> server_error e \<Longrightarrow> E e w'"
  shows "wp (sign_access_token X S user i) Q E w"
  unfolding sign_access_token_def Let_def
  by (auto intro!: wp_generators[OF assms(1)] wp_active_jwt_public_key_record[OF assms(1)] assms(2,3)
      split: sum.splits)

text \<open>A refresh token for a row: its claims name the row and the user.\<close>

definition refresh_token_for ::
  "('w, 'a) ext_scheme \<Rightarrow> string \<Rightarrow> uuid \<Rightarrow> uuid \<Rightarrow> bool" where
  "refresh_token_for X token i user_id \<longleftrightarrow>
    (\<exists>h key c. jwt_encode X h (refresh_claims_json c) key = Inr token \<and>
       rc_jti c = uuid_to_string X i \<and> rc_sub c = uuid_to_string X user_id \<and>
       rc_typ c = ''refresh'')"

lemma wp_sign_refresh_token [wp_rules]:
  assumes "store_ok X vw"
    and "\<And>token w'. vw w' = vw w \<Longrightarrow> refresh_token_for X token i user_id \<Longrightarrow> Q token w'"
    and "\<And>e w'. vw w' = vw w \<Longrightarrow> server_error e \<Longrightarrow> E e w'"
  shows "wp (sign_refresh_token X S i user_id t1 t2) Q E w"
  unfolding sign_refresh_token_def Let_def
  by (auto intro!: wp_active_jwt_public_key_record[OF assms(1)] assms(2,3)
      simp: refresh_token_for_def split: sum.splits) fastforce

text \<open>A fresh refresh token row of a user.\<close>

definition new_refresh_row :: "tables \<Rightarrow> uuid \<Rightarrow> user_refresh_token_record \<Rightarrow> bool" where
  "new_refresh_row T user_id r \<longleftrightarrow>
    rt_user_id r = user_id \<and> rt_revoked_at r = None \<and>
    (\<forall>x \<in> t_refresh_tokens T. rt_id x \<noteq> rt_id r)"

definition add_refresh_row :: "user_refresh_token_record \<Rightarrow> tables \<Rightarrow> tables" where
  "add_refresh_row r = t_refresh_tokens_update (insert r)"

lemma wp_issue_refresh_token [wp_rules]:
  assumes "store_ok X vw"
    and "\<And>issue w'. vw w' = (vw w)(ex := add_refresh_row (ri_record issue) (vw w ex)) \<Longrightarrow>
      new_refresh_row (vw w ex) user_id (ri_record issue) \<Longrightarrow>
      refresh_token_for X (ri_token issue) (rt_id (ri_record issue)) user_id \<Longrightarrow> Q issue w'"
    and "\<And>e w'. server_error e \<or> e = Panicked \<Longrightarrow> vw w' = vw w \<or>
      (\<exists>r. vw w' = (vw w)(ex := add_refresh_row r (vw w ex)) \<and>
        new_refresh_row (vw w ex) user_id r) \<Longrightarrow> E e w'"
  shows "wp (issue_refresh_token X S ex user_id) Q E w"
  unfolding issue_refresh_token_def
  by (auto intro!: wp_generators[OF assms(1)] wp_insert[OF assms(1)]
      wp_sign_refresh_token[OF assms(1)]
      simp: after_seconds_def ok_or_def split: option.splits)
    (fastforce intro!: assms(2,3) simp: new_refresh_row_def add_refresh_row_def)+

subsection \<open>Login\<close>

text \<open>The credentials of a row: active, with a password, and the password is the one given.\<close>

definition credentials_ok :: "'a prims_scheme \<Rightarrow> login_input \<Rightarrow> user_record \<Rightarrow> bool" where
  "credentials_ok P input r \<longleftrightarrow>
    ur_email r = li_email input \<and> ur_status r = ''active'' \<and> ur_password_hash r \<noteq> [] \<and>
    phc_parses P (ur_password_hash r) \<and>
    argon2_verifies P (as_bytes (li_password input)) (ur_password_hash r)"

text \<open>No row has the e-mail address, or one has it with other credentials.\<close>

definition credentials_refused :: "'a prims_scheme \<Rightarrow> login_input \<Rightarrow> tables \<Rightarrow> bool" where
  "credentials_refused P input T \<longleftrightarrow>
    (\<forall>r \<in> t_users T. ur_email r \<noteq> li_email input) \<or>
    (\<exists>r \<in> t_users T. ur_email r = li_email input \<and> \<not> credentials_ok P input r)"

lemma verify_password_eq_Inr:
  "verify_password P pw h = Inr x \<longleftrightarrow> phc_parses P h \<and> argon2_verifies P (as_bytes pw) h"
  by (simp add: verify_password_def)

lemma verify_password_eq_Inl:
  "verify_password P pw h = Inl e \<longleftrightarrow>
    e = Api Unauthorized \<and> \<not> (phc_parses P h \<and> argon2_verifies P (as_bytes pw) h)"
  by (auto simp: verify_password_def)

lemma user_matches_add_refresh_row [simp]:
  "user_matches (add_refresh_row n T) r u = user_matches T r u"
  by (simp add: user_matches_def add_refresh_row_def)

lemma wp_login:
  assumes "store_ok X vw"
    and "\<And>r n out w'. r \<in> t_users (vw w Conn) \<Longrightarrow> credentials_ok X input r \<Longrightarrow>
      user_matches (vw w Conn) r (lo_user out) \<Longrightarrow>
      vw w' = (vw w)(Conn := add_refresh_row n (vw w Conn)) \<Longrightarrow>
      new_refresh_row (vw w Conn) (ur_id r) n \<Longrightarrow>
      refresh_token_for X (lo_refresh_token out) (rt_id n) (ur_id r) \<Longrightarrow> Q out w'"
    and "\<And>e w'. vw w' = vw w \<Longrightarrow> server_error e \<or> e = Panicked \<or>
      e = Api Unauthorized \<and> credentials_refused X input (vw w Conn) \<Longrightarrow> E e w'"
    and "\<And>e r n w'. r \<in> t_users (vw w Conn) \<Longrightarrow> credentials_ok X input r \<Longrightarrow>
      vw w' = (vw w)(Conn := add_refresh_row n (vw w Conn)) \<Longrightarrow>
      new_refresh_row (vw w Conn) (ur_id r) n \<Longrightarrow> server_error e \<or> e = Panicked \<Longrightarrow> E e w'"
  shows "wp (login X S input) Q E w"
  unfolding login_def
  by (auto intro!: wp_find_user_by_email[OF assms(1)] wp_user_from_record[OF assms(1)]
      wp_issue_refresh_token[OF assms(1)] wp_sign_access_token[OF assms(1)]
      simp: verify_password_eq_Inr verify_password_eq_Inl user_matches_sel split: sum.splits)
    (fastforce intro: assms(2-4) simp: credentials_ok_def credentials_refused_def user_matches_sel)+

subsection \<open>Refresh tokens\<close>

definition refresh_validation :: "auth_service \<Rightarrow> validation" where
  "refresh_validation S =
    \<lparr>v_audience = [cfg_jwt_audience (as_config S)], v_issuer = [cfg_jwt_issuer (as_config S)],
     v_required = [''exp'', ''iss'', ''aud'', ''sub'', ''jti'']\<rparr>"

definition refresh_token_accepted ::
  "('w, 'a) ext_scheme \<Rightarrow> auth_service \<Rightarrow> tables \<Rightarrow> string \<Rightarrow> refresh_claims \<Rightarrow> bool" where
  "refresh_token_accepted X S T token c \<longleftrightarrow>
    (\<exists>h k r key obj w w'.
       jwt_decode_header X token = Inr h \<and> kid h = Some k \<and> uuid_parse X k = Some (jk_id r) \<and>
       r \<in> t_jwt_keys T \<and> valid_jwk_metadata r \<and>
       decoding_key_from_rsa_components X (jk_modulus r) (jk_exponent r) = Inr key \<and>
       x_jwt_decode X token key (refresh_validation S) w = (Inr obj, w') \<and>
       refresh_claims_from_json obj = Some c \<and> rc_typ c = ''refresh'')"

lemma wp_verify_refresh_token:
  assumes "store_ok X vw"
    and "\<And>c w'. vw w' = vw w \<Longrightarrow> refresh_token_accepted X S (vw w Conn) token c \<Longrightarrow> Q c w'"
    and "\<And>e w'. vw w' = vw w \<Longrightarrow> server_error e \<or> e = Api Unauthorized \<Longrightarrow> E e w'"
  shows "wp (verify_refresh_token X S token) Q E w"
proof -
  have "wp (x_jwt_decode X token key (refresh_validation S))
      (\<lambda>obj. wp (bindE (liftE (ok_or (Api Unauthorized) (refresh_claims_from_json obj))) (\<lambda>c.
          if rc_typ c \<noteq> ''refresh'' then unauthorized else returnE c)) Q E)
      (\<lambda>_. E (Api Unauthorized)) w'"
    if "vw w' = vw w" "jwt_decode_header X token = Inr h" "kid h = Some k"
      "uuid_parse X k = Some i" "r \<in> t_jwt_keys (vw w Conn)" "jk_id r = i" "valid_jwk_metadata r"
      "decoding_key_from_rsa_components X (jk_modulus r) (jk_exponent r) = Inr key"
    for h k i r key w'
  proof (rule wp_jwt_decode[OF assms(1)])
    fix obj w2
    assume obj: "x_jwt_decode X token key (refresh_validation S) w' = (Inr obj, w2)"
      and "vw w2 = vw w'"
    then have w2: "vw w2 = vw w" using that(1) by simp
    have accepted: "refresh_token_accepted X S (vw w Conn) token c"
      if "refresh_claims_from_json obj = Some c" "rc_typ c = ''refresh''" for c
      unfolding refresh_token_accepted_def
      using \<open>jwt_decode_header X token = Inr h\<close> \<open>kid h = Some k\<close> \<open>uuid_parse X k = Some i\<close>
        \<open>r \<in> t_jwt_keys (vw w Conn)\<close> \<open>jk_id r = i\<close> \<open>valid_jwk_metadata r\<close> obj that
        \<open>decoding_key_from_rsa_components X (jk_modulus r) (jk_exponent r) = Inr key\<close> by blast
    show "wp (bindE (liftE (ok_or (Api Unauthorized) (refresh_claims_from_json obj))) (\<lambda>c.
        if rc_typ c \<noteq> ''refresh'' then unauthorized else returnE c)) Q E w2"
      using assms(2)[OF w2 accepted] assms(3)[OF w2]
      by (cases "refresh_claims_from_json obj") auto
  next
    fix e w2 assume "vw w2 = vw w'"
    then show "E (Api Unauthorized) w2" using that(1) assms(3) by simp
  qed
  then show ?thesis
    unfolding verify_refresh_token_def Let_def refresh_validation_def wp_bindE wp_map_errE
    by (auto intro!: wp_decoding_key_for_token[OF assms(1)] assms(3))
qed

text \<open>
  A refresh token is good for a row: accepted, and its claims name the row and its user; the row
  is not revoked, and some reading of the clock was before its end.
\<close>

definition refresh_token_good ::
  "('w, 'a) ext_scheme \<Rightarrow> auth_service \<Rightarrow> tables \<Rightarrow> string \<Rightarrow> user_refresh_token_record \<Rightarrow> bool" where
  "refresh_token_good X S T token r \<longleftrightarrow>
    r \<in> t_refresh_tokens T \<and> rt_revoked_at r = None \<and>
    (\<exists>c. refresh_token_accepted X S T token c \<and> uuid_parse X (rc_jti c) = Some (rt_id r) \<and>
       uuid_parse X (rc_sub c) = Some (rt_user_id r)) \<and>
    (\<exists>t w. parse_rfc3339 X (rt_expires_at r) = Inr t \<and> fst (x_now X w) < t)"

lemma wp_now_read:
  assumes "store_ok X vw"
    and "\<And>w'. vw w' = vw w \<Longrightarrow> Q (fst (x_now X w)) w'"
  shows "wp (effectE (x_now X)) Q E w"
  using assms(2) generators_silent(1)[OF assms(1)] unfolding silent_def wp_effectE_run
  by (auto split: prod.splits) (metis snd_conv)

lemma parse_rfc3339_error: "parse_rfc3339 P s = Inl e \<Longrightarrow> server_error e"
  by (auto simp: parse_rfc3339_def server_error_def)

lemma wp_active_refresh_token_record:
  assumes "store_ok X vw"
    and "\<And>r w'. vw w' = vw w \<Longrightarrow> refresh_token_good X S (vw w Conn) token r \<Longrightarrow> Q r w'"
    and "\<And>e w'. vw w' = vw w \<Longrightarrow> server_error e \<or> e = Api Unauthorized \<Longrightarrow> E e w'"
  shows "wp (active_refresh_token_record X S token) Q E w"
proof -
  have good: "refresh_token_good X S (vw w Conn) token r"
    if "refresh_token_accepted X S (vw w Conn) token c" "uuid_parse X (rc_jti c) = Some (rt_id r)"
      "uuid_parse X (rc_sub c) = Some (rt_user_id r)" "r \<in> t_refresh_tokens (vw w Conn)"
      "rt_revoked_at r = None" "parse_rfc3339 X (rt_expires_at r) = Inr t"
      "\<not> t \<le> fst (x_now X w1)" for c r t w1
    unfolding refresh_token_good_def using that by (meson not_le)
  show ?thesis
    unfolding active_refresh_token_record_def
    by (auto intro!: wp_verify_refresh_token[OF assms(1)] wp_first[OF assms(1)]
        wp_now_read[OF assms(1)] assms(2,3) simp: ok_or_def split: option.splits sum.splits)
      (use good parse_rfc3339_error in blast)+
qed

subsection \<open>Rotation and logout\<close>

definition revoke_refresh :: "uuid \<Rightarrow> string \<Rightarrow> tables \<Rightarrow> tables" where
  "revoke_refresh i s = t_refresh_tokens_update
    ((`) (update_row refresh_token_set (\<lambda>x. rt_id x = i) [(4, VText s)]))"

text \<open>The rows of a token are all revoked, and there is one.\<close>

definition refresh_revoked :: "tables \<Rightarrow> uuid \<Rightarrow> bool" where
  "refresh_revoked T i \<longleftrightarrow>
    (\<exists>r \<in> t_refresh_tokens T. rt_id r = i) \<and>
    (\<forall>r \<in> t_refresh_tokens T. rt_id r = i \<longrightarrow> rt_revoked_at r \<noteq> None)"

lemma revoked_row [simp]:
  "rt_revoked_at (update_row refresh_token_set P [(4, VText s)] r) =
    (if P r then Some s else rt_revoked_at r)"
  by (simp add: update_row_if)

lemma revoke_refresh_revoked:
  "\<exists>r \<in> t_refresh_tokens T. rt_id r = i \<Longrightarrow> refresh_revoked (revoke_refresh i s T) i"
  by (auto simp: refresh_revoked_def revoke_refresh_def)

lemma refresh_revoked_stable:
  "refresh_revoked T i \<Longrightarrow> refresh_revoked (revoke_refresh j s T) i"
  "refresh_revoked T i \<Longrightarrow> new_refresh_row T u n \<Longrightarrow> refresh_revoked (add_refresh_row n T) i"
  by (fastforce simp: refresh_revoked_def revoke_refresh_def add_refresh_row_def
      new_refresh_row_def)+

text \<open>The new row is there and the old one is spent, in one step.\<close>

definition rotated ::
  "('w, 'a) ext_scheme \<Rightarrow> auth_service \<Rightarrow> string \<Rightarrow> tables \<Rightarrow>
   user_refresh_token_record \<Rightarrow> user_refresh_token_record \<Rightarrow> user_record \<Rightarrow> tables \<Rightarrow> bool" where
  "rotated X S token T old new u T' \<longleftrightarrow>
    refresh_token_good X S T token old \<and> u \<in> t_users T \<and> ur_id u = rt_user_id old \<and>
    ur_status u = ''active'' \<and> new_refresh_row T (ur_id u) new \<and>
    (\<exists>s. T' = revoke_refresh (rt_id old) s (add_refresh_row new T))"

lemma wp_refresh_session:
  assumes "store_ok X vw"
    and Q: "\<And>old new u out w'. rotated X S (rs_refresh_token input) (vw w Conn) old new u (vw w' Conn) \<Longrightarrow>
      user_matches (vw w Conn) u (lo_user out) \<Longrightarrow>
      refresh_token_for X (lo_refresh_token out) (rt_id new) (ur_id u) \<Longrightarrow> Q out w'"
    and E: "\<And>e w'. vw w' Conn = vw w Conn \<Longrightarrow>
      server_error e \<or> e = Panicked \<or> e = Api Unauthorized \<Longrightarrow> E e w'"
    and E': "\<And>e old new u w'. rotated X S (rs_refresh_token input) (vw w Conn) old new u (vw w' Conn) \<Longrightarrow>
      server_error e \<Longrightarrow> E e w'"
  shows "wp (refresh_session X S input) Q E w"
proof -
  have rot: "rotated X S (rs_refresh_token input) (vw w Conn) old new u (vw w' Conn)"
    if "refresh_token_good X S (vw w Conn) (rs_refresh_token input) old"
      "u \<in> t_users (vw w Conn)" "ur_id u = rt_user_id old" "ur_status u = ''active''"
      "new_refresh_row (vw w Conn) (rt_user_id old) new"
      "vw w' Conn = t_refresh_tokens_update
        ((`) (update_row refresh_token_set (\<lambda>x. rt_id x = rt_id old) [(4, VText s)]))
        (add_refresh_row new (vw w Conn))" for old u new s w'
    unfolding rotated_def using that by (auto simp: revoke_refresh_def)
  show ?thesis
    unfolding refresh_session_def
    by (auto intro!: wp_active_refresh_token_record[OF assms(1)] wp_get_user_record[OF assms(1)]
        wp_user_from_record[OF assms(1)] wp_tx[OF assms(1)] wp_issue_refresh_token[OF assms(1)]
        wp_generators[OF assms(1)] wp_update[OF assms(1)] wp_sign_access_token[OF assms(1)]
        simp: user_matches_sel)
      (fastforce intro: rot Q E E' simp: user_matches_sel)+
qed

lemma wp_logout:
  assumes "store_ok X vw"
    and Q: "\<And>r s w'. refresh_token_good X S (vw w Conn) (lg_refresh_token input) r \<Longrightarrow>
      vw w' = (vw w)(Conn := revoke_refresh (rt_id r) s (vw w Conn)) \<Longrightarrow> Q () w'"
    and E: "\<And>e w'. vw w' = vw w \<Longrightarrow> server_error e \<or> e = Api Unauthorized \<Longrightarrow> E e w'"
    and E': "\<And>e r s w'. refresh_token_good X S (vw w Conn) (lg_refresh_token input) r \<Longrightarrow>
      vw w' = (vw w)(Conn := revoke_refresh (rt_id r) s (vw w Conn)) \<Longrightarrow> server_error e \<Longrightarrow> E e w'"
  shows "wp (logout X S input) Q E w"
  unfolding logout_def
  by (auto intro!: wp_active_refresh_token_record[OF assms(1)] wp_generators[OF assms(1)]
      wp_update[OF assms(1)])
    (fastforce intro: Q E E' simp: revoke_refresh_def)+

text \<open>A token whose row is revoked is good for nothing, as long as the row stays revoked.\<close>

lemma good_token_row:
  assumes "jwt_laws X" "uuid_laws X"
    and "refresh_token_for X token i u" and "refresh_token_good X S T token r"
  shows "rt_id r = i"
proof -
  from assms(4) obtain c where c: "refresh_token_accepted X S T token c"
    "uuid_parse X (rc_jti c) = Some (rt_id r)"
    by (auto simp: refresh_token_good_def)
  from assms(3) obtain h c0 key where c0: "jwt_encode X h (refresh_claims_json c0) key = Inr token"
    "rc_jti c0 = uuid_to_string X i"
    by (auto simp: refresh_token_for_def)
  from c(1) obtain k v w obj w' where "x_jwt_decode X token k v w = (Inr obj, w')"
    "refresh_claims_from_json obj = Some c"
    by (auto simp: refresh_token_accepted_def)
  moreover from this c0(1) have "obj = refresh_claims_json c0"
    using assms(1) unfolding jwt_laws_def by blast
  ultimately have "c = c0" by (simp add: claims_round)
  then show ?thesis using c(2) c0(2) uuid_lawsD[OF assms(2)] by simp
qed

lemma revoked_not_good:
  assumes "jwt_laws X" "uuid_laws X"
    and "refresh_token_for X token i u" and "refresh_revoked T i"
  shows "\<not> refresh_token_good X S T token r"
proof
  assume good: "refresh_token_good X S T token r"
  then have "r \<in> t_refresh_tokens T" "rt_revoked_at r = None"
    by (simp_all add: refresh_token_good_def)
  then show False
    using good_token_row[OF assms(1-3) good] assms(4) by (auto simp: refresh_revoked_def)
qed

subsection \<open>Invitations\<close>

text \<open>The three rows of an invitation, all fresh, in one step.\<close>

definition invited_rows ::
  "invite_user_input \<Rightarrow> tables \<Rightarrow> user_record \<Rightarrow> user_invite_record \<Rightarrow>
   workspace_user_role_record \<Rightarrow> bool" where
  "invited_rows input T u i r \<longleftrightarrow>
    ur_email u = ii_email input \<and> ur_name u = ii_name input \<and> ur_role u = ''viewer'' \<and>
    ur_status u = ''invited'' \<and> ur_password_hash u = [] \<and>
    (\<forall>x \<in> t_users T. ur_id x \<noteq> ur_id u \<and> ur_email x \<noteq> ur_email u) \<and>
    ui_user_id i = ur_id u \<and> ui_accepted_at i = [] \<and>
    (\<forall>x \<in> t_invites T. ui_id x \<noteq> ui_id i \<and> ui_token_hash x \<noteq> ui_token_hash i) \<and>
    wu_user_id r = ur_id u \<and> wu_workspace_id r = ii_workspace_id input \<and>
    wu_role r = role_str (ii_role input) \<and> (\<forall>x \<in> t_user_roles T. wu_id x \<noteq> wu_id r) \<and>
    ii_role input \<noteq> SuperAdmin \<and> (\<exists>ws \<in> t_workspaces T. w_id ws = ii_workspace_id input)"

definition add_invitation ::
  "user_record \<Rightarrow> user_invite_record \<Rightarrow> workspace_user_role_record \<Rightarrow> tables \<Rightarrow> tables" where
  "add_invitation u i r T =
    t_user_roles_update (insert r) (t_invites_update (insert i) (t_users_update (insert u) T))"

lemma wp_is_okE [simp]:
  "wp (is_okE m) Q E =
    wp m (\<lambda>_. Q True) (\<lambda>e. case e of Api _ \<Rightarrow> Q False | _ \<Rightarrow> E e)"
  unfolding is_okE_def wp_matchE wp_returnE
  by (rule arg_cong[where f = "wp m (\<lambda>_. Q True)"]) (auto simp: fun_eq_iff split: exn.splits)

lemma wp_ensure_workspace_exists [wp_rules]:
  assumes "store_ok X vw"
    and "\<And>w'. vw w' = vw w \<Longrightarrow> \<exists>ws \<in> t_workspaces (vw w Conn). w_id ws = i \<Longrightarrow> Q () w'"
    and "\<And>e w'. vw w' = vw w \<Longrightarrow> server_error e \<or> e = Api (NotFound ''workspace'') \<Longrightarrow> E e w'"
  shows "wp (ensure_workspace_exists X S i) Q E w"
  unfolding ensure_workspace_exists_def
  by (auto intro!: wp_first[OF assms(1)] assms(3)) (fastforce intro: assms(2))

lemma invite_user_refused:
  "ii_role input = SuperAdmin \<Longrightarrow>
    invite_user X S input w =
      (Inl (Api (BadRequest ''super_admin is a global bootstrap-only role'')), w)"
  "ii_role input \<noteq> SuperAdmin \<Longrightarrow>
    \<not> can_administer_workspace (ii_inviter input) (ii_workspace_id input) \<Longrightarrow>
    invite_user X S input w = (Inl (Api Forbidden), w)"
  by (simp_all add: invite_user_def throwE_def)

lemma wp_invite_user:
  assumes "store_ok X vw"
    and Q: "\<And>u i r raw out w'. vw w' Conn = add_invitation u i r (vw w Conn) \<Longrightarrow>
      invited_rows input (vw w Conn) u i r \<Longrightarrow> ui_token_hash i = hash_invite_token X raw \<Longrightarrow>
      io_invite_link out = invite_link (cfg_app_base_url (as_config S)) raw \<Longrightarrow>
      u_id (io_user out) = ur_id u \<Longrightarrow>
      can_administer_workspace (ii_inviter input) (ii_workspace_id input) \<Longrightarrow> Q out w'"
    and E: "\<And>e w'. vw w' Conn = vw w Conn \<Longrightarrow> E e w'"
    and E': "\<And>e u i r w'. vw w' Conn = add_invitation u i r (vw w Conn) \<Longrightarrow>
      invited_rows input (vw w Conn) u i r \<Longrightarrow>
      can_administer_workspace (ii_inviter input) (ii_workspace_id input) \<Longrightarrow>
      server_error e \<Longrightarrow> E e w'"
  shows "wp (invite_user X S input) Q E w"
proof -
  have Q1: "Q out w'"
    if "vw w' = (vw w)(Tx := T, Conn := t_user_roles_update (insert r)
        (t_invites_update (insert \<lparr>ui_id = i1, ui_user_id = i2,
          ui_token_hash = hash_invite_token X raw, ui_expires_at = i3, ui_accepted_at = i4,
          ui_created_at = i5\<rparr>) (t_users_update (insert u) (vw w Conn))))"
      and "invited_rows input (vw w Conn) u \<lparr>ui_id = i1, ui_user_id = i2,
          ui_token_hash = hash_invite_token X raw, ui_expires_at = i3, ui_accepted_at = i4,
          ui_created_at = i5\<rparr> r"
      "io_invite_link out = invite_link (cfg_app_base_url (as_config S)) raw"
      "u_id (io_user out) = ur_id u"
      "can_administer_workspace (ii_inviter input) (ii_workspace_id input)"
    for w' T u i1 i2 i3 i4 i5 r raw out
    using Q[OF _ that(2) _ that(3-5)] that(1) by (simp add: add_invitation_def)
  have E1: "E e w'"
    if "vw w' = (vw w)(Tx := T, Conn := t_user_roles_update (insert r)
        (t_invites_update (insert i) (t_users_update (insert u) (vw w Conn))))"
      and "invited_rows input (vw w Conn) u i r"
      "can_administer_workspace (ii_inviter input) (ii_workspace_id input)" "server_error e"
    for w' T u i r e
    using E'[of w' u i r e] that by (simp add: add_invitation_def)
  show ?thesis
    unfolding invite_user_def generate_invite_token_def
    by (auto intro!: wp_find_user_by_email[OF assms(1)] wp_ensure_workspace_exists[OF assms(1)]
        wp_generators[OF assms(1)] wp_tx[OF assms(1)] wp_insert[OF assms(1)]
        simp: after_seconds_def ok_or_def split: option.splits exn.splits)
      ((erule Q1 E1; auto simp: invited_rows_def) | (rule E; simp))+
qed

subsection \<open>Accepting an invitation\<close>

text \<open>
  An invitation that can be accepted: stored under the digest of the token, not accepted, not
  ended at some reading of the clock, and its user neither active nor disabled.
\<close>

definition open_invite ::
  "('w, 'a) ext_scheme \<Rightarrow> tables \<Rightarrow> string \<Rightarrow> user_invite_record \<Rightarrow> user_record \<Rightarrow> bool" where
  "open_invite X T token i u \<longleftrightarrow>
    i \<in> t_invites T \<and> ui_token_hash i = hash_invite_token X token \<and> ui_accepted_at i = [] \<and>
    (\<exists>t w. parse_rfc3339 X (ui_expires_at i) = Inr t \<and> fst (x_now X w) \<le> t) \<and>
    u \<in> t_users T \<and> ur_id u = ui_user_id i \<and> ur_status u \<noteq> ''active'' \<and>
    ur_status u \<noteq> ''disabled''"

definition activate_user :: "uuid \<Rightarrow> string \<Rightarrow> tables \<Rightarrow> tables" where
  "activate_user i h = t_users_update
    ((`) (update_row user_set (\<lambda>x. ur_id x = i) [(4, VText ''active''), (5, VText h)]))"

definition mark_accepted :: "uuid \<Rightarrow> string \<Rightarrow> tables \<Rightarrow> tables" where
  "mark_accepted i s = t_invites_update
    ((`) (update_row invite_set (\<lambda>x. ui_id x = i) [(4, VText s)]))"

text \<open>The steps an acceptance takes, each a separate write.\<close>

inductive acceptance ::
  "('w, 'a) ext_scheme \<Rightarrow> accept_invite_input \<Rightarrow> user_invite_record \<Rightarrow> tables \<Rightarrow> nat \<Rightarrow> tables \<Rightarrow> bool"
  for X input i where
  activated: "x_argon2_hash X (as_bytes (ai_password input)) w1 = (Inr h, w2) \<Longrightarrow>
    acceptance X input i T 1 (activate_user (ui_user_id i) h T)"
| marked: "acceptance X input i T 1 T' \<Longrightarrow>
    acceptance X input i T 2 (mark_accepted (ui_id i) (to_rfc3339 X t) T')"
| opened: "acceptance X input i T 2 T' \<Longrightarrow> new_refresh_row T' (ui_user_id i) n \<Longrightarrow>
    acceptance X input i T 3 (add_refresh_row n T')"

lemma wp_get_user_id:
  assumes "store_ok X vw"
    and "\<And>u w'. vw w' = vw w \<Longrightarrow> u_id u = i \<Longrightarrow> Q u w'" and "\<And>e w'. vw w' = vw w \<Longrightarrow> E e w'"
  shows "wp (get_user X S i) Q E w"
  by (rule wp_get_user[OF assms(1)]) (use assms(2,3) user_matches_sel in blast)+

lemma wp_accept_invite:
  assumes "store_ok X vw"
    and Q: "\<And>i u out w'. open_invite X (vw w Conn) (ai_token input) i u \<Longrightarrow>
      acceptance X input i (vw w Conn) 3 (vw w' Conn) \<Longrightarrow> u_id (lo_user out) = ui_user_id i \<Longrightarrow>
      Q out w'"
    and E: "\<And>e w'. vw w' Conn = vw w Conn \<Longrightarrow> E e w'"
    and E': "\<And>e i u n w'. open_invite X (vw w Conn) (ai_token input) i u \<Longrightarrow>
      acceptance X input i (vw w Conn) n (vw w' Conn) \<Longrightarrow> E e w'"
  shows "wp (accept_invite X S input) Q E w"
proof -
  have opn: "open_invite X (vw w Conn) (ai_token input) i u"
    if "i \<in> t_invites (vw w Conn)" "ui_token_hash i = hash_invite_token X (ai_token input)"
      "ui_accepted_at i = []" "parse_rfc3339 X (ui_expires_at i) = Inr t"
      "\<not> t < fst (x_now X w1)" "u \<in> t_users (vw w Conn)" "ur_id u = ui_user_id i"
      "ur_status u \<noteq> ''active''" "ur_status u \<noteq> ''disabled''" for i u t w1
    unfolding open_invite_def using that by (meson not_less)
  let ?U = "\<lambda>i h. t_users_update
    ((`) (update_row user_set (\<lambda>x. ur_id x = ui_user_id i) [(4, VText ''active''), (5, VText h)]))"
  let ?I = "\<lambda>i s. t_invites_update
    ((`) (update_row invite_set (\<lambda>x. ui_id x = ui_id i) [(4, VText s)]))"
  have step: "acceptance X input i T 1 (?U i h T)"
      "acceptance X input i T 2 (?I i (to_rfc3339 X t) (?U i h T))"
      "new_refresh_row (?I i (to_rfc3339 X t) (?U i h T)) (ui_user_id i) n \<Longrightarrow>
        acceptance X input i T 3 (add_refresh_row n (?I i (to_rfc3339 X t) (?U i h T)))"
    if "x_argon2_hash X (as_bytes (ai_password input)) w1 = (Inr h, w2)" for i h t n T w1 w2
    using acceptance.intros[where X = X and input = input and i = i and T = T] that
    unfolding activate_user_def mark_accepted_def by blast+
  have E1: "E e w'"
    if "vw w' = (vw w)(Conn := ?U i h (vw w Conn))"
      "open_invite X (vw w Conn) (ai_token input) i u"
      "x_argon2_hash X (as_bytes (ai_password input)) w1 = (Inr h, w2)" for e w' i u h w1 w2
    using E'[OF that(2), of 1 w' e] step(1)[OF that(3)] that(1) by simp
  have E2: "E e w'"
    if "vw w' = (vw w)(Conn := ?I i (to_rfc3339 X t) (?U i h (vw w Conn)))"
      "open_invite X (vw w Conn) (ai_token input) i u"
      "x_argon2_hash X (as_bytes (ai_password input)) w1 = (Inr h, w2)" for e w' i u h t w1 w2
    using E'[OF that(2), of 2 w' e] step(2)[OF that(3)] that(1) by simp
  have E3: "E e w'"
    if "vw w' = (vw w)(Conn := add_refresh_row n (?I i (to_rfc3339 X t) (?U i h (vw w Conn))))"
      "new_refresh_row (?I i (to_rfc3339 X t) (?U i h (vw w Conn))) (ui_user_id i) n"
      "open_invite X (vw w Conn) (ai_token input) i u"
      "x_argon2_hash X (as_bytes (ai_password input)) w1 = (Inr h, w2)" for e w' i u h t n w1 w2
    using E'[OF that(3), of 3 w' e] step(3)[OF that(4,2)] that(1) by simp
  have Q3: "Q out w'"
    if "vw w' = (vw w)(Conn := add_refresh_row n (?I i (to_rfc3339 X t) (?U i h (vw w Conn))))"
      "new_refresh_row (?I i (to_rfc3339 X t) (?U i h (vw w Conn))) (ui_user_id i) n"
      "open_invite X (vw w Conn) (ai_token input) i u" "u_id (lo_user out) = ui_user_id i"
      "x_argon2_hash X (as_bytes (ai_password input)) w1 = (Inr h, w2)"
    for out w' i u h t n w1 w2
    using Q[OF that(3) _ that(4), of w'] step(3)[OF that(5,2)] that(1) by simp
  show ?thesis
    unfolding accept_invite_def find_open_invite_def hash_password_def
    by (auto intro!: wp_first[OF assms(1)] wp_get_user_record[OF assms(1)]
        wp_now_read[OF assms(1)] wp_argon2_hash[OF assms(1)] wp_update[OF assms(1)]
        wp_get_user_id[OF assms(1)] wp_issue_refresh_token[OF assms(1)]
        wp_sign_access_token[OF assms(1)] split: sum.splits)
      ((rule E; simp; fail) | (erule E1 E2 E3 Q3; (auto intro: opn; fail)?))+
qed

text \<open>From its first step on, the user of the invitation is active and its rows are the same.\<close>

lemma acceptance_effect:
  assumes "acceptance X input i T n T'"
  shows "(\<forall>u \<in> t_users T'. ur_id u = ui_user_id i \<longrightarrow> ur_status u = ''active'') \<and>
    (\<lambda>x. (ui_token_hash x, ui_user_id x)) ` t_invites T' =
    (\<lambda>x. (ui_token_hash x, ui_user_id x)) ` t_invites T"
  using assms
proof (induction rule: acceptance.induct)
  case (activated w1 h w2 T)
  then show ?case by (auto simp: activate_user_def update_row_if)
next
  case (marked T T' t)
  have "(\<lambda>x. (ui_token_hash x, ui_user_id x)) `
      t_invites (mark_accepted (ui_id i) (to_rfc3339 X t) T') =
      (\<lambda>x. (ui_token_hash x, ui_user_id x)) ` t_invites T'"
    by (simp add: mark_accepted_def image_image)
  with marked show ?case by (auto simp: mark_accepted_def)
next
  case (opened T T' n)
  then show ?case by (simp add: add_refresh_row_def)
qed

lemma accepted_not_open:
  assumes acc: "acceptance X input i T n T'"
    and unique: "\<forall>x \<in> t_invites T. ui_token_hash x = ui_token_hash i \<longrightarrow> ui_user_id x = ui_user_id i"
    and token: "hash_invite_token X token = ui_token_hash i"
  shows "\<not> open_invite X T' token i' u'"
proof
  assume op: "open_invite X T' token i' u'"
  note eff = acceptance_effect[OF acc]
  have "(ui_token_hash i', ui_user_id i') \<in> (\<lambda>x. (ui_token_hash x, ui_user_id x)) ` t_invites T'"
    by (rule imageI) (use op in \<open>simp add: open_invite_def\<close>)
  then obtain x where "x \<in> t_invites T" "ui_token_hash x = ui_token_hash i'"
    "ui_user_id x = ui_user_id i'"
    unfolding conjunct2[OF eff] by auto
  then have "ui_user_id i' = ui_user_id i"
    using unique token op by (auto simp: open_invite_def)
  then show False using op conjunct1[OF eff] by (auto simp: open_invite_def)
qed

end
