(* ===== verification/Workspaces.thy ===== *)
theory Workspaces
  imports Store
begin

section \<open>Workspaces and their environments\<close>

text \<open>
  \<open>services/workspaces.rs\<close>.  A workspace is created together with its first environment in one
  transaction; a user who is not a platform admin sees the workspaces of its roles, each once
  and in the order of their identifiers.
\<close>

record workspace_service =
  ws_db :: database

definition list_workspaces ::
  "('w, 'a) ext_scheme \<Rightarrow> workspace_service \<Rightarrow> ('w, exn, workspace list) io" where
  "list_workspaces X S =
    bindE (db_handle (ws_db S)) (\<lambda>_.
    db_select (x_workspaces X) Conn (\<lambda>_. True))"

definition get_workspace ::
  "('w, 'a) ext_scheme \<Rightarrow> workspace_service \<Rightarrow> uuid \<Rightarrow> ('w, exn, workspace) io" where
  "get_workspace X S i =
    bindE (db_handle (ws_db S)) (\<lambda>_.
    bindE (db_first (x_workspaces X) Conn (\<lambda>w. w_id w = i)) (\<lambda>workspace.
    liftE (ok_or (Api (NotFound ''workspace'')) workspace)))"

text \<open>The loop over the roles: a workspace that is gone is skipped, any other error ends it.\<close>

fun role_workspaces ::
  "('w, 'a) ext_scheme \<Rightarrow> workspace_service \<Rightarrow> workspace_role list \<Rightarrow> workspace list \<Rightarrow>
   ('w, exn, workspace list) io" where
  "role_workspaces X S [] workspaces = returnE workspaces"
| "role_workspaces X S (r # rs) workspaces =
    matchE (get_workspace X S (wro_workspace_id r))
      (\<lambda>workspace. role_workspaces X S rs (workspaces @ [workspace]))
      (\<lambda>error. if error = Api (NotFound ''workspace'') then role_workspaces X S rs workspaces
               else throwE error)"

text \<open>\<open>dedup_by_key\<close>: of neighbours with the same key the first is kept.\<close>

fun dedup_by_key :: "('a \<Rightarrow> 'k) \<Rightarrow> 'a list \<Rightarrow> 'a list" where
  "dedup_by_key f (x # y # xs) =
    (if f x = f y then dedup_by_key f (x # xs) else x # dedup_by_key f (y # xs))"
| "dedup_by_key f xs = xs"

definition list_accessible_workspaces ::
  "('w, 'a) ext_scheme \<Rightarrow> workspace_service \<Rightarrow> user \<Rightarrow> ('w, exn, workspace list) io" where
  "list_accessible_workspaces X S user =
    (if u_role user = SuperAdmin then list_workspaces X S
     else bindE (role_workspaces X S (u_workspace_roles user) []) (\<lambda>workspaces.
      returnE (dedup_by_key w_id (sort_key w_id workspaces))))"

definition create_workspace ::
  "('w, 'a) ext_scheme \<Rightarrow> workspace_service \<Rightarrow> string \<Rightarrow> string option \<Rightarrow> ('w, exn, workspace) io" where
  "create_workspace X S name description =
    bindE (db_handle (ws_db S)) (\<lambda>_.
    bindE (db_transaction X) (\<lambda>_.
    bindE (effectE (x_now_v7 X)) (\<lambda>i.
    bindE (db_insert (x_workspaces X) Tx
        \<lparr>w_id = i, w_name = name, w_description = description\<rparr>) (\<lambda>workspace.
    bindE (effectE (x_now_v7 X)) (\<lambda>j.
    bindE (db_insert (x_environments X) Tx
        \<lparr>e_id = j, e_workspace_id = w_id workspace, e_name = ''production''\<rparr>) (\<lambda>_.
    bindE (db_commit X) (\<lambda>_.
    returnE workspace)))))))"

definition list_environments ::
  "('w, 'a) ext_scheme \<Rightarrow> workspace_service \<Rightarrow> uuid \<Rightarrow> ('w, exn, environment list) io" where
  "list_environments X S workspace_id =
    bindE (db_handle (ws_db S)) (\<lambda>_.
    db_select (x_environments X) Conn (\<lambda>e. e_workspace_id e = workspace_id))"

definition create_environment ::
  "('w, 'a) ext_scheme \<Rightarrow> workspace_service \<Rightarrow> uuid \<Rightarrow> string \<Rightarrow> ('w, exn, environment) io" where
  "create_environment X S workspace_id name =
    bindE (get_workspace X S workspace_id) (\<lambda>_.
    bindE (db_handle (ws_db S)) (\<lambda>_.
    bindE (effectE (x_now_v7 X)) (\<lambda>i.
    db_insert (x_environments X) Conn
      \<lparr>e_id = i, e_workspace_id = workspace_id, e_name = name\<rparr>)))"

subsection \<open>Reads\<close>

lemma wp_list_workspaces [wp_rules]:
  assumes "store_ok X vw"
    and "\<And>rs w'. vw w' = vw w \<Longrightarrow> distinct rs \<Longrightarrow> set rs = t_workspaces (vw w Conn) \<Longrightarrow> Q rs w'"
    and "\<And>e w'. vw w' = vw w \<Longrightarrow> server_error e \<Longrightarrow> E e w'"
  shows "wp (list_workspaces X S) Q E w"
  unfolding list_workspaces_def by (auto intro!: wp_select[OF assms(1)] assms(2,3))

text \<open>A workspace that is asked for is there, or there is none with the identifier.\<close>

definition no_workspace :: "tables \<Rightarrow> uuid \<Rightarrow> bool" where
  "no_workspace T i \<longleftrightarrow> (\<forall>x \<in> t_workspaces T. w_id x \<noteq> i)"

lemma wp_get_workspace [wp_rules]:
  assumes "store_ok X vw"
    and "\<And>x w'. vw w' = vw w \<Longrightarrow> x \<in> t_workspaces (vw w Conn) \<Longrightarrow> w_id x = i \<Longrightarrow> Q x w'"
    and "\<And>e w'. vw w' = vw w \<Longrightarrow> server_error e \<or>
      e = Api (NotFound ''workspace'') \<and> no_workspace (vw w Conn) i \<Longrightarrow> E e w'"
  shows "wp (get_workspace X S i) Q E w"
  unfolding get_workspace_def
  by (auto intro!: wp_first[OF assms(1)] assms(2,3) simp: no_workspace_def)

lemma wp_list_environments [wp_rules]:
  assumes "store_ok X vw"
    and "\<And>rs w'. vw w' = vw w \<Longrightarrow> distinct rs \<Longrightarrow>
      set rs = {e \<in> t_environments (vw w Conn). e_workspace_id e = i} \<Longrightarrow> Q rs w'"
    and "\<And>e w'. vw w' = vw w \<Longrightarrow> server_error e \<Longrightarrow> E e w'"
  shows "wp (list_environments X S i) Q E w"
  unfolding list_environments_def by (auto intro!: wp_select[OF assms(1)] assms(2,3))

subsection \<open>The workspaces of a user\<close>

definition role_ids :: "user \<Rightarrow> uuid set" where
  "role_ids u = wro_workspace_id ` set (u_workspace_roles u)"

lemma wp_role_workspaces:
  assumes "store_ok X vw"
    and "\<And>rs w'. vw w' = vw w \<Longrightarrow> set rs \<subseteq> set acc \<union> t_workspaces (vw w Conn) \<Longrightarrow>
      w_id ` set rs = w_id ` set acc \<union>
        wro_workspace_id ` set roles \<inter> w_id ` t_workspaces (vw w Conn) \<Longrightarrow> Q rs w'"
    and "\<And>e w'. vw w' = vw w \<Longrightarrow> server_error e \<Longrightarrow> E e w'"
  shows "wp (role_workspaces X S roles acc) Q E w"
  using assms(2,3)
proof (induction roles arbitrary: acc w)
  case Nil
  then show ?case by simp
next
  case (Cons r roles)
  show ?case
    unfolding role_workspaces.simps wp_matchE
  proof (rule wp_get_workspace[OF assms(1)], goal_cases)
    case (1 x w1)
    then have x: "x \<in> t_workspaces (vw w Conn)" "w_id x = wro_workspace_id r"
      "wro_workspace_id r \<in> w_id ` t_workspaces (vw w Conn)"
      by (auto intro: rev_image_eqI)
    show ?case
    proof (rule Cons.IH, goal_cases)
      case (1 rs w2)
      show ?case
        by (rule Cons.prems(1)) (use 1 x \<open>vw w1 = vw w\<close> in auto)
    qed (use Cons.prems(2) 1 in simp)
  next
    case (2 e w1)
    then show ?case
    proof (elim disjE conjE)
      assume "server_error e"
      then show ?thesis using Cons.prems(2) 2 by auto
    next
      assume e: "e = Api (NotFound ''workspace'')"
        and none: "no_workspace (vw w Conn) (wro_workspace_id r)"
      have "wp (role_workspaces X S roles acc) Q E w1"
      proof (rule Cons.IH, goal_cases)
        case (1 rs w2)
        show ?case
          by (rule Cons.prems(1)) (use 1 2(1) none in \<open>auto simp: no_workspace_def\<close>)
      qed (use Cons.prems(2) 2(1) in simp)
      then show ?thesis using e by simp
    qed
  qed
qed

lemma dedup_by_key_head: "\<exists>ys. dedup_by_key f (x # xs) = x # ys"
  by (induction f "x # xs" arbitrary: x xs rule: dedup_by_key.induct) auto

lemma set_dedup_by_key:
  "set (dedup_by_key f xs) \<subseteq> set xs" "f ` set (dedup_by_key f xs) = f ` set xs"
proof -
  show "set (dedup_by_key f xs) \<subseteq> set xs"
    by (induction f xs rule: dedup_by_key.induct) auto
  show "f ` set (dedup_by_key f xs) = f ` set xs"
    by (induction f xs rule: dedup_by_key.induct) auto
qed

text \<open>On a sorted list the neighbours are all the equals, so nothing occurs twice.\<close>

lemma sorted_dedup_by_key:
  fixes f :: "'a \<Rightarrow> 'k :: linorder"
  assumes "sorted (map f xs)"
  shows "sorted_wrt (<) (map f (dedup_by_key f xs))"
  using assms
proof (induction f xs rule: dedup_by_key.induct)
  case (1 f x y xs)
  show ?case
  proof (cases "f x = f y")
    case True
    have "sorted_wrt (<) (map f (dedup_by_key f (x # xs)))"
      by (rule 1(1)[OF True]) (use 1(3) in simp)
    then show ?thesis by (subst dedup_by_key.simps, subst if_P[OF True])
  next
    case False
    have "\<forall>z \<in> set (dedup_by_key f (y # xs)). f x < f z"
    proof
      fix z assume "z \<in> set (dedup_by_key f (y # xs))"
      then have "z \<in> set (y # xs)" by (rule subsetD[OF set_dedup_by_key(1)])
      then have "f y \<le> f z" using 1(3) by auto
      moreover have "f x < f y" using 1(3) False by (simp add: less_le)
      ultimately show "f x < f z" by (metis less_le_trans)
    qed
    moreover have "sorted_wrt (<) (map f (dedup_by_key f (y # xs)))"
      by (rule 1(2)[OF False]) (use 1(3) in simp)
    ultimately show ?thesis
      by (simp only: dedup_by_key.simps False if_False list.map sorted_wrt.simps) simp
  qed
qed auto

lemma sort_dedup:
  fixes f :: "'a \<Rightarrow> 'k :: linorder"
  shows "sorted_wrt (<) (map f (dedup_by_key f (sort_key f xs)))"
    and "set (dedup_by_key f (sort_key f xs)) \<subseteq> set xs"
    and "f ` set (dedup_by_key f (sort_key f xs)) = f ` set xs"
  using sorted_dedup_by_key[of f "sort_key f xs"] set_dedup_by_key[of f "sort_key f xs"] by simp_all

text \<open>What a user may see.\<close>

definition visible :: "tables \<Rightarrow> user \<Rightarrow> workspace list \<Rightarrow> bool" where
  "visible T u rs \<longleftrightarrow>
    set rs \<subseteq> t_workspaces T \<and>
    (if u_role u = SuperAdmin then distinct rs \<and> set rs = t_workspaces T
     else sorted_wrt (<) (map w_id rs) \<and>
       w_id ` set rs = role_ids u \<inter> w_id ` t_workspaces T)"

lemma wp_list_accessible_workspaces [wp_rules]:
  assumes "store_ok X vw"
    and Q: "\<And>rs w'. vw w' = vw w \<Longrightarrow> visible (vw w Conn) u rs \<Longrightarrow> Q rs w'"
    and E: "\<And>e w'. vw w' = vw w \<Longrightarrow> server_error e \<Longrightarrow> E e w'"
  shows "wp (list_accessible_workspaces X S u) Q E w"
proof (cases "u_role u = SuperAdmin")
  case True
  then show ?thesis
    by (auto simp: list_accessible_workspaces_def visible_def
        intro!: wp_list_workspaces[OF assms(1)] Q E)
next
  case False
  have "Q (dedup_by_key w_id (sort_key w_id rs)) w'"
    if "vw w' = vw w" "set rs \<subseteq> t_workspaces (vw w Conn)"
      "w_id ` set rs = role_ids u \<inter> w_id ` t_workspaces (vw w Conn)" for rs w'
    using that False sort_dedup[of w_id rs] by (intro Q) (auto simp: visible_def)
  then show ?thesis
    using False by (auto simp: list_accessible_workspaces_def role_ids_def
        intro!: wp_role_workspaces[OF assms(1)] E)
qed

subsection \<open>Writes\<close>

definition add_environment :: "environment \<Rightarrow> tables \<Rightarrow> tables" where
  "add_environment e = t_environments_update (insert e)"

definition add_workspace :: "workspace \<Rightarrow> environment \<Rightarrow> tables \<Rightarrow> tables" where
  "add_workspace x e = add_environment e \<circ> t_workspaces_update (insert x)"

text \<open>The rows a new workspace comes with: new identifiers, one environment, named production.\<close>

definition new_workspace ::
  "string \<Rightarrow> string option \<Rightarrow> tables \<Rightarrow> workspace \<Rightarrow> environment \<Rightarrow> bool" where
  "new_workspace name description T x e \<longleftrightarrow>
    w_name x = name \<and> w_description x = description \<and>
    e_workspace_id e = w_id x \<and> e_name e = ''production'' \<and>
    no_workspace T (w_id x) \<and> (\<forall>y \<in> t_environments T. e_id y \<noteq> e_id e)"

lemma wp_create_workspace:
  assumes "store_ok X vw"
    and Q: "\<And>x e w'. vw w' Conn = add_workspace x e (vw w Conn) \<Longrightarrow>
      new_workspace name description (vw w Conn) x e \<Longrightarrow> Q x w'"
    and E: "\<And>er w'. server_error er \<Longrightarrow> vw w' Conn = vw w Conn \<or>
      (\<exists>x e. vw w' Conn = add_workspace x e (vw w Conn) \<and>
        new_workspace name description (vw w Conn) x e) \<Longrightarrow> E er w'"
  shows "wp (create_workspace X S name description) Q E w"
proof -
  have Q': "Q \<lparr>w_id = i, w_name = name, w_description = description\<rparr> w'"
    if "vw w' Conn = t_environments_update
        (insert \<lparr>e_id = j, e_workspace_id = i, e_name = ''production''\<rparr>)
        (t_workspaces_update
          (insert \<lparr>w_id = i, w_name = name, w_description = description\<rparr>) (vw w Conn))"
      and "\<forall>x \<in> t_workspaces (vw w Conn). w_id x \<noteq> i"
      and "\<forall>y \<in> t_environments (vw w Conn). e_id y \<noteq> j" for i j w'
    by (rule Q[of _ _ "\<lparr>e_id = j, e_workspace_id = i, e_name = ''production''\<rparr>"])
      (simp_all add: that add_workspace_def add_environment_def new_workspace_def no_workspace_def)
  have E': "E er w'"
    if "server_error er" and "vw w' Conn = t_environments_update
        (insert \<lparr>e_id = j, e_workspace_id = i, e_name = ''production''\<rparr>)
        (t_workspaces_update
          (insert \<lparr>w_id = i, w_name = name, w_description = description\<rparr>) (vw w Conn))"
      and "\<forall>x \<in> t_workspaces (vw w Conn). w_id x \<noteq> i"
      and "\<forall>y \<in> t_environments (vw w Conn). e_id y \<noteq> j" for i j w' er
  proof (rule E[OF that(1)], rule disjI2, intro exI conjI)
    show "vw w' Conn = add_workspace \<lparr>w_id = i, w_name = name, w_description = description\<rparr>
        \<lparr>e_id = j, e_workspace_id = i, e_name = ''production''\<rparr> (vw w Conn)"
      by (simp add: that(2) add_workspace_def add_environment_def)
    show "new_workspace name description (vw w Conn)
        \<lparr>w_id = i, w_name = name, w_description = description\<rparr>
        \<lparr>e_id = j, e_workspace_id = i, e_name = ''production''\<rparr>"
      using that(3,4) by (simp add: new_workspace_def no_workspace_def)
  qed
  show ?thesis
    unfolding create_workspace_def
    by (auto intro!: wp_tx[OF assms(1)] wp_generators[OF assms(1)] wp_insert(1,2)[OF assms(1)])
      ((rule E; simp; fail) | (rule Q'; simp; fail) | (rule E'; simp; fail))+
qed

definition new_environment :: "uuid \<Rightarrow> string \<Rightarrow> tables \<Rightarrow> environment \<Rightarrow> bool" where
  "new_environment i name T e \<longleftrightarrow>
    e_workspace_id e = i \<and> e_name e = name \<and> (\<exists>x \<in> t_workspaces T. w_id x = i) \<and>
    (\<forall>y \<in> t_environments T. e_id y \<noteq> e_id e)"

lemma wp_create_environment:
  assumes "store_ok X vw"
    and Q: "\<And>e w'. vw w' = (vw w)(Conn := add_environment e (vw w Conn)) \<Longrightarrow>
      new_environment i name (vw w Conn) e \<Longrightarrow> Q e w'"
    and E: "\<And>er w'. vw w' = vw w \<Longrightarrow> server_error er \<or>
      er = Api (NotFound ''workspace'') \<and> no_workspace (vw w Conn) i \<Longrightarrow> E er w'"
    and E': "\<And>er e w'. vw w' = (vw w)(Conn := add_environment e (vw w Conn)) \<Longrightarrow>
      new_environment i name (vw w Conn) e \<Longrightarrow> server_error er \<Longrightarrow> E er w'"
  shows "wp (create_environment X S i name) Q E w"
proof -
  have ins: "wp (db_insert (x_environments X) Conn e) Q E w'"
    if "vw w' = vw w" "x \<in> t_workspaces (vw w Conn)" "w_id x = i"
      "e_workspace_id e = i" "e_name e = name" for x e w'
    using that
    by (intro wp_insert(2)[OF assms(1)])
      (rule Q E E'[of _ e]; auto simp: add_environment_def new_environment_def; fail)+
  show ?thesis
    unfolding create_environment_def
    by (auto intro!: wp_get_workspace[OF assms(1)] wp_generators[OF assms(1)] ins E)
qed

end
