(* ===== verification/App_Services.thy ===== *)
theory App_Services
  imports Workspaces
begin

section \<open>The services of a workspace\<close>

text \<open>
  \<open>services/app_services.rs\<close>.  A service belongs to an environment of its workspace: creation
  checks both against the store before it writes.
\<close>

record create_app_service_input =
  cs_workspace_id :: uuid
  cs_environment_id :: uuid
  cs_name :: string
  cs_deploy_kind :: deploy_kind
  cs_image :: "string option"
  cs_compose_file :: "string option"
  cs_dockerfile :: "string option"
  cs_internal_port :: "u16 option"

record app_service_service =
  ss_db :: database

definition list_services ::
  "('w, 'a) ext_scheme \<Rightarrow> app_service_service \<Rightarrow> uuid \<Rightarrow> ('w, exn, app_service list) io" where
  "list_services X S workspace_id =
    bindE (db_handle (ss_db S)) (\<lambda>_.
    bindE (db_select (x_app_services X) Conn (\<lambda>r. asr_workspace_id r = workspace_id)) (\<lambda>records.
    returnE (map app_service_of records)))"

definition create_service ::
  "('w, 'a) ext_scheme \<Rightarrow> app_service_service \<Rightarrow> create_app_service_input \<Rightarrow>
   ('w, exn, app_service) io" where
  "create_service X S input =
    bindE (get_workspace X \<lparr>ws_db = ss_db S\<rparr> (cs_workspace_id input)) (\<lambda>_.
    bindE (list_environments X \<lparr>ws_db = ss_db S\<rparr> (cs_workspace_id input)) (\<lambda>environments.
    if \<not> list_ex (\<lambda>e. e_id e = cs_environment_id input) environments
    then throwE (Api (NotFound ''environment''))
    else bindE (db_handle (ss_db S)) (\<lambda>_.
      bindE (effectE (x_now_v7 X)) (\<lambda>i.
      bindE (db_insert (x_app_services X) Conn
          \<lparr>asr_id = i, asr_workspace_id = cs_workspace_id input,
           asr_environment_id = cs_environment_id input, asr_name = cs_name input,
           asr_deploy_kind = deploy_kind_str (cs_deploy_kind input), asr_image = cs_image input,
           asr_compose_file = cs_compose_file input, asr_dockerfile = cs_dockerfile input,
           asr_internal_port = cs_internal_port input\<rparr>) (\<lambda>record.
      returnE (app_service_of record))))))"

definition get_service ::
  "('w, 'a) ext_scheme \<Rightarrow> app_service_service \<Rightarrow> uuid \<Rightarrow> ('w, exn, app_service) io" where
  "get_service X S i =
    bindE (db_handle (ss_db S)) (\<lambda>_.
    bindE (db_first (x_app_services X) Conn (\<lambda>r. asr_id r = i)) (\<lambda>record.
    liftE (ok_or (Api (NotFound ''service'')) (map_option app_service_of record))))"

subsection \<open>Reads\<close>

lemma wp_list_services [wp_rules]:
  assumes "store_ok X vw"
    and "\<And>rs w'. vw w' = vw w \<Longrightarrow>
      set rs = app_service_of ` {r \<in> t_app_services (vw w Conn). asr_workspace_id r = i} \<Longrightarrow> Q rs w'"
    and "\<And>e w'. vw w' = vw w \<Longrightarrow> server_error e \<Longrightarrow> E e w'"
  shows "wp (list_services X S i) Q E w"
  unfolding list_services_def by (auto intro!: wp_select[OF assms(1)] assms(2,3))

definition no_service :: "tables \<Rightarrow> uuid \<Rightarrow> bool" where
  "no_service T i \<longleftrightarrow> (\<forall>r \<in> t_app_services T. asr_id r \<noteq> i)"

lemma wp_get_service [wp_rules]:
  assumes "store_ok X vw"
    and "\<And>r w'. vw w' = vw w \<Longrightarrow> r \<in> t_app_services (vw w Conn) \<Longrightarrow> asr_id r = i \<Longrightarrow>
      Q (app_service_of r) w'"
    and "\<And>e w'. vw w' = vw w \<Longrightarrow> server_error e \<or>
      e = Api (NotFound ''service'') \<and> no_service (vw w Conn) i \<Longrightarrow> E e w'"
  shows "wp (get_service X S i) Q E w"
  unfolding get_service_def
  by (auto intro!: wp_first[OF assms(1)] assms(2,3) simp: no_service_def)

subsection \<open>Creation\<close>

definition has_environment :: "tables \<Rightarrow> uuid \<Rightarrow> uuid \<Rightarrow> bool" where
  "has_environment T ws i \<longleftrightarrow> (\<exists>e \<in> t_environments T. e_id e = i \<and> e_workspace_id e = ws)"

definition add_service :: "app_service_record \<Rightarrow> tables \<Rightarrow> tables" where
  "add_service r = t_app_services_update (insert r)"

text \<open>The row of a new service: the input, stored under a new identifier.\<close>

definition service_row :: "create_app_service_input \<Rightarrow> tables \<Rightarrow> app_service_record \<Rightarrow> bool" where
  "service_row input T r \<longleftrightarrow>
    no_service T (asr_id r) \<and> \<not> no_workspace T (cs_workspace_id input) \<and>
    has_environment T (cs_workspace_id input) (cs_environment_id input) \<and>
    app_service_of r =
      \<lparr>sc_id = asr_id r, sc_workspace_id = cs_workspace_id input,
       sc_environment_id = cs_environment_id input, sc_name = cs_name input,
       sc_deploy_kind = cs_deploy_kind input, sc_image = cs_image input,
       sc_compose_file = cs_compose_file input, sc_dockerfile = cs_dockerfile input,
       sc_internal_port = cs_internal_port input\<rparr>"

lemma service_row_scope:
  "service_row input T r \<Longrightarrow> asr_workspace_id r = cs_workspace_id input"
  "service_row input T r \<Longrightarrow> asr_environment_id r = cs_environment_id input"
  by (simp_all add: service_row_def app_service_of_def)

lemma app_service_of_new:
  "app_service_of \<lparr>asr_id = i, asr_workspace_id = ws, asr_environment_id = env, asr_name = n,
     asr_deploy_kind = deploy_kind_str k, asr_image = im, asr_compose_file = cf,
     asr_dockerfile = df, asr_internal_port = p\<rparr> =
   \<lparr>sc_id = i, sc_workspace_id = ws, sc_environment_id = env, sc_name = n, sc_deploy_kind = k,
    sc_image = im, sc_compose_file = cf, sc_dockerfile = df, sc_internal_port = p\<rparr>"
  by (simp add: app_service_of_def)

text \<open>Why a creation is refused, when it is not for a failure of the database.\<close>

definition service_refused :: "create_app_service_input \<Rightarrow> tables \<Rightarrow> exn \<Rightarrow> bool" where
  "service_refused input T e \<longleftrightarrow>
    server_error e \<or>
    e = Api (NotFound ''workspace'') \<and> no_workspace T (cs_workspace_id input) \<or>
    e = Api (NotFound ''environment'') \<and>
      \<not> has_environment T (cs_workspace_id input) (cs_environment_id input)"

lemma wp_create_service:
  assumes "store_ok X vw"
    and Q: "\<And>r w'. vw w' = (vw w)(Conn := add_service r (vw w Conn)) \<Longrightarrow>
      service_row input (vw w Conn) r \<Longrightarrow> Q (app_service_of r) w'"
    and E: "\<And>e w'. vw w' = vw w \<Longrightarrow> service_refused input (vw w Conn) e \<Longrightarrow> E e w'"
    and E': "\<And>e r w'. vw w' = (vw w)(Conn := add_service r (vw w Conn)) \<Longrightarrow>
      service_row input (vw w Conn) r \<Longrightarrow> server_error e \<Longrightarrow> E e w'"
  shows "wp (create_service X S input) Q E w"
proof -
  let ?T = "vw w Conn"
  have E0: "E e w'" if "vw w' = vw w" "server_error e" for e w'
    using E[OF that(1)] that(2) by (simp add: service_refused_def)
  have ins: "wp (db_insert (x_app_services X) Conn r) (\<lambda>r. Q (app_service_of r)) E w'"
    if "vw w' = vw w" "\<not> no_workspace ?T (cs_workspace_id input)"
      "has_environment ?T (cs_workspace_id input) (cs_environment_id input)"
      "app_service_of r =
      \<lparr>sc_id = asr_id r, sc_workspace_id = cs_workspace_id input,
       sc_environment_id = cs_environment_id input, sc_name = cs_name input,
       sc_deploy_kind = cs_deploy_kind input, sc_image = cs_image input,
       sc_compose_file = cs_compose_file input, sc_dockerfile = cs_dockerfile input,
       sc_internal_port = cs_internal_port input\<rparr>" for r w'
    using that
    by (intro wp_insert(4)[OF assms(1)])
      (rule Q E0 E'[of _ r]; simp add: add_service_def service_row_def no_service_def; fail)+
  have env: "list_ex (\<lambda>e. e_id e = cs_environment_id input) es \<longleftrightarrow>
      has_environment ?T (cs_workspace_id input) (cs_environment_id input)"
    if "set es = {e \<in> t_environments ?T. e_workspace_id e = cs_workspace_id input}" for es
    using that by (auto simp: list_ex_iff has_environment_def)
  show ?thesis
    unfolding create_service_def
    by (auto intro!: wp_get_workspace[OF assms(1)] wp_list_environments[OF assms(1)]
        wp_generators[OF assms(1)] ins E
        simp: env service_refused_def app_service_of_new no_workspace_def)
qed

end
