(* ===== verification/Crypto.thy ===== *)
theory Crypto
  imports Errors
begin

section \<open>Secrets at rest: \<open>libs/crypto.rs\<close>\<close>

text \<open>
  The stored form of a secret: its bytes combined by exclusive or with the digest of the master
  key, repeated, and printed in base64.  The digest and the base64 alphabet come from packages
  and are fields of \<open>prims\<close>.
\<close>

unbundle bit_operations_syntax

text \<open>\<open>iter().enumerate().map(|(idx, byte)| byte ^ key[idx % key.len()])\<close>.\<close>

definition xor_stream :: "u8 list \<Rightarrow> u8 list \<Rightarrow> u8 list" where
  "xor_stream key bs = map (\<lambda>(idx, b). b XOR key ! (idx mod length key)) (enumerate 0 bs)"

definition encrypt_secret :: "'a prims_scheme \<Rightarrow> string \<Rightarrow> string \<Rightarrow> string" where
  "encrypt_secret P master_key plaintext =
    b64_encode P (xor_stream (sha256 P (as_bytes master_key)) (as_bytes plaintext))"

definition decrypt_secret :: "'a prims_scheme \<Rightarrow> string \<Rightarrow> string \<Rightarrow> wara_error + string" where
  "decrypt_secret P master_key ciphertext =
    bind_result (map_err wara_error_of_base64 (b64_decode P ciphertext)) (\<lambda>bytes.
      let decrypted = xor_stream (sha256 P (as_bytes master_key)) bytes in
      case from_utf8 decrypted of
        None \<Rightarrow> Inl (wara_error_of_utf8 (utf8_error_text P decrypted))
      | Some s \<Rightarrow> Inr s)"

definition redact :: "string \<Rightarrow> string" where
  "redact v = (if v = [] then [] else ''********'')"

subsection \<open>The stream\<close>

lemma length_xor_stream [simp]: "length (xor_stream key bs) = length bs"
  by (simp add: xor_stream_def)

lemma nth_xor_stream:
  "i < length bs \<Longrightarrow> xor_stream key bs ! i = bs ! i XOR key ! (i mod length key)"
  by (simp add: xor_stream_def nth_enumerate_eq)

text \<open>The interface of a length-preserving cipher that is its own inverse.\<close>

locale involutive_cipher =
  fixes cipher :: "'k \<Rightarrow> 'b list \<Rightarrow> 'b list"
  assumes cipher_cipher [simp]: "cipher k (cipher k bs) = bs"
    and cipher_length [simp]: "length (cipher k bs) = length bs"
begin

lemma cipher_inj: "cipher k a = cipher k b \<longleftrightarrow> a = b"
  by (metis cipher_cipher)

lemma cipher_surj: "\<exists>a. cipher k a = b"
  by (metis cipher_cipher)

lemma cipher_Nil [simp]: "cipher k [] = []"
  by (metis cipher_length length_0_conv)

end

interpretation xs: involutive_cipher xor_stream
  by unfold_locales (auto intro!: nth_equalityI simp: nth_xor_stream xor.assoc)

subsection \<open>The round trip, and what a wrong key does\<close>

lemma decrypt_encrypt_bytes:
  assumes "b64_laws P"
  shows "decrypt_secret P key (encrypt_secret P key plaintext) =
    (if utf8 plaintext then Inr plaintext else Inl (Crypto (utf8_error_text P (as_bytes plaintext))))"
  by (simp add: decrypt_secret_def encrypt_secret_def b64_lawsD[OF assms])

lemma encrypt_secret_inj:
  assumes "b64_laws P"
  shows "encrypt_secret P key a = encrypt_secret P key b \<longleftrightarrow> a = b"
proof
  assume "encrypt_secret P key a = encrypt_secret P key b"
  then have "xor_stream (sha256 P (as_bytes key)) (as_bytes a) =
      xor_stream (sha256 P (as_bytes key)) (as_bytes b)"
    unfolding encrypt_secret_def by (metis assms b64_lawsD sum.inject(2))
  then show "a = b" by (simp add: xs.cipher_inj as_bytes_inj)
qed simp

text \<open>
  The keystream is the same for every secret: from one stored secret whose text is known, every
  other one of at most its length (at most 32 bytes) is read without the key.
\<close>

definition ciphertext_bytes :: "'a prims_scheme \<Rightarrow> string \<Rightarrow> string \<Rightarrow> u8 list" where
  "ciphertext_bytes P key plaintext =
    xor_stream (sha256 P (as_bytes key)) (as_bytes plaintext)"

lemma keystream_from_known_pair:
  assumes "i < length known"
  shows "ciphertext_bytes P key known ! i XOR as_bytes known ! i =
    sha256 P (as_bytes key) ! (i mod length (sha256 P (as_bytes key)))"
  using assms
  by (simp add: ciphertext_bytes_def nth_xor_stream xor.assoc xor.commute xor.left_commute)

lemma known_secret_reveals_others:
  assumes "length (as_bytes other) \<le> length (as_bytes known)"
  shows "as_bytes other =
    map2 (XOR) (ciphertext_bytes P key other)
      (map2 (XOR) (ciphertext_bytes P key known) (as_bytes known))"
proof (rule nth_equalityI)
  show "length (as_bytes other) =
      length (map2 (XOR) (ciphertext_bytes P key other)
        (map2 (XOR) (ciphertext_bytes P key known) (as_bytes known)))"
    using assms by (simp add: ciphertext_bytes_def)
next
  fix i assume i: "i < length (as_bytes other)"
  then have k: "i < length known" using assms by simp
  show "as_bytes other ! i =
      map2 (XOR) (ciphertext_bytes P key other)
        (map2 (XOR) (ciphertext_bytes P key known) (as_bytes known)) ! i"
    using i k assms keystream_from_known_pair[OF k, of P key]
    by (simp add: ciphertext_bytes_def nth_xor_stream xor.assoc)
qed

end
