(* ===== verification/Credentials.thy ===== *)
theory Credentials
  imports App_Services Crypto
begin

section \<open>Registry credentials and environment variables\<close>

text \<open>
  \<open>services/credentials.rs\<close>, with the two response types of \<open>routes/credentials.rs\<close>.  Secrets
  are stored encrypted under the platform key and leave the service redacted.  A batch of
  variables is checked before the first is written, and written in one transaction.
\<close>

record credential_response =
  crr_id :: uuid
  crr_workspace_id :: uuid
  crr_registry :: string
  crr_username :: string
  crr_password :: string

record env_var_response =
  evp_id :: uuid
  evp_workspace_id :: uuid
  evp_environment_id :: "uuid option"
  evp_service_id :: "uuid option"
  evp_key :: string
  evp_value :: string

record create_credential_input =
  cc_workspace_id :: uuid
  cc_registry :: string
  cc_username :: string
  cc_password :: string

record create_env_var_input =
  ce_workspace_id :: uuid
  ce_environment_id :: "uuid option"
  ce_service_id :: "uuid option"
  ce_key :: string
  ce_value :: string

record credential_service =
  cred_db :: database
  cred_secret_key :: string

definition credential_response_of :: "docker_credential_record \<Rightarrow> credential_response" where
  "credential_response_of r =
    \<lparr>crr_id = dcr_id r, crr_workspace_id = dcr_workspace_id r, crr_registry = dcr_registry r,
     crr_username = dcr_username r, crr_password = redact ''secret''\<rparr>"

definition env_var_response_of :: "env_var_record \<Rightarrow> env_var_response" where
  "env_var_response_of r =
    \<lparr>evp_id = evr_id r, evp_workspace_id = evr_workspace_id r,
     evp_environment_id = evr_environment_id r, evp_service_id = evr_service_id r,
     evp_key = evr_key r, evp_value = redact ''secret''\<rparr>"

definition list_credentials ::
  "('w, 'a) ext_scheme \<Rightarrow> credential_service \<Rightarrow> uuid \<Rightarrow> ('w, exn, credential_response list) io" where
  "list_credentials X S workspace_id =
    bindE (db_handle (cred_db S)) (\<lambda>_.
    bindE (db_select (x_credentials X) Conn (\<lambda>r. dcr_workspace_id r = workspace_id)) (\<lambda>records.
    returnE (map credential_response_of records)))"

definition create_credential ::
  "('w, 'a) ext_scheme \<Rightarrow> credential_service \<Rightarrow> create_credential_input \<Rightarrow>
   ('w, exn, credential_response) io" where
  "create_credential X S input =
    bindE (get_workspace X \<lparr>ws_db = cred_db S\<rparr> (cc_workspace_id input)) (\<lambda>_.
    bindE (db_handle (cred_db S)) (\<lambda>_.
    bindE (effectE (x_now_v7 X)) (\<lambda>i.
    bindE (db_insert (x_credentials X) Conn
        \<lparr>dcr_id = i, dcr_workspace_id = cc_workspace_id input, dcr_registry = cc_registry input,
         dcr_username = cc_username input,
         dcr_encrypted_password = encrypt_secret X (cred_secret_key S) (cc_password input)\<rparr>) (\<lambda>record.
    returnE (credential_response_of record)))))"

definition list_env_vars ::
  "('w, 'a) ext_scheme \<Rightarrow> credential_service \<Rightarrow> uuid \<Rightarrow> ('w, exn, env_var_response list) io" where
  "list_env_vars X S workspace_id =
    bindE (db_handle (cred_db S)) (\<lambda>_.
    bindE (db_select (x_env_vars X) Conn (\<lambda>r. evr_workspace_id r = workspace_id)) (\<lambda>records.
    returnE (map env_var_response_of records)))"

definition validate_env_var_scope ::
  "('w, 'a) ext_scheme \<Rightarrow> credential_service \<Rightarrow> create_env_var_input \<Rightarrow> ('w, exn, unit) io" where
  "validate_env_var_scope X S input =
    bindE (get_workspace X \<lparr>ws_db = cred_db S\<rparr> (ce_workspace_id input)) (\<lambda>_.
    bindE (case ce_environment_id input of None \<Rightarrow> returnE ()
      | Some environment_id \<Rightarrow>
          bindE (list_environments X \<lparr>ws_db = cred_db S\<rparr> (ce_workspace_id input)) (\<lambda>environments.
          if \<not> list_ex (\<lambda>e. e_id e = environment_id) environments
          then throwE (Api (NotFound ''environment'')) else returnE ())) (\<lambda>_.
    case ce_service_id input of None \<Rightarrow> returnE ()
      | Some service_id \<Rightarrow>
          bindE (get_service X \<lparr>ss_db = cred_db S\<rparr> service_id) (\<lambda>service.
          if sc_workspace_id service \<noteq> ce_workspace_id input
          then throwE (Api (NotFound ''service'')) else returnE ())))"

text \<open>The insertion both operations make, on a connection or in a transaction.\<close>

definition insert_env_var ::
  "('w, 'a) ext_scheme \<Rightarrow> credential_service \<Rightarrow> executor \<Rightarrow> create_env_var_input \<Rightarrow>
   ('w, exn, env_var_response) io" where
  "insert_env_var X S ex input =
    bindE (effectE (x_now_v7 X)) (\<lambda>i.
    bindE (db_insert (x_env_vars X) ex
        \<lparr>evr_id = i, evr_workspace_id = ce_workspace_id input,
         evr_environment_id = ce_environment_id input, evr_service_id = ce_service_id input,
         evr_key = ce_key input,
         evr_encrypted_value = encrypt_secret X (cred_secret_key S) (ce_value input)\<rparr>) (\<lambda>record.
    returnE (env_var_response_of record)))"

definition create_env_var ::
  "('w, 'a) ext_scheme \<Rightarrow> credential_service \<Rightarrow> create_env_var_input \<Rightarrow>
   ('w, exn, env_var_response) io" where
  "create_env_var X S input =
    bindE (validate_env_var_scope X S input) (\<lambda>_.
    bindE (db_handle (cred_db S)) (\<lambda>_.
    insert_env_var X S Conn input))"

definition create_env_vars ::
  "('w, 'a) ext_scheme \<Rightarrow> credential_service \<Rightarrow> create_env_var_input list \<Rightarrow>
   ('w, exn, env_var_response list) io" where
  "create_env_vars X S inputs =
    bindE (mapE (validate_env_var_scope X S) inputs) (\<lambda>_.
    bindE (db_handle (cred_db S)) (\<lambda>_.
    bindE (db_transaction X) (\<lambda>_.
    bindE (mapE (insert_env_var X S Tx) inputs) (\<lambda>created.
    bindE (db_commit X) (\<lambda>_.
    returnE created)))))"

subsection \<open>Credentials\<close>

lemma wp_list_credentials:
  assumes "store_ok X vw"
    and "\<And>rs w'. vw w' = vw w \<Longrightarrow> set rs =
      credential_response_of ` {r \<in> t_credentials (vw w Conn). dcr_workspace_id r = i} \<Longrightarrow> Q rs w'"
    and "\<And>e w'. vw w' = vw w \<Longrightarrow> server_error e \<Longrightarrow> E e w'"
  shows "wp (list_credentials X S i) Q E w"
  unfolding list_credentials_def by (auto intro!: wp_select[OF assms(1)] assms(2,3))

definition add_credential :: "docker_credential_record \<Rightarrow> tables \<Rightarrow> tables" where
  "add_credential r = t_credentials_update (insert r)"

definition credential_row ::
  "'a prims_scheme \<Rightarrow> credential_service \<Rightarrow> create_credential_input \<Rightarrow> tables \<Rightarrow>
   docker_credential_record \<Rightarrow> bool" where
  "credential_row P S input T r \<longleftrightarrow>
    (\<forall>x \<in> t_credentials T. dcr_id x \<noteq> dcr_id r) \<and> \<not> no_workspace T (cc_workspace_id input) \<and>
    dcr_workspace_id r = cc_workspace_id input \<and> dcr_registry r = cc_registry input \<and>
    dcr_username r = cc_username input \<and>
    dcr_encrypted_password r = encrypt_secret P (cred_secret_key S) (cc_password input)"

lemma wp_create_credential:
  assumes "store_ok X vw"
    and Q: "\<And>r w'. vw w' = (vw w)(Conn := add_credential r (vw w Conn)) \<Longrightarrow>
      credential_row X S input (vw w Conn) r \<Longrightarrow> Q (credential_response_of r) w'"
    and E: "\<And>e w'. vw w' = vw w \<Longrightarrow> server_error e \<or>
      e = Api (NotFound ''workspace'') \<and> no_workspace (vw w Conn) (cc_workspace_id input) \<Longrightarrow> E e w'"
    and E': "\<And>e r w'. vw w' = (vw w)(Conn := add_credential r (vw w Conn)) \<Longrightarrow>
      credential_row X S input (vw w Conn) r \<Longrightarrow> server_error e \<Longrightarrow> E e w'"
  shows "wp (create_credential X S input) Q E w"
proof -
  have ins: "wp (db_insert (x_credentials X) Conn r) (\<lambda>r. Q (credential_response_of r)) E w'"
    if "vw w' = vw w" "\<not> no_workspace (vw w Conn) (cc_workspace_id input)"
      "dcr_workspace_id r = cc_workspace_id input" "dcr_registry r = cc_registry input"
      "dcr_username r = cc_username input"
      "dcr_encrypted_password r = encrypt_secret X (cred_secret_key S) (cc_password input)" for r w'
    using that
    by (intro wp_insert(5)[OF assms(1)])
      (rule Q E E'[of _ r]; simp add: add_credential_def credential_row_def; fail)+
  show ?thesis
    unfolding create_credential_def
    by (auto intro!: wp_get_workspace[OF assms(1)] wp_generators[OF assms(1)] ins E
        simp: no_workspace_def)
qed

subsection \<open>The scope of a variable\<close>

text \<open>
  What the check demands of the store: the workspace is there, an environment that is named
  belongs to it, and so does a service that is named.
\<close>

definition env_var_scope :: "tables \<Rightarrow> create_env_var_input \<Rightarrow> bool" where
  "env_var_scope T input \<longleftrightarrow>
    \<not> no_workspace T (ce_workspace_id input) \<and>
    (\<forall>i. ce_environment_id input = Some i \<longrightarrow> has_environment T (ce_workspace_id input) i) \<and>
    (\<forall>i. ce_service_id input = Some i \<longrightarrow>
      (\<exists>r \<in> t_app_services T. asr_id r = i \<and> asr_workspace_id r = ce_workspace_id input))"

definition not_found :: "exn \<Rightarrow> bool" where
  "not_found e \<longleftrightarrow>
    e = Api (NotFound ''workspace'') \<or> e = Api (NotFound ''environment'') \<or>
    e = Api (NotFound ''service'')"

lemma not_found_simps [simp]:
  "not_found (Api (NotFound ''workspace''))" "not_found (Api (NotFound ''environment''))"
  "not_found (Api (NotFound ''service''))"
  by (simp_all add: not_found_def)

lemma wp_validate_env_var_scope:
  assumes "store_ok X vw"
    and Q: "\<And>w'. vw w' = vw w \<Longrightarrow> env_var_scope (vw w Conn) input \<Longrightarrow> Q () w'"
    and E: "\<And>e w'. vw w' = vw w \<Longrightarrow> server_error e \<or> not_found e \<Longrightarrow> E e w'"
  shows "wp (validate_env_var_scope X S input) Q E w"
proof -
  let ?T = "vw w Conn"
  let ?ws = "ce_workspace_id input"
  have env: "list_ex (\<lambda>e. e_id e = i) es \<longleftrightarrow> has_environment ?T ?ws i"
    if "set es = {e \<in> t_environments ?T. e_workspace_id e = ?ws}" for es i
    using that by (auto simp: list_ex_iff has_environment_def)
  have Q': "Q () w'" if "vw w' = vw w" "x \<in> t_workspaces ?T" "w_id x = ?ws"
    "\<forall>i. ce_environment_id input = Some i \<longrightarrow> has_environment ?T ?ws i"
    "\<forall>i. ce_service_id input = Some i \<longrightarrow>
      (\<exists>r \<in> t_app_services ?T. asr_id r = i \<and> asr_workspace_id r = ?ws)" for x w'
    using that by (intro Q) (auto simp: env_var_scope_def no_workspace_def)
  show ?thesis
    unfolding validate_env_var_scope_def
    by (auto intro!: wp_get_workspace[OF assms(1)] wp_list_environments[OF assms(1)]
        wp_get_service[OF assms(1)] simp: env split: option.splits)
      ((rule E; simp; fail) | (erule (1) Q'[rotated]; auto; fail))+
qed

subsection \<open>Creation of variables\<close>

text \<open>The row of a variable: its scope and key in the clear, its value encrypted.\<close>

definition env_var_row ::
  "'a prims_scheme \<Rightarrow> credential_service \<Rightarrow> create_env_var_input \<Rightarrow> env_var_record \<Rightarrow> bool" where
  "env_var_row P S input r \<longleftrightarrow>
    evr_workspace_id r = ce_workspace_id input \<and> evr_environment_id r = ce_environment_id input \<and>
    evr_service_id r = ce_service_id input \<and> evr_key r = ce_key input \<and>
    evr_encrypted_value r = encrypt_secret P (cred_secret_key S) (ce_value input)"

definition add_env_vars :: "env_var_record list \<Rightarrow> tables \<Rightarrow> tables" where
  "add_env_vars rs = t_env_vars_update (\<lambda>t. set rs \<union> t)"

definition env_var_rows ::
  "'a prims_scheme \<Rightarrow> credential_service \<Rightarrow> create_env_var_input list \<Rightarrow> tables \<Rightarrow>
   env_var_record list \<Rightarrow> bool" where
  "env_var_rows P S inputs T rs \<longleftrightarrow>
    list_all2 (env_var_row P S) inputs rs \<and> distinct (map evr_id rs) \<and>
    (\<forall>r \<in> set rs. \<forall>x \<in> t_env_vars T. evr_id x \<noteq> evr_id r)"

lemma add_env_vars_nil [simp]: "add_env_vars [] T = T"
  by (simp add: add_env_vars_def)

lemma add_env_vars_snoc:
  "t_env_vars_update (insert r) (add_env_vars rs T) = add_env_vars (rs @ [r]) T"
  by (cases T) (auto simp: add_env_vars_def)

lemma env_var_rows_snoc:
  assumes "env_var_rows P S done T rs" and "env_var_row P S input r"
    and "\<forall>x \<in> t_env_vars (add_env_vars rs T). evr_id x \<noteq> evr_id r"
  shows "env_var_rows P S (done @ [input]) T (rs @ [r])"
  using assms by (auto simp: env_var_rows_def add_env_vars_def intro: list_all2_appendI)

lemma wp_insert_env_var:
  assumes "store_ok X vw" and T: "vw w ex = add_env_vars rs T"
    and rows: "env_var_rows X S done T rs"
    and Q: "\<And>r w'. vw w' = (vw w)(ex := add_env_vars (rs @ [r]) T) \<Longrightarrow>
      env_var_rows X S (done @ [input]) T (rs @ [r]) \<Longrightarrow> Q (env_var_response_of r) w'"
    and E: "\<And>e w'. vw w' = vw w \<Longrightarrow> server_error e \<Longrightarrow> E e w'"
    and E': "\<And>e r w'. vw w' = (vw w)(ex := add_env_vars (rs @ [r]) T) \<Longrightarrow>
      env_var_rows X S (done @ [input]) T (rs @ [r]) \<Longrightarrow> server_error e \<Longrightarrow> E e w'"
  shows "wp (insert_env_var X S ex input) Q E w"
proof -
  have ins: "wp (db_insert (x_env_vars X) ex r) (\<lambda>r. Q (env_var_response_of r)) E w'"
    if "vw w' = vw w" "env_var_row X S input r" for r w'
    using that T env_var_rows_snoc[OF rows that(2)]
    by (intro wp_insert(6)[OF assms(1)])
      (rule Q E E'[of _ r]; simp add: add_env_vars_snoc; fail)+
  show ?thesis
    unfolding insert_env_var_def
    by (auto intro!: wp_generators[OF assms(1)] ins simp: env_var_row_def)
qed

lemma wp_create_env_var:
  assumes "store_ok X vw"
    and Q: "\<And>r w'. vw w' = (vw w)(Conn := add_env_vars [r] (vw w Conn)) \<Longrightarrow>
      env_var_rows X S [input] (vw w Conn) [r] \<Longrightarrow> env_var_scope (vw w Conn) input \<Longrightarrow>
      Q (env_var_response_of r) w'"
    and E: "\<And>e w'. vw w' = vw w \<Longrightarrow> server_error e \<or> not_found e \<Longrightarrow> E e w'"
    and E': "\<And>e r w'. vw w' = (vw w)(Conn := add_env_vars [r] (vw w Conn)) \<Longrightarrow>
      env_var_rows X S [input] (vw w Conn) [r] \<Longrightarrow> env_var_scope (vw w Conn) input \<Longrightarrow>
      server_error e \<Longrightarrow> E e w'"
  shows "wp (create_env_var X S input) Q E w"
proof -
  have ins: "wp (insert_env_var X S Conn input) Q E w'"
    if "vw w' = vw w" "env_var_scope (vw w Conn) input" for w'
  proof (rule wp_insert_env_var[OF assms(1), of w' Conn "[]" "vw w Conn" S "[]"], goal_cases)
    case (3 r w2)
    then show ?case using that by (intro Q) simp_all
  next
    case (5 e r w2)
    then show ?case using that by (intro E'[of _ r]) simp_all
  qed (use that E in \<open>simp_all add: env_var_rows_def\<close>)
  show ?thesis
    unfolding create_env_var_def
    by (auto intro!: wp_validate_env_var_scope[OF assms(1)] ins E)
qed

lemma wp_validate_all:
  assumes "store_ok X vw"
    and Q: "\<And>ys w'. vw w' = vw w \<Longrightarrow> \<forall>i \<in> set inputs. env_var_scope (vw w Conn) i \<Longrightarrow> Q ys w'"
    and E: "\<And>e w'. vw w' = vw w \<Longrightarrow> server_error e \<or> not_found e \<Longrightarrow> E e w'"
  shows "wp (mapE (validate_env_var_scope X S) inputs) Q E w"
  by (rule wp_mapE_invariant[where
        I = "\<lambda>done ys w'. vw w' = vw w \<and> (\<forall>i \<in> set done. env_var_scope (vw w Conn) i)"])
    (auto intro!: wp_validate_env_var_scope[OF assms(1)] Q E)

text \<open>All the variables of a batch are there, or none is.\<close>

lemma wp_create_env_vars:
  assumes "store_ok X vw"
    and Q: "\<And>rs w'. vw w' Conn = add_env_vars rs (vw w Conn) \<Longrightarrow>
      env_var_rows X S inputs (vw w Conn) rs \<Longrightarrow>
      \<forall>i \<in> set inputs. env_var_scope (vw w Conn) i \<Longrightarrow> Q (map env_var_response_of rs) w'"
    and E: "\<And>e w'. vw w' Conn = vw w Conn \<Longrightarrow> server_error e \<or> not_found e \<Longrightarrow> E e w'"
    and E': "\<And>e rs w'. vw w' Conn = add_env_vars rs (vw w Conn) \<Longrightarrow>
      env_var_rows X S inputs (vw w Conn) rs \<Longrightarrow>
      \<forall>i \<in> set inputs. env_var_scope (vw w Conn) i \<Longrightarrow> server_error e \<Longrightarrow> E e w'"
  shows "wp (create_env_vars X S inputs) Q E w"
proof -
  let ?T = "vw w Conn"
  define I where "I = (\<lambda>done ys w'. \<exists>rs. vw w' = (vw w)(Tx := add_env_vars rs ?T) \<and>
    env_var_rows X S done ?T rs \<and> ys = map env_var_response_of rs)"
  have commit: "wp (db_commit X) (\<lambda>_. Q ys) E w'"
    if "I inputs ys w'" "\<forall>i \<in> set inputs. env_var_scope ?T i" for ys w'
  proof -
    from that(1) obtain rs where rs: "vw w' = (vw w)(Tx := add_env_vars rs ?T)"
      "env_var_rows X S inputs ?T rs" "ys = map env_var_response_of rs"
      unfolding I_def by blast
    show ?thesis
      by (rule wp_tx(2)[OF assms(1)])
        (use rs that(2) in \<open>auto intro: Q E E'\<close>)
  qed
  have loop: "wp (mapE (insert_env_var X S Tx) inputs) (\<lambda>ys. wp (db_commit X) (\<lambda>_. Q ys) E) E w'"
    if "vw w' = (vw w)(Tx := ?T)" "\<forall>i \<in> set inputs. env_var_scope ?T i" for w'
  proof (rule wp_mapE_invariant[where I = I], goal_cases)
    case (1 "done" x rest ys w2)
    then obtain rs where rs: "vw w2 = (vw w)(Tx := add_env_vars rs ?T)"
      "env_var_rows X S done ?T rs" "ys = map env_var_response_of rs"
      unfolding I_def by blast
    show ?case
    proof (rule wp_insert_env_var[OF assms(1) _ rs(2)])
      show "vw w2 Tx = add_env_vars rs ?T" using rs(1) by simp
    next
      fix r w3
      assume r: "vw w3 = (vw w2)(Tx := add_env_vars (rs @ [r]) ?T)"
        "env_var_rows X S (done @ [x]) ?T (rs @ [r])"
      show "I (done @ [x]) (ys @ [env_var_response_of r]) w3"
        unfolding I_def using r rs(1,3) by (intro exI[of _ "rs @ [r]"]) simp
    qed (use rs(1) E in simp_all)
  next
    case 2
    show ?case
      unfolding I_def using that(1) by (intro exI[of _ "[]"]) (simp add: env_var_rows_def)
  next
    case (3 ys w2)
    then show ?case using commit that(2) by blast
  qed
  show ?thesis
    unfolding create_env_vars_def
    by (auto intro!: wp_validate_all[OF assms(1)] wp_tx(1)[OF assms(1)] loop E)
qed

subsection \<open>What leaves the service\<close>

lemma responses_redacted:
  "crr_password (credential_response_of r) = ''********''"
  "evp_value (env_var_response_of v) = ''********''"
  by (simp_all add: credential_response_of_def env_var_response_of_def redact_def)

end
