(* ===== verification/Domains.thy ===== *)
theory Domains
  imports App_Services
begin

section \<open>Domains and the proxy configuration\<close>

text \<open>
  \<open>services/domains.rs\<close> and \<open>services/proxy.rs\<close>: the hostnames of a service, and the text of
  the proxy configuration that routes a hostname to an upstream.
\<close>

record create_domain_input =
  cd_service_id :: uuid
  cd_hostname :: string
  cd_proxy :: "proxy_kind option"
  cd_tls_enabled :: "bool option"

record domain_service =
  ds_db :: database

definition list_domains ::
  "('w, 'a) ext_scheme \<Rightarrow> domain_service \<Rightarrow> uuid \<Rightarrow> ('w, exn, domain list) io" where
  "list_domains X S service_id =
    bindE (db_handle (ds_db S)) (\<lambda>_.
    bindE (db_select (x_domains X) Conn (\<lambda>r. dr_service_id r = service_id)) (\<lambda>records.
    returnE (map domain_of records)))"

definition create_domain ::
  "('w, 'a) ext_scheme \<Rightarrow> domain_service \<Rightarrow> create_domain_input \<Rightarrow> ('w, exn, domain) io" where
  "create_domain X S input =
    bindE (get_service X \<lparr>ss_db = ds_db S\<rparr> (cd_service_id input)) (\<lambda>_.
    bindE (db_handle (ds_db S)) (\<lambda>_.
    bindE (effectE (x_now_v7 X)) (\<lambda>i.
    bindE (db_insert (x_domains X) Conn
        \<lparr>dr_id = i, dr_service_id = cd_service_id input, dr_hostname = cd_hostname input,
         dr_proxy = proxy_kind_str (case cd_proxy input of None \<Rightarrow> Nginx | Some p \<Rightarrow> p),
         dr_tls_enabled = (case cd_tls_enabled input of None \<Rightarrow> True | Some b \<Rightarrow> b)\<rparr>) (\<lambda>record.
    returnE (domain_of record)))))"

definition get_domain ::
  "('w, 'a) ext_scheme \<Rightarrow> domain_service \<Rightarrow> uuid \<Rightarrow> ('w, exn, domain) io" where
  "get_domain X S i =
    bindE (db_handle (ds_db S)) (\<lambda>_.
    bindE (db_first (x_domains X) Conn (\<lambda>r. dr_id r = i)) (\<lambda>record.
    liftE (ok_or (Api (NotFound ''domain'')) (map_option domain_of record))))"

subsection \<open>Weakest preconditions\<close>

lemma wp_list_domains [wp_rules]:
  assumes "store_ok X vw"
    and "\<And>rs w'. vw w' = vw w \<Longrightarrow>
      set rs = domain_of ` {r \<in> t_domains (vw w Conn). dr_service_id r = i} \<Longrightarrow> Q rs w'"
    and "\<And>e w'. vw w' = vw w \<Longrightarrow> server_error e \<Longrightarrow> E e w'"
  shows "wp (list_domains X S i) Q E w"
  unfolding list_domains_def by (auto intro!: wp_select[OF assms(1)] assms(2,3))

lemma wp_get_domain [wp_rules]:
  assumes "store_ok X vw"
    and "\<And>r w'. vw w' = vw w \<Longrightarrow> r \<in> t_domains (vw w Conn) \<Longrightarrow> dr_id r = i \<Longrightarrow>
      Q (domain_of r) w'"
    and "\<And>e w'. vw w' = vw w \<Longrightarrow> server_error e \<or>
      e = Api (NotFound ''domain'') \<and> (\<forall>r \<in> t_domains (vw w Conn). dr_id r \<noteq> i) \<Longrightarrow> E e w'"
  shows "wp (get_domain X S i) Q E w"
  unfolding get_domain_def by (auto intro!: wp_first[OF assms(1)] assms(2,3))

definition add_domain :: "domain_record \<Rightarrow> tables \<Rightarrow> tables" where
  "add_domain r = t_domains_update (insert r)"

text \<open>The row of a new domain: nginx and TLS unless the input says otherwise.\<close>

definition domain_row :: "create_domain_input \<Rightarrow> tables \<Rightarrow> domain_record \<Rightarrow> bool" where
  "domain_row input T r \<longleftrightarrow>
    (\<forall>x \<in> t_domains T. dr_id x \<noteq> dr_id r) \<and> \<not> no_service T (cd_service_id input) \<and>
    domain_of r =
      \<lparr>d_id = dr_id r, d_service_id = cd_service_id input, d_hostname = cd_hostname input,
       d_proxy = (if cd_proxy input = Some Traefik then Traefik else Nginx),
       d_tls_enabled = (cd_tls_enabled input \<noteq> Some False)\<rparr>"

lemma domain_of_new:
  "domain_of \<lparr>dr_id = i, dr_service_id = s, dr_hostname = h,
     dr_proxy = proxy_kind_str (case p of None \<Rightarrow> Nginx | Some p \<Rightarrow> p),
     dr_tls_enabled = (case b of None \<Rightarrow> True | Some b \<Rightarrow> b)\<rparr> =
   \<lparr>d_id = i, d_service_id = s, d_hostname = h,
    d_proxy = (if p = Some Traefik then Traefik else Nginx), d_tls_enabled = (b \<noteq> Some False)\<rparr>"
  by (cases "case p of None \<Rightarrow> Nginx | Some p \<Rightarrow> p")
    (auto simp: domain_of_def proxy_kind_of_def split: option.splits)

lemma wp_create_domain:
  assumes "store_ok X vw"
    and Q: "\<And>r w'. vw w' = (vw w)(Conn := add_domain r (vw w Conn)) \<Longrightarrow>
      domain_row input (vw w Conn) r \<Longrightarrow> Q (domain_of r) w'"
    and E: "\<And>e w'. vw w' = vw w \<Longrightarrow> server_error e \<or>
      e = Api (NotFound ''service'') \<and> no_service (vw w Conn) (cd_service_id input) \<Longrightarrow> E e w'"
    and E': "\<And>e r w'. vw w' = (vw w)(Conn := add_domain r (vw w Conn)) \<Longrightarrow>
      domain_row input (vw w Conn) r \<Longrightarrow> server_error e \<Longrightarrow> E e w'"
  shows "wp (create_domain X S input) Q E w"
proof -
  have ins: "wp (db_insert (x_domains X) Conn r) (\<lambda>r. Q (domain_of r)) E w'"
    if "vw w' = vw w" "\<not> no_service (vw w Conn) (cd_service_id input)"
      "domain_of r = \<lparr>d_id = dr_id r, d_service_id = cd_service_id input,
        d_hostname = cd_hostname input,
        d_proxy = (if cd_proxy input = Some Traefik then Traefik else Nginx),
        d_tls_enabled = (cd_tls_enabled input \<noteq> Some False)\<rparr>" for r w'
    using that
    by (intro wp_insert(7)[OF assms(1)])
      (rule Q E E'[of _ r]; simp add: add_domain_def domain_row_def; fail)+
  show ?thesis
    unfolding create_domain_def
    by (auto intro!: wp_get_service[OF assms(1)] wp_generators[OF assms(1)] ins E
        simp: domain_of_new no_service_def)
qed

subsection \<open>The proxy configuration\<close>

abbreviation nl :: string where
  "nl \<equiv> [CHR 0x0A]"

definition generate_config :: "'a prims_scheme \<Rightarrow> domain \<Rightarrow> string \<Rightarrow> string" where
  "generate_config P domain upstream =
    (case d_proxy domain of
       Nginx \<Rightarrow>
        ''server {'' @ nl @ ''    listen 80;'' @ nl @ ''    server_name '' @ d_hostname domain @
        '';'' @ nl @ nl @ ''    location / {'' @ nl @ ''        proxy_pass http://'' @ upstream @
        '';'' @ nl @ ''        proxy_set_header Host $host;'' @ nl @
        ''        proxy_set_header X-Forwarded-Proto $scheme;'' @ nl @ ''    }'' @ nl @ ''}'' @ nl
     | Traefik \<Rightarrow>
        ''http:'' @ nl @ ''  routers:'' @ nl @ ''    '' @ uuid_to_string P (d_id domain) @ '':'' @ nl @
        ''      rule: Host(`'' @ d_hostname domain @ ''`)'' @ nl @
        ''      service: '' @ uuid_to_string P (d_service_id domain) @ nl @ ''  services:'' @ nl @
        ''    '' @ uuid_to_string P (d_service_id domain) @ '':'' @ nl @ ''      loadBalancer:'' @ nl @
        ''        servers:'' @ nl @ ''          - url: http://'' @ upstream @ nl)"

end
