(* ===== verification/Executor.thy ===== *)
theory Executor
  imports Docker
begin

section \<open>Running a deployment: \<open>libs/deploy_executor.rs\<close>\<close>

text \<open>
  The captured outcome of a command and of a whole run, the transcript that is stored with a
  deployment, the redaction of secrets in it, the \<open>DeployExecutor\<close> trait as a locale, and the
  one implementation that ships, \<open>PreviewExecutor\<close>.
\<close>

subsection \<open>Outcomes\<close>

record command_outcome =
  co_command :: string
  co_stdout :: string
  co_stderr :: string
  co_exit_code :: i32

definition succeeded :: "command_outcome \<Rightarrow> bool" where
  "succeeded outcome \<longleftrightarrow> co_exit_code outcome = 0"

record deploy_run =
  outcomes :: "command_outcome list"
  executed :: bool
  success :: bool

subsection \<open>Redaction and transcript\<close>

definition redaction_marker :: string where
  "redaction_marker = ''[redacted]''"

definition redact_secrets :: "string \<Rightarrow> string list \<Rightarrow> string" where
  "redact_secrets txt secrets =
    fold (\<lambda>secret redacted.
        if secret = [] then redacted else replace redacted secret redaction_marker)
      secrets txt"

definition preview_line :: string where
  "preview_line = ''(preview '' @ [CHR 0xE2, CHR 0x80, CHR 0x94] @ '' commands not executed)''"

definition outcome_lines :: "bool \<Rightarrow> string list \<Rightarrow> command_outcome \<Rightarrow> string list" where
  "outcome_lines did_run secrets outcome =
    (let stdout = redact_secrets (trim_end (co_stdout outcome)) secrets;
         stderr = redact_secrets (trim_end (co_stderr outcome)) secrets
     in [''$ '' @ co_command outcome] @
        (if stdout = [] then [] else [stdout]) @
        (if stderr = [] then [] else [stderr]) @
        (if did_run then [''[exit '' @ i32_str (co_exit_code outcome) @ '']''] else []))"

definition to_output :: "deploy_run \<Rightarrow> string list \<Rightarrow> string" where
  "to_output run secrets =
    join [CHR 0x0A]
      (concat (map (outcome_lines (executed run) secrets) (outcomes run)) @
       (if executed run then [] else [preview_line]))"

subsection \<open>The executors\<close>

text \<open>
  The trait \<open>DeployExecutor\<close>: a run reports, in order, the rendered form of the commands it ran,
  and its \<open>success\<close> says whether each of them succeeded.
\<close>

locale deploy_executor =
  fixes run :: "remote_command list \<Rightarrow> ('w, wara_error, deploy_run) io"
  assumes run_commands:
      "run cs w = (Inr r, w') \<Longrightarrow> prefix (map co_command (outcomes r)) (map render cs)"
    and run_success: "run cs w = (Inr r, w') \<Longrightarrow> success r = list_all succeeded (outcomes r)"
begin

lemma run_outcome_rendered:
  assumes "run cs w = (Inr r, w')" and "outcome \<in> set (outcomes r)"
  shows "\<exists>c \<in> set cs. co_command outcome = render c"
proof -
  have "set (map co_command (outcomes r)) \<subseteq> set (map render cs)"
    using run_commands[OF assms(1)] by (rule set_mono_prefix)
  then show ?thesis using assms(2) by auto
qed

lemma run_success_exit:
  assumes "run cs w = (Inr r, w')" "success r" "outcome \<in> set (outcomes r)"
  shows "co_exit_code outcome = 0"
  using assms run_success[OF assms(1)] by (auto simp: list_all_iff succeeded_def)

end

definition preview_run :: "remote_command list \<Rightarrow> ('w, wara_error, deploy_run) io" where
  "preview_run commands =
    returnE \<lparr>outcomes = map (\<lambda>command.
               \<lparr>co_command = render command, co_stdout = [], co_stderr = [], co_exit_code = 0\<rparr>)
               commands,
             executed = False, success = True\<rparr>"

interpretation preview: deploy_executor preview_run
  by unfold_locales
    (auto simp: preview_run_def returnE_def comp_def list_all_iff succeeded_def)

subsection \<open>What redaction removes\<close>

lemma redact_secrets_Nil [simp]: "redact_secrets txt [] = txt"
  by (simp add: redact_secrets_def)

lemma redact_secrets_snoc:
  "redact_secrets txt (secrets @ [s]) =
    (if s = [] then redact_secrets txt secrets
     else replace_ne s redaction_marker (redact_secrets txt secrets))"
  by (simp add: redact_secrets_def replace_def)

text \<open>
  A secret that shares no character with the marker is gone from the text, whatever the other
  secrets are and wherever it stands in the list.
\<close>

lemma redact_secrets_removes:
  assumes "s \<in> set secrets" "s \<noteq> []" "set s \<inter> set redaction_marker = {}"
  shows "\<not> sublist s (redact_secrets txt secrets)"
  using assms(1)
proof (induction secrets rule: rev_induct)
  case (snoc x xs)
  have marker: "redaction_marker \<noteq> []" by (simp add: redaction_marker_def)
  show ?case
  proof (cases "s \<in> set xs")
    case True
    then have "\<not> sublist s (redact_secrets txt xs)" by (rule snoc.IH)
    then show ?thesis
      using sublist_replace_ne[OF _ marker assms(2,3)] by (auto simp: redact_secrets_snoc)
  next
    case False
    then have "s = x" using snoc.prems by simp
    then show ?thesis
      using replace_ne_removes[OF assms(2) marker assms(3)] assms(2)
      by (simp add: redact_secrets_snoc)
  qed
qed simp

lemma redact_secrets_no_match:
  "\<forall>s \<in> set secrets. s = [] \<or> \<not> sublist s txt \<Longrightarrow> redact_secrets txt secrets = txt"
proof (induction secrets rule: rev_induct)
  case (snoc x xs)
  then show ?case by (auto simp: redact_secrets_snoc replace_ne_no_match)
qed simp

subsection \<open>What the transcript shows\<close>

lemma preview_transcript:
  "fst (preview_run cs w) = Inr r \<Longrightarrow>
    to_output r secrets = join [CHR 0x0A] (map (\<lambda>c. ''$ '' @ render c) cs @ [preview_line])"
proof -
  assume "fst (preview_run cs w) = Inr r"
  then have r: "outcomes r = map (\<lambda>c.
      \<lparr>co_command = render c, co_stdout = [], co_stderr = [], co_exit_code = 0\<rparr>) cs"
    "\<not> executed r"
    by (auto simp: preview_run_def returnE_def)
  have none: "redact_secrets [] secrets = []"
    by (rule redact_secrets_no_match) auto
  have "outcome_lines False secrets
      \<lparr>co_command = render c, co_stdout = [], co_stderr = [], co_exit_code = 0\<rparr> =
      [''$ '' @ render c]" for c
    by (simp add: outcome_lines_def Let_def none)
  then show ?thesis
    using r by (simp add: to_output_def comp_def concat_map_singleton)
qed

end
