(* ===== verification/Deployments.thy ===== *)
theory Deployments
  imports App_Services Executor Config
begin

section \<open>Deployments\<close>

text \<open>
  \<open>services/deployments.rs\<close>: the commands a service is deployed with, the run through an executor,
  and the record that is kept of it.  The executor is any provider of the interface
  \<open>quiet_executor\<close>; the code constructs the service with \<open>PreviewExecutor\<close>.
\<close>

definition planned_commands ::
  "'a prims_scheme \<Rightarrow> app_service \<Rightarrow> config \<Rightarrow> exn + remote_command list" where
  "planned_commands P service config =
    bind_result (map_err (\<lambda>m. Api (BadRequest m)) (validate_service_name P (sc_name service))) (\<lambda>_.
    let docker_config =
          \<lparr>remote_services_root = cfg_remote_services_root config,
           dockerfile_context_dir = cfg_dockerfile_context_dir config\<rparr> in
    case sc_deploy_kind service of
      DockerImage \<Rightarrow>
        (let reference = (case sc_image service of None \<Rightarrow> ''missing-image'' | Some i \<Rightarrow> i) in
         bind_result (map_err (\<lambda>m. Api (BadRequest m)) (validate_image_reference P reference)) (\<lambda>_.
         Inr (image_deploy_commands reference (sc_name service))))
    | DockerCompose \<Rightarrow> Inr (compose_deploy_commands (sc_name service) docker_config)
    | Dockerfile \<Rightarrow> Inr (dockerfile_deploy_commands (sc_name service) docker_config))"

record 'w deployment_service =
  dps_db :: database
  dps_config :: config
  dps_executor :: "remote_command list \<Rightarrow> ('w, wara_error, deploy_run) io"

definition new_deployment_service :: "database \<Rightarrow> config \<Rightarrow> 'w deployment_service" where
  "new_deployment_service d config =
    \<lparr>dps_db = d, dps_config = config, dps_executor = preview_run\<rparr>"

text \<open>\<open>From<DeploymentRecord>\<close>: the clock is read only if the stored instant does not parse.\<close>

definition deployment_from ::
  "('w, 'a) ext_scheme \<Rightarrow> deployment_record \<Rightarrow> ('w, exn, deployment) io" where
  "deployment_from X r =
    (case datetime_from_str X (dpr_created_at r) of
       Some t \<Rightarrow> returnE (deployment_of X t r)
     | None \<Rightarrow> bindE (effectE (x_now X)) (\<lambda>t. returnE (deployment_of X t r)))"

definition list_deployments ::
  "('w, 'a) ext_scheme \<Rightarrow> 'w deployment_service \<Rightarrow> uuid \<Rightarrow> ('w, exn, deployment list) io" where
  "list_deployments X S service_id =
    bindE (db_handle (dps_db S)) (\<lambda>_.
    bindE (db_select (x_deployments X) Conn (\<lambda>r. dpr_service_id r = service_id)) (\<lambda>records.
    mapE (deployment_from X) records))"

definition get_deployment ::
  "('w, 'a) ext_scheme \<Rightarrow> 'w deployment_service \<Rightarrow> uuid \<Rightarrow> ('w, exn, deployment) io" where
  "get_deployment X S i =
    bindE (db_handle (dps_db S)) (\<lambda>_.
    bindE (db_first (x_deployments X) Conn (\<lambda>r. dpr_id r = i)) (\<lambda>record.
    case record of
      None \<Rightarrow> throwE (Api (NotFound ''deployment''))
    | Some r \<Rightarrow> deployment_from X r))"

definition deploy_status :: "deploy_run \<Rightarrow> deployment_status" where
  "deploy_status run =
    (if \<not> executed run then Queued else if success run then Succeeded else Failed)"

definition create_deployment ::
  "('w, 'a) ext_scheme \<Rightarrow> 'w deployment_service \<Rightarrow> uuid \<Rightarrow> deployment_status \<Rightarrow> string \<Rightarrow>
   ('w, exn, deployment) io" where
  "create_deployment X S service_id status transcript =
    bindE (db_handle (dps_db S)) (\<lambda>_.
    bindE (effectE (x_now_v7 X)) (\<lambda>i.
    bindE (effectE (x_now_v7 X)) (\<lambda>j.
    bindE (effectE (x_now X)) (\<lambda>now.
    bindE (db_insert (x_deployments X) Conn
        \<lparr>dpr_id = i, dpr_service_id = service_id, dpr_status = deployment_status_str status,
         dpr_workflow_id = ''workflow-'' @ uuid_simple X j, dpr_output = transcript,
         dpr_created_at = to_rfc3339 X now\<rparr>) (\<lambda>record.
    deployment_from X record)))))"

definition run_and_record ::
  "('w, 'a) ext_scheme \<Rightarrow> 'w deployment_service \<Rightarrow> uuid \<Rightarrow> remote_command list \<Rightarrow>
   ('w, exn, deployment) io" where
  "run_and_record X S service_id commands =
    bindE (map_errE (\<lambda>e. Api (Internal (''deploy execution failed: '' @ wara_error_str e)))
        (dps_executor S commands)) (\<lambda>run.
    create_deployment X S service_id (deploy_status run) (to_output run []))"

definition trigger_deploy ::
  "('w, 'a) ext_scheme \<Rightarrow> 'w deployment_service \<Rightarrow> uuid \<Rightarrow> ('w, exn, deployment) io" where
  "trigger_deploy X S service_id =
    bindE (get_service X \<lparr>ss_db = dps_db S\<rparr> service_id) (\<lambda>service.
    bindE (liftE (planned_commands X service (dps_config S))) (\<lambda>commands.
    run_and_record X S service_id commands))"

definition restart_service ::
  "('w, 'a) ext_scheme \<Rightarrow> 'w deployment_service \<Rightarrow> uuid \<Rightarrow> ('w, exn, deployment) io" where
  "restart_service X S service_id =
    bindE (get_service X \<lparr>ss_db = dps_db S\<rparr> service_id) (\<lambda>service.
    bindE (liftE (map_err (\<lambda>m. Api (BadRequest m)) (validate_service_name X (sc_name service)))) (\<lambda>_.
    run_and_record X S service_id [restart_command (sc_name service)]))"

definition service_exists ::
  "('w, 'a) ext_scheme \<Rightarrow> 'w deployment_service \<Rightarrow> uuid \<Rightarrow> ('w, exn, unit) io" where
  "service_exists X S service_id =
    bindE (get_service X \<lparr>ss_db = dps_db S\<rparr> service_id) (\<lambda>_. returnE ())"

subsection \<open>The plan\<close>

lemma planned_commands_ok:
  "planned_commands P service config = Inr cs \<longleftrightarrow>
    service_name_ok (sc_name service) \<and>
    (case sc_deploy_kind service of
       DockerImage \<Rightarrow>
        (\<exists>i. (case sc_image service of None \<Rightarrow> ''missing-image'' | Some i \<Rightarrow> i) = i \<and>
          validate_image_reference P i = Inr () \<and> cs = image_deploy_commands i (sc_name service))
     | DockerCompose \<Rightarrow> cs = compose_deploy_commands (sc_name service)
          \<lparr>remote_services_root = cfg_remote_services_root config,
           dockerfile_context_dir = cfg_dockerfile_context_dir config\<rparr>
     | Dockerfile \<Rightarrow> cs = dockerfile_deploy_commands (sc_name service)
          \<lparr>remote_services_root = cfg_remote_services_root config,
           dockerfile_context_dir = cfg_dockerfile_context_dir config\<rparr>)"
  by (auto simp: planned_commands_def bind_result_eq_Inr validate_service_name_iff Let_def
      split: deploy_kind.splits)

lemma planned_commands_error:
  "planned_commands P service config = Inl e \<Longrightarrow> \<exists>m. e = Api (BadRequest m)"
  by (auto simp: planned_commands_def bind_result_def Let_def map_err_def
      split: sum.splits deploy_kind.splits)

subsection \<open>Records\<close>

text \<open>What a stored deployment is read back as.\<close>

definition deployment_read :: "'a prims_scheme \<Rightarrow> deployment_record \<Rightarrow> deployment \<Rightarrow> bool" where
  "deployment_read P r d \<longleftrightarrow>
    (\<exists>t. d = deployment_of P t r \<and>
      (\<forall>s. datetime_from_str P (dpr_created_at r) = Some s \<longrightarrow> t = s))"

lemma wp_deployment_from:
  assumes "store_ok X vw"
    and "\<And>d w'. vw w' = vw w \<Longrightarrow> deployment_read X r d \<Longrightarrow> Q d w'"
  shows "wp (deployment_from X r) Q E w"
  unfolding deployment_from_def
  by (auto intro!: wp_generators[OF assms(1)] assms(2) simp: deployment_read_def split: option.split)

lemma wp_list_deployments:
  assumes "store_ok X vw"
    and Q: "\<And>rs ds w'. vw w' = vw w \<Longrightarrow> list_all2 (deployment_read X) rs ds \<Longrightarrow> distinct rs \<Longrightarrow>
      set rs = {r \<in> t_deployments (vw w Conn). dpr_service_id r = i} \<Longrightarrow> Q ds w'"
    and E: "\<And>e w'. vw w' = vw w \<Longrightarrow> server_error e \<Longrightarrow> E e w'"
  shows "wp (list_deployments X S i) Q E w"
proof -
  have loop: "wp (mapE (deployment_from X) rs) Q E w'"
    if "vw w' = vw w" "distinct rs" "set rs = {r \<in> t_deployments (vw w Conn). dpr_service_id r = i}"
    for rs w'
    by (rule wp_mapE_invariant[where
          I = "\<lambda>done ds w'. vw w' = vw w \<and> list_all2 (deployment_read X) done ds"])
      (use that Q in \<open>auto intro!: wp_deployment_from[OF assms(1)] list_all2_appendI\<close>)
  show ?thesis
    unfolding list_deployments_def by (auto intro!: wp_select[OF assms(1)] loop E)
qed

lemma wp_get_deployment [wp_rules]:
  assumes "store_ok X vw"
    and "\<And>r d w'. vw w' = vw w \<Longrightarrow> r \<in> t_deployments (vw w Conn) \<Longrightarrow> dpr_id r = i \<Longrightarrow>
      deployment_read X r d \<Longrightarrow> Q d w'"
    and "\<And>e w'. vw w' = vw w \<Longrightarrow> server_error e \<or>
      e = Api (NotFound ''deployment'') \<and>
        (\<forall>r \<in> t_deployments (vw w Conn). dpr_id r \<noteq> i) \<Longrightarrow> E e w'"
  shows "wp (get_deployment X S i) Q E w"
  unfolding get_deployment_def
  by (auto intro!: wp_first[OF assms(1)] wp_deployment_from[OF assms(1)] assms(2,3))

definition add_deployment :: "deployment_record \<Rightarrow> tables \<Rightarrow> tables" where
  "add_deployment r = t_deployments_update (insert r)"

definition deployment_row ::
  "uuid \<Rightarrow> deployment_status \<Rightarrow> string \<Rightarrow> tables \<Rightarrow> deployment_record \<Rightarrow> bool" where
  "deployment_row i status transcript T r \<longleftrightarrow>
    (\<forall>x \<in> t_deployments T. dpr_id x \<noteq> dpr_id r) \<and> dpr_service_id r = i \<and>
    dpr_status r = deployment_status_str status \<and> dpr_output r = transcript"

lemma wp_create_deployment:
  assumes "store_ok X vw"
    and Q: "\<And>r d w'. vw w' = (vw w)(Conn := add_deployment r (vw w Conn)) \<Longrightarrow>
      deployment_row i status transcript (vw w Conn) r \<Longrightarrow> deployment_read X r d \<Longrightarrow> Q d w'"
    and E: "\<And>e w'. vw w' = vw w \<Longrightarrow> server_error e \<Longrightarrow> E e w'"
    and E': "\<And>e r w'. vw w' = (vw w)(Conn := add_deployment r (vw w Conn)) \<Longrightarrow>
      deployment_row i status transcript (vw w Conn) r \<Longrightarrow> server_error e \<Longrightarrow> E e w'"
  shows "wp (create_deployment X S i status transcript) Q E w"
proof -
  have ins: "wp (db_insert (x_deployments X) Conn r) (\<lambda>r. wp (deployment_from X r) Q E) E w'"
    if "vw w' = vw w" "dpr_service_id r = i" "dpr_status r = deployment_status_str status"
      "dpr_output r = transcript" for r w'
  proof (rule wp_insert(8)[OF assms(1)], goal_cases)
    case (1 w2)
    then have "vw w2 = (vw w)(Conn := add_deployment r (vw w Conn))"
      "deployment_row i status transcript (vw w Conn) r"
      using that by (simp_all add: add_deployment_def deployment_row_def)
    then show ?case by (intro wp_deployment_from[OF assms(1)] Q) simp_all
  next
    case (3 e w2)
    then show ?case
      using that by (intro E'[of _ r]) (simp_all add: add_deployment_def deployment_row_def)
  qed (use that E in simp)
  show ?thesis
    unfolding create_deployment_def
    by (auto intro!: wp_generators[OF assms(1)] ins E)
qed

subsection \<open>Runs\<close>

text \<open>
  An executor that does not touch what is looked at, here the database; the service's own
  records are the only trace of a run in it.
\<close>

locale quiet_executor = deploy_executor run
  for run :: "remote_command list \<Rightarrow> ('w, wara_error, deploy_run) io" +
  fixes look :: "'w view"
  assumes quiet: "look (snd (run cs w)) = look w"
begin

lemma wp_run:
  assumes "\<And>r w'. look w' = look w \<Longrightarrow>
      prefix (map co_command (outcomes r)) (map render cs) \<Longrightarrow>
      success r = list_all succeeded (outcomes r) \<Longrightarrow> (\<exists>w0. fst (run cs w0) = Inr r) \<Longrightarrow> Q r w'"
    and "\<And>e w'. look w' = look w \<Longrightarrow> E e w'"
  shows "wp (run cs) Q E w"
proof (rule wp_runI)
  fix r w' assume r: "run cs w = (Inr r, w')"
  then show "Q r w'"
    using run_commands[OF r] run_success[OF r] quiet[of cs w]
    by (intro assms(1)) (auto intro: exI[of _ w])
next
  fix e w' assume "run cs w = (Inl e, w')"
  then show "E e w'" using quiet[of cs w] by (intro assms(2)) simp
qed

end

context quiet_executor
begin

lemma wp_run_and_record:
  assumes store: "store_ok X look" and executor: "dps_executor S = run"
    and Q: "\<And>r run' d w'. look w' = (look w)(Conn := add_deployment r (look w Conn)) \<Longrightarrow>
      (\<exists>w0. fst (run cs w0) = Inr run') \<Longrightarrow>
      prefix (map co_command (outcomes run')) (map render cs) \<Longrightarrow>
      deployment_row i (deploy_status run') (to_output run' []) (look w Conn) r \<Longrightarrow>
      deployment_read X r d \<Longrightarrow> Q d w'"
    and E: "\<And>e w'. look w' = look w \<Longrightarrow> server_error e \<Longrightarrow> E e w'"
    and E': "\<And>e r run' w'. look w' = (look w)(Conn := add_deployment r (look w Conn)) \<Longrightarrow>
      (\<exists>w0. fst (run cs w0) = Inr run') \<Longrightarrow>
      prefix (map co_command (outcomes run')) (map render cs) \<Longrightarrow>
      deployment_row i (deploy_status run') (to_output run' []) (look w Conn) r \<Longrightarrow>
      server_error e \<Longrightarrow> E e w'"
  shows "wp (run_and_record X S i cs) Q E w"
proof -
  have create: "wp (create_deployment X S i (deploy_status run') (to_output run' [])) Q E w'"
    if "look w' = look w" "\<exists>w0. fst (run cs w0) = Inr run'"
      "prefix (map co_command (outcomes run')) (map render cs)" for run' w'
  proof (rule wp_create_deployment[OF store], goal_cases)
    case (1 r d w2)
    then show ?case using that by (intro Q[of w2 r run' d]) simp_all
  next
    case (3 e r w2)
    then show ?case using that by (intro E'[of w2 r run' e]) simp_all
  qed (use that E in simp)
  show ?thesis
    unfolding run_and_record_def executor by (auto intro!: wp_run create E)
qed

text \<open>What a request to run a service leaves behind when it is accepted.\<close>

definition recorded ::
  "('w, 'a) ext_scheme \<Rightarrow> uuid \<Rightarrow> remote_command list \<Rightarrow> tables \<Rightarrow> deployment_record \<Rightarrow> bool" where
  "recorded X i cs T r \<longleftrightarrow>
    (\<exists>run' w0. fst (run cs w0) = Inr run' \<and>
      prefix (map co_command (outcomes run')) (map render cs) \<and>
      deployment_row i (deploy_status run') (to_output run' []) T r)"

lemma wp_trigger_deploy:
  assumes store: "store_ok X look" and executor: "dps_executor S = run"
    and Q: "\<And>s cs r d w'. s \<in> t_app_services (look w Conn) \<Longrightarrow> asr_id s = i \<Longrightarrow>
      planned_commands X (app_service_of s) (dps_config S) = Inr cs \<Longrightarrow>
      look w' = (look w)(Conn := add_deployment r (look w Conn)) \<Longrightarrow>
      recorded X i cs (look w Conn) r \<Longrightarrow> deployment_read X r d \<Longrightarrow> Q d w'"
    and E: "\<And>e w'. look w' = look w \<Longrightarrow> server_error e \<or> (\<exists>m. e = Api (BadRequest m)) \<or>
      e = Api (NotFound ''service'') \<and> no_service (look w Conn) i \<Longrightarrow> E e w'"
    and E': "\<And>e s cs r w'. s \<in> t_app_services (look w Conn) \<Longrightarrow> asr_id s = i \<Longrightarrow>
      planned_commands X (app_service_of s) (dps_config S) = Inr cs \<Longrightarrow>
      look w' = (look w)(Conn := add_deployment r (look w Conn)) \<Longrightarrow>
      recorded X i cs (look w Conn) r \<Longrightarrow> server_error e \<Longrightarrow> E e w'"
  shows "wp (trigger_deploy X S i) Q E w"
proof -
  have bad: "E e w'" if "look w' = look w" "planned_commands X s c = Inl e" for s c e w'
    using E[OF that(1)] planned_commands_error[OF that(2)] by blast
  have go: "wp (run_and_record X S (asr_id s) cs) Q E w'"
    if "look w' = look w" "s \<in> t_app_services (look w Conn)" "asr_id s = i"
      "planned_commands X (app_service_of s) (dps_config S) = Inr cs" for s cs w'
  proof (rule wp_run_and_record[OF store executor], goal_cases)
    case (1 r run' d w2)
    then show ?case using that by (intro Q[of s cs w2 r d]) (auto simp: recorded_def)
  next
    case (3 e r run' w2)
    then show ?case using that by (intro E'[of s cs w2 r e]) (auto simp: recorded_def)
  qed (use that E in simp)
  show ?thesis
    unfolding trigger_deploy_def
    by (auto intro!: wp_get_service[OF store] go split: sum.split)
      ((rule bad; assumption) | (rule E; simp; fail))+
qed

lemma wp_restart_service:
  assumes store: "store_ok X look" and executor: "dps_executor S = run"
    and Q: "\<And>s r d w'. s \<in> t_app_services (look w Conn) \<Longrightarrow> asr_id s = i \<Longrightarrow>
      service_name_ok (asr_name s) \<Longrightarrow>
      look w' = (look w)(Conn := add_deployment r (look w Conn)) \<Longrightarrow>
      recorded X i [restart_command (asr_name s)] (look w Conn) r \<Longrightarrow>
      deployment_read X r d \<Longrightarrow> Q d w'"
    and E: "\<And>e w'. look w' = look w \<Longrightarrow> server_error e \<or> (\<exists>m. e = Api (BadRequest m)) \<or>
      e = Api (NotFound ''service'') \<and> no_service (look w Conn) i \<Longrightarrow> E e w'"
    and E': "\<And>e s r w'. s \<in> t_app_services (look w Conn) \<Longrightarrow> asr_id s = i \<Longrightarrow>
      service_name_ok (asr_name s) \<Longrightarrow>
      look w' = (look w)(Conn := add_deployment r (look w Conn)) \<Longrightarrow>
      recorded X i [restart_command (asr_name s)] (look w Conn) r \<Longrightarrow> server_error e \<Longrightarrow> E e w'"
  shows "wp (restart_service X S i) Q E w"
proof -
  have go: "wp (run_and_record X S (asr_id s) [restart_command (asr_name s)]) Q E w'"
    if "look w' = look w" "s \<in> t_app_services (look w Conn)" "asr_id s = i"
      "validate_service_name X (asr_name s) = Inr ()" for s w'
  proof (rule wp_run_and_record[OF store executor], goal_cases)
    case (1 r run' d w2)
    then show ?case
      using that by (intro Q[of s w2 r d]) (auto simp: recorded_def validate_service_name_iff)
  next
    case (3 e r run' w2)
    then show ?case
      using that by (intro E'[of s w2 r e]) (auto simp: recorded_def validate_service_name_iff)
  qed (use that E in simp)
  show ?thesis
    unfolding restart_service_def
    by (auto intro!: wp_get_service[OF store] go E split: sum.split)
qed

end

interpretation preview: quiet_executor preview_run look for look
  by unfold_locales (simp add: preview_run_def returnE_def)

end
