(* ===== verification/Ssh.thy ===== *)
theory Ssh
  imports Crypto
begin

section \<open>Checking a server over SSH: \<open>libs/ssh.rs\<close>\<close>

text \<open>
  The two commands a server check may run, the allowlist in front of them, the reading of their
  output, and the redaction of key material in an error.  The transport is the stub the code
  has: the output is fixed by the command.  The log lines are not modelled.
\<close>

record ssh_target =
  st_host :: string
  st_port :: u16
  st_username :: string
  st_public_key :: string
  st_private_key :: string
  st_private_key_passphrase :: "string option"

text \<open>\<open>printf 'wara-ssh-ok\n'\<close> and \<open>docker version --format '{{.Server.Version}}'\<close>.\<close>

definition ssh_connectivity_check_command :: string where
  "ssh_connectivity_check_command =
    ''printf '' @ [CHR 0x27] @ ''wara-ssh-ok'' @ [CHR 0x5C] @ ''n'' @ [CHR 0x27]"

definition docker_version_check_command :: string where
  "docker_version_check_command =
    ''docker version --format '' @ [CHR 0x27] @ ''{{.Server.Version}}'' @ [CHR 0x27]"

definition server_check_commands :: "string list" where
  "server_check_commands = [ssh_connectivity_check_command, docker_version_check_command]"

fun validate_allowed_commands :: "string list \<Rightarrow> wara_error + unit" where
  "validate_allowed_commands [] = Inr ()"
| "validate_allowed_commands (command # commands) =
    (if command \<noteq> ssh_connectivity_check_command \<and> command \<noteq> docker_version_check_command
     then Inl (Ssh ''SSH command is not allowlisted'')
     else validate_allowed_commands commands)"

definition mock_controlled_output :: "string list \<Rightarrow> string" where
  "mock_controlled_output commands =
    join [CHR 0x0A] (map (\<lambda>command.
      if command = ssh_connectivity_check_command then ''wara-ssh-ok''
      else if command = docker_version_check_command then ''25.0.0''
      else []) commands)"

definition run_controlled_commands :: "ssh_target \<Rightarrow> string list \<Rightarrow> wara_error + string" where
  "run_controlled_commands target commands =
    bind_result (validate_allowed_commands commands)
      (\<lambda>_. Inr (mock_controlled_output commands))"

definition parse_server_check_output :: "string \<Rightarrow> wara_error + string" where
  "parse_server_check_output output =
    (let ls = filter (\<lambda>l. l \<noteq> []) (map trim (lines output)) in
     case ls of
       [] \<Rightarrow> Inl (Ssh ''SSH connectivity probe did not return expected marker'')
     | l # rest \<Rightarrow>
        if l \<noteq> ''wara-ssh-ok''
        then Inl (Ssh ''SSH connectivity probe did not return expected marker'')
        else case rest of
          [] \<Rightarrow> Inl (Ssh ''Docker version output is missing'')
        | version # _ \<Rightarrow> Inr version)"

definition redact_error :: "string \<Rightarrow> ssh_target \<Rightarrow> string" where
  "redact_error error target =
    (let redacted = replace (replace error (st_private_key target) ''[redacted-private-key]'')
           (st_public_key target) ''[redacted-public-key]'';
         redacted = (case st_private_key_passphrase target of
             None \<Rightarrow> redacted
           | Some passphrase \<Rightarrow> replace redacted passphrase ''[redacted-private-key-passphrase]'')
     in chars_take 500 redacted)"

definition fingerprint_public_key :: "'a prims_scheme \<Rightarrow> string \<Rightarrow> string" where
  "fingerprint_public_key P public_key =
    ''SHA256:'' @ b64_encode P (sha256 P (as_bytes (trim public_key)))"

subsection \<open>The allowlist\<close>

lemma validate_allowed_commands_iff:
  "validate_allowed_commands commands = Inr () \<longleftrightarrow> set commands \<subseteq> set server_check_commands"
  by (induction commands) (auto simp: server_check_commands_def)

lemma run_controlled_commands_ok:
  "run_controlled_commands target commands = Inr output \<longleftrightarrow>
    set commands \<subseteq> set server_check_commands \<and> output = mock_controlled_output commands"
  by (auto simp: run_controlled_commands_def bind_result_eq_Inr
      validate_allowed_commands_iff [symmetric])

lemma run_controlled_commands_refused:
  "\<not> set commands \<subseteq> set server_check_commands \<Longrightarrow>
    run_controlled_commands target commands = Inl (Ssh ''SSH command is not allowlisted'')"
proof -
  have "validate_allowed_commands commands = Inl (Ssh ''SSH command is not allowlisted'')"
    if "\<not> set commands \<subseteq> set server_check_commands"
    using that by (induction commands) (auto simp: server_check_commands_def)
  then show "\<not> set commands \<subseteq> set server_check_commands \<Longrightarrow>
    run_controlled_commands target commands = Inl (Ssh ''SSH command is not allowlisted'')"
    by (simp add: run_controlled_commands_def)
qed

subsection \<open>The output of a check\<close>

lemma parse_server_check_output_ok:
  "parse_server_check_output output = Inr version \<longleftrightarrow>
    (\<exists>rest. filter (\<lambda>l. l \<noteq> []) (map trim (lines output)) = ''wara-ssh-ok'' # version # rest)"
  by (auto simp: parse_server_check_output_def Let_def split: list.splits if_splits)

lemma parse_server_check_version:
  assumes "parse_server_check_output output = Inr version"
  shows "version \<noteq> []"
proof -
  from assms obtain rest where
    "filter (\<lambda>l. l \<noteq> []) (map trim (lines output)) = ''wara-ssh-ok'' # version # rest"
    by (auto simp: parse_server_check_output_ok)
  then have "version \<in> set (filter (\<lambda>l. l \<noteq> []) (map trim (lines output)))" by simp
  then show ?thesis by simp
qed

text \<open>The stub transport always answers what a healthy host would.\<close>

lemma mock_check_available:
  "run_controlled_commands target server_check_commands = Inr (''wara-ssh-ok'' @ [CHR 0x0A] @ ''25.0.0'')"
  "parse_server_check_output (''wara-ssh-ok'' @ [CHR 0x0A] @ ''25.0.0'') = Inr ''25.0.0''"
proof -
  have "ssh_connectivity_check_command \<noteq> docker_version_check_command"
    by (simp add: ssh_connectivity_check_command_def docker_version_check_command_def)
  then show "run_controlled_commands target server_check_commands =
      Inr (''wara-ssh-ok'' @ [CHR 0x0A] @ ''25.0.0'')"
    by (simp add: run_controlled_commands_ok mock_controlled_output_def server_check_commands_def)
  show "parse_server_check_output (''wara-ssh-ok'' @ [CHR 0x0A] @ ''25.0.0'') = Inr ''25.0.0''"
    by code_simp
qed

subsection \<open>Redaction\<close>

lemma sublist_prefix_trans: "sublist q p \<Longrightarrow> prefix p s \<Longrightarrow> sublist q s"
  using prefix_imp_sublist sublist_order.order.trans by blast

text \<open>
  A private key or passphrase that shares no character with the markers, and is not empty, does
  not survive in the text that is stored.
\<close>

lemma redact_error_removes:
  fixes target :: ssh_target
  defines "markers \<equiv> set ''[redacted-private-key-passphrase]'' \<union> set ''[redacted-public-key]''"
  assumes ne: "st_private_key target \<noteq> []" "st_public_key target \<noteq> []"
      "st_private_key_passphrase target \<noteq> Some []"
    and s: "s = st_private_key target \<or> st_private_key_passphrase target = Some s"
    and disj: "set s \<inter> markers = {}"
  shows "\<not> sublist s (redact_error error target)"
proof -
  have s_ne: "s \<noteq> []" using s ne by auto
  have d: "set s \<inter> set ''[redacted-private-key]'' = {}" "set s \<inter> set ''[redacted-public-key]'' = {}"
    "set s \<inter> set ''[redacted-private-key-passphrase]'' = {}"
    using disj unfolding markers_def by auto
  define r1 where "r1 = replace_ne (st_private_key target) ''[redacted-private-key]'' error"
  define r2 where "r2 = replace_ne (st_public_key target) ''[redacted-public-key]'' r1"
  define r3 where "r3 = (case st_private_key_passphrase target of None \<Rightarrow> r2
    | Some p \<Rightarrow> replace_ne p ''[redacted-private-key-passphrase]'' r2)"
  have eq: "redact_error error target = chars_take 500 r3"
    using ne by (auto simp: redact_error_def Let_def r1_def r2_def r3_def replace_def
        split: option.splits)
  have "\<not> sublist s r3"
  proof (cases "st_private_key_passphrase target = Some s")
    case True
    then show ?thesis
      using replace_ne_removes[OF s_ne _ d(3)] by (simp add: r3_def)
  next
    case False
    then have sk: "s = st_private_key target" using s by simp
    have "\<not> sublist s r1"
      using replace_ne_removes[OF s_ne _ d(1)] unfolding r1_def sk by simp
    then have "\<not> sublist s r2"
      using sublist_replace_ne[OF ne(2) _ s_ne d(2)] unfolding r2_def by auto
    then show ?thesis
      using sublist_replace_ne[OF _ _ s_ne d(3)] ne(3)
      by (auto simp: r3_def split: option.splits)
  qed
  then show ?thesis
    unfolding eq using sublist_prefix_trans[OF _ prefix_chars_take] by blast
qed

end
