(* ===== verification/Servers.thy ===== *)
theory Servers
  imports Store Ssh
begin

section \<open>Servers\<close>

text \<open>
  \<open>services/servers.rs\<close>: the registration of a server with its key pair, the connectivity check
  and what it records, and the check of all servers, which the worker runs at an interval.
\<close>

record create_server_input =
  cv_name :: string
  cv_host :: string
  cv_port :: "u16 option"
  cv_username :: string
  cv_public_key :: string
  cv_private_key :: string
  cv_private_key_passphrase :: "string option"
  cv_default_proxy :: "proxy_kind option"

record server_check_response =
  sk_server_id :: uuid
  sk_ssh_status :: string
  sk_docker_status :: string
  sk_docker_version :: "string option"
  sk_checked_at :: string
  sk_error :: "string option"

record server_service =
  svs_db :: database
  svs_secret_key :: string

definition non_empty :: "string \<Rightarrow> string option" where
  "non_empty value = (if value = [] then None else Some value)"

definition validate_ssh_key_pair :: "create_server_input \<Rightarrow> exn + unit" where
  "validate_ssh_key_pair payload =
    (if \<not> starts_with (trim_start (cv_public_key payload)) ''ssh-''
     then Inl (Api (BadRequest ''public_key must be an OpenSSH public key''))
     else if \<not> sublist ''PRIVATE KEY'' (cv_private_key payload)
     then Inl (Api (BadRequest ''private_key must be a PEM/OpenSSH private key''))
     else Inr ())"

definition list_servers ::
  "('w, 'a) ext_scheme \<Rightarrow> server_service \<Rightarrow> ('w, exn, server list) io" where
  "list_servers X S =
    bindE (db_handle (svs_db S)) (\<lambda>_.
    bindE (db_select (x_servers X) Conn (\<lambda>_. True)) (\<lambda>records.
    returnE (map server_of records)))"

definition create_server ::
  "('w, 'a) ext_scheme \<Rightarrow> server_service \<Rightarrow> create_server_input \<Rightarrow> ('w, exn, server) io" where
  "create_server X S payload =
    bindE (liftE (validate_ssh_key_pair payload)) (\<lambda>_.
    bindE (db_handle (svs_db S)) (\<lambda>_.
    bindE (effectE (x_now_v7 X)) (\<lambda>i.
    bindE (db_insert (x_servers X) Conn
        \<lparr>sr_id = i, sr_name = cv_name payload, sr_host = cv_host payload,
         sr_port = (case cv_port payload of None \<Rightarrow> 22 | Some p \<Rightarrow> p),
         sr_username = cv_username payload, sr_public_key = cv_public_key payload,
         sr_private_key_fingerprint = fingerprint_public_key X (cv_public_key payload),
         sr_encrypted_private_key =
           encrypt_secret X (svs_secret_key S) (cv_private_key payload),
         sr_encrypted_private_key_passphrase =
           map_option (encrypt_secret X (svs_secret_key S)) (cv_private_key_passphrase payload),
         sr_default_proxy =
           proxy_kind_str (case cv_default_proxy payload of None \<Rightarrow> Nginx | Some p \<Rightarrow> p),
         sr_docker_status = ''unchecked'', sr_docker_version = [], sr_last_check_at = [],
         sr_last_check_error = []\<rparr>) (\<lambda>record.
    returnE (server_of record)))))"

definition get_server ::
  "('w, 'a) ext_scheme \<Rightarrow> server_service \<Rightarrow> uuid \<Rightarrow> ('w, exn, server) io" where
  "get_server X S i =
    bindE (db_handle (svs_db S)) (\<lambda>_.
    bindE (db_first (x_servers X) Conn (\<lambda>r. sr_id r = i)) (\<lambda>record.
    liftE (ok_or (Api (NotFound ''server'')) (map_option server_of record))))"

definition ssh_target_of ::
  "'a prims_scheme \<Rightarrow> server_service \<Rightarrow> server \<Rightarrow> exn + ssh_target" where
  "ssh_target_of P S server =
    bind_result (map_err (\<lambda>e. Api (Internal (''failed to decrypt server private key: '' @ wara_error_str e)))
        (decrypt_secret P (svs_secret_key S) (sv_encrypted_private_key server))) (\<lambda>private_key.
    bind_result
      (case sv_encrypted_private_key_passphrase server of
         None \<Rightarrow> Inr None
       | Some value \<Rightarrow>
          bind_result (map_err (\<lambda>e. Api (Internal
              (''failed to decrypt server private key passphrase: '' @ wara_error_str e)))
            (decrypt_secret P (svs_secret_key S) value)) (\<lambda>p. Inr (Some p))) (\<lambda>passphrase.
    Inr \<lparr>st_host = sv_host server, st_port = sv_port server, st_username = sv_username server,
         st_public_key = sv_public_key server, st_private_key = private_key,
         st_private_key_passphrase = passphrase\<rparr>))"

definition update_check_metadata ::
  "('w, 'a) ext_scheme \<Rightarrow> server_service \<Rightarrow> uuid \<Rightarrow> string \<Rightarrow> string \<Rightarrow> string \<Rightarrow> string \<Rightarrow>
   ('w, exn, unit) io" where
  "update_check_metadata X S i docker_status docker_version checked_at last_check_error =
    bindE (db_handle (svs_db S)) (\<lambda>_.
    db_update (x_servers X) Conn (\<lambda>r. sr_id r = i)
      [(10, VText docker_status), (11, VText docker_version), (12, VText checked_at),
       (13, VText last_check_error)])"

text \<open>The status, version and error a probe of a target comes to.\<close>

definition probe :: "ssh_target \<Rightarrow> string \<times> string \<times> string" where
  "probe target =
    (case run_controlled_commands target server_check_commands of
       Inr output \<Rightarrow>
        (case parse_server_check_output output of
           Inr version \<Rightarrow> (''available'', version, [])
         | Inl error \<Rightarrow> (''unavailable'', [], redact_error (wara_error_str error) target))
     | Inl error \<Rightarrow> (''unavailable'', [], redact_error (wara_error_str error) target))"

definition check_server ::
  "('w, 'a) ext_scheme \<Rightarrow> server_service \<Rightarrow> uuid \<Rightarrow> ('w, exn, server_check_response) io" where
  "check_server X S i =
    bindE (get_server X S i) (\<lambda>server.
    bindE (liftE (ssh_target_of X S server)) (\<lambda>target.
    bindE (effectE (x_now X)) (\<lambda>now.
    let checked_at = to_rfc3339 X now;
        (docker_status, docker_version, last_check_error) = probe target in
    bindE (update_check_metadata X S i docker_status docker_version checked_at last_check_error) (\<lambda>_.
    returnE \<lparr>sk_server_id = i,
             sk_ssh_status = (if docker_status = ''available'' then ''connected'' else ''failed''),
             sk_docker_status = docker_status, sk_docker_version = non_empty docker_version,
             sk_checked_at = checked_at, sk_error = non_empty last_check_error\<rparr>))))"

text \<open>\<open>check_all_servers\<close>: an error of one check is logged and the loop goes on.\<close>

fun check_each ::
  "('w, 'a) ext_scheme \<Rightarrow> server_service \<Rightarrow> server list \<Rightarrow> server_check_response list \<Rightarrow>
   ('w, exn, server_check_response list) io" where
  "check_each X S [] checks = returnE checks"
| "check_each X S (server # servers) checks =
    matchE (check_server X S (sv_id server))
      (\<lambda>check. check_each X S servers (checks @ [check]))
      (\<lambda>error. case error of
          Api _ \<Rightarrow> check_each X S servers checks
        | _ \<Rightarrow> throwE error)"

definition check_all_servers ::
  "('w, 'a) ext_scheme \<Rightarrow> server_service \<Rightarrow> ('w, exn, server_check_response list) io" where
  "check_all_servers X S = bindE (list_servers X S) (\<lambda>servers. check_each X S servers [])"

subsection \<open>Registration\<close>

lemma wp_list_servers [wp_rules]:
  assumes "store_ok X vw"
    and "\<And>rs w'. vw w' = vw w \<Longrightarrow> distinct rs \<Longrightarrow> set rs = t_servers (vw w Conn) \<Longrightarrow>
      Q (map server_of rs) w'"
    and "\<And>e w'. vw w' = vw w \<Longrightarrow> server_error e \<Longrightarrow> E e w'"
  shows "wp (list_servers X S) Q E w"
  unfolding list_servers_def by (auto intro!: wp_select[OF assms(1)] assms(2,3))

definition no_server :: "tables \<Rightarrow> uuid \<Rightarrow> bool" where
  "no_server T i \<longleftrightarrow> (\<forall>r \<in> t_servers T. sr_id r \<noteq> i)"

lemma wp_get_server [wp_rules]:
  assumes "store_ok X vw"
    and "\<And>r w'. vw w' = vw w \<Longrightarrow> r \<in> t_servers (vw w Conn) \<Longrightarrow> sr_id r = i \<Longrightarrow> Q (server_of r) w'"
    and "\<And>e w'. vw w' = vw w \<Longrightarrow> server_error e \<or>
      e = Api (NotFound ''server'') \<and> no_server (vw w Conn) i \<Longrightarrow> E e w'"
  shows "wp (get_server X S i) Q E w"
  unfolding get_server_def
  by (auto intro!: wp_first[OF assms(1)] assms(2,3) simp: no_server_def)

lemma validate_ssh_key_pair_ok:
  "validate_ssh_key_pair payload = Inr x \<longleftrightarrow>
    prefix ''ssh-'' (trim_start (cv_public_key payload)) \<and>
    sublist ''PRIVATE KEY'' (cv_private_key payload)"
  by (auto simp: validate_ssh_key_pair_def starts_with_def)

lemma validate_ssh_key_pair_error:
  "validate_ssh_key_pair payload = Inl e \<Longrightarrow> \<exists>m. e = Api (BadRequest m)"
  by (auto simp: validate_ssh_key_pair_def split: if_splits)

definition add_server :: "server_record \<Rightarrow> tables \<Rightarrow> tables" where
  "add_server r = t_servers_update (insert r)"

text \<open>The row of a new server: its key and passphrase are stored encrypted only.\<close>

definition server_row ::
  "'a prims_scheme \<Rightarrow> server_service \<Rightarrow> create_server_input \<Rightarrow> server_record \<Rightarrow> bool" where
  "server_row P S payload r \<longleftrightarrow>
    sr_host r = cv_host payload \<and> sr_username r = cv_username payload \<and>
    sr_port r = (case cv_port payload of None \<Rightarrow> 22 | Some p \<Rightarrow> p) \<and>
    sr_public_key r = cv_public_key payload \<and>
    sr_encrypted_private_key r = encrypt_secret P (svs_secret_key S) (cv_private_key payload) \<and>
    sr_encrypted_private_key_passphrase r =
      map_option (encrypt_secret P (svs_secret_key S)) (cv_private_key_passphrase payload) \<and>
    sr_docker_status r = ''unchecked''"

lemma wp_create_server:
  assumes "store_ok X vw"
    and Q: "\<And>r w'. vw w' = (vw w)(Conn := add_server r (vw w Conn)) \<Longrightarrow>
      no_server (vw w Conn) (sr_id r) \<Longrightarrow> server_row X S payload r \<Longrightarrow>
      validate_ssh_key_pair payload = Inr () \<Longrightarrow> Q (server_of r) w'"
    and E: "\<And>e w'. vw w' = vw w \<Longrightarrow> server_error e \<or> (\<exists>m. e = Api (BadRequest m)) \<Longrightarrow> E e w'"
    and E': "\<And>e r w'. vw w' = (vw w)(Conn := add_server r (vw w Conn)) \<Longrightarrow>
      no_server (vw w Conn) (sr_id r) \<Longrightarrow> server_row X S payload r \<Longrightarrow>
      validate_ssh_key_pair payload = Inr () \<Longrightarrow> server_error e \<Longrightarrow> E e w'"
  shows "wp (create_server X S payload) Q E w"
proof (cases "validate_ssh_key_pair payload")
  case (Inl e)
  then show ?thesis
    using E[of w e] validate_ssh_key_pair_error[OF Inl] by (simp add: create_server_def)
next
  case (Inr u)
  then have valid: "validate_ssh_key_pair payload = Inr ()" by simp
  have ins: "wp (db_insert (x_servers X) Conn r) (\<lambda>r. Q (server_of r)) E w'"
    if "vw w' = vw w" "server_row X S payload r" for r w'
    using that valid
    by (intro wp_insert(3)[OF assms(1)])
      (rule Q E E'[of _ r]; simp add: add_server_def no_server_def; fail)+
  show ?thesis
    unfolding create_server_def
    by (auto intro!: wp_generators[OF assms(1)] ins E simp: valid server_row_def)
qed

subsection \<open>The target of a check\<close>

lemma decrypt_secret_encrypt:
  "b64_laws P \<Longrightarrow> utf8 s \<Longrightarrow> decrypt_secret P key (encrypt_secret P key s) = Inr s"
  by (simp add: decrypt_encrypt_bytes)

text \<open>What is registered is what a check connects with.\<close>

lemma ssh_target_of_row:
  assumes "b64_laws P" "server_row P S payload r" "utf8 (cv_private_key payload)"
    and "\<forall>p. cv_private_key_passphrase payload = Some p \<longrightarrow> utf8 p"
  shows "ssh_target_of P S (server_of r) = Inr
    \<lparr>st_host = cv_host payload,
     st_port = (case cv_port payload of None \<Rightarrow> 22 | Some p \<Rightarrow> p),
     st_username = cv_username payload, st_public_key = cv_public_key payload,
     st_private_key = cv_private_key payload,
     st_private_key_passphrase = cv_private_key_passphrase payload\<rparr>"
proof -
  have row: "sr_host r = cv_host payload" "sr_username r = cv_username payload"
    "sr_port r = (case cv_port payload of None \<Rightarrow> 22 | Some p \<Rightarrow> p)"
    "sr_public_key r = cv_public_key payload"
    "sr_encrypted_private_key r = encrypt_secret P (svs_secret_key S) (cv_private_key payload)"
    "sr_encrypted_private_key_passphrase r =
      map_option (encrypt_secret P (svs_secret_key S)) (cv_private_key_passphrase payload)"
    using assms(2) by (simp_all add: server_row_def)
  show ?thesis
    using assms(3,4)
    by (cases "cv_private_key_passphrase payload")
      (simp_all add: ssh_target_of_def row decrypt_secret_encrypt[OF assms(1)])
qed

lemma ssh_target_of_error: "ssh_target_of P S server = Inl e \<Longrightarrow> server_error e"
  by (auto simp: ssh_target_of_def bind_result_def map_err_def split: sum.splits option.splits)

subsection \<open>A check\<close>

text \<open>The four columns of a check are all that it writes.\<close>

definition server_core :: "server_record \<Rightarrow> server_record" where
  "server_core r = r\<lparr>sr_docker_status := [], sr_docker_version := [], sr_last_check_at := [],
     sr_last_check_error := []\<rparr>"

definition checks_only :: "tables \<Rightarrow> tables \<Rightarrow> bool" where
  "checks_only T T' \<longleftrightarrow>
    T' = t_servers_update (\<lambda>_. t_servers T') T \<and>
    server_core ` t_servers T' = server_core ` t_servers T"

lemma checks_only_refl [simp]: "checks_only T T"
  by (simp add: checks_only_def)

lemma checks_only_trans: "checks_only T T1 \<Longrightarrow> checks_only T1 T2 \<Longrightarrow> checks_only T T2"
proof -
  assume a: "checks_only T T1" "checks_only T1 T2"
  then have "T2 = t_servers_update (\<lambda>_. t_servers T2) (t_servers_update (\<lambda>_. t_servers T1) T)"
    unfolding checks_only_def by metis
  then have "T2 = t_servers_update (\<lambda>_. t_servers T2) T" by (simp add: comp_def)
  then show ?thesis using a unfolding checks_only_def by simp
qed

definition record_check :: "uuid \<Rightarrow> string \<Rightarrow> string \<Rightarrow> string \<Rightarrow> string \<Rightarrow> tables \<Rightarrow> tables" where
  "record_check i status version at err = t_servers_update
    ((`) (update_row server_set (\<lambda>r. sr_id r = i)
      [(10, VText status), (11, VText version), (12, VText at), (13, VText err)]))"

lemma record_check_row:
  "update_row server_set (\<lambda>r. sr_id r = i)
    [(10, VText status), (11, VText version), (12, VText at), (13, VText err)] r =
   (if sr_id r = i then r\<lparr>sr_docker_status := status, sr_docker_version := version,
      sr_last_check_at := at, sr_last_check_error := err\<rparr> else r)"
  by (simp add: update_row_def)

lemma record_check_only: "checks_only T (record_check i status version at err T)"
proof -
  have "server_core (update_row server_set (\<lambda>r. sr_id r = i)
      [(10, VText status), (11, VText version), (12, VText at), (13, VText err)] r) = server_core r"
    for r
    by (simp add: record_check_row server_core_def)
  moreover have "record_check i status version at err T =
      t_servers_update (\<lambda>_. t_servers (record_check i status version at err T)) T"
    by (simp add: record_check_def)
  ultimately show ?thesis
    unfolding checks_only_def by (simp add: record_check_def image_image)
qed

text \<open>A check whose answer and whose row say the same.\<close>

definition check_recorded :: "tables \<Rightarrow> uuid \<Rightarrow> server_check_response \<Rightarrow> tables \<Rightarrow> bool" where
  "check_recorded T i c T' \<longleftrightarrow>
    sk_server_id c = i \<and> \<not> no_server T i \<and>
    sk_ssh_status c = (if sk_docker_status c = ''available'' then ''connected'' else ''failed'') \<and>
    (\<exists>version err. T' = record_check i (sk_docker_status c) version (sk_checked_at c) err T \<and>
       sk_docker_version c = non_empty version \<and> sk_error c = non_empty err)"

lemma probe_of_stub: "probe target = (''available'', ''25.0.0'', [])"
  unfolding probe_def mock_check_available sum.case by simp

lemma wp_check_server:
  assumes "store_ok X vw"
    and Q: "\<And>c w' T'. vw w' = (vw w)(Conn := T') \<Longrightarrow> check_recorded (vw w Conn) i c T' \<Longrightarrow>
      sk_docker_status c = ''available'' \<Longrightarrow> sk_error c = None \<Longrightarrow> Q c w'"
    and E: "\<And>e w' T'. vw w' = (vw w)(Conn := T') \<Longrightarrow> checks_only (vw w Conn) T' \<Longrightarrow>
      server_error e \<or> e = Api (NotFound ''server'') \<and> no_server (vw w Conn) i \<and> T' = vw w Conn \<Longrightarrow>
      E e w'"
  shows "wp (check_server X S i) Q E w"
proof -
  have E0: "E e w'" if "vw w' = vw w"
    "server_error e \<or> e = Api (NotFound ''server'') \<and> no_server (vw w Conn) i" for e w'
    using E[where T' = "vw w Conn"] that by auto
  have up: "wp (update_check_metadata X S i ''available'' ''25.0.0'' at [])
      (\<lambda>_. Q \<lparr>sk_server_id = i, sk_ssh_status = ''connected'', sk_docker_status = ''available'',
             sk_docker_version = non_empty ''25.0.0'', sk_checked_at = at,
             sk_error = non_empty []\<rparr>) E w'"
    if "vw w' = vw w" "r \<in> t_servers (vw w Conn)" "sr_id r = i" for at r w'
  proof -
    let ?T = "record_check i ''available'' ''25.0.0'' at [] (vw w Conn)"
    have rec: "check_recorded (vw w Conn) i
        \<lparr>sk_server_id = i, sk_ssh_status = ''connected'', sk_docker_status = ''available'',
         sk_docker_version = non_empty ''25.0.0'', sk_checked_at = at,
         sk_error = non_empty []\<rparr> ?T"
      using that(2,3) by (auto simp: check_recorded_def no_server_def)
    show ?thesis
    proof (cases "db_toasty (svs_db S)")
      case True
      have "wp (db_update (x_servers X) Conn (\<lambda>r. sr_id r = i)
          [(10, VText ''available''), (11, VText ''25.0.0''), (12, VText at), (13, VText [])])
        (\<lambda>_. Q \<lparr>sk_server_id = i, sk_ssh_status = ''connected'', sk_docker_status = ''available'',
             sk_docker_version = non_empty ''25.0.0'', sk_checked_at = at,
             sk_error = non_empty []\<rparr>) E w'"
      proof (rule wp_update(1)[OF assms(1)], goal_cases)
        case (1 w2)
        then have "vw w2 = (vw w)(Conn := ?T)" using that(1) by (simp add: record_check_def)
        then show ?case by (rule Q[OF _ rec]) (simp_all add: non_empty_def)
      next
        case (2 e w2)
        then show ?case using that(1) by (intro E0) simp_all
      next
        case (3 e w2)
        then have "vw w2 = (vw w)(Conn := ?T)" using that(1) by (simp add: record_check_def)
        then show ?case by (rule E) (simp_all add: record_check_only)
      qed
      then show ?thesis using True by (simp add: update_check_metadata_def)
    next
      case False
      then show ?thesis using E0[OF that(1)] by (simp add: update_check_metadata_def)
    qed
  qed
  show ?thesis
    unfolding check_server_def wp_bindE[of "get_server _ _ _"]
  proof (rule wp_get_server[OF assms(1)], goal_cases)
    case (1 r w1)
    show ?case
      by (auto intro!: wp_generators[OF assms(1)] up[OF _ 1(2,3)]
          simp: probe_of_stub 1(1) Let_def simp del: wp_bindE wp_returnE
          simp: wp_bindE[of "liftE _"] wp_bindE[of "effectE _"]
            wp_bindE[of "update_check_metadata _ _ _ _ _ _ _"] wp_returnE
          split: sum.split intro: E0 ssh_target_of_error)
  qed (rule E0)
qed

subsection \<open>The check of all servers\<close>

text \<open>The answers of a round: of some of the servers, in their order, each a success.\<close>

definition round_of :: "server list \<Rightarrow> server_check_response list \<Rightarrow> bool" where
  "round_of servers cs \<longleftrightarrow>
    subseq (map sk_server_id cs) (map sv_id servers) \<and>
    list_all (\<lambda>c. sk_docker_status c = ''available'' \<and> sk_error c = None) cs"

lemma wp_check_each:
  assumes "store_ok X vw"
    and "\<And>cs new w' T'. vw w' = (vw w)(Conn := T') \<Longrightarrow> checks_only (vw w Conn) T' \<Longrightarrow>
      cs = acc @ new \<Longrightarrow> round_of servers new \<Longrightarrow> Q cs w'"
  shows "wp (check_each X S servers acc) Q E w"
  using assms(2)
proof (induction servers arbitrary: acc w)
  case Nil
  show ?case
    unfolding check_each.simps wp_returnE
    by (rule Nil[where T' = "vw w Conn" and new = "[]"]) (simp_all add: round_of_def)
next
  case (Cons s servers)
  show ?case
    unfolding check_each.simps wp_matchE
  proof (rule wp_check_server[OF assms(1)], goal_cases)
    case (1 c w1 T1)
    have only: "checks_only (vw w Conn) T1"
      using 1(2) record_check_only by (auto simp: check_recorded_def)
    show ?case
    proof (rule Cons.IH)
      fix cs new w2 T2
      assume new: "vw w2 = (vw w1)(Conn := T2)" "checks_only (vw w1 Conn) T2"
        "cs = (acc @ [c]) @ new" "round_of servers new"
      show "Q cs w2"
      proof (rule Cons.prems)
        show "vw w2 = (vw w)(Conn := T2)" using new(1) 1(1) by simp
        show "checks_only (vw w Conn) T2"
          using checks_only_trans[OF only] new(2) 1(1) by simp
        show "cs = acc @ c # new" using new(3) by simp
        show "round_of (s # servers) (c # new)"
          using new(4) 1 by (simp add: round_of_def check_recorded_def)
      qed
    qed
  next
    case (2 e w1 T1)
    have "wp (check_each X S servers acc) Q E w1"
    proof (rule Cons.IH)
      fix cs new w2 T2
      assume new: "vw w2 = (vw w1)(Conn := T2)" "checks_only (vw w1 Conn) T2"
        "cs = acc @ new" "round_of servers new"
      show "Q cs w2"
      proof (rule Cons.prems)
        show "vw w2 = (vw w)(Conn := T2)" using new(1) 2(1) by simp
        show "checks_only (vw w Conn) T2"
          using checks_only_trans[OF 2(2)] new(2) 2(1) by simp
        show "round_of (s # servers) new" using new(4) by (auto simp: round_of_def)
      qed (rule new(3))
    qed
    then show ?case using 2(3) by (auto simp: server_error_def)
  qed
qed

lemma wp_check_all_servers:
  assumes "store_ok X vw"
    and Q: "\<And>rs cs w' T'. vw w' = (vw w)(Conn := T') \<Longrightarrow> checks_only (vw w Conn) T' \<Longrightarrow>
      set rs = t_servers (vw w Conn) \<Longrightarrow> round_of (map server_of rs) cs \<Longrightarrow> Q cs w'"
    and E: "\<And>e w'. vw w' = vw w \<Longrightarrow> server_error e \<Longrightarrow> E e w'"
  shows "wp (check_all_servers X S) Q E w"
proof -
  have loop: "wp (check_each X S (map server_of rs) []) Q E w'"
    if "vw w' = vw w" "set rs = t_servers (vw w Conn)" for rs w'
  proof (rule wp_check_each[OF assms(1)])
    fix cs new w2 T2
    assume "vw w2 = (vw w')(Conn := T2)" "checks_only (vw w' Conn) T2" "cs = [] @ new"
      "round_of (map server_of rs) new"
    then show "Q cs w2" using that by (intro Q) simp_all
  qed
  show ?thesis
    unfolding check_all_servers_def by (auto intro!: wp_list_servers[OF assms(1)] loop E)
qed

end
