(* ===== verification/Templates.thy ===== *)
theory Templates
  imports Workspaces
begin

section \<open>Workspace templates\<close>

text \<open>
  \<open>services/workspace_templates.rs\<close> and \<open>services/templates.rs\<close>.  A template remembers a
  workspace; workspaces are made from it one after the other, each in its own transaction, with
  the description of the template and nothing else of its source.
\<close>

datatype secret_copy_mode = CopyEncrypted | Rebind | Empty

record create_template_input =
  ct_workspace_id :: uuid
  ct_name :: string
  ct_description :: "string option"

record create_workspaces_from_template_input =
  cw_template_id :: uuid
  cw_names :: "string list"
  cw_secret_copy_mode :: secret_copy_mode

record workspace_template_service =
  wts_db :: database

definition list_workspace_templates ::
  "('w, 'a) ext_scheme \<Rightarrow> workspace_template_service \<Rightarrow> uuid \<Rightarrow>
   ('w, exn, workspace_template list) io" where
  "list_workspace_templates X S workspace_id =
    bindE (db_handle (wts_db S)) (\<lambda>_.
    bindE (db_select (x_templates X) Conn (\<lambda>r. wtr_source_workspace_id r = workspace_id)) (\<lambda>records.
    returnE (map workspace_template_of records)))"

definition create_template ::
  "('w, 'a) ext_scheme \<Rightarrow> workspace_template_service \<Rightarrow> create_template_input \<Rightarrow>
   ('w, exn, workspace_template) io" where
  "create_template X S input =
    bindE (get_workspace X \<lparr>ws_db = wts_db S\<rparr> (ct_workspace_id input)) (\<lambda>_.
    bindE (db_handle (wts_db S)) (\<lambda>_.
    bindE (effectE (x_now_v7 X)) (\<lambda>i.
    bindE (db_insert (x_templates X) Conn
        \<lparr>wtr_id = i, wtr_source_workspace_id = ct_workspace_id input, wtr_name = ct_name input,
         wtr_description = ct_description input\<rparr>) (\<lambda>record.
    returnE (workspace_template_of record)))))"

definition get_template ::
  "('w, 'a) ext_scheme \<Rightarrow> workspace_template_service \<Rightarrow> uuid \<Rightarrow> ('w, exn, workspace_template) io" where
  "get_template X S i =
    bindE (db_handle (wts_db S)) (\<lambda>_.
    bindE (db_first (x_templates X) Conn (\<lambda>r. wtr_id r = i)) (\<lambda>record.
    liftE (ok_or (Api (NotFound ''template'')) (map_option workspace_template_of record))))"

text \<open>The log line that shows \<open>secret_copy_mode\<close>, its only use, is not modelled.\<close>

definition create_workspaces_from_template ::
  "('w, 'a) ext_scheme \<Rightarrow> workspace_template_service \<Rightarrow> create_workspaces_from_template_input \<Rightarrow>
   ('w, exn, workspace list) io" where
  "create_workspaces_from_template X S input =
    bindE (get_template X S (cw_template_id input)) (\<lambda>template.
    mapE (\<lambda>name. create_workspace X \<lparr>ws_db = wts_db S\<rparr> name (wt_description template))
      (cw_names input))"

subsection \<open>Templates\<close>

lemma wp_list_workspace_templates [wp_rules]:
  assumes "store_ok X vw"
    and "\<And>rs w'. vw w' = vw w \<Longrightarrow> set rs =
      workspace_template_of ` {r \<in> t_templates (vw w Conn). wtr_source_workspace_id r = i} \<Longrightarrow> Q rs w'"
    and "\<And>e w'. vw w' = vw w \<Longrightarrow> server_error e \<Longrightarrow> E e w'"
  shows "wp (list_workspace_templates X S i) Q E w"
  unfolding list_workspace_templates_def by (auto intro!: wp_select[OF assms(1)] assms(2,3))

definition no_template :: "tables \<Rightarrow> uuid \<Rightarrow> bool" where
  "no_template T i \<longleftrightarrow> (\<forall>r \<in> t_templates T. wtr_id r \<noteq> i)"

lemma wp_get_template [wp_rules]:
  assumes "store_ok X vw"
    and "\<And>r w'. vw w' = vw w \<Longrightarrow> r \<in> t_templates (vw w Conn) \<Longrightarrow> wtr_id r = i \<Longrightarrow>
      Q (workspace_template_of r) w'"
    and "\<And>e w'. vw w' = vw w \<Longrightarrow> server_error e \<or>
      e = Api (NotFound ''template'') \<and> no_template (vw w Conn) i \<Longrightarrow> E e w'"
  shows "wp (get_template X S i) Q E w"
  unfolding get_template_def
  by (auto intro!: wp_first[OF assms(1)] assms(2,3) simp: no_template_def)

definition add_template :: "workspace_template_record \<Rightarrow> tables \<Rightarrow> tables" where
  "add_template r = t_templates_update (insert r)"

definition template_row ::
  "create_template_input \<Rightarrow> tables \<Rightarrow> workspace_template_record \<Rightarrow> bool" where
  "template_row input T r \<longleftrightarrow>
    no_template T (wtr_id r) \<and> \<not> no_workspace T (ct_workspace_id input) \<and>
    wtr_source_workspace_id r = ct_workspace_id input \<and> wtr_name r = ct_name input \<and>
    wtr_description r = ct_description input"

lemma wp_create_template:
  assumes "store_ok X vw"
    and Q: "\<And>r w'. vw w' = (vw w)(Conn := add_template r (vw w Conn)) \<Longrightarrow>
      template_row input (vw w Conn) r \<Longrightarrow> Q (workspace_template_of r) w'"
    and E: "\<And>e w'. vw w' = vw w \<Longrightarrow> server_error e \<or>
      e = Api (NotFound ''workspace'') \<and> no_workspace (vw w Conn) (ct_workspace_id input) \<Longrightarrow> E e w'"
    and E': "\<And>e r w'. vw w' = (vw w)(Conn := add_template r (vw w Conn)) \<Longrightarrow>
      template_row input (vw w Conn) r \<Longrightarrow> server_error e \<Longrightarrow> E e w'"
  shows "wp (create_template X S input) Q E w"
proof -
  have ins: "wp (db_insert (x_templates X) Conn r) (\<lambda>r. Q (workspace_template_of r)) E w'"
    if "vw w' = vw w" "\<not> no_workspace (vw w Conn) (ct_workspace_id input)"
      "wtr_source_workspace_id r = ct_workspace_id input" "wtr_name r = ct_name input"
      "wtr_description r = ct_description input" for r w'
    using that
    by (intro wp_insert(9)[OF assms(1)])
      (rule Q E E'[of _ r]; simp add: add_template_def template_row_def no_template_def; fail)+
  show ?thesis
    unfolding create_template_def
    by (auto intro!: wp_get_workspace[OF assms(1)] wp_generators[OF assms(1)] ins E
        simp: no_workspace_def)
qed

subsection \<open>Workspaces from a template\<close>

text \<open>
  A chain of creations: the rows of each new workspace are added to what the one before left.
\<close>

inductive created_chain ::
  "string option \<Rightarrow> string list \<Rightarrow> tables \<Rightarrow> workspace list \<Rightarrow> tables \<Rightarrow> bool" for description where
  chain_none: "created_chain description [] T [] T"
| chain_snoc: "created_chain description names T xs T1 \<Longrightarrow>
    new_workspace name description T1 x e \<Longrightarrow>
    created_chain description (names @ [name]) T (xs @ [x]) (add_workspace x e T1)"

lemma created_chain_adds:
  assumes "created_chain description names T xs T'"
  shows "t_workspaces T' = t_workspaces T \<union> set xs" "map w_name xs = names"
    "\<forall>x \<in> set xs. w_description x = description"
    "\<exists>W E. T' = t_environments_update (\<lambda>_. E) (t_workspaces_update (\<lambda>_. W) T)"
    "distinct (map w_id xs)"
  using assms
proof (induction rule: created_chain.induct)
  case (chain_none T)
  show "t_workspaces T = t_workspaces T \<union> set []" "map w_name [] = []"
    "\<forall>x \<in> set []. w_description x = description" "distinct (map w_id [])" by simp_all
  show "\<exists>W E. T = t_environments_update (\<lambda>_. E) (t_workspaces_update (\<lambda>_. W) T)"
    by (cases T) auto
next
  case (chain_snoc names T xs T1 name x e)
  then show "t_workspaces (add_workspace x e T1) = t_workspaces T \<union> set (xs @ [x])"
    "map w_name (xs @ [x]) = names @ [name]" "\<forall>x \<in> set (xs @ [x]). w_description x = description"
    by (auto simp: add_workspace_def add_environment_def new_workspace_def)
  show "distinct (map w_id (xs @ [x]))"
    using chain_snoc by (auto simp: new_workspace_def no_workspace_def)
  obtain W E where "T1 = t_environments_update (\<lambda>_. E) (t_workspaces_update (\<lambda>_. W) T)"
    using chain_snoc by blast
  then show "\<exists>W E. add_workspace x e T1 =
      t_environments_update (\<lambda>_. E) (t_workspaces_update (\<lambda>_. W) T)"
    by (cases T) (auto simp: add_workspace_def add_environment_def)
qed

lemma wp_create_workspaces_from_template:
  assumes "store_ok X vw"
    and Q: "\<And>r xs w'. r \<in> t_templates (vw w Conn) \<Longrightarrow> wtr_id r = cw_template_id input \<Longrightarrow>
      created_chain (wtr_description r) (cw_names input) (vw w Conn) xs (vw w' Conn) \<Longrightarrow> Q xs w'"
    and E: "\<And>e w'. vw w' Conn = vw w Conn \<Longrightarrow> server_error e \<or>
      e = Api (NotFound ''template'') \<and> no_template (vw w Conn) (cw_template_id input) \<Longrightarrow> E e w'"
    and E': "\<And>e r names xs w'. r \<in> t_templates (vw w Conn) \<Longrightarrow> wtr_id r = cw_template_id input \<Longrightarrow>
      prefix names (cw_names input) \<Longrightarrow>
      created_chain (wtr_description r) names (vw w Conn) xs (vw w' Conn) \<Longrightarrow>
      server_error e \<Longrightarrow> E e w'"
  shows "wp (create_workspaces_from_template X S input) Q E w"
proof -
  have loop: "wp (mapE (\<lambda>name. create_workspace X \<lparr>ws_db = wts_db S\<rparr> name (wtr_description r))
      (cw_names input)) Q E w'"
    if "vw w' = vw w" "r \<in> t_templates (vw w Conn)" "wtr_id r = cw_template_id input" for r w'
  proof (rule wp_mapE_invariant[where I = "\<lambda>done xs w'.
      created_chain (wtr_description r) done (vw w Conn) xs (vw w' Conn)"])
    fix "done" name rest xs w1
    assume names: "cw_names input = done @ name # rest"
      and chain: "created_chain (wtr_description r) done (vw w Conn) xs (vw w1 Conn)"
    show "wp (create_workspace X \<lparr>ws_db = wts_db S\<rparr> name (wtr_description r))
      (\<lambda>y w'. created_chain (wtr_description r) (done @ [name]) (vw w Conn) (xs @ [y]) (vw w' Conn))
      E w1"
    proof (rule wp_create_workspace[OF assms(1)])
      fix x e w2
      assume "vw w2 Conn = add_workspace x e (vw w1 Conn)"
        "new_workspace name (wtr_description r) (vw w1 Conn) x e"
      then show "created_chain (wtr_description r) (done @ [name]) (vw w Conn) (xs @ [x]) (vw w2 Conn)"
        using chain_snoc[OF chain] by simp
    next
      fix er w2
      assume er: "server_error er" and "vw w2 Conn = vw w1 Conn \<or>
        (\<exists>x e. vw w2 Conn = add_workspace x e (vw w1 Conn) \<and>
          new_workspace name (wtr_description r) (vw w1 Conn) x e)"
      then consider "vw w2 Conn = vw w1 Conn"
        | x e where "vw w2 Conn = add_workspace x e (vw w1 Conn)"
          "new_workspace name (wtr_description r) (vw w1 Conn) x e" by blast
      then show "E er w2"
      proof cases
        case 1
        then show ?thesis using chain names by (intro E'[OF that(2,3) _ _ er, of "done" xs]) simp_all
      next
        case (2 x e)
        then show ?thesis
          using chain_snoc[OF chain] names
          by (intro E'[OF that(2,3) _ _ er, of "done @ [name]" "xs @ [x]"]) simp_all
      qed
    qed
  next
    show "created_chain (wtr_description r) [] (vw w Conn) [] (vw w' Conn)"
      using that(1) by (simp add: chain_none)
  next
    fix xs w1 assume "created_chain (wtr_description r) (cw_names input) (vw w Conn) xs (vw w1 Conn)"
    then show "Q xs w1" by (rule Q[OF that(2,3)])
  qed
  show ?thesis
    unfolding create_workspaces_from_template_def wp_bindE
    by (rule wp_get_template[OF assms(1)]) (auto intro: E loop)
qed

text \<open>
  A creation that fails has created the workspaces for the names before the one it fails at, by the
  run it would have been for those names alone, and leaves them.
\<close>

lemma create_each_chain:
  assumes "store_ok X vw"
    and "mapE (\<lambda>name. create_workspace X W name description) names w = (Inr xs, w')"
  shows "created_chain description names (vw w Conn) xs (vw w' Conn)"
proof -
  have "wp (mapE (\<lambda>name. create_workspace X W name description) names)
      (\<lambda>xs w'. created_chain description names (vw w Conn) xs (vw w' Conn)) (\<lambda>_ _. True) w"
  proof (rule wp_mapE_invariant[where I = "\<lambda>done xs w'.
      created_chain description done (vw w Conn) xs (vw w' Conn)"])
    fix "done" name rest xs w1
    assume chain: "created_chain description done (vw w Conn) xs (vw w1 Conn)"
    show "wp (create_workspace X W name description)
      (\<lambda>y w'. created_chain description (done @ [name]) (vw w Conn) (xs @ [y]) (vw w' Conn))
      (\<lambda>_ _. True) w1"
      by (rule wp_create_workspace[OF assms(1)]) (simp_all add: chain_snoc[OF chain])
  qed (simp_all add: chain_none)
  from wp_okD[OF this assms(2)] show ?thesis .
qed

lemma create_workspaces_stops:
  assumes "store_ok X vw" "create_workspaces_from_template X S input w = (Inl e, w')"
  obtains "get_template X S (cw_template_id input) w = (Inl e, w')"
  | r "done" name rest xs w1 where "r \<in> t_templates (vw w Conn)" "wtr_id r = cw_template_id input"
      "cw_names input = done @ name # rest"
      "create_workspaces_from_template X S (input\<lparr>cw_names := done\<rparr>) w = (Inr xs, w1)"
      "created_chain (wtr_description r) done (vw w Conn) xs (vw w1 Conn)"
      "vw w' Conn = vw w1 Conn \<or> (\<exists>x en. vw w' Conn = add_workspace x en (vw w1 Conn) \<and>
        new_workspace name (wtr_description r) (vw w1 Conn) x en)"
      "server_error e"
proof -
  let ?each = "\<lambda>t name. create_workspace X \<lparr>ws_db = wts_db S\<rparr> name (wt_description t)"
  obtain g w0 where get: "get_template X S (cw_template_id input) w = (g, w0)" by fastforce
  show ?thesis
  proof (cases g)
    case (Inl e0)
    then show ?thesis
      using that(1) assms(2) get by (simp add: create_workspaces_from_template_def bindE_def)
  next
    case (Inr t)
    have "wp (get_template X S (cw_template_id input)) (\<lambda>t w0. vw w0 = vw w \<and>
        (\<exists>r \<in> t_templates (vw w Conn). wtr_id r = cw_template_id input \<and> t = workspace_template_of r))
        (\<lambda>_ _. True) w"
      by (rule wp_get_template[OF assms(1)]) auto
    from wp_okD[OF this get[unfolded Inr]] obtain r where r: "r \<in> t_templates (vw w Conn)"
      "wtr_id r = cw_template_id input" "t = workspace_template_of r" and w0: "vw w0 = vw w" by blast
    have "mapE (?each t) (cw_names input) w0 = (Inl e, w')"
      using assms(2) get Inr by (simp add: create_workspaces_from_template_def bindE_def)
    from mapE_stops[OF this] obtain d name rest xs w1 where split: "cw_names input = d @ name # rest"
      and d: "mapE (?each t) d w0 = (Inr xs, w1)" and fails: "?each t name w1 = (Inl e, w')" by blast
    have desc: "wt_description t = wtr_description r" by (simp add: r(3) workspace_template_of_def)
    have chain: "created_chain (wtr_description r) d (vw w Conn) xs (vw w1 Conn)"
      using create_each_chain[OF assms(1) d] by (simp add: desc w0)
    have run: "create_workspaces_from_template X S (input\<lparr>cw_names := d\<rparr>) w = (Inr xs, w1)"
      using get Inr d by (simp add: create_workspaces_from_template_def bindE_def)
    have "wp (?each t name) (\<lambda>_ _. True) (\<lambda>e w'. server_error e \<and> (vw w' Conn = vw w1 Conn \<or>
        (\<exists>x en. vw w' Conn = add_workspace x en (vw w1 Conn) \<and>
          new_workspace name (wtr_description r) (vw w1 Conn) x en))) w1"
      unfolding desc by (rule wp_create_workspace[OF assms(1)]) blast+
    from wp_errD[OF this fails] show ?thesis using that(2)[OF r(1,2) split run chain] by blast
  qed
qed

end
