(* ===== verification/Transitions.thy ===== *)
theory Transitions
  imports Auth_Keys Auth_Sessions Auth_Users Credentials Domains Deployments Servers Templates
begin

section \<open>The transitions of the platform\<close>

text \<open>
  An abstract specification of the whole backend: the ways in which the stored rows may change,
  each with the guard under which the code takes it.  \<open>Platform\<close> shows that whatever the backend
  runs is a sequence of these; here are the invariants they keep.
\<close>

inductive move :: "('w, 'a) ext_scheme \<Rightarrow> tables \<Rightarrow> tables \<Rightarrow> bool" for X where
  seen: "touched T T' \<Longrightarrow> move X T T'"
| checked: "checks_only T T' \<Longrightarrow> move X T T'"
| keyed: "keys_partly_synced n e T T' \<Longrightarrow> move X T T'"
| founded: "new_workspace name d T x e \<Longrightarrow> move X T (add_workspace x e T)"
| environment_made: "new_environment i name T e \<Longrightarrow> move X T (add_environment e T)"
| service_made: "service_row input T r \<Longrightarrow> move X T (add_service r T)"
| credential_made: "credential_row X C input T r \<Longrightarrow> move X T (add_credential r T)"
| env_vars_made: "\<forall>i \<in> set inputs. env_var_scope T i \<Longrightarrow> env_var_rows X C inputs T rs \<Longrightarrow>
    move X T (add_env_vars rs T)"
| domain_made: "domain_row input T r \<Longrightarrow> move X T (add_domain r T)"
| deployed: "s \<in> t_app_services T \<Longrightarrow>
    deployment_row (asr_id s) status transcript T r \<Longrightarrow> move X T (add_deployment r T)"
| template_made: "template_row input T r \<Longrightarrow> move X T (add_template r T)"
| server_made: "no_server T (sr_id r) \<Longrightarrow> server_row X V payload r \<Longrightarrow>
    validate_ssh_key_pair payload = Inr () \<Longrightarrow> move X T (add_server r T)"
| admin_made: "t_users T = {} \<Longrightarrow> bootstrap_row X c u \<Longrightarrow> move X T (add_user u T)"
| invited: "invited_rows input T u i r \<Longrightarrow> move X T (add_invitation u i r T)"
| accepted: "open_invite X T (ai_token input) i u \<Longrightarrow> acceptance X input i T n T' \<Longrightarrow> move X T T'"
| disabled: "r \<in> t_users T \<Longrightarrow> ur_id r = i \<Longrightarrow>
    (ur_role r = ''super_admin'' \<longrightarrow> 1 < card (active_admins T)) \<Longrightarrow>
    move X T (set_status i Disabled T)"
| reactivated: "r \<in> t_users T \<Longrightarrow> ur_id r = i \<Longrightarrow> ur_status r = ''disabled'' \<Longrightarrow>
    ur_password_hash r \<noteq> [] \<Longrightarrow> move X T (set_status i Active T)"
| role_changed: "r \<in> t_users T \<Longrightarrow> ur_id r = i \<Longrightarrow>
    (ur_role r = ''super_admin'' \<and> ur_status r = ''active'' \<and> q \<noteq> SuperAdmin \<longrightarrow>
      1 < card (active_admins T)) \<Longrightarrow> move X T (set_role i q T)"
| token_made: "r \<in> t_users T \<Longrightarrow> u_id (ca_user input) = ur_id r \<Longrightarrow> fresh_api_token T t \<Longrightarrow>
    api_token_row X input raw t \<Longrightarrow> move X T (add_api_token t T)"
| token_revoked: "t \<in> t_api_tokens T \<Longrightarrow> ut_id t = i \<Longrightarrow> move X T (revoke_api i s T)"
| session_opened: "r \<in> t_users T \<Longrightarrow> ur_status r = ''active'' \<Longrightarrow>
    new_refresh_row T (ur_id r) n \<Longrightarrow> move X T (add_refresh_row n T)"
| session_rotated: "rotated X S token T old new u T' \<Longrightarrow> move X T T'"
| session_closed: "refresh_token_good X S T token r \<Longrightarrow> move X T (revoke_refresh (rt_id r) s T)"

text \<open>What it takes to be an invariant: every transition keeps it.  Then a run keeps it.\<close>

locale kept =
  fixes X :: "('w, 'a) ext_scheme" and I :: "tables \<Rightarrow> bool"
  assumes move_keeps: "move X T T' \<Longrightarrow> I T \<Longrightarrow> I T'"
begin

lemma run_keeps: "(move X)\<^sup>*\<^sup>* T T' \<Longrightarrow> I T \<Longrightarrow> I T'"
  by (induction rule: rtranclp_induct) (auto dest: move_keeps)

end

subsection \<open>Identifiers, keys and references\<close>

text \<open>Every row that names another row names one that exists, where the code checks it.\<close>

definition has_user :: "tables \<Rightarrow> uuid \<Rightarrow> bool" where
  "has_user T i \<longleftrightarrow> (\<exists>u \<in> t_users T. ur_id u = i)"

definition references_ok :: "tables \<Rightarrow> bool" where
  "references_ok T \<longleftrightarrow>
    (\<forall>e \<in> t_environments T. \<not> no_workspace T (e_workspace_id e)) \<and>
    (\<forall>s \<in> t_app_services T. \<not> no_workspace T (asr_workspace_id s) \<and>
      has_environment T (asr_workspace_id s) (asr_environment_id s)) \<and>
    (\<forall>c \<in> t_credentials T. \<not> no_workspace T (dcr_workspace_id c)) \<and>
    (\<forall>v \<in> t_env_vars T. \<not> no_workspace T (evr_workspace_id v) \<and>
      (\<forall>i \<in> set_option (evr_environment_id v). has_environment T (evr_workspace_id v) i) \<and>
      (\<forall>i \<in> set_option (evr_service_id v).
        (\<exists>s \<in> t_app_services T. asr_id s = i \<and> asr_workspace_id s = evr_workspace_id v))) \<and>
    (\<forall>d \<in> t_domains T. \<not> no_service T (dr_service_id d)) \<and>
    (\<forall>d \<in> t_deployments T. \<not> no_service T (dpr_service_id d)) \<and>
    (\<forall>t \<in> t_templates T. \<not> no_workspace T (wtr_source_workspace_id t)) \<and>
    (\<forall>r \<in> t_user_roles T. has_user T (wu_user_id r) \<and> \<not> no_workspace T (wu_workspace_id r)) \<and>
    (\<forall>i \<in> t_invites T. has_user T (ui_user_id i)) \<and>
    (\<forall>t \<in> t_api_tokens T. has_user T (ut_user_id t)) \<and>
    (\<forall>r \<in> t_refresh_tokens T. has_user T (rt_user_id r))"

lemmas row_defs =
  new_workspace_def new_environment_def service_row_def credential_row_def env_var_rows_def
  domain_row_def deployment_row_def template_row_def server_row_def invited_rows_def
  fresh_api_token_def api_token_row_def new_refresh_row_def

lemmas add_defs =
  add_workspace_def add_environment_def add_service_def add_credential_def add_env_vars_def
  add_domain_def add_deployment_def add_template_def add_server_def add_user_def
  add_invitation_def add_api_token_def add_refresh_row_def

lemmas set_defs =
  set_status_def set_role_def revoke_api_def revoke_refresh_def activate_user_def mark_accepted_def

text \<open>Transitions that keep all rows but those of a table no row refers to.\<close>

lemma keyed_only_keys:
  "keys_partly_synced n e T T' \<Longrightarrow> \<exists>K. T' = t_jwt_keys_update (\<lambda>_. K) T"
  unfolding keys_partly_synced_def keys_synced_def using deactivated(3) by blast

lemma keyed_unique: "keys_partly_synced n e T T' \<Longrightarrow> keys_unique T \<Longrightarrow> keys_unique T'"
  unfolding keys_partly_synced_def keys_synced_def using deactivated(2) by blast

lemma touched_only_tokens:
  "touched T T' \<Longrightarrow> \<exists>f. T' = t_api_tokens_update ((`) f) T \<and>
    (\<forall>t. ut_id (f t) = ut_id t \<and> ut_user_id (f t) = ut_user_id t \<and>
      ut_token_hash (f t) = ut_token_hash t \<and> ut_revoked_at (f t) = ut_revoked_at t)"
  unfolding touched_def
proof (elim disjE exE)
  assume "T' = T"
  then show ?thesis by (intro exI[of _ "\<lambda>t. t"]) simp
next
  fix i s assume "T' = t_api_tokens_update
      ((`) (update_row api_token_set (\<lambda>x. ut_id x = i) [(7, VText s)])) T"
  then show ?thesis by (intro exI conjI) (assumption | simp add: update_row_if)+
qed

lemma checks_only_servers: "checks_only T T' \<Longrightarrow> \<exists>A. T' = t_servers_update (\<lambda>_. A) T"
  unfolding checks_only_def by blast

lemma acceptance_steps:
  assumes "acceptance X input i T n T'"
    and "\<And>h. P (activate_user (ui_user_id i) h T)"
    and "\<And>T s. P T \<Longrightarrow> P (mark_accepted (ui_id i) s T)"
    and "\<And>T r. P T \<Longrightarrow> new_refresh_row T (ui_user_id i) r \<Longrightarrow> P (add_refresh_row r T)"
  shows "P T'"
  using assms(1,2) by (induction rule: acceptance.induct) (blast intro: assms(3,4))+

lemmas reference_defs =
  has_user_def no_workspace_def has_environment_def no_service_def env_var_scope_def

lemmas move_simps = row_defs add_defs set_defs

lemma references_kept_accepted:
  assumes "open_invite X T token i u" "references_ok T" "acceptance X input i T n T'"
  shows "references_ok T'"
proof -
  have u: "has_user T (ui_user_id i)" using assms(1) by (auto simp: open_invite_def has_user_def)
  have "references_ok T' \<and> has_user T' (ui_user_id i)"
    using assms(3)
  proof (rule acceptance_steps, goal_cases)
    case (1 h)
    then show ?case using assms(2) u
      by (simp add: references_ok_def reference_defs activate_user_def)
  next
    case (2 T s)
    then show ?case
      by (simp add: references_ok_def reference_defs mark_accepted_def)
  next
    case (3 T r)
    then show ?case
      by (simp add: references_ok_def reference_defs add_refresh_row_def
          new_refresh_row_def)
  qed
  then show ?thesis ..
qed

text \<open>A variable of a checked batch refers to what the check saw.\<close>

lemma env_var_rows_scope:
  assumes "\<forall>i \<in> set inputs. env_var_scope T i" "env_var_rows X C inputs T rs" "v \<in> set rs"
  shows "\<not> no_workspace T (evr_workspace_id v)"
    and "evr_environment_id v = Some i \<Longrightarrow> has_environment T (evr_workspace_id v) i"
    and "evr_service_id v = Some i \<Longrightarrow>
      \<exists>s \<in> t_app_services T. asr_id s = i \<and> asr_workspace_id s = evr_workspace_id v"
proof -
  from assms(2) have "list_all2 (env_var_row X C) inputs rs" by (simp add: env_var_rows_def)
  then obtain input where "input \<in> set inputs" "env_var_row X C input v"
    using assms(3) by (metis in_set_conv_nth list_all2_conv_all_nth)
  then show "\<not> no_workspace T (evr_workspace_id v)"
    and "evr_environment_id v = Some i \<Longrightarrow> has_environment T (evr_workspace_id v) i"
    and "evr_service_id v = Some i \<Longrightarrow>
      \<exists>s \<in> t_app_services T. asr_id s = i \<and> asr_workspace_id s = evr_workspace_id v"
    using assms(1) by (auto simp: env_var_row_def env_var_scope_def)
qed

lemma references_move:
  assumes "move X T T'" "references_ok T"
  shows "references_ok T'"
  using assms
proof (cases rule: move.cases)
  case (accepted input i u n)
  then show ?thesis using references_kept_accepted assms(2) by blast
next
  case seen
  then obtain f where "T' = t_api_tokens_update ((`) f) T" "\<forall>t. ut_user_id (f t) = ut_user_id t"
    using touched_only_tokens by blast
  then show ?thesis using assms(2)
    by (auto simp: references_ok_def reference_defs)
next
  case checked
  then obtain A where "T' = t_servers_update (\<lambda>_. A) T" using checks_only_servers by blast
  then show ?thesis using assms(2)
    by (simp add: references_ok_def reference_defs)
next
  case (keyed n e)
  then obtain A where "T' = t_jwt_keys_update (\<lambda>_. A) T" using keyed_only_keys by blast
  then show ?thesis using assms(2)
    by (simp add: references_ok_def reference_defs)
next
  case (env_vars_made inputs C rs)
  note scope = env_var_rows_scope[OF env_vars_made(2,3)]
  show ?thesis
    using assms(2) scope unfolding env_vars_made(1)
    by (simp add: references_ok_def add_env_vars_def no_workspace_def no_service_def
        has_environment_def has_user_def ball_Un)
qed (use assms(2) in \<open>auto simp: references_ok_def reference_defs move_simps
  app_service_of_def domain_of_def rotated_def refresh_token_good_def\<close>)

text \<open>Identifiers and e-mail addresses of users are unique, and identifiers of signing keys.\<close>

lemma users_unique_added:
  "users_unique T \<Longrightarrow> \<forall>x \<in> t_users T. ur_id x \<noteq> ur_id u \<and> ur_email x \<noteq> ur_email u \<Longrightarrow>
    t_users T' = insert u (t_users T) \<Longrightarrow> users_unique T'"
  by (auto simp: users_unique_def)

lemma users_unique_same: "users_unique T \<Longrightarrow> t_users T' = t_users T \<Longrightarrow> users_unique T'"
  by (simp add: users_unique_def)

lemma users_unique_move:
  assumes "move X T T'" "users_unique T"
  shows "users_unique T'"
  using assms(1)
proof (cases rule: move.cases)
  case seen
  then show ?thesis by (auto dest!: touched_only_tokens intro!: users_unique_same[OF assms(2)])
next
  case checked
  then show ?thesis by (auto dest!: checks_only_servers intro!: users_unique_same[OF assms(2)])
next
  case (keyed n e)
  then show ?thesis by (auto dest!: keyed_only_keys intro!: users_unique_same[OF assms(2)])
next
  case (admin_made c u)
  then show ?thesis by (auto simp: users_unique_def add_user_def)
next
  case (invited input u i r)
  then show ?thesis
    by (intro users_unique_added[OF assms(2)]) (auto simp: invited_rows_def add_invitation_def)
next
  case (accepted input i u n)
  show ?thesis
  proof (rule acceptance_steps[OF accepted(2)], goal_cases)
    case (1 h)
    then show ?case unfolding activate_user_def by (rule users_unique_update[OF assms(2)])
  next
    case (2 T s)
    then show ?case by (rule users_unique_same) (simp add: mark_accepted_def)
  next
    case (3 T r)
    from 3(1) show ?case by (rule users_unique_same) (simp add: add_refresh_row_def)
  qed
qed (use assms(2) in \<open>auto simp: add_defs revoke_api_def revoke_refresh_def rotated_def
  intro: users_unique_same[OF assms(2)]\<close>)

lemma keys_unique_move:
  assumes "move X T T'" "keys_unique T"
  shows "keys_unique T'"
  using assms
proof (cases rule: move.cases)
  case seen
  then show ?thesis using assms(2) touched_only_tokens by (fastforce simp: keys_unique_def)
next
  case checked
  then show ?thesis using assms(2) checks_only_servers by (fastforce simp: keys_unique_def)
next
  case (keyed n e)
  then show ?thesis using assms(2) keyed_unique by blast
next
  case (accepted input i u n)
  show ?thesis
    by (rule acceptance_steps[OF accepted(2)])
      (use assms(2) in \<open>auto simp: keys_unique_def move_simps\<close>)
qed (use assms(2) in \<open>auto simp: keys_unique_def move_simps rotated_def\<close>)

definition consistent :: "tables \<Rightarrow> bool" where
  "consistent T \<longleftrightarrow> references_ok T \<and> users_unique T \<and> keys_unique T"

interpretation consistency: kept X consistent for X :: "('w, 'a) ext_scheme"
  by unfold_locales
    (auto simp: consistent_def intro: references_move users_unique_move keys_unique_move)

subsection \<open>A platform admin remains\<close>

definition administered :: "tables \<Rightarrow> bool" where
  "administered T \<longleftrightarrow> users_unique T \<and> active_admins T \<noteq> {}"

lemma other_status_keeps_admin:
  assumes "users_unique T" "r \<in> t_users T" "ur_id r = i" "ur_status r \<noteq> ''active''"
    and "active_admins T \<noteq> {}"
  shows "active_admins (set_status i s T) \<noteq> {}" "active_admins (activate_user i h T) \<noteq> {}"
proof -
  obtain a where a: "a \<in> active_admins T" using assms(5) by blast
  then have other: "ur_id a \<noteq> i"
    using assms(1-4) unfolding users_unique_def active_admins_def by auto
  show "active_admins (set_status i s T) \<noteq> {}" using other_admin_stays(1)[OF a other] by blast
  have "update_row user_set (\<lambda>x. ur_id x = i) [(4, VText ''active''), (5, VText h)] a = a"
    using other by (simp add: update_row_def)
  then show "active_admins (activate_user i h T) \<noteq> {}"
    using a by (force simp: active_admins_def activate_user_def image_iff)
qed

lemma administered_move:
  assumes "move X T T'" "administered T"
  shows "administered T'"
proof -
  have unique: "users_unique T" "users_unique T'" and admin: "active_admins T \<noteq> {}"
    using assms users_unique_move by (auto simp: administered_def)
  have "active_admins T' \<noteq> {}"
    using assms(1)
  proof (cases rule: move.cases)
    case seen
    then show ?thesis using admin touched_only_tokens by (fastforce simp: active_admins_def)
  next
    case checked
    then show ?thesis using admin checks_only_servers by (fastforce simp: active_admins_def)
  next
    case (keyed n e)
    then show ?thesis using admin keyed_only_keys by (fastforce simp: active_admins_def)
  next
    case (accepted input i u n)
    then have u: "u \<in> t_users T" "ur_id u = ui_user_id i" "ur_status u \<noteq> ''active''"
      by (auto simp: open_invite_def)
    show ?thesis
      by (rule acceptance_steps[OF accepted(2)])
        (use other_status_keeps_admin(2)[OF unique(1) u admin] in
          \<open>auto simp: active_admins_def mark_accepted_def add_refresh_row_def\<close>)
  next
    case (disabled r i)
    then show ?thesis using set_status_keeps_admin[OF unique(1)] admin by blast
  next
    case (reactivated r i)
    then show ?thesis using other_status_keeps_admin(1)[OF unique(1)] admin by simp
  next
    case (role_changed r i q)
    then show ?thesis using set_role_keeps_admin[OF unique(1)] admin by blast
  qed (use admin in \<open>auto simp: active_admins_def add_defs revoke_api_def revoke_refresh_def rotated_def\<close>)
  then show ?thesis using unique by (simp add: administered_def)
qed

interpretation administration: kept X administered for X :: "('w, 'a) ext_scheme"
  by unfold_locales (rule administered_move)

subsection \<open>What is revoked stays revoked\<close>

text \<open>The rows of a token's digest are all revoked, and there is one.\<close>

definition api_revoked :: "tables \<Rightarrow> string \<Rightarrow> bool" where
  "api_revoked T h \<longleftrightarrow>
    (\<exists>t \<in> t_api_tokens T. ut_token_hash t = h) \<and>
    (\<forall>t \<in> t_api_tokens T. ut_token_hash t = h \<longrightarrow> ut_revoked_at t \<noteq> None)"

lemma refresh_revoked_same:
  "refresh_revoked T i \<Longrightarrow> t_refresh_tokens T' = t_refresh_tokens T \<Longrightarrow> refresh_revoked T' i"
  by (simp add: refresh_revoked_def)

lemma refresh_revoked_move:
  assumes "move X T T'" "refresh_revoked T i"
  shows "refresh_revoked T' i"
  using assms(1)
proof (cases rule: move.cases)
  case seen
  then show ?thesis by (auto dest!: touched_only_tokens intro!: refresh_revoked_same[OF assms(2)])
next
  case checked
  then show ?thesis by (auto dest!: checks_only_servers intro!: refresh_revoked_same[OF assms(2)])
next
  case (keyed n e)
  then show ?thesis by (auto dest!: keyed_only_keys intro!: refresh_revoked_same[OF assms(2)])
next
  case (accepted input j u n)
  show ?thesis
    by (rule acceptance_steps[OF accepted(2)])
      (use assms(2) in \<open>auto simp: activate_user_def mark_accepted_def
        intro: refresh_revoked_same refresh_revoked_stable\<close>)
qed (use assms(2) in \<open>auto simp: add_defs(1-12) set_status_def set_role_def revoke_api_def rotated_def
  intro: refresh_revoked_stable intro: refresh_revoked_same[OF assms(2)]\<close>)

interpretation revocation: kept X "\<lambda>T. refresh_revoked T i" for X :: "('w, 'a) ext_scheme" and i
  by unfold_locales (rule refresh_revoked_move)

lemma api_revoked_same: "api_revoked T h \<Longrightarrow> t_api_tokens T' = t_api_tokens T \<Longrightarrow> api_revoked T' h"
  by (simp add: api_revoked_def)

lemma api_revoked_move:
  assumes "move X T T'" "api_revoked T h"
  shows "api_revoked T' h"
  using assms(1)
proof (cases rule: move.cases)
  case seen
  then show ?thesis using assms(2) touched_only_tokens by (fastforce simp: api_revoked_def)
next
  case checked
  then show ?thesis by (auto dest!: checks_only_servers intro!: api_revoked_same[OF assms(2)])
next
  case (keyed n e)
  then show ?thesis by (auto dest!: keyed_only_keys intro!: api_revoked_same[OF assms(2)])
next
  case (accepted input j u n)
  show ?thesis
    by (rule acceptance_steps[OF accepted(2)])
      (use assms(2) in \<open>auto simp: activate_user_def mark_accepted_def add_refresh_row_def
        intro: api_revoked_same\<close>)
next
  case (token_made r input t raw)
  then show ?thesis using assms(2)
    by (auto simp: api_revoked_def add_api_token_def fresh_api_token_def)
next
  case (token_revoked t i s)
  then show ?thesis using assms(2)
    by (auto simp: api_revoked_def revoke_api_def update_row_if)
qed (use assms(2) in \<open>auto simp: add_defs set_status_def set_role_def revoke_refresh_def rotated_def
  intro: api_revoked_same[OF assms(2)]\<close>)

interpretation api_revocation: kept X "\<lambda>T. api_revoked T h" for X :: "('w, 'a) ext_scheme" and h
  by unfold_locales (rule api_revoked_move)

text \<open>A user who has accepted its invitation, or is the first admin, never is an invited user again.\<close>

definition joined :: "tables \<Rightarrow> uuid \<Rightarrow> bool" where
  "joined T i \<longleftrightarrow> has_user T i \<and>
    (\<forall>u \<in> t_users T. ur_id u = i \<longrightarrow> ur_status u \<in> {''active'', ''disabled''})"

lemma joined_same: "joined T i \<Longrightarrow> t_users T' = t_users T \<Longrightarrow> joined T' i"
  by (simp add: joined_def has_user_def)

lemma joined_update:
  assumes "joined T i"
    and "\<And>u. ur_status u \<in> {''active'', ''disabled''} \<Longrightarrow>
      ur_status (update_row user_set P cols u) \<in> {''active'', ''disabled''}"
  shows "joined (t_users_update ((`) (update_row user_set P cols)) T) i"
  using assms by (auto simp: joined_def has_user_def)

lemma joined_move:
  assumes "move X T T'" "joined T i"
  shows "joined T' i"
  using assms(1)
proof (cases rule: move.cases)
  case seen
  then show ?thesis by (auto dest!: touched_only_tokens intro!: joined_same[OF assms(2)])
next
  case checked
  then show ?thesis by (auto dest!: checks_only_servers intro!: joined_same[OF assms(2)])
next
  case (keyed n e)
  then show ?thesis by (auto dest!: keyed_only_keys intro!: joined_same[OF assms(2)])
next
  case (accepted input j u n)
  show ?thesis
  proof (rule acceptance_steps[OF accepted(2)], goal_cases)
    case (1 h)
    show ?case unfolding activate_user_def
      by (rule joined_update[OF assms(2)]) (simp add: update_row_if)
  qed (auto simp: mark_accepted_def add_refresh_row_def intro: joined_same)
next
  case (admin_made c u)
  then show ?thesis using assms(2) by (simp add: joined_def has_user_def)
next
  case (invited input u j r)
  then show ?thesis using assms(2)
    by (auto simp: joined_def has_user_def invited_rows_def add_invitation_def)
next
  case (disabled r j)
  show ?thesis unfolding disabled(1) set_status_def
    by (rule joined_update[OF assms(2)]) (simp add: update_row_if)
next
  case (reactivated r j)
  show ?thesis unfolding reactivated(1) set_status_def
    by (rule joined_update[OF assms(2)]) (simp add: update_row_if)
next
  case (role_changed r j q)
  show ?thesis unfolding role_changed(1) set_role_def
    by (rule joined_update[OF assms(2)]) (simp add: update_row_if)
qed (use assms(2) in \<open>auto simp: add_defs revoke_api_def revoke_refresh_def rotated_def
  intro: joined_same[OF assms(2)]\<close>)

interpretation membership: kept X "\<lambda>T. joined T i" for X :: "('w, 'a) ext_scheme" and i
  by unfold_locales (rule joined_move)

end
