(* ===== verification/Routes_Auth.thy ===== *)
theory Routes_Auth
  imports Auth
begin

section \<open>The routes of accounts and administration\<close>

text \<open>
  \<open>routes/auth.rs\<close>, \<open>routes/admin.rs\<close>, \<open>routes/telemetry.rs\<close> and \<open>routes/well_known.rs\<close>.  A handler
  is a function of what its extractors read, in the order the code has them: the path parameter,
  the caller, the body.  \<close>

subsection \<open>Extractors\<close>

text \<open>
  What axum's \<open>Json\<close> makes of a body: it cannot be read and is answered with a status and a text,
  or it is a payload.  The last two components of a payload are the status and the text
  \<open>axum_valid\<close> answers with if the validator refuses it.
\<close>

datatype 'p body =
    Unreadable status string
  | Body 'p status string

definition valid_json :: "('p \<Rightarrow> bool) \<Rightarrow> 'p body \<Rightarrow> exn + 'p" where
  "valid_json ok b =
    (case b of
       Unreadable s txt \<Rightarrow> Inl (Rejected s txt)
     | Body p s txt \<Rightarrow> if ok p then Inr p else Inl (Rejected s txt))"

text \<open>What axum's \<open>Path<Uuid>\<close> makes of the segment: an answer, or an identifier.\<close>

type_synonym segment = "(status \<times> string) + uuid"

definition path_uuid :: "segment \<Rightarrow> exn + uuid" where
  "path_uuid seg = map_err (\<lambda>(s, txt). Rejected s txt) seg"

text \<open>\<open>validate(length(min, max))\<close> counts characters.\<close>

definition length_ok :: "nat \<Rightarrow> nat option \<Rightarrow> string \<Rightarrow> bool" where
  "length_ok minimum maximum s \<longleftrightarrow>
    minimum \<le> length (chars s) \<and> (case maximum of None \<Rightarrow> True | Some m \<Rightarrow> length (chars s) \<le> m)"

definition optional_ok :: "('p \<Rightarrow> bool) \<Rightarrow> 'p option \<Rightarrow> bool" where
  "optional_ok ok x = (case x of None \<Rightarrow> True | Some p \<Rightarrow> ok p)"

subsection \<open>Requests and responses\<close>

record login_request =
  lq_email :: string
  lq_password :: string

record login_response =
  lr_token :: string
  lr_refresh_token :: string
  lr_user :: user

record refresh_session_request =
  rq_refresh_token :: string

record logout_request =
  oq_refresh_token :: string

record accept_invite_request =
  aq_token :: string
  aq_password :: string

record create_api_token_request =
  tq_name :: string

record api_token_response =
  tr_id :: uuid
  tr_name :: string
  tr_token_prefix :: string
  tr_created_at :: string
  tr_revoked_at :: "string option"
  tr_last_used_at :: "string option"

record create_api_token_response =
  cr_token :: string
  cr_api_token :: api_token_response

record invite_user_request =
  iq_workspace_id :: uuid
  iq_email :: string
  iq_name :: string
  iq_role :: role

record invite_user_response =
  ir_user :: user
  ir_invite_link :: string
  ir_expires_at :: datetime

record change_user_role_request =
  gq_role :: role

record telemetry_settings =
  tele_enabled :: bool
  tele_service_name :: string
  tele_otlp_endpoint :: "string option"
  tele_platform_only :: bool

definition login_request_ok :: "'a prims_scheme \<Rightarrow> login_request \<Rightarrow> bool" where
  "login_request_ok P p \<longleftrightarrow> valid_email P (lq_email p) \<and> length_ok 1 None (lq_password p)"

definition refresh_session_request_ok :: "refresh_session_request \<Rightarrow> bool" where
  "refresh_session_request_ok p \<longleftrightarrow> length_ok 1 None (rq_refresh_token p)"

definition logout_request_ok :: "logout_request \<Rightarrow> bool" where
  "logout_request_ok p \<longleftrightarrow> length_ok 1 None (oq_refresh_token p)"

definition accept_invite_request_ok :: "accept_invite_request \<Rightarrow> bool" where
  "accept_invite_request_ok p \<longleftrightarrow>
    length_ok 1 None (aq_token p) \<and> length_ok 8 None (aq_password p)"

definition create_api_token_request_ok :: "create_api_token_request \<Rightarrow> bool" where
  "create_api_token_request_ok p \<longleftrightarrow> length_ok 1 (Some 120) (tq_name p)"

definition invite_user_request_ok :: "'a prims_scheme \<Rightarrow> invite_user_request \<Rightarrow> bool" where
  "invite_user_request_ok P p \<longleftrightarrow>
    valid_email P (iq_email p) \<and> length_ok 1 (Some 120) (iq_name p)"

definition telemetry_settings_ok :: "'a prims_scheme \<Rightarrow> telemetry_settings \<Rightarrow> bool" where
  "telemetry_settings_ok P p \<longleftrightarrow>
    length_ok 1 (Some 120) (tele_service_name p) \<and>
    optional_ok (valid_url P) (tele_otlp_endpoint p)"

definition login_response_of :: "login_output \<Rightarrow> login_response" where
  "login_response_of out =
    \<lparr>lr_token = lo_token out, lr_refresh_token = lo_refresh_token out, lr_user = lo_user out\<rparr>"

definition api_token_response_of :: "user_api_token_record \<Rightarrow> api_token_response" where
  "api_token_response_of t =
    \<lparr>tr_id = ut_id t, tr_name = ut_name t, tr_token_prefix = ut_token_prefix t,
     tr_created_at = ut_created_at t, tr_revoked_at = ut_revoked_at t,
     tr_last_used_at = ut_last_used_at t\<rparr>"

subsection \<open>\<open>routes/auth.rs\<close>\<close>

definition login_route ::
  "('w, 'a) ext_scheme \<Rightarrow> app_state \<Rightarrow> login_request body \<Rightarrow> ('w, exn, login_response) io" where
  "login_route X st body =
    bindE (liftE (valid_json (login_request_ok X) body)) (\<lambda>payload.
    bindE (login X (auth_of_state st)
        \<lparr>li_email = lq_email payload, li_password = lq_password payload\<rparr>) (\<lambda>out.
    returnE (login_response_of out)))"

definition refresh_session_route ::
  "('w, 'a) ext_scheme \<Rightarrow> app_state \<Rightarrow> refresh_session_request body \<Rightarrow>
   ('w, exn, login_response) io" where
  "refresh_session_route X st body =
    bindE (liftE (valid_json refresh_session_request_ok body)) (\<lambda>payload.
    bindE (refresh_session X (auth_of_state st)
        \<lparr>rs_refresh_token = rq_refresh_token payload\<rparr>) (\<lambda>out.
    returnE (login_response_of out)))"

definition logout_route ::
  "('w, 'a) ext_scheme \<Rightarrow> app_state \<Rightarrow> logout_request body \<Rightarrow> ('w, exn, unit) io" where
  "logout_route X st body =
    bindE (liftE (valid_json logout_request_ok body)) (\<lambda>payload.
    logout X (auth_of_state st) \<lparr>lg_refresh_token = oq_refresh_token payload\<rparr>)"

definition me_route ::
  "('w, 'a) ext_scheme \<Rightarrow> app_state \<Rightarrow> string option \<Rightarrow> ('w, exn, user) io" where
  "me_route X st authorization = current_user X st authorization"

definition accept_invite_route ::
  "('w, 'a) ext_scheme \<Rightarrow> app_state \<Rightarrow> accept_invite_request body \<Rightarrow>
   ('w, exn, login_response) io" where
  "accept_invite_route X st body =
    bindE (liftE (valid_json accept_invite_request_ok body)) (\<lambda>payload.
    bindE (accept_invite X (auth_of_state st)
        \<lparr>ai_token = aq_token payload, ai_password = aq_password payload\<rparr>) (\<lambda>out.
    returnE (login_response_of out)))"

definition list_api_tokens_route ::
  "('w, 'a) ext_scheme \<Rightarrow> app_state \<Rightarrow> string option \<Rightarrow> ('w, exn, api_token_response list) io" where
  "list_api_tokens_route X st authorization =
    bindE (current_user X st authorization) (\<lambda>user.
    bindE (list_api_tokens X (auth_of_state st) user) (\<lambda>tokens.
    returnE (map api_token_response_of tokens)))"

definition create_api_token_route ::
  "('w, 'a) ext_scheme \<Rightarrow> app_state \<Rightarrow> string option \<Rightarrow> create_api_token_request body \<Rightarrow>
   ('w, exn, create_api_token_response) io" where
  "create_api_token_route X st authorization body =
    bindE (current_user X st authorization) (\<lambda>user.
    bindE (liftE (valid_json create_api_token_request_ok body)) (\<lambda>payload.
    bindE (create_api_token X (auth_of_state st)
        \<lparr>ca_user = user, ca_name = tq_name payload\<rparr>) (\<lambda>out.
    returnE \<lparr>cr_token = co_token out, cr_api_token = api_token_response_of (co_api_token out)\<rparr>)))"

definition revoke_api_token_route ::
  "('w, 'a) ext_scheme \<Rightarrow> app_state \<Rightarrow> segment \<Rightarrow> string option \<Rightarrow>
   ('w, exn, api_token_response) io" where
  "revoke_api_token_route X st seg authorization =
    bindE (liftE (path_uuid seg)) (\<lambda>i.
    bindE (current_user X st authorization) (\<lambda>user.
    bindE (revoke_api_token X (auth_of_state st) user i) (\<lambda>token.
    returnE (api_token_response_of token))))"

subsection \<open>\<open>routes/admin.rs\<close>\<close>

definition list_users_route ::
  "('w, 'a) ext_scheme \<Rightarrow> app_state \<Rightarrow> string option \<Rightarrow> ('w, exn, user list) io" where
  "list_users_route X st authorization =
    bindE (admin_user X st authorization) (\<lambda>_. list_users X (auth_of_state st))"

definition invite_user_route ::
  "('w, 'a) ext_scheme \<Rightarrow> app_state \<Rightarrow> string option \<Rightarrow> invite_user_request body \<Rightarrow>
   ('w, exn, invite_user_response) io" where
  "invite_user_route X st authorization body =
    bindE (current_user X st authorization) (\<lambda>inviter.
    bindE (liftE (valid_json (invite_user_request_ok X) body)) (\<lambda>payload.
    bindE (invite_user X (auth_of_state st)
        \<lparr>ii_inviter = inviter, ii_workspace_id = iq_workspace_id payload,
         ii_email = iq_email payload, ii_name = iq_name payload, ii_role = iq_role payload\<rparr>) (\<lambda>out.
    returnE \<lparr>ir_user = io_user out, ir_invite_link = io_invite_link out,
             ir_expires_at = io_expires_at out\<rparr>)))"

definition disable_user_route ::
  "('w, 'a) ext_scheme \<Rightarrow> app_state \<Rightarrow> segment \<Rightarrow> string option \<Rightarrow> ('w, exn, user) io" where
  "disable_user_route X st seg authorization =
    bindE (liftE (path_uuid seg)) (\<lambda>i.
    bindE (admin_user X st authorization) (\<lambda>_. disable_user X (auth_of_state st) i))"

definition reactivate_user_route ::
  "('w, 'a) ext_scheme \<Rightarrow> app_state \<Rightarrow> segment \<Rightarrow> string option \<Rightarrow> ('w, exn, user) io" where
  "reactivate_user_route X st seg authorization =
    bindE (liftE (path_uuid seg)) (\<lambda>i.
    bindE (admin_user X st authorization) (\<lambda>_. reactivate_user X (auth_of_state st) i))"

definition change_user_role_route ::
  "('w, 'a) ext_scheme \<Rightarrow> app_state \<Rightarrow> segment \<Rightarrow> string option \<Rightarrow>
   change_user_role_request body \<Rightarrow> ('w, exn, user) io" where
  "change_user_role_route X st seg authorization body =
    bindE (liftE (path_uuid seg)) (\<lambda>i.
    bindE (admin_user X st authorization) (\<lambda>_.
    bindE (liftE (valid_json (\<lambda>_. True) body)) (\<lambda>payload.
    change_user_role X (auth_of_state st) \<lparr>cr_user_id = i, cr_role = gq_role payload\<rparr>)))"

subsection \<open>\<open>routes/telemetry.rs\<close> and \<open>routes/well_known.rs\<close>\<close>

definition get_settings_route ::
  "('w, 'a) ext_scheme \<Rightarrow> app_state \<Rightarrow> string option \<Rightarrow> ('w, exn, telemetry_settings) io" where
  "get_settings_route X st authorization =
    bindE (admin_user X st authorization) (\<lambda>_.
    returnE \<lparr>tele_enabled = cfg_telemetry_enabled (st_config st),
             tele_service_name = cfg_otel_service_name (st_config st),
             tele_otlp_endpoint = cfg_otel_exporter_otlp_endpoint (st_config st),
             tele_platform_only = True\<rparr>)"

definition update_settings_route ::
  "('w, 'a) ext_scheme \<Rightarrow> app_state \<Rightarrow> string option \<Rightarrow> telemetry_settings body \<Rightarrow>
   ('w, exn, telemetry_settings) io" where
  "update_settings_route X st authorization body =
    bindE (admin_user X st authorization) (\<lambda>_.
    bindE (liftE (valid_json (telemetry_settings_ok X) body)) (\<lambda>payload.
    returnE (payload\<lparr>tele_platform_only := True\<rparr>)))"

definition jwks_route ::
  "('w, 'a) ext_scheme \<Rightarrow> app_state \<Rightarrow> ('w, exn, jwks) io" where
  "jwks_route X st = jwks_keys_of X (auth_of_state st)"

end
