(* ===== verification/Routes_Workspace.thy ===== *)
theory Routes_Workspace
  imports Routes_Auth Credentials Domains Deployments Servers Templates
begin

section \<open>The routes of workspaces, services and servers\<close>

text \<open>
  \<open>routes/workspaces.rs\<close>, \<open>environments.rs\<close>, \<open>services.rs\<close>, \<open>credentials.rs\<close>, \<open>domains.rs\<close>,
  \<open>deployments.rs\<close>, \<open>templates.rs\<close> and \<open>servers.rs\<close>.  A handler reads its path parameter, its
  caller and its body in that order, then checks the caller's right, then calls the service.
\<close>

subsection \<open>Requests and responses\<close>

record create_workspace_request =
  wq_name :: string
  wq_description :: "string option"

record create_environment_request =
  eq_name :: string

record create_service_request =
  sq_environment_id :: uuid
  sq_name :: string
  sq_deploy_kind :: deploy_kind
  sq_image :: "string option"
  sq_compose_file :: "string option"
  sq_dockerfile :: "string option"
  sq_internal_port :: "u16 option"

record create_credential_request =
  kq_registry :: string
  kq_username :: string
  kq_password :: string

record create_env_var_request =
  vq_environment_id :: "uuid option"
  vq_service_id :: "uuid option"
  vq_key :: string
  vq_value :: string

record create_env_vars_request =
  vsq_env_vars :: "create_env_var_request list"

record create_domain_request =
  dq_hostname :: string
  dq_proxy :: "proxy_kind option"
  dq_tls_enabled :: "bool option"

record proxy_preview_response =
  pp_config :: string

record logs_response =
  lg_output :: string

record create_template_request =
  mq_name :: string
  mq_description :: "string option"

record create_workspaces_from_template_request =
  fq_names :: "string list"
  fq_secret_copy_mode :: secret_copy_mode

record bulk_workspace_create_response =
  bw_workspaces :: "workspace list"

record create_server_request =
  hq_name :: string
  hq_host :: string
  hq_port :: "u16 option"
  hq_username :: string
  hq_public_key :: string
  hq_private_key :: string
  hq_private_key_passphrase :: "string option"
  hq_default_proxy :: "proxy_kind option"

definition create_workspace_request_ok :: "create_workspace_request \<Rightarrow> bool" where
  "create_workspace_request_ok p \<longleftrightarrow>
    length_ok 1 (Some 120) (wq_name p) \<and> optional_ok (length_ok 0 (Some 500)) (wq_description p)"

definition create_environment_request_ok :: "create_environment_request \<Rightarrow> bool" where
  "create_environment_request_ok p \<longleftrightarrow> length_ok 1 (Some 80) (eq_name p)"

definition port_ok :: "u16 \<Rightarrow> bool" where
  "port_ok p \<longleftrightarrow> 1 \<le> p \<and> p \<le> 65535"

definition create_service_request_ok :: "create_service_request \<Rightarrow> bool" where
  "create_service_request_ok p \<longleftrightarrow>
    length_ok 1 (Some 120) (sq_name p) \<and> optional_ok (length_ok 1 None) (sq_image p) \<and>
    optional_ok (length_ok 1 None) (sq_compose_file p) \<and>
    optional_ok (length_ok 1 None) (sq_dockerfile p) \<and> optional_ok port_ok (sq_internal_port p)"

definition create_credential_request_ok :: "create_credential_request \<Rightarrow> bool" where
  "create_credential_request_ok p \<longleftrightarrow>
    length_ok 1 (Some 253) (kq_registry p) \<and> length_ok 1 None (kq_username p) \<and>
    length_ok 1 None (kq_password p)"

definition create_env_var_request_ok :: "create_env_var_request \<Rightarrow> bool" where
  "create_env_var_request_ok p \<longleftrightarrow> length_ok 1 (Some 255) (vq_key p) \<and> length_ok 1 None (vq_value p)"

definition create_env_vars_request_ok :: "create_env_vars_request \<Rightarrow> bool" where
  "create_env_vars_request_ok p \<longleftrightarrow>
    1 \<le> length (vsq_env_vars p) \<and> length (vsq_env_vars p) \<le> 100 \<and>
    list_all create_env_var_request_ok (vsq_env_vars p)"

definition create_domain_request_ok :: "create_domain_request \<Rightarrow> bool" where
  "create_domain_request_ok p \<longleftrightarrow> length_ok 1 (Some 253) (dq_hostname p)"

definition create_template_request_ok :: "create_template_request \<Rightarrow> bool" where
  "create_template_request_ok p \<longleftrightarrow>
    length_ok 1 (Some 120) (mq_name p) \<and> optional_ok (length_ok 0 (Some 500)) (mq_description p)"

definition create_workspaces_from_template_request_ok ::
  "create_workspaces_from_template_request \<Rightarrow> bool" where
  "create_workspaces_from_template_request_ok p \<longleftrightarrow>
    1 \<le> length (fq_names p) \<and> length (fq_names p) \<le> 100"

definition create_server_request_ok :: "create_server_request \<Rightarrow> bool" where
  "create_server_request_ok p \<longleftrightarrow>
    length_ok 1 (Some 120) (hq_name p) \<and> length_ok 1 (Some 253) (hq_host p) \<and>
    optional_ok port_ok (hq_port p) \<and> length_ok 1 (Some 64) (hq_username p) \<and>
    length_ok 1 None (hq_public_key p) \<and> length_ok 1 None (hq_private_key p) \<and>
    optional_ok (length_ok 1 None) (hq_private_key_passphrase p)"

subsection \<open>Workspaces and environments\<close>

definition list_workspaces_route ::
  "('w, 'a) ext_scheme \<Rightarrow> app_state \<Rightarrow> string option \<Rightarrow>
   ('w, exn, workspace list) io" where
  "list_workspaces_route X st authorization =
    bindE (current_user X st authorization) (\<lambda>user.
    list_accessible_workspaces X \<lparr>ws_db = st_db st\<rparr> user)"

definition create_workspace_route ::
  "('w, 'a) ext_scheme \<Rightarrow> app_state \<Rightarrow> string option \<Rightarrow> create_workspace_request body \<Rightarrow>
   ('w, exn, workspace) io" where
  "create_workspace_route X st authorization body =
    bindE (current_user X st authorization) (\<lambda>user.
    bindE (liftE (valid_json create_workspace_request_ok body)) (\<lambda>payload.
    bindE (liftE (ensure_super_admin user)) (\<lambda>_.
    create_workspace X \<lparr>ws_db = st_db st\<rparr> (wq_name payload) (wq_description payload))))"

definition get_workspace_route ::
  "('w, 'a) ext_scheme \<Rightarrow> app_state \<Rightarrow> segment \<Rightarrow> string option \<Rightarrow>
   ('w, exn, workspace) io" where
  "get_workspace_route X st seg authorization =
    bindE (liftE (path_uuid seg)) (\<lambda>i.
    bindE (current_user X st authorization) (\<lambda>user.
    bindE (liftE (ensure_workspace_access user i)) (\<lambda>_.
    get_workspace X \<lparr>ws_db = st_db st\<rparr> i)))"

definition list_environments_route ::
  "('w, 'a) ext_scheme \<Rightarrow> app_state \<Rightarrow> segment \<Rightarrow> string option \<Rightarrow>
   ('w, exn, environment list) io" where
  "list_environments_route X st seg authorization =
    bindE (liftE (path_uuid seg)) (\<lambda>i.
    bindE (current_user X st authorization) (\<lambda>user.
    bindE (liftE (ensure_workspace_access user i)) (\<lambda>_.
    list_environments X \<lparr>ws_db = st_db st\<rparr> i)))"

definition create_environment_route ::
  "('w, 'a) ext_scheme \<Rightarrow> app_state \<Rightarrow> segment \<Rightarrow> string option \<Rightarrow> create_environment_request body \<Rightarrow>
   ('w, exn, environment) io" where
  "create_environment_route X st seg authorization body =
    bindE (liftE (path_uuid seg)) (\<lambda>i.
    bindE (current_user X st authorization) (\<lambda>user.
    bindE (liftE (valid_json create_environment_request_ok body)) (\<lambda>payload.
    bindE (liftE (ensure_workspace_access user i)) (\<lambda>_.
    create_environment X \<lparr>ws_db = st_db st\<rparr> i (eq_name payload)))))"

subsection \<open>Services\<close>

definition list_services_route ::
  "('w, 'a) ext_scheme \<Rightarrow> app_state \<Rightarrow> segment \<Rightarrow> string option \<Rightarrow>
   ('w, exn, app_service list) io" where
  "list_services_route X st seg authorization =
    bindE (liftE (path_uuid seg)) (\<lambda>i.
    bindE (current_user X st authorization) (\<lambda>user.
    bindE (liftE (ensure_workspace_access user i)) (\<lambda>_.
    list_services X \<lparr>ss_db = st_db st\<rparr> i)))"

definition create_service_route ::
  "('w, 'a) ext_scheme \<Rightarrow> app_state \<Rightarrow> segment \<Rightarrow> string option \<Rightarrow> create_service_request body \<Rightarrow>
   ('w, exn, app_service) io" where
  "create_service_route X st seg authorization body =
    bindE (liftE (path_uuid seg)) (\<lambda>i.
    bindE (current_user X st authorization) (\<lambda>user.
    bindE (liftE (valid_json create_service_request_ok body)) (\<lambda>payload.
    bindE (liftE (ensure_workspace_access user i)) (\<lambda>_.
    create_service X \<lparr>ss_db = st_db st\<rparr>
      \<lparr>cs_workspace_id = i, cs_environment_id = sq_environment_id payload,
       cs_name = sq_name payload, cs_deploy_kind = sq_deploy_kind payload,
       cs_image = sq_image payload, cs_compose_file = sq_compose_file payload,
       cs_dockerfile = sq_dockerfile payload, cs_internal_port = sq_internal_port payload\<rparr>))))"

definition get_service_route ::
  "('w, 'a) ext_scheme \<Rightarrow> app_state \<Rightarrow> segment \<Rightarrow> string option \<Rightarrow>
   ('w, exn, app_service) io" where
  "get_service_route X st seg authorization =
    bindE (liftE (path_uuid seg)) (\<lambda>i.
    bindE (current_user X st authorization) (\<lambda>user.
    bindE (get_service X \<lparr>ss_db = st_db st\<rparr> i) (\<lambda>service.
    bindE (liftE (ensure_workspace_access user (sc_workspace_id service))) (\<lambda>_.
    returnE service))))"

subsection \<open>Credentials and variables\<close>

definition list_credentials_route ::
  "('w, 'a) ext_scheme \<Rightarrow> app_state \<Rightarrow> segment \<Rightarrow> string option \<Rightarrow>
   ('w, exn, credential_response list) io" where
  "list_credentials_route X st seg authorization =
    bindE (liftE (path_uuid seg)) (\<lambda>i.
    bindE (current_user X st authorization) (\<lambda>user.
    bindE (liftE (ensure_workspace_access user i)) (\<lambda>_.
    list_credentials X \<lparr>cred_db = st_db st, cred_secret_key = cfg_secret_key (st_config st)\<rparr> i)))"

definition create_credential_route ::
  "('w, 'a) ext_scheme \<Rightarrow> app_state \<Rightarrow> segment \<Rightarrow> string option \<Rightarrow> create_credential_request body \<Rightarrow>
   ('w, exn, credential_response) io" where
  "create_credential_route X st seg authorization body =
    bindE (liftE (path_uuid seg)) (\<lambda>i.
    bindE (current_user X st authorization) (\<lambda>user.
    bindE (liftE (valid_json create_credential_request_ok body)) (\<lambda>payload.
    bindE (liftE (ensure_workspace_access user i)) (\<lambda>_.
    create_credential X \<lparr>cred_db = st_db st, cred_secret_key = cfg_secret_key (st_config st)\<rparr>
      \<lparr>cc_workspace_id = i, cc_registry = kq_registry payload,
       cc_username = kq_username payload, cc_password = kq_password payload\<rparr>))))"

definition list_env_vars_route ::
  "('w, 'a) ext_scheme \<Rightarrow> app_state \<Rightarrow> segment \<Rightarrow> string option \<Rightarrow>
   ('w, exn, env_var_response list) io" where
  "list_env_vars_route X st seg authorization =
    bindE (liftE (path_uuid seg)) (\<lambda>i.
    bindE (current_user X st authorization) (\<lambda>user.
    bindE (liftE (ensure_workspace_access user i)) (\<lambda>_.
    list_env_vars X \<lparr>cred_db = st_db st, cred_secret_key = cfg_secret_key (st_config st)\<rparr> i)))"

definition env_var_input :: "uuid \<Rightarrow> create_env_var_request \<Rightarrow> create_env_var_input" where
  "env_var_input i v =
    \<lparr>ce_workspace_id = i, ce_environment_id = vq_environment_id v,
     ce_service_id = vq_service_id v, ce_key = vq_key v, ce_value = vq_value v\<rparr>"

definition create_env_var_route ::
  "('w, 'a) ext_scheme \<Rightarrow> app_state \<Rightarrow> segment \<Rightarrow> string option \<Rightarrow> create_env_var_request body \<Rightarrow>
   ('w, exn, env_var_response) io" where
  "create_env_var_route X st seg authorization body =
    bindE (liftE (path_uuid seg)) (\<lambda>i.
    bindE (current_user X st authorization) (\<lambda>user.
    bindE (liftE (valid_json create_env_var_request_ok body)) (\<lambda>payload.
    bindE (liftE (ensure_workspace_access user i)) (\<lambda>_.
    create_env_var X \<lparr>cred_db = st_db st, cred_secret_key = cfg_secret_key (st_config st)\<rparr>
      (env_var_input i payload)))))"

definition create_env_vars_route ::
  "('w, 'a) ext_scheme \<Rightarrow> app_state \<Rightarrow> segment \<Rightarrow> string option \<Rightarrow> create_env_vars_request body \<Rightarrow>
   ('w, exn, env_var_response list) io" where
  "create_env_vars_route X st seg authorization body =
    bindE (liftE (path_uuid seg)) (\<lambda>i.
    bindE (current_user X st authorization) (\<lambda>user.
    bindE (liftE (valid_json create_env_vars_request_ok body)) (\<lambda>payload.
    bindE (liftE (ensure_workspace_access user i)) (\<lambda>_.
    create_env_vars X \<lparr>cred_db = st_db st, cred_secret_key = cfg_secret_key (st_config st)\<rparr>
      (map (env_var_input i) (vsq_env_vars payload))))))"

subsection \<open>Domains\<close>

definition list_domains_route ::
  "('w, 'a) ext_scheme \<Rightarrow> app_state \<Rightarrow> segment \<Rightarrow> string option \<Rightarrow>
   ('w, exn, domain list) io" where
  "list_domains_route X st seg authorization =
    bindE (liftE (path_uuid seg)) (\<lambda>i.
    bindE (current_user X st authorization) (\<lambda>user.
    bindE (get_service X \<lparr>ss_db = st_db st\<rparr> i) (\<lambda>service.
    bindE (liftE (ensure_workspace_access user (sc_workspace_id service))) (\<lambda>_.
    list_domains X \<lparr>ds_db = st_db st\<rparr> i))))"

definition create_domain_route ::
  "('w, 'a) ext_scheme \<Rightarrow> app_state \<Rightarrow> segment \<Rightarrow> string option \<Rightarrow> create_domain_request body \<Rightarrow>
   ('w, exn, domain) io" where
  "create_domain_route X st seg authorization body =
    bindE (liftE (path_uuid seg)) (\<lambda>i.
    bindE (current_user X st authorization) (\<lambda>user.
    bindE (liftE (valid_json create_domain_request_ok body)) (\<lambda>payload.
    bindE (get_service X \<lparr>ss_db = st_db st\<rparr> i) (\<lambda>service.
    bindE (liftE (ensure_workspace_access user (sc_workspace_id service))) (\<lambda>_.
    create_domain X \<lparr>ds_db = st_db st\<rparr>
      \<lparr>cd_service_id = i, cd_hostname = dq_hostname payload, cd_proxy = dq_proxy payload,
       cd_tls_enabled = dq_tls_enabled payload\<rparr>)))))"

definition preview_proxy_route ::
  "('w, 'a) ext_scheme \<Rightarrow> app_state \<Rightarrow> segment \<Rightarrow> string option \<Rightarrow>
   ('w, exn, proxy_preview_response) io" where
  "preview_proxy_route X st seg authorization =
    bindE (liftE (path_uuid seg)) (\<lambda>i.
    bindE (current_user X st authorization) (\<lambda>user.
    bindE (get_domain X \<lparr>ds_db = st_db st\<rparr> i) (\<lambda>domain.
    bindE (get_service X \<lparr>ss_db = st_db st\<rparr> (d_service_id domain)) (\<lambda>service.
    bindE (liftE (ensure_workspace_access user (sc_workspace_id service))) (\<lambda>_.
    returnE \<lparr>pp_config = generate_config X domain ''127.0.0.1:8080''\<rparr>)))))"

subsection \<open>Deployments\<close>

definition list_deployments_route ::
  "('w, 'a) ext_scheme \<Rightarrow> app_state \<Rightarrow> segment \<Rightarrow> string option \<Rightarrow>
   ('w, exn, deployment list) io" where
  "list_deployments_route X st seg authorization =
    bindE (liftE (path_uuid seg)) (\<lambda>i.
    bindE (current_user X st authorization) (\<lambda>user.
    bindE (get_service X \<lparr>ss_db = st_db st\<rparr> i) (\<lambda>service.
    bindE (liftE (ensure_workspace_access user (sc_workspace_id service))) (\<lambda>_.
    list_deployments X (new_deployment_service (st_db st) (st_config st)) i))))"

definition trigger_deploy_route ::
  "('w, 'a) ext_scheme \<Rightarrow> app_state \<Rightarrow> segment \<Rightarrow> string option \<Rightarrow>
   ('w, exn, deployment) io" where
  "trigger_deploy_route X st seg authorization =
    bindE (liftE (path_uuid seg)) (\<lambda>i.
    bindE (current_user X st authorization) (\<lambda>user.
    bindE (get_service X \<lparr>ss_db = st_db st\<rparr> i) (\<lambda>service.
    bindE (liftE (ensure_workspace_access user (sc_workspace_id service))) (\<lambda>_.
    trigger_deploy X (new_deployment_service (st_db st) (st_config st)) i))))"

definition get_deployment_route ::
  "('w, 'a) ext_scheme \<Rightarrow> app_state \<Rightarrow> segment \<Rightarrow> string option \<Rightarrow>
   ('w, exn, deployment) io" where
  "get_deployment_route X st seg authorization =
    bindE (liftE (path_uuid seg)) (\<lambda>i.
    bindE (current_user X st authorization) (\<lambda>user.
    bindE (get_deployment X (new_deployment_service (st_db st) (st_config st)) i) (\<lambda>deployment.
    bindE (get_service X \<lparr>ss_db = st_db st\<rparr> (dp_service_id deployment)) (\<lambda>service.
    bindE (liftE (ensure_workspace_access user (sc_workspace_id service))) (\<lambda>_.
    returnE deployment)))))"

definition restart_service_route ::
  "('w, 'a) ext_scheme \<Rightarrow> app_state \<Rightarrow> segment \<Rightarrow> string option \<Rightarrow>
   ('w, exn, deployment) io" where
  "restart_service_route X st seg authorization =
    bindE (liftE (path_uuid seg)) (\<lambda>i.
    bindE (current_user X st authorization) (\<lambda>user.
    bindE (get_service X \<lparr>ss_db = st_db st\<rparr> i) (\<lambda>service.
    bindE (liftE (ensure_workspace_access user (sc_workspace_id service))) (\<lambda>_.
    restart_service X (new_deployment_service (st_db st) (st_config st)) i))))"

definition service_logs_route ::
  "('w, 'a) ext_scheme \<Rightarrow> app_state \<Rightarrow> segment \<Rightarrow> string option \<Rightarrow>
   ('w, exn, logs_response) io" where
  "service_logs_route X st seg authorization =
    bindE (liftE (path_uuid seg)) (\<lambda>i.
    bindE (current_user X st authorization) (\<lambda>user.
    bindE (get_service X \<lparr>ss_db = st_db st\<rparr> i) (\<lambda>service.
    bindE (liftE (ensure_workspace_access user (sc_workspace_id service))) (\<lambda>_.
    returnE \<lparr>lg_output = ''Platform-captured service log stream placeholder. Hosted app telemetry is not exported.''\<rparr>))))"

subsection \<open>Templates\<close>

definition list_workspace_templates_route ::
  "('w, 'a) ext_scheme \<Rightarrow> app_state \<Rightarrow> segment \<Rightarrow> string option \<Rightarrow>
   ('w, exn, workspace_template list) io" where
  "list_workspace_templates_route X st seg authorization =
    bindE (liftE (path_uuid seg)) (\<lambda>i.
    bindE (current_user X st authorization) (\<lambda>user.
    bindE (liftE (ensure_workspace_access user i)) (\<lambda>_.
    list_workspace_templates X \<lparr>wts_db = st_db st\<rparr> i)))"

definition create_template_route ::
  "('w, 'a) ext_scheme \<Rightarrow> app_state \<Rightarrow> segment \<Rightarrow> string option \<Rightarrow> create_template_request body \<Rightarrow>
   ('w, exn, workspace_template) io" where
  "create_template_route X st seg authorization body =
    bindE (liftE (path_uuid seg)) (\<lambda>i.
    bindE (current_user X st authorization) (\<lambda>user.
    bindE (liftE (valid_json create_template_request_ok body)) (\<lambda>payload.
    bindE (liftE (ensure_workspace_access user i)) (\<lambda>_.
    create_template X \<lparr>wts_db = st_db st\<rparr>
      \<lparr>ct_workspace_id = i, ct_name = mq_name payload, ct_description = mq_description payload\<rparr>))))"

definition create_workspaces_from_template_route ::
  "('w, 'a) ext_scheme \<Rightarrow> app_state \<Rightarrow> segment \<Rightarrow> string option \<Rightarrow> create_workspaces_from_template_request body \<Rightarrow>
   ('w, exn, bulk_workspace_create_response) io" where
  "create_workspaces_from_template_route X st seg authorization body =
    bindE (liftE (path_uuid seg)) (\<lambda>i.
    bindE (current_user X st authorization) (\<lambda>user.
    bindE (liftE (valid_json create_workspaces_from_template_request_ok body)) (\<lambda>payload.
    bindE (liftE (ensure_super_admin user)) (\<lambda>_.
    bindE (get_template X \<lparr>wts_db = st_db st\<rparr> i) (\<lambda>template.
    bindE (liftE (ensure_workspace_access user (wt_source_workspace_id template))) (\<lambda>_.
    bindE (create_workspaces_from_template X \<lparr>wts_db = st_db st\<rparr>
      \<lparr>cw_template_id = i, cw_names = fq_names payload,
       cw_secret_copy_mode = fq_secret_copy_mode payload\<rparr>) (\<lambda>workspaces.
    returnE \<lparr>bw_workspaces = workspaces\<rparr>)))))))"

subsection \<open>Servers\<close>

definition server_input :: "create_server_request \<Rightarrow> create_server_input" where
  "server_input v =
    \<lparr>cv_name = hq_name v, cv_host = hq_host v, cv_port = hq_port v, cv_username = hq_username v,
     cv_public_key = hq_public_key v, cv_private_key = hq_private_key v,
     cv_private_key_passphrase = hq_private_key_passphrase v,
     cv_default_proxy = hq_default_proxy v\<rparr>"

definition list_servers_route ::
  "('w, 'a) ext_scheme \<Rightarrow> app_state \<Rightarrow> string option \<Rightarrow>
   ('w, exn, server list) io" where
  "list_servers_route X st authorization =
    bindE (current_user X st authorization) (\<lambda>user.
    bindE (liftE (ensure_super_admin user)) (\<lambda>_.
    list_servers X \<lparr>svs_db = st_db st, svs_secret_key = cfg_secret_key (st_config st)\<rparr>))"

definition create_server_route ::
  "('w, 'a) ext_scheme \<Rightarrow> app_state \<Rightarrow> string option \<Rightarrow> create_server_request body \<Rightarrow>
   ('w, exn, server) io" where
  "create_server_route X st authorization body =
    bindE (current_user X st authorization) (\<lambda>user.
    bindE (liftE (valid_json create_server_request_ok body)) (\<lambda>payload.
    bindE (liftE (ensure_super_admin user)) (\<lambda>_.
    create_server X \<lparr>svs_db = st_db st, svs_secret_key = cfg_secret_key (st_config st)\<rparr> (server_input payload))))"

definition get_server_route ::
  "('w, 'a) ext_scheme \<Rightarrow> app_state \<Rightarrow> segment \<Rightarrow> string option \<Rightarrow>
   ('w, exn, server) io" where
  "get_server_route X st seg authorization =
    bindE (liftE (path_uuid seg)) (\<lambda>i.
    bindE (current_user X st authorization) (\<lambda>user.
    bindE (liftE (ensure_super_admin user)) (\<lambda>_.
    get_server X \<lparr>svs_db = st_db st, svs_secret_key = cfg_secret_key (st_config st)\<rparr> i)))"

definition check_server_route ::
  "('w, 'a) ext_scheme \<Rightarrow> app_state \<Rightarrow> segment \<Rightarrow> string option \<Rightarrow>
   ('w, exn, server_check_response) io" where
  "check_server_route X st seg authorization =
    bindE (liftE (path_uuid seg)) (\<lambda>i.
    bindE (admin_user X st authorization) (\<lambda>_.
    check_server X \<lparr>svs_db = st_db st, svs_secret_key = cfg_secret_key (st_config st)\<rparr> i))"

end
