(* ===== verification/Endpoints.thy ===== *)
theory Endpoints
  imports Routes_Workspace
begin

section \<open>The endpoints of the API\<close>

text \<open>
  One constructor for each route of the API, with what its extractors read of the path and the
  body, and the handler of each.  \<open>Router\<close> says which request leads to which endpoint.
\<close>

datatype endpoint =
    Login "login_request body"
  | Refresh "refresh_session_request body"
  | Logout "logout_request body"
  | AcceptInvite "accept_invite_request body"
  | Me
  | ListApiTokens
  | CreateApiToken "create_api_token_request body"
  | RevokeApiToken segment
  | ListServers
  | CreateServer "create_server_request body"
  | GetServer segment
  | CheckServer segment
  | ListWorkspaces
  | CreateWorkspace "create_workspace_request body"
  | GetWorkspace segment
  | ListEnvironments segment
  | CreateEnvironment segment "create_environment_request body"
  | ListServices segment
  | CreateService segment "create_service_request body"
  | GetService segment
  | ListCredentials segment
  | CreateCredential segment "create_credential_request body"
  | ListEnvVars segment
  | CreateEnvVar segment "create_env_var_request body"
  | CreateEnvVars segment "create_env_vars_request body"
  | ListDomains segment
  | CreateDomain segment "create_domain_request body"
  | PreviewProxy segment
  | ListDeployments segment
  | TriggerDeploy segment
  | GetDeployment segment
  | RestartService segment
  | ServiceLogs segment
  | ListTemplates segment
  | CreateTemplate segment "create_template_request body"
  | FromTemplate segment "create_workspaces_from_template_request body"
  | GetSettings
  | UpdateSettings "telemetry_settings body"
  | ListUsers
  | InviteUser "invite_user_request body"
  | DisableUser segment
  | ReactivateUser segment
  | ChangeUserRole segment "change_user_role_request body"

datatype reply =
    LoginReply "login_response"
  | NoContent
  | UserReply "user"
  | ApiTokensReply "api_token_response list"
  | CreatedApiTokenReply "create_api_token_response"
  | ApiTokenReply "api_token_response"
  | ServersReply "server list"
  | ServerReply "server"
  | CheckReply "server_check_response"
  | WorkspacesReply "workspace list"
  | WorkspaceReply "workspace"
  | EnvironmentsReply "environment list"
  | EnvironmentReply "environment"
  | ServicesReply "app_service list"
  | ServiceReply "app_service"
  | CredentialsReply "credential_response list"
  | CredentialReply "credential_response"
  | EnvVarsReply "env_var_response list"
  | EnvVarReply "env_var_response"
  | DomainsReply "domain list"
  | DomainReply "domain"
  | ProxyReply "proxy_preview_response"
  | DeploymentsReply "deployment list"
  | DeploymentReply "deployment"
  | LogsReply "logs_response"
  | TemplatesReply "workspace_template list"
  | TemplateReply "workspace_template"
  | BulkReply "bulk_workspace_create_response"
  | SettingsReply "telemetry_settings"
  | UsersReply "user list"
  | InviteReply "invite_user_response"

definition reply_as :: "('r \<Rightarrow> reply) \<Rightarrow> ('w, exn, 'r) io \<Rightarrow> ('w, exn, reply) io" where
  "reply_as f m = bindE m (\<lambda>r. returnE (f r))"

text \<open>The handler of an endpoint, for a request with the given header \<open>authorization\<close>.\<close>

primrec serve ::
  "('w, 'a) ext_scheme \<Rightarrow> app_state \<Rightarrow> string option \<Rightarrow> endpoint \<Rightarrow> ('w, exn, reply) io" where
  "serve X st authorization (Login body) = reply_as LoginReply (login_route X st body)"
| "serve X st authorization (Refresh body) = reply_as LoginReply (refresh_session_route X st body)"
| "serve X st authorization (Logout body) =
    reply_as (\<lambda>_. NoContent) (logout_route X st body)"
| "serve X st authorization (AcceptInvite body) =
    reply_as LoginReply (accept_invite_route X st body)"
| "serve X st authorization Me = reply_as UserReply (me_route X st authorization)"
| "serve X st authorization ListApiTokens =
    reply_as ApiTokensReply (list_api_tokens_route X st authorization)"
| "serve X st authorization (CreateApiToken body) =
    reply_as CreatedApiTokenReply (create_api_token_route X st authorization body)"
| "serve X st authorization (RevokeApiToken seg) =
    reply_as ApiTokenReply (revoke_api_token_route X st seg authorization)"
| "serve X st authorization ListServers =
    reply_as ServersReply (list_servers_route X st authorization)"
| "serve X st authorization (CreateServer body) =
    reply_as ServerReply (create_server_route X st authorization body)"
| "serve X st authorization (GetServer seg) =
    reply_as ServerReply (get_server_route X st seg authorization)"
| "serve X st authorization (CheckServer seg) =
    reply_as CheckReply (check_server_route X st seg authorization)"
| "serve X st authorization ListWorkspaces =
    reply_as WorkspacesReply (list_workspaces_route X st authorization)"
| "serve X st authorization (CreateWorkspace body) =
    reply_as WorkspaceReply (create_workspace_route X st authorization body)"
| "serve X st authorization (GetWorkspace seg) =
    reply_as WorkspaceReply (get_workspace_route X st seg authorization)"
| "serve X st authorization (ListEnvironments seg) =
    reply_as EnvironmentsReply (list_environments_route X st seg authorization)"
| "serve X st authorization (CreateEnvironment seg body) =
    reply_as EnvironmentReply (create_environment_route X st seg authorization body)"
| "serve X st authorization (ListServices seg) =
    reply_as ServicesReply (list_services_route X st seg authorization)"
| "serve X st authorization (CreateService seg body) =
    reply_as ServiceReply (create_service_route X st seg authorization body)"
| "serve X st authorization (GetService seg) =
    reply_as ServiceReply (get_service_route X st seg authorization)"
| "serve X st authorization (ListCredentials seg) =
    reply_as CredentialsReply (list_credentials_route X st seg authorization)"
| "serve X st authorization (CreateCredential seg body) =
    reply_as CredentialReply (create_credential_route X st seg authorization body)"
| "serve X st authorization (ListEnvVars seg) =
    reply_as EnvVarsReply (list_env_vars_route X st seg authorization)"
| "serve X st authorization (CreateEnvVar seg body) =
    reply_as EnvVarReply (create_env_var_route X st seg authorization body)"
| "serve X st authorization (CreateEnvVars seg body) =
    reply_as EnvVarsReply (create_env_vars_route X st seg authorization body)"
| "serve X st authorization (ListDomains seg) =
    reply_as DomainsReply (list_domains_route X st seg authorization)"
| "serve X st authorization (CreateDomain seg body) =
    reply_as DomainReply (create_domain_route X st seg authorization body)"
| "serve X st authorization (PreviewProxy seg) =
    reply_as ProxyReply (preview_proxy_route X st seg authorization)"
| "serve X st authorization (ListDeployments seg) =
    reply_as DeploymentsReply (list_deployments_route X st seg authorization)"
| "serve X st authorization (TriggerDeploy seg) =
    reply_as DeploymentReply (trigger_deploy_route X st seg authorization)"
| "serve X st authorization (GetDeployment seg) =
    reply_as DeploymentReply (get_deployment_route X st seg authorization)"
| "serve X st authorization (RestartService seg) =
    reply_as DeploymentReply (restart_service_route X st seg authorization)"
| "serve X st authorization (ServiceLogs seg) =
    reply_as LogsReply (service_logs_route X st seg authorization)"
| "serve X st authorization (ListTemplates seg) =
    reply_as TemplatesReply (list_workspace_templates_route X st seg authorization)"
| "serve X st authorization (CreateTemplate seg body) =
    reply_as TemplateReply (create_template_route X st seg authorization body)"
| "serve X st authorization (FromTemplate seg body) =
    reply_as BulkReply (create_workspaces_from_template_route X st seg authorization body)"
| "serve X st authorization GetSettings =
    reply_as SettingsReply (get_settings_route X st authorization)"
| "serve X st authorization (UpdateSettings body) =
    reply_as SettingsReply (update_settings_route X st authorization body)"
| "serve X st authorization ListUsers = reply_as UsersReply (list_users_route X st authorization)"
| "serve X st authorization (InviteUser body) =
    reply_as InviteReply (invite_user_route X st authorization body)"
| "serve X st authorization (DisableUser seg) =
    reply_as UserReply (disable_user_route X st seg authorization)"
| "serve X st authorization (ReactivateUser seg) =
    reply_as UserReply (reactivate_user_route X st seg authorization)"
| "serve X st authorization (ChangeUserRole seg body) =
    reply_as UserReply (change_user_role_route X st seg authorization body)"

end
