(* ===== verification/Router.thy ===== *)
theory Router
  imports Endpoints
begin

section \<open>The router of the API\<close>

text \<open>
  \<open>routes/mod.rs\<close> and the \<open>router()\<close> of each module: which method and path leads to which handler,
  what a request that has no route is answered, and the error middleware around the API.  A path
  is the list of its segments.  Which of the registered paths a request fits is found by axum, and
  the extractors that read a segment and a body are axum's too: they are given by the record
  \<open>decoders\<close>, with the law \<open>matcher_ok\<close> for the first.  A body comes with the headers it is read
  with, as one value.
  The answers to \<open>HEAD\<close> and the documentation pages are not modelled.
\<close>

datatype http_method = GET | POST | PUT | PATCH | DELETE | Other_method

subsection \<open>Dispatch\<close>

text \<open>The segments of the path of a route are literal or a parameter.\<close>

datatype segment_pattern = Lit string | Param

text \<open>
  What axum brings: the route among the registered ones that a path fits, by its number, with the
  values of the parameters; and what is read of a segment and of a body.
\<close>

record 'b decoders =
  dec_route :: "segment_pattern list list \<Rightarrow> string list \<Rightarrow> (nat \<times> string list) option"
  dec_segment :: "string \<Rightarrow> segment"
  dec_login_request :: "'b \<Rightarrow> login_request body"
  dec_refresh_session_request :: "'b \<Rightarrow> refresh_session_request body"
  dec_logout_request :: "'b \<Rightarrow> logout_request body"
  dec_accept_invite_request :: "'b \<Rightarrow> accept_invite_request body"
  dec_create_api_token_request :: "'b \<Rightarrow> create_api_token_request body"
  dec_create_server_request :: "'b \<Rightarrow> create_server_request body"
  dec_create_workspace_request :: "'b \<Rightarrow> create_workspace_request body"
  dec_create_environment_request :: "'b \<Rightarrow> create_environment_request body"
  dec_create_service_request :: "'b \<Rightarrow> create_service_request body"
  dec_create_credential_request :: "'b \<Rightarrow> create_credential_request body"
  dec_create_env_var_request :: "'b \<Rightarrow> create_env_var_request body"
  dec_create_env_vars_request :: "'b \<Rightarrow> create_env_vars_request body"
  dec_create_domain_request :: "'b \<Rightarrow> create_domain_request body"
  dec_create_template_request :: "'b \<Rightarrow> create_template_request body"
  dec_create_workspaces_from_template_request :: "'b \<Rightarrow> create_workspaces_from_template_request body"
  dec_telemetry_settings :: "'b \<Rightarrow> telemetry_settings body"
  dec_invite_user_request :: "'b \<Rightarrow> invite_user_request body"
  dec_change_user_role_request :: "'b \<Rightarrow> change_user_role_request body"

text \<open>A route: its path and its method table, which gives the endpoint for the values of the parameters.\<close>

type_synonym route = "segment_pattern list \<times> (http_method \<times> (string list \<Rightarrow> endpoint)) list"

fun match_path :: "segment_pattern list \<Rightarrow> string list \<Rightarrow> string list option" where
  "match_path [] [] = Some []"
| "match_path (Lit l # ps) (s # ss) = (if s = l then match_path ps ss else None)"
| "match_path (Param # ps) (s # ss) =
    (if s = [] then None else map_option ((#) s) (match_path ps ss))"
| "match_path _ _ = None"

text \<open>
  As axum documents it: a path is routed to a registered one that it fits, segment by segment, a
  parameter standing for any segment that is not empty; and to none only if it fits none.
\<close>

definition matcher_ok :: "'b decoders \<Rightarrow> bool" where
  "matcher_ok D \<longleftrightarrow> (\<forall>pats path.
    case dec_route D pats path of
      None \<Rightarrow> \<forall>pat \<in> set pats. match_path pat path = None
    | Some (i, params) \<Rightarrow> i < length pats \<and> match_path (pats ! i) path = Some params)"

definition auth_router :: "'b decoders \<Rightarrow> 'b \<Rightarrow> route list" where
  "auth_router D b =
    [([Lit ''auth'', Lit ''login''],
       [(POST, \<lambda>_. Login (dec_login_request D b))]),
     ([Lit ''auth'', Lit ''refresh''],
       [(POST, \<lambda>_. Refresh (dec_refresh_session_request D b))]),
     ([Lit ''auth'', Lit ''logout''],
       [(POST, \<lambda>_. Logout (dec_logout_request D b))]),
     ([Lit ''auth'', Lit ''invites'', Lit ''accept''],
       [(POST, \<lambda>_. AcceptInvite (dec_accept_invite_request D b))]),
     ([Lit ''auth'', Lit ''me''],
       [(GET, \<lambda>_. Me)]),
     ([Lit ''auth'', Lit ''api-tokens''],
       [(GET, \<lambda>_. ListApiTokens),
        (POST, \<lambda>_. CreateApiToken (dec_create_api_token_request D b))]),
     ([Lit ''auth'', Lit ''api-tokens'', Param],
       [(DELETE, \<lambda>i. RevokeApiToken (dec_segment D (hd i)))])]"

definition servers_router :: "'b decoders \<Rightarrow> 'b \<Rightarrow> route list" where
  "servers_router D b =
    [([Lit ''servers''],
       [(GET, \<lambda>_. ListServers),
        (POST, \<lambda>_. CreateServer (dec_create_server_request D b))]),
     ([Lit ''servers'', Param],
       [(GET, \<lambda>i. GetServer (dec_segment D (hd i)))]),
     ([Lit ''servers'', Param, Lit ''check''],
       [(POST, \<lambda>i. CheckServer (dec_segment D (hd i)))])]"

definition workspaces_router :: "'b decoders \<Rightarrow> 'b \<Rightarrow> route list" where
  "workspaces_router D b =
    [([Lit ''workspaces''],
       [(GET, \<lambda>_. ListWorkspaces),
        (POST, \<lambda>_. CreateWorkspace (dec_create_workspace_request D b))]),
     ([Lit ''workspaces'', Param],
       [(GET, \<lambda>i. GetWorkspace (dec_segment D (hd i)))])]"

definition environments_router :: "'b decoders \<Rightarrow> 'b \<Rightarrow> route list" where
  "environments_router D b =
    [([Lit ''workspaces'', Param, Lit ''environments''],
       [(GET, \<lambda>i. ListEnvironments (dec_segment D (hd i))),
        (POST, \<lambda>i. CreateEnvironment (dec_segment D (hd i)) (dec_create_environment_request D b))])]"

definition services_router :: "'b decoders \<Rightarrow> 'b \<Rightarrow> route list" where
  "services_router D b =
    [([Lit ''workspaces'', Param, Lit ''services''],
       [(GET, \<lambda>i. ListServices (dec_segment D (hd i))),
        (POST, \<lambda>i. CreateService (dec_segment D (hd i)) (dec_create_service_request D b))]),
     ([Lit ''services'', Param],
       [(GET, \<lambda>i. GetService (dec_segment D (hd i)))])]"

definition credentials_router :: "'b decoders \<Rightarrow> 'b \<Rightarrow> route list" where
  "credentials_router D b =
    [([Lit ''workspaces'', Param, Lit ''credentials''],
       [(GET, \<lambda>i. ListCredentials (dec_segment D (hd i))),
        (POST, \<lambda>i. CreateCredential (dec_segment D (hd i)) (dec_create_credential_request D b))]),
     ([Lit ''workspaces'', Param, Lit ''env-vars''],
       [(GET, \<lambda>i. ListEnvVars (dec_segment D (hd i))),
        (POST, \<lambda>i. CreateEnvVar (dec_segment D (hd i)) (dec_create_env_var_request D b))]),
     ([Lit ''workspaces'', Param, Lit ''env-vars'', Lit ''bulk''],
       [(POST, \<lambda>i. CreateEnvVars (dec_segment D (hd i)) (dec_create_env_vars_request D b))])]"

definition domains_router :: "'b decoders \<Rightarrow> 'b \<Rightarrow> route list" where
  "domains_router D b =
    [([Lit ''services'', Param, Lit ''domains''],
       [(GET, \<lambda>i. ListDomains (dec_segment D (hd i))),
        (POST, \<lambda>i. CreateDomain (dec_segment D (hd i)) (dec_create_domain_request D b))]),
     ([Lit ''domains'', Param, Lit ''proxy-preview''],
       [(POST, \<lambda>i. PreviewProxy (dec_segment D (hd i)))])]"

definition deployments_router :: "'b decoders \<Rightarrow> 'b \<Rightarrow> route list" where
  "deployments_router D b =
    [([Lit ''services'', Param, Lit ''deployments''],
       [(GET, \<lambda>i. ListDeployments (dec_segment D (hd i))),
        (POST, \<lambda>i. TriggerDeploy (dec_segment D (hd i)))]),
     ([Lit ''deployments'', Param],
       [(GET, \<lambda>i. GetDeployment (dec_segment D (hd i)))]),
     ([Lit ''services'', Param, Lit ''restart''],
       [(POST, \<lambda>i. RestartService (dec_segment D (hd i)))]),
     ([Lit ''services'', Param, Lit ''logs''],
       [(GET, \<lambda>i. ServiceLogs (dec_segment D (hd i)))])]"

definition templates_router :: "'b decoders \<Rightarrow> 'b \<Rightarrow> route list" where
  "templates_router D b =
    [([Lit ''workspaces'', Param, Lit ''templates''],
       [(GET, \<lambda>i. ListTemplates (dec_segment D (hd i))),
        (POST, \<lambda>i. CreateTemplate (dec_segment D (hd i)) (dec_create_template_request D b))]),
     ([Lit ''templates'', Param, Lit ''workspaces''],
       [(POST, \<lambda>i. FromTemplate (dec_segment D (hd i)) (dec_create_workspaces_from_template_request D b))])]"

definition telemetry_router :: "'b decoders \<Rightarrow> 'b \<Rightarrow> route list" where
  "telemetry_router D b =
    [([Lit ''telemetry'', Lit ''settings''],
       [(GET, \<lambda>_. GetSettings),
        (PUT, \<lambda>_. UpdateSettings (dec_telemetry_settings D b))])]"

definition admin_router :: "'b decoders \<Rightarrow> 'b \<Rightarrow> route list" where
  "admin_router D b =
    [([Lit ''admin'', Lit ''users''],
       [(GET, \<lambda>_. ListUsers),
        (POST, \<lambda>_. InviteUser (dec_invite_user_request D b))]),
     ([Lit ''admin'', Lit ''users'', Param, Lit ''disable''],
       [(POST, \<lambda>i. DisableUser (dec_segment D (hd i)))]),
     ([Lit ''admin'', Lit ''users'', Param, Lit ''reactivate''],
       [(POST, \<lambda>i. ReactivateUser (dec_segment D (hd i)))]),
     ([Lit ''admin'', Lit ''users'', Param, Lit ''role''],
       [(PATCH, \<lambda>i. ChangeUserRole (dec_segment D (hd i)) (dec_change_user_role_request D b))])]"

text \<open>The routes of the API, in the order they are merged.\<close>

definition api_routes :: "'b decoders \<Rightarrow> 'b \<Rightarrow> route list" where
  "api_routes D b =
    auth_router D b @ servers_router D b @ workspaces_router D b @ environments_router D b @ services_router D b @
     credentials_router D b @ domains_router D b @ deployments_router D b @ templates_router D b @
     telemetry_router D b @ admin_router D b"

datatype dispatched = Endpoint endpoint | MethodNotAllowed | NoRoute

text \<open>A path that is known but not with the method is refused with status 405.\<close>

definition dispatch ::
  "'b decoders \<Rightarrow> route list \<Rightarrow> http_method \<Rightarrow> string list \<Rightarrow> dispatched" where
  "dispatch D routes m path =
    (case dec_route D (map fst routes) path of
       None \<Rightarrow> NoRoute
     | Some (i, params) \<Rightarrow>
        (case map_of (snd (routes ! i)) m of
           None \<Rightarrow> MethodNotAllowed
         | Some e \<Rightarrow> Endpoint (e params)))"

definition dispatch_api ::
  "'b decoders \<Rightarrow> http_method \<Rightarrow> string list \<Rightarrow> 'b \<Rightarrow> dispatched" where
  "dispatch_api D m path b = dispatch D (api_routes D b) m path"

subsection \<open>Requests\<close>

record 'b http_request =
  h_method :: http_method
  h_path :: "string list"
  h_authorization :: "string option"
  h_body :: 'b

text \<open>
  What the application answers: an API reply, an error response, one of the fixed pages
  (\<open>health\<close> and \<open>metrics_handler\<close>), the generated document of \<open>openapi_json\<close>, or nothing when the handler panics.
\<close>

datatype answer =
    Reply reply
  | Keys jwks
  | Failure response
  | Page string
  | Document
  | Dropped

definition metrics_text :: string where
  "metrics_text = ''# Wara platform metrics'' @ nl @
    ''# Telemetry is opt-in and platform-only.'' @ nl"

definition text_response :: "status \<Rightarrow> string \<Rightarrow> response" where
  "text_response s txt =
    \<lparr>r_status = s, r_content_type = Some ''text/plain; charset=utf-8'', r_body = Inr (as_bytes txt)\<rparr>"

definition exn_response :: "'a prims_scheme \<Rightarrow> exn \<Rightarrow> response option" where
  "exn_response P e =
    (case e of
       Api er \<Rightarrow> Some (into_response P er)
     | Rejected s txt \<Rightarrow> Some (text_response s txt)
     | Panicked \<Rightarrow> None)"

text \<open>What axum answers by itself where no route fits: a status and nothing else.\<close>

definition bare_response :: "status \<Rightarrow> response" where
  "bare_response s = \<lparr>r_status = s, r_content_type = None, r_body = Inr []\<rparr>"

text \<open>The middleware of the API around an error.\<close>

definition api_failure :: "'a prims_scheme \<Rightarrow> exn \<Rightarrow> answer" where
  "api_failure P e =
    (case exn_response P e of
       None \<Rightarrow> Dropped
     | Some r \<Rightarrow> Failure (normalize_error_response P r))"

definition run_route ::
  "('w, 'a) ext_scheme \<Rightarrow> app_state \<Rightarrow> 'b decoders \<Rightarrow> 'b http_request \<Rightarrow> string list \<Rightarrow>
   ('w, exn, reply) io" where
  "run_route X st D h path =
    (case dispatch_api D (h_method h) path (h_body h) of
       Endpoint ep \<Rightarrow> serve X st (h_authorization h) ep
     | MethodNotAllowed \<Rightarrow> throwE (Rejected 405 [])
     | NoRoute \<Rightarrow> throwE (Api (NotFound ''route'')))"

definition serve_api ::
  "('w, 'a) ext_scheme \<Rightarrow> app_state \<Rightarrow> 'b decoders \<Rightarrow> 'b http_request \<Rightarrow> string list \<Rightarrow>
   ('w, exn, answer) io" where
  "serve_api X st D h path =
    matchE (run_route X st D h path)
      (\<lambda>r. returnE (Reply r))
      (\<lambda>e. returnE (api_failure X e))"

definition answer_request ::
  "('w, 'a) ext_scheme \<Rightarrow> app_state \<Rightarrow> 'b decoders \<Rightarrow> 'b http_request \<Rightarrow> ('w, exn, answer) io" where
  "answer_request X st D h =
    (case h_path h of
       p # q # path \<Rightarrow>
        (if p = ''api'' \<and> q = ''v1'' then serve_api X st D h path
         else if p = ''.well-known'' \<and> q = ''jwks.json'' \<and> path = [] then
           (if h_method h = GET then
              matchE (jwks_route X st) (\<lambda>k. returnE (Keys k))
                (\<lambda>e. returnE (case exn_response X e of None \<Rightarrow> Dropped | Some r \<Rightarrow> Failure r))
            else returnE (Failure (bare_response 405)))
         else if p = ''api'' \<and> q = ''openapi.json'' \<and> path = [] then
           returnE (if h_method h = GET then Document else Failure (bare_response 405))
         else returnE (Failure (bare_response 404)))
     | [p] \<Rightarrow>
        (if p = ''health'' then
           returnE (if h_method h = GET then Page ''ok'' else Failure (bare_response 405))
         else if p = ''metrics'' then
           returnE (if h_method h = GET then Page metrics_text else Failure (bare_response 405))
         else returnE (Failure (bare_response 404)))
     | [] \<Rightarrow> returnE (Failure (bare_response 404)))"

subsection \<open>No two routes fit one path\<close>

text \<open>Two patterns that no path can match both: of different lengths, or with different literals.\<close>

fun apart :: "segment_pattern list \<Rightarrow> segment_pattern list \<Rightarrow> bool" where
  "apart [] [] \<longleftrightarrow> False"
| "apart (Lit a # ps) (Lit b # qs) \<longleftrightarrow> a \<noteq> b \<or> apart ps qs"
| "apart (p # ps) (q # qs) \<longleftrightarrow> apart ps qs"
| "apart _ _ \<longleftrightarrow> True"

lemma match_path_nil: "match_path ps [] = Some x \<Longrightarrow> ps = []"
  by (cases "(ps, [] :: string list)" rule: match_path.cases) auto

lemma match_path_cons:
  assumes "match_path ps (s # ss) = Some x"
  obtains p qs y where "ps = p # qs" "match_path qs ss = Some y" "p = Param \<or> p = Lit s"
  using assms by (cases "(ps, s # ss)" rule: match_path.cases) (auto split: if_splits)

lemma match_not_apart:
  "match_path ps path = Some x \<Longrightarrow> match_path qs path = Some y \<Longrightarrow> \<not> apart ps qs"
proof (induction path arbitrary: ps qs x y)
  case Nil
  then have "ps = []" "qs = []" by (simp_all add: match_path_nil)
  then show ?case by simp
next
  case (Cons s path)
  from Cons.prems(1) obtain p ps' x' where p: "ps = p # ps'" "match_path ps' path = Some x'"
    "p = Param \<or> p = Lit s" by (rule match_path_cons)
  from Cons.prems(2) obtain q qs' y' where q: "qs = q # qs'" "match_path qs' path = Some y'"
    "q = Param \<or> q = Lit s" by (rule match_path_cons)
  show ?case using Cons.IH[OF p(2) q(2)] p(1,3) q(1,3) by (cases p; cases q) auto
qed

lemma apart_match: "apart ps qs \<Longrightarrow> match_path ps path = None \<or> match_path qs path = None"
  using match_not_apart by (metis option.exhaust)

lemma api_routes_apart:
  "sorted_wrt (\<lambda>r s. apart (fst r) (fst s)) (api_routes D b)"
  by (simp add: api_routes_def auth_router_def servers_router_def workspaces_router_def
      environments_router_def services_router_def credentials_router_def domains_router_def
      deployments_router_def templates_router_def telemetry_router_def admin_router_def)

lemma matcher_none:
  assumes "matcher_ok D" "dec_route D (map fst routes) path = None" "r \<in> set routes"
  shows "match_path (fst r) path = None"
  using assms(1)[unfolded matcher_ok_def, rule_format, of "map fst routes" path] assms(2,3) by simp

lemma matcher_found:
  assumes "matcher_ok D" "dec_route D (map fst routes) path = Some (i, params)"
  shows "i < length routes" "match_path (fst (routes ! i)) path = Some params"
proof -
  have found: "i < length (map fst routes) \<and> match_path (map fst routes ! i) path = Some params"
    using assms(1)[unfolded matcher_ok_def, rule_format, of "map fst routes" path] assms(2)
    by (simp del: nth_map)
  then show i: "i < length routes" by simp
  show "match_path (fst (routes ! i)) path = Some params"
    using conjunct2[OF found] nth_map[OF i, of fst] by simp
qed

lemma dispatch_apart:
  assumes "matcher_ok D" "sorted_wrt (\<lambda>r s. apart (fst r) (fst s)) routes"
    and "(pat, table) \<in> set routes" "match_path pat path = Some params"
  shows "dispatch D routes m path =
    (case map_of table m of None \<Rightarrow> MethodNotAllowed | Some e \<Rightarrow> Endpoint (e params))"
proof -
  obtain k where k: "k < length routes" "routes ! k = (pat, table)"
    using assms(3) by (auto simp: in_set_conv_nth)
  obtain i ps where d: "dec_route D (map fst routes) path = Some (i, ps)"
    using matcher_none[OF assms(1) _ assms(3), of path] assms(4)
    by (cases "dec_route D (map fst routes) path") auto
  note i = matcher_found[OF assms(1) d]
  have "i = k"
  proof (rule ccontr)
    assume "i \<noteq> k"
    then consider "i < k" | "k < i" by linarith
    then show False
    proof cases
      case 1
      then have "apart (fst (routes ! i)) pat"
        using sorted_wrt_nth_less[OF assms(2) 1 k(1)] k(2) by simp
      then show False using match_not_apart[OF i(2) assms(4)] by simp
    next
      case 2
      then have "apart pat (fst (routes ! i))"
        using sorted_wrt_nth_less[OF assms(2) 2 i(1)] k(2) by simp
      then show False using match_not_apart[OF assms(4) i(2)] by simp
    qed
  qed
  moreover from this have "ps = params" using i(2) k(2) assms(4) by simp
  ultimately show ?thesis using d k(2) by (simp add: dispatch_def)
qed

lemma dispatch_NoRoute:
  assumes "matcher_ok D"
  shows "dispatch D routes m path = NoRoute \<longleftrightarrow> (\<forall>r \<in> set routes. match_path (fst r) path = None)"
proof (cases "dec_route D (map fst routes) path")
  case None
  then show ?thesis using matcher_none[OF assms None] by (simp add: dispatch_def)
next
  case (Some x)
  obtain i ps where x: "x = (i, ps)" by fastforce
  note i = matcher_found[OF assms Some[unfolded x]]
  have "\<not> (\<forall>r \<in> set routes. match_path (fst r) path = None)"
    using i nth_mem[OF i(1)] by fastforce
  then show ?thesis using Some x by (auto simp: dispatch_def split: option.split)
qed

subsection \<open>What a failure is answered with\<close>

lemma api_failure_Api:
  assumes "envelope_laws P"
  obtains r where "api_failure P (Api er) = Failure r"
    and "r_status r = (if length (error_response_to_json P (response_body er)) \<le> 64 * 1024
      then api_status er else 500)"
    and "envelope_of P r = Some (if length (error_response_to_json P (response_body er)) \<le> 64 * 1024
      then response_body er else response_body (Internal []))"
proof -
  let ?r = "into_response P er"
  have err: "is_client_error (r_status ?r) \<or> is_server_error (r_status ?r)"
    by (cases er) (simp_all add: into_response_def json_response_def is_client_error_def
        is_server_error_def)
  have same: "response_body (Internal ''failed to serialize error response'') =
      response_body (Internal [])"
    by (simp add: response_body_def)
  show ?thesis
  proof (cases "length (error_response_to_json P (response_body er)) \<le> 64 * 1024")
    case True
    from normalize_json_response[OF assms this] have "normalize_error_response P ?r = ?r"
      by (simp add: into_response_def)
    then show ?thesis
      using that[of ?r] True envelope_into_response[OF assms, of er]
      by (simp add: api_failure_def exn_response_def) (simp add: into_response_def json_response_def)
  next
    case False
    then have "to_bytes (r_body ?r) (64 * 1024) = None"
      by (simp add: to_bytes_def into_response_def json_response_def)
    from normalize_error_response_simps(2)[OF err this, of P] False show ?thesis
      using that[of "into_response P (Internal ''failed to serialize error response'')"]
        envelope_into_response[OF assms, of "Internal ''failed to serialize error response''"]
      by (simp add: api_failure_def exn_response_def same)
        (simp add: into_response_def json_response_def)
  qed
qed

lemma api_failure_Rejected:
  assumes "envelope_laws P"
  obtains r where "api_failure P (Rejected s txt) = Failure r"
    and "is_client_error s \<or> is_server_error s \<Longrightarrow> \<exists>b. envelope_of P r = Some b"
    and "length txt \<le> 64 * 1024 \<Longrightarrow> r_status r = s"
proof -
  let ?r = "text_response s txt"
  have "\<exists>b. envelope_of P (normalize_error_response P ?r) = Some b"
    if "is_client_error s \<or> is_server_error s"
    by (rule normalize_error_has_envelope[OF assms]) (use that in \<open>simp add: text_response_def\<close>)
  moreover have "r_status (normalize_error_response P ?r) = s" if "length txt \<le> 64 * 1024"
    using that by (simp add: normalize_error_response_def Let_def text_response_def to_bytes_def
        json_response_def split: option.split)
  ultimately show ?thesis
    using that[of "normalize_error_response P ?r"] by (simp add: api_failure_def exn_response_def)
qed

lemma api_failure_Panicked: "api_failure P Panicked = Dropped"
  by (simp add: api_failure_def exn_response_def)

text \<open>Outside the API: what has a page there, and what has not.\<close>

lemma keys_not_bare:
  "matchE m (\<lambda>k. returnE (Keys k))
    (\<lambda>e. returnE (case exn_response X e of None \<Rightarrow> Dropped | Some r \<Rightarrow> Failure r)) w \<noteq>
   (Inr (Failure (bare_response s)), w')"
  by (auto simp: matchE_def returnE_def exn_response_def bare_response_def text_response_def
      into_response_def json_response_def split: prod.splits sum.splits exn.splits)

lemma page_requests:
  assumes "\<not> prefix [''api'', ''v1''] (h_path h)"
  shows "(\<exists>s. answer_request X st D h w = (Inr (Failure (bare_response s)), w)) \<longleftrightarrow>
    \<not> (h_method h = GET \<and> h_path h \<in>
      {[''health''], [''metrics''], [''.well-known'', ''jwks.json''], [''api'', ''openapi.json'']})"
proof -
  consider "h_path h = []" | p where "h_path h = [p]" | p q path where "h_path h = p # q # path"
    by (metis list.exhaust)
  then show ?thesis
  proof cases
    case (3 p q path)
    then have "\<not> (p = ''api'' \<and> q = ''v1'')" using assms by (auto simp: prefix_def)
    then consider "p = ''.well-known'' \<and> q = ''jwks.json'' \<and> path = []"
      | "p = ''api'' \<and> q = ''openapi.json'' \<and> path = []"
      | "\<not> (p = ''api'' \<and> q = ''v1'')" "\<not> (p = ''.well-known'' \<and> q = ''jwks.json'' \<and> path = [])"
        "\<not> (p = ''api'' \<and> q = ''openapi.json'' \<and> path = [])" by blast
    then show ?thesis
    proof cases
      case 1
      then show ?thesis
        using 3 by (cases "h_method h = GET") (simp_all add: answer_request_def keys_not_bare, auto simp: returnE_def)
    next
      case 2
      then show ?thesis using 3 by (auto simp: answer_request_def returnE_def)
    next
      case none: 3
      then have "answer_request X st D h w = (Inr (Failure (bare_response 404)), w)"
        using 3 by (auto simp: answer_request_def returnE_def)
      then show ?thesis using 3 none by auto
    qed
  qed (auto simp: answer_request_def returnE_def)
qed

lemma page_answers:
  assumes "\<not> prefix [''api'', ''v1''] (h_path h)"
  shows "\<exists>a w'. answer_request X st D h w = (Inr a, w') \<and>
    (a = Dropped \<longrightarrow> jwks_route X st w = (Inl Panicked, w'))"
proof -
  have keys: "\<exists>a w'. matchE (jwks_route X st) (\<lambda>k. returnE (Keys k))
      (\<lambda>e. returnE (case exn_response X e of None \<Rightarrow> Dropped | Some r \<Rightarrow> Failure r)) w = (Inr a, w') \<and>
    (a = Dropped \<longrightarrow> jwks_route X st w = (Inl Panicked, w'))"
    by (cases "jwks_route X st w")
      (auto simp: matchE_def returnE_def exn_response_def split: sum.split exn.split)
  show ?thesis
  proof (cases "h_path h = [''.well-known'', ''jwks.json''] \<and> h_method h = GET")
    case True
    then have "answer_request X st D h = matchE (jwks_route X st) (\<lambda>k. returnE (Keys k))
        (\<lambda>e. returnE (case exn_response X e of None \<Rightarrow> Dropped | Some r \<Rightarrow> Failure r))"
      by (simp add: answer_request_def)
    then show ?thesis using keys by simp
  next
    case False
    show ?thesis
    proof (cases "\<exists>s. answer_request X st D h w = (Inr (Failure (bare_response s)), w)")
      case True
      then show ?thesis by auto
    next
      case page: False
      then consider "h_method h = GET" "h_path h = [''health'']" | "h_method h = GET" "h_path h = [''metrics'']"
        | "h_method h = GET" "h_path h = [''api'', ''openapi.json'']"
        using False page_requests[OF assms, of X st D w] by auto
      then show ?thesis by cases (simp_all add: answer_request_def returnE_def)
    qed
  qed
qed

end
