(* ===== verification/Authorization.thy ===== *)
theory Authorization
  imports Router Auth_Sessions
begin

section \<open>Who may use an endpoint\<close>

text \<open>
  The access rule of every endpoint over the stored rows, and the lemma that the handlers keep it:
  a request that is answered, or that changes anything but the time an API token was last used,
  was made by an active user who holds what the rule asks.
\<close>

subsection \<open>The rules\<close>

fun public_endpoint :: "endpoint \<Rightarrow> bool" where
  "public_endpoint (Login _) = True"
| "public_endpoint (Refresh _) = True"
| "public_endpoint (Logout _) = True"
| "public_endpoint (AcceptInvite _) = True"
| "public_endpoint _ = False"

definition platform_admin :: "user_record \<Rightarrow> bool" where
  "platform_admin r \<longleftrightarrow> ur_role r = ''super_admin''"

text \<open>The workspace of a path parameter, of a service, a domain or a deployment that it names.\<close>

definition in_workspace :: "tables \<Rightarrow> user_record \<Rightarrow> segment \<Rightarrow> bool" where
  "in_workspace T r seg \<longleftrightarrow> (\<exists>i. seg = Inr i \<and> may_access T r i)"

definition in_service :: "tables \<Rightarrow> user_record \<Rightarrow> uuid \<Rightarrow> bool" where
  "in_service T r i \<longleftrightarrow>
    (\<exists>s \<in> t_app_services T. asr_id s = i \<and> may_access T r (asr_workspace_id s))"

definition of_service :: "tables \<Rightarrow> user_record \<Rightarrow> segment \<Rightarrow> bool" where
  "of_service T r seg \<longleftrightarrow> (\<exists>i. seg = Inr i \<and> in_service T r i)"

definition of_domain :: "tables \<Rightarrow> user_record \<Rightarrow> segment \<Rightarrow> bool" where
  "of_domain T r seg \<longleftrightarrow>
    (\<exists>i. seg = Inr i \<and> (\<exists>d \<in> t_domains T. dr_id d = i \<and> in_service T r (dr_service_id d)))"

definition of_deployment :: "tables \<Rightarrow> user_record \<Rightarrow> segment \<Rightarrow> bool" where
  "of_deployment T r seg \<longleftrightarrow>
    (\<exists>i. seg = Inr i \<and> (\<exists>d \<in> t_deployments T. dpr_id d = i \<and> in_service T r (dpr_service_id d)))"

fun allowed :: "tables \<Rightarrow> user_record \<Rightarrow> endpoint \<Rightarrow> bool" where
  "allowed T r ListServers = platform_admin r"
| "allowed T r (CreateServer _) = platform_admin r"
| "allowed T r (GetServer _) = platform_admin r"
| "allowed T r (CheckServer _) = platform_admin r"
| "allowed T r (CreateWorkspace _) = platform_admin r"
| "allowed T r (FromTemplate _ _) = platform_admin r"
| "allowed T r GetSettings = platform_admin r"
| "allowed T r (UpdateSettings _) = platform_admin r"
| "allowed T r ListUsers = platform_admin r"
| "allowed T r (DisableUser _) = platform_admin r"
| "allowed T r (ReactivateUser _) = platform_admin r"
| "allowed T r (ChangeUserRole _ _) = platform_admin r"
| "allowed T r (InviteUser body) =
    (case body of Unreadable _ _ \<Rightarrow> False | Body p _ _ \<Rightarrow> may_administer T r (iq_workspace_id p))"
| "allowed T r (GetWorkspace seg) = in_workspace T r seg"
| "allowed T r (ListEnvironments seg) = in_workspace T r seg"
| "allowed T r (CreateEnvironment seg _) = in_workspace T r seg"
| "allowed T r (ListServices seg) = in_workspace T r seg"
| "allowed T r (CreateService seg _) = in_workspace T r seg"
| "allowed T r (ListCredentials seg) = in_workspace T r seg"
| "allowed T r (CreateCredential seg _) = in_workspace T r seg"
| "allowed T r (ListEnvVars seg) = in_workspace T r seg"
| "allowed T r (CreateEnvVar seg _) = in_workspace T r seg"
| "allowed T r (CreateEnvVars seg _) = in_workspace T r seg"
| "allowed T r (ListTemplates seg) = in_workspace T r seg"
| "allowed T r (CreateTemplate seg _) = in_workspace T r seg"
| "allowed T r (GetService seg) = of_service T r seg"
| "allowed T r (ListDomains seg) = of_service T r seg"
| "allowed T r (CreateDomain seg _) = of_service T r seg"
| "allowed T r (ListDeployments seg) = of_service T r seg"
| "allowed T r (TriggerDeploy seg) = of_service T r seg"
| "allowed T r (RestartService seg) = of_service T r seg"
| "allowed T r (ServiceLogs seg) = of_service T r seg"
| "allowed T r (PreviewProxy seg) = of_domain T r seg"
| "allowed T r (GetDeployment seg) = of_deployment T r seg"
| "allowed T r _ = True"

text \<open>The row a request acts for: active, and its bearer token is good for it.\<close>

definition caller ::
  "('w, 'a) ext_scheme \<Rightarrow> app_state \<Rightarrow> string option \<Rightarrow> tables \<Rightarrow> user_record \<Rightarrow> bool" where
  "caller X st authorization T r \<longleftrightarrow>
    r \<in> t_users T \<and> ur_status r = ''active'' \<and>
    (\<exists>token. bearer_token authorization = Some token \<and>
      ((\<exists>c. access_token_accepted X (auth_of_state st) T token c \<and>
          uuid_parse X (cl_sub c) = Some (ur_id r)) \<or>
       api_token_accepted X T token (ur_id r)))"

definition authorized ::
  "('w, 'a) ext_scheme \<Rightarrow> app_state \<Rightarrow> string option \<Rightarrow> tables \<Rightarrow> endpoint \<Rightarrow> bool" where
  "authorized X st authorization T ep \<longleftrightarrow>
    (\<exists>r. caller X st authorization T r \<and> allowed T r ep)"

subsection \<open>Guards\<close>

text \<open>Nothing but the last use of an API token has changed since \<open>w0\<close>.\<close>

definition only_seen :: "'w view \<Rightarrow> 'w \<Rightarrow> 'w \<Rightarrow> bool" where
  "only_seen vw w0 w \<longleftrightarrow> (\<exists>T'. vw w = (vw w0)(Conn := T') \<and> touched (vw w0 Conn) T')"

text \<open>What is answered, or changes more than that, has the property \<open>P\<close>.\<close>

definition guarded :: "'w view \<Rightarrow> 'w \<Rightarrow> bool \<Rightarrow> ('w, 'e, 'b) io \<Rightarrow> 'w \<Rightarrow> bool" where
  "guarded vw w0 P m w \<longleftrightarrow> wp m (\<lambda>_ _. P) (\<lambda>_ w'. P \<or> only_seen vw w0 w') w"

lemma guarded_granted: "P \<Longrightarrow> guarded vw w0 P m w"
  unfolding guarded_def by (rule wp_runI) simp_all

lemma guarded_throw: "only_seen vw w0 w \<Longrightarrow> guarded vw w0 P (throwE e) w"
  by (simp add: guarded_def)

lemma only_seen_refl [simp]: "only_seen vw w w"
  unfolding only_seen_def by (rule exI[of _ "vw w Conn"]) simp

lemma only_seen_same: "only_seen vw w0 w \<Longrightarrow> vw w' = vw w \<Longrightarrow> only_seen vw w0 w'"
  by (simp add: only_seen_def)

lemma only_seen_tables:
  "only_seen vw w0 w \<Longrightarrow> t_app_services (vw w Conn) = t_app_services (vw w0 Conn)"
  "only_seen vw w0 w \<Longrightarrow> t_domains (vw w Conn) = t_domains (vw w0 Conn)"
  "only_seen vw w0 w \<Longrightarrow> t_deployments (vw w Conn) = t_deployments (vw w0 Conn)"
  unfolding only_seen_def touched_def by auto

lemma guarded_lift:
  assumes "only_seen vw w0 w" and "\<And>x. r = Inr x \<Longrightarrow> guarded vw w0 P (f x) w"
  shows "guarded vw w0 P (bindE (liftE r) f) w"
  using assms by (cases r) (auto simp: guarded_throw)

lemma guarded_access:
  assumes "only_seen vw w0 w" and "can_access_workspace u i \<Longrightarrow> P"
  shows "guarded vw w0 P (bindE (liftE (ensure_workspace_access u i)) f) w"
  using assms by (intro guarded_lift) (auto intro: guarded_granted)

lemma guarded_admin:
  assumes "only_seen vw w0 w" and "u_role u = SuperAdmin \<Longrightarrow> P"
  shows "guarded vw w0 P (bindE (liftE (ensure_super_admin u)) f) w"
  using assms by (intro guarded_lift) (auto intro: guarded_granted)

lemma guarded_get_service:
  assumes "store_ok X vw" "only_seen vw w0 w"
    and "\<And>s w'. only_seen vw w0 w' \<Longrightarrow> s \<in> t_app_services (vw w0 Conn) \<Longrightarrow> asr_id s = i \<Longrightarrow>
      guarded vw w0 P (f (app_service_of s)) w'"
  shows "guarded vw w0 P (bindE (get_service X S i) f) w"
  unfolding guarded_def wp_bindE
proof (rule wp_get_service[OF assms(1)], goal_cases)
  case (1 r w')
  then show ?case
    using assms(3)[OF only_seen_same[OF assms(2) 1(1)], unfolded guarded_def]
      only_seen_tables(1)[OF assms(2)] by simp
next
  case (2 e w')
  then show ?case using only_seen_same[OF assms(2) 2(1)] by simp
qed

lemma guarded_get_domain:
  assumes "store_ok X vw" "only_seen vw w0 w"
    and "\<And>d w'. only_seen vw w0 w' \<Longrightarrow> d \<in> t_domains (vw w0 Conn) \<Longrightarrow> dr_id d = i \<Longrightarrow>
      guarded vw w0 P (f (domain_of d)) w'"
  shows "guarded vw w0 P (bindE (get_domain X S i) f) w"
  unfolding guarded_def wp_bindE
proof (rule wp_get_domain[OF assms(1)], goal_cases)
  case (1 r w')
  then show ?case
    using assms(3)[OF only_seen_same[OF assms(2) 1(1)], unfolded guarded_def]
      only_seen_tables(2)[OF assms(2)] by simp
next
  case (2 e w')
  then show ?case using only_seen_same[OF assms(2) 2(1)] by simp
qed

lemma guarded_get_deployment:
  assumes "store_ok X vw" "only_seen vw w0 w"
    and "\<And>r d w'. only_seen vw w0 w' \<Longrightarrow> r \<in> t_deployments (vw w0 Conn) \<Longrightarrow> dpr_id r = i \<Longrightarrow>
      dp_service_id d = dpr_service_id r \<Longrightarrow> guarded vw w0 P (f d) w'"
  shows "guarded vw w0 P (bindE (get_deployment X S i) f) w"
  unfolding guarded_def wp_bindE
proof (rule wp_get_deployment[OF assms(1)], goal_cases)
  case (1 r d w')
  then show ?case
    using assms(3)[OF only_seen_same[OF assms(2) 1(1)], unfolded guarded_def]
      only_seen_tables(3)[OF assms(2)]
    by (auto simp: deployment_read_def deployment_of_def)
next
  case (2 e w')
  then show ?case using only_seen_same[OF assms(2) 2(1)] by simp
qed

text \<open>The extractors: the caller has a row, and its value has the rights of the row.\<close>

lemma authenticated_caller:
  "authenticated X (auth_of_state st) token T u \<Longrightarrow> bearer_token authorization = Some token \<Longrightarrow>
    \<exists>r. caller X st authorization T r \<and> user_matches T r u"
  by (auto simp: authenticated_def caller_def)

lemma guarded_current_user:
  assumes "store_ok X vw"
    and f: "\<And>r u w'. only_seen vw w w' \<Longrightarrow> caller X st authorization (vw w Conn) r \<Longrightarrow>
      user_matches (vw w Conn) r u \<Longrightarrow> guarded vw w P (f u) w'"
  shows "guarded vw w P (bindE (current_user X st authorization) f) w"
  unfolding guarded_def wp_bindE
proof (rule wp_current_user[OF assms(1)], goal_cases)
  case (1 u w' T' token)
  obtain r where "caller X st authorization (vw w Conn) r" "user_matches (vw w Conn) r u"
    using authenticated_caller[OF 1(4,3)] by blast
  moreover have "only_seen vw w w'" unfolding only_seen_def using 1(1,2) by blast
  ultimately show ?case using f unfolding guarded_def by blast
next
  case (2 e w' T')
  then show ?case unfolding only_seen_def by blast
qed

lemma super_admin_iff: "user_matches T r u \<Longrightarrow> u_role u = SuperAdmin \<longleftrightarrow> platform_admin r"
  by (simp add: user_matches_sel platform_admin_def codec_simps)

lemma guarded_admin_user:
  assumes "store_ok X vw"
    and "\<And>r. caller X st authorization (vw w Conn) r \<Longrightarrow> platform_admin r \<Longrightarrow> P"
  shows "guarded vw w P (bindE (admin_user X st authorization) f) w"
proof -
  have "guarded vw w P (bindE (bindE (current_user X st authorization) (\<lambda>user.
      if u_role user \<noteq> SuperAdmin then throwE (Api Forbidden) else returnE user)) f) w"
    unfolding bindE_assoc
  proof (rule guarded_current_user[OF assms(1)], goal_cases)
    case (1 r u w')
    then have "u_role u = SuperAdmin \<Longrightarrow> P"
      using assms(2) super_admin_iff by blast
    then show ?case using 1(1) by (auto intro: guarded_granted guarded_throw)
  qed
  then show ?thesis unfolding admin_user_def .
qed

subsection \<open>Every endpoint keeps its rule\<close>

lemma guarded_path:
  assumes "\<And>i. seg = Inr i \<Longrightarrow> guarded vw w P (f i) w"
  shows "guarded vw w P (bindE (liftE (path_uuid seg)) f) w"
  using assms by (intro guarded_lift) (auto simp: path_uuid_def)

lemma guarded_json:
  assumes "only_seen vw w0 w" and "\<And>p s t. body = Body p s t \<Longrightarrow> guarded vw w0 P (f p) w"
  shows "guarded vw w0 P (bindE (liftE (valid_json ok body)) f) w"
  using assms by (intro guarded_lift) (auto simp: valid_json_def split: body.splits if_splits)

lemma guarded_service_access:
  assumes "store_ok X vw" "only_seen vw w0 w" and "user_matches (vw w0 Conn) r u"
    and "in_service (vw w0 Conn) r i \<Longrightarrow> P"
  shows "guarded vw w0 P (bindE (get_service X S i) (\<lambda>service.
      bindE (liftE (ensure_workspace_access u (sc_workspace_id service))) (f service))) w"
proof (rule guarded_get_service[OF assms(1,2)], rule guarded_access, assumption, goal_cases)
  case (1 s w')
  then have "in_service (vw w0 Conn) r i"
    using can_access_workspace_iff[OF assms(3)] unfolding in_service_def by auto
  then show ?case by (rule assms(4))
qed

lemma guarded_invite:
  assumes "only_seen vw w0 w"
    and "can_administer_workspace (ii_inviter input) (ii_workspace_id input) \<Longrightarrow> P"
  shows "guarded vw w0 P (bindE (invite_user X S input) f) w"
proof (cases "ii_role input \<noteq> SuperAdmin \<and>
    can_administer_workspace (ii_inviter input) (ii_workspace_id input)")
  case True
  then have P using assms(2) by simp
  then show ?thesis by (rule guarded_granted)
next
  case False
  then obtain e where "invite_user X S input w = (Inl e, w)"
    using invite_user_refused by metis
  then show ?thesis using assms(1) by (simp add: guarded_def wp_def bindE_def)
qed

lemmas route_defs =
  me_route_def list_api_tokens_route_def create_api_token_route_def revoke_api_token_route_def
  list_users_route_def invite_user_route_def disable_user_route_def reactivate_user_route_def
  change_user_role_route_def get_settings_route_def update_settings_route_def
  list_workspaces_route_def create_workspace_route_def get_workspace_route_def
  list_environments_route_def create_environment_route_def list_services_route_def
  create_service_route_def get_service_route_def list_credentials_route_def
  create_credential_route_def list_env_vars_route_def create_env_var_route_def
  create_env_vars_route_def list_domains_route_def create_domain_route_def
  preview_proxy_route_def list_deployments_route_def trigger_deploy_route_def
  get_deployment_route_def restart_service_route_def service_logs_route_def
  list_workspace_templates_route_def create_template_route_def
  create_workspaces_from_template_route_def list_servers_route_def create_server_route_def
  get_server_route_def check_server_route_def

lemmas scope_defs =
  in_workspace_def of_service_def of_domain_def of_deployment_def

lemma serve_guarded:
  assumes store: "store_ok X vw" and "\<not> public_endpoint ep"
  shows "guarded vw w (authorized X st authorization (vw w Conn) ep) (serve X st authorization ep) w"
  using assms(2)
proof (cases ep)
  case (InviteUser body)
  then show ?thesis
    by (auto simp: authorized_def reply_as_def route_defs bindE_assoc can_administer_workspace_iff
        intro!: guarded_current_user[OF store] guarded_json guarded_invite)
qed (auto simp: authorized_def reply_as_def route_defs bindE_assoc scope_defs can_access_workspace_iff
        super_admin_iff
        intro!: guarded_path guarded_json guarded_access guarded_admin guarded_current_user[OF store]
         guarded_admin_user[OF store] guarded_service_access[OF store]
         guarded_get_domain[OF store] guarded_get_deployment[OF store]
        intro: guarded_granted, blast+)

end
