(* ===== verification/Worker.thy ===== *)
theory Worker
  imports Servers Config
begin

section \<open>Queues and the scheduled worker\<close>

text \<open>
  \<open>services/queues.rs\<close> and the loop of \<open>bin/temporal_worker.rs\<close>, with the activity it runs
  (\<open>services/activities/server_checks.rs\<close>).  A tick of its timer, the end of the checks it starts
  and a signal to stop are events; a run is a list of events.
\<close>

datatype queue_name = High | Default | Heavy

fun as_task_queue :: "queue_name \<Rightarrow> string" where
  "as_task_queue High = ''high''"
| "as_task_queue Default = ''default''"
| "as_task_queue Heavy = ''heavy''"

definition queue_name_of :: "string \<Rightarrow> string + queue_name" where
  "queue_name_of value =
    (if value = ''high'' then Inr High
     else if value = ''default'' then Inr Default
     else if value = ''heavy'' then Inr Heavy
     else Inl ''unsupported queue'')"

text \<open>The first argument of the worker names its queue.\<close>

definition queue_of_args :: "string list \<Rightarrow> wara_error + queue_name" where
  "queue_of_args args =
    (case args of
       _ # value # _ \<Rightarrow> map_err InvalidQueue (queue_name_of value)
     | _ \<Rightarrow> Inr Default)"

lemma queue_round: "queue_name_of (as_task_queue q) = Inr q"
  by (cases q) (simp_all add: queue_name_of_def)

lemma queue_name_of_ok: "queue_name_of s = Inr q \<longleftrightarrow> s = as_task_queue q"
  by (cases q) (auto simp: queue_name_of_def)

text \<open>
  A worker queue has exactly one name: the first argument of the worker names a queue if and
  only if it is the name that queue prints, no argument means the default queue, and any other
  text is an error.
\<close>

lemma queue_argument:
  "queue_of_args (program # args) =
    (case args of [] \<Rightarrow> Inr Default
     | value # _ \<Rightarrow>
        (if value = as_task_queue High then Inr High
         else if value = as_task_queue Default then Inr Default
         else if value = as_task_queue Heavy then Inr Heavy
         else Inl (InvalidQueue ''unsupported queue''))) \<and>
   queue_of_args [program, as_task_queue q] = Inr q"
  by (cases q) (auto simp: queue_of_args_def queue_name_of_def split: list.split)

subsection \<open>The activity and the loop\<close>

record server_check_activities =
  sca_service :: server_service

definition new_server_check_activities :: "database \<Rightarrow> string \<Rightarrow> server_check_activities" where
  "new_server_check_activities d secret_key =
    \<lparr>sca_service = \<lparr>svs_db = d, svs_secret_key = secret_key\<rparr>\<rparr>"

definition activity_check_all_servers ::
  "('w, 'a) ext_scheme \<Rightarrow> server_check_activities \<Rightarrow> ('w, exn, server_check_response list) io" where
  "activity_check_all_servers X A = check_all_servers X (sca_service A)"

text \<open>
  What happens to the worker while it runs: its timer is taken, the checks of a round come to their
  end, or a signal to stop arrives.
\<close>

datatype worker_event = Tick | Round_Done | Signal

text \<open>
  The loop over what happens.  Each turn of the loop waits for the timer and for a signal; when the
  timer is taken, the other future is dropped and the checks run inside the turn.  Nothing
  listens while they do (\<open>busy\<close>): a signal that arrives then is lost, because the next turn
  makes a new future, which only sees later signals.  The timer is not taken either; that branch is
  there for lists that are no runs.  An error of the checks is logged.  The value says whether the
  loop has ended; it goes on when nothing happens any more.  A signal before the first future has
  been polled is left to the operating system, and is no event.
\<close>

fun worker_loop ::
  "('w, 'a) ext_scheme \<Rightarrow> server_check_activities \<Rightarrow> bool \<Rightarrow> worker_event list \<Rightarrow>
   ('w, exn, bool) io" where
  "worker_loop X A busy [] = returnE False"
| "worker_loop X A busy (Signal # events) =
    (if busy then worker_loop X A True events else returnE True)"
| "worker_loop X A busy (Round_Done # events) = worker_loop X A False events"
| "worker_loop X A busy (Tick # events) =
    (if busy then worker_loop X A True events
     else matchE (activity_check_all_servers X A)
       (\<lambda>_. worker_loop X A True events)
       (\<lambda>error. case error of Api _ \<Rightarrow> worker_loop X A True events | _ \<Rightarrow> throwE error))"

text \<open>With an interval of zero the process waits for one signal, from its start on.\<close>

definition run_server_connectivity_workflow ::
  "('w, 'a) ext_scheme \<Rightarrow> config \<Rightarrow> database \<Rightarrow> worker_event list \<Rightarrow> ('w, exn, bool) io" where
  "run_server_connectivity_workflow X config d events =
    (if cfg_server_connectivity_check_interval_seconds config = 0
     then returnE (Signal \<in> set events)
     else worker_loop X (new_server_check_activities d (cfg_secret_key config)) False events)"

subsection \<open>Which signals are heard\<close>

text \<open>A round is running when the timer has been taken and no round has ended since.\<close>

definition round_running :: "worker_event list \<Rightarrow> bool" where
  "round_running past \<longleftrightarrow> (\<exists>before since. past = before @ Tick # since \<and> Round_Done \<notin> set since)"

text \<open>A signal is heard if it arrives while no round is running.\<close>

definition signal_heard :: "worker_event list \<Rightarrow> bool" where
  "signal_heard events \<longleftrightarrow>
    (\<exists>past later. events = past @ Signal # later \<and> \<not> round_running past)"

text \<open>The same, read from the left, as the loop does.\<close>

fun hears :: "bool \<Rightarrow> worker_event list \<Rightarrow> bool" where
  "hears busy [] = False"
| "hears busy (Signal # events) = (\<not> busy \<or> hears busy events)"
| "hears busy (Round_Done # events) = hears False events"
| "hears busy (Tick # events) = hears True events"

lemma round_running_Nil [simp]: "\<not> round_running []"
  by (simp add: round_running_def)

lemma round_running_snoc [simp]:
  "round_running (past @ [e]) = (e = Tick \<or> e \<noteq> Round_Done \<and> round_running past)"
proof (cases "e = Tick")
  case True
  then have "past @ [e] = past @ Tick # [] \<and> Round_Done \<notin> set []" by simp
  then show ?thesis using True unfolding round_running_def by blast
next
  case False
  have "(\<exists>before since. past @ [e] = before @ Tick # since \<and> Round_Done \<notin> set since) \<longleftrightarrow>
      e \<noteq> Round_Done \<and> (\<exists>before since. past = before @ Tick # since \<and> Round_Done \<notin> set since)"
    (is "?l \<longleftrightarrow> ?r")
  proof
    assume ?l
    then obtain b s where eq: "past @ [e] = b @ Tick # s" and s: "Round_Done \<notin> set s" by blast
    with False obtain s' where "s = s' @ [e]" by (cases s rule: rev_cases) auto
    with eq s show ?r by auto
  next
    assume ?r
    then obtain b s where "past @ [e] = b @ Tick # (s @ [e])" "Round_Done \<notin> set (s @ [e])" by auto
    then show ?l by blast
  qed
  then show ?thesis using False unfolding round_running_def by simp
qed

lemma hears_heard:
  "hears (round_running past) events \<longleftrightarrow>
    (\<exists>more later. events = more @ Signal # later \<and> \<not> round_running (past @ more))"
proof (induction events arbitrary: past)
  case Nil
  then show ?case by simp
next
  case (Cons e events)
  have split: "(\<exists>more later. e # events = more @ Signal # later \<and> \<not> round_running (past @ more)) \<longleftrightarrow>
      e = Signal \<and> \<not> round_running past \<or>
      (\<exists>more later. events = more @ Signal # later \<and> \<not> round_running ((past @ [e]) @ more))"
    by (auto simp: Cons_eq_append_conv)
  show ?case
    unfolding split Cons.IH[of "past @ [e]", symmetric] by (cases e) auto
qed

lemma hears_iff: "hears False events = signal_heard events"
  using hears_heard[of "[]" events] by (simp add: signal_heard_def)

subsection \<open>The worker survives every check\<close>

lemma wp_worker_loop:
  assumes "store_ok X vw"
    and "\<And>w' T'. vw w' = (vw w)(Conn := T') \<Longrightarrow> checks_only (vw w Conn) T' \<Longrightarrow>
      Q (hears busy events) w'"
  shows "wp (worker_loop X A busy events) Q E w"
  using assms(2)
proof (induction events arbitrary: busy w)
  case Nil
  show ?case using Nil[of w "vw w Conn"] by simp
next
  case (Cons e events)
  have go: "wp (worker_loop X A c events) Q E w1"
    if "vw w1 = (vw w)(Conn := T1)" "checks_only (vw w Conn) T1"
      "hears c events = hears busy (e # events)" for c w1 T1
  proof (rule Cons.IH)
    fix w2 T2 assume "vw w2 = (vw w1)(Conn := T2)" "checks_only (vw w1 Conn) T2"
    then show "Q (hears c events) w2"
      using that by (simp del: hears.simps) (intro Cons.prems[of w2 T2]; auto intro: checks_only_trans)
  qed
  have same: "vw w = (vw w)(Conn := vw w Conn)" "checks_only (vw w Conn) (vw w Conn)" by simp_all
  show ?case
  proof (cases e)
    case Signal
    then show ?thesis using Cons.prems[of w "vw w Conn"] go[OF same, of True] by (cases busy) simp_all
  next
    case Round_Done
    then show ?thesis using go[OF same, of False] by simp
  next
    case Tick
    show ?thesis
    proof (cases busy)
      case True
      then show ?thesis using Tick go[OF same, of True] by simp
    next
      case False
      have round: "wp (check_all_servers X (sca_service A)) (\<lambda>_. wp (worker_loop X A True events) Q E)
          (\<lambda>error. wp (case error of Api _ \<Rightarrow> worker_loop X A True events | _ \<Rightarrow> throwE error) Q E) w"
      proof (rule wp_check_all_servers[OF assms(1)], goal_cases)
        case (1 rs cs w1 T1)
        then show ?case using Tick by (intro go) simp_all
      next
        case (2 er w1)
        then have "wp (worker_loop X A True events) Q E w1"
          using Tick by (intro go[of w1 "vw w Conn"]) simp_all
        then show ?case using 2(2) by (auto simp: server_error_def)
      qed
      then show ?thesis using Tick False by (simp add: activity_check_all_servers_def)
    qed
  qed
qed

end
