(* ===== verification/Platform.thy ===== *)
theory Platform
  imports Transitions Authorization Worker
begin

section \<open>What the backend runs is a sequence of transitions\<close>

text \<open>
  The refinement of \<open>Transitions\<close>: whatever a request, a start-up or the worker does to the stored
  rows, also when it fails half way, is a sequence of moves.  Requests and rounds of the worker
  are taken one after the other.
\<close>

definition moves :: "('w, 'a) ext_scheme \<Rightarrow> 'w view \<Rightarrow> 'w \<Rightarrow> 'w \<Rightarrow> bool" where
  "moves X vw w w' \<longleftrightarrow> (move X)\<^sup>*\<^sup>* (vw w Conn) (vw w' Conn)"

definition refined :: "('w, 'a) ext_scheme \<Rightarrow> 'w view \<Rightarrow> ('w, 'e, 'b) io \<Rightarrow> bool" where
  "refined X vw m \<longleftrightarrow> (\<forall>w. wp m (\<lambda>_. moves X vw w) (\<lambda>_. moves X vw w) w)"

lemma moves_same: "vw w' Conn = vw w Conn \<Longrightarrow> moves X vw w w'"
  by (simp add: moves_def)

lemma moves_move: "move X (vw w Conn) (vw w' Conn) \<Longrightarrow> moves X vw w w'"
  unfolding moves_def by (rule r_into_rtranclp)

lemma moves_eq: "vw w' = vw w \<Longrightarrow> moves X vw w w'"
  by (simp add: moves_def)

lemma moves_at: "vw w' Conn = T' \<Longrightarrow> move X (vw w Conn) T' \<Longrightarrow> moves X vw w w'"
  by (simp add: moves_move)

lemma moves_upd: "vw w' = (vw w)(Conn := T') \<Longrightarrow> move X (vw w Conn) T' \<Longrightarrow> moves X vw w w'"
  by (simp add: moves_move)

lemmas moves_rules = moves_same moves_eq moves_at moves_upd

lemma moves_trans: "moves X vw w1 w2 \<Longrightarrow> moves X vw w2 w3 \<Longrightarrow> moves X vw w1 w3"
  by (simp add: moves_def)

lemma refinedI:
  "(\<And>w. wp m (\<lambda>_. moves X vw w) (\<lambda>_. moves X vw w) w) \<Longrightarrow> refined X vw m"
  by (simp add: refined_def)

lemma refined_bind:
  assumes "refined X vw m" and "\<And>x. refined X vw (f x)"
  shows "refined X vw (bindE m f)"
proof (rule refinedI)
  fix w
  have "wp m (\<lambda>x. wp (f x) (\<lambda>_. moves X vw w) (\<lambda>_. moves X vw w)) (\<lambda>_. moves X vw w) w"
    by (rule wp_mono[of m "\<lambda>_. moves X vw w" "\<lambda>_. moves X vw w"])
      (use assms in \<open>auto simp: refined_def intro: moves_trans wp_mono\<close>)
  then show "wp (bindE m f) (\<lambda>_. moves X vw w) (\<lambda>_. moves X vw w) w" by simp
qed

lemma refined_simple [simp]:
  "refined X vw (returnE x)" "refined X vw (throwE e)" "refined X vw (liftE r)"
  by (simp_all add: refined_def moves_def split: sum.split)

lemma refined_handled:
  "refined X vw m \<Longrightarrow> refined X vw (matchE m (\<lambda>x. returnE (f x)) (\<lambda>e. returnE (g e)))"
  by (simp add: refined_def)

subsection \<open>The operations\<close>

text \<open>Operations that only read.\<close>

lemma refined_mapE: "(\<And>x. refined X vw (f x)) \<Longrightarrow> refined X vw (mapE f xs)"
  by (induction xs) (auto intro!: refined_bind)

lemma refined_reads [simp]:
  assumes "store_ok X vw"
  shows "refined X vw (list_workspaces X W)" "refined X vw (get_workspace X W i)"
    "refined X vw (list_accessible_workspaces X W u)" "refined X vw (list_environments X W i)"
    "refined X vw (list_services X A i)" "refined X vw (get_service X A i)"
    "refined X vw (list_credentials X C i)" "refined X vw (list_domains X D i)"
    "refined X vw (get_domain X D i)" "refined X vw (list_deployments X P i)"
    "refined X vw (get_deployment X P i)" "refined X vw (list_workspace_templates X M i)"
    "refined X vw (get_template X M i)" "refined X vw (list_servers X S)"
    "refined X vw (get_server X S i)" "refined X vw (list_api_tokens X U u)"
    "refined X vw (user_from_record X U r)"
  by (rule refinedI, (rule wp_list_workspaces[OF assms] wp_get_workspace[OF assms]
      wp_list_accessible_workspaces[OF assms] wp_list_environments[OF assms]
      wp_list_services[OF assms] wp_get_service[OF assms] wp_list_credentials[OF assms]
      wp_list_domains[OF assms] wp_get_domain[OF assms] wp_list_deployments[OF assms]
      wp_get_deployment[OF assms] wp_list_workspace_templates[OF assms] wp_get_template[OF assms]
      wp_list_servers[OF assms] wp_get_server[OF assms] wp_list_api_tokens[OF assms]
      wp_user_from_record[OF assms]), simp_all add: moves_same; fail)+

lemma refined_selects [simp]:
  assumes "store_ok X vw"
  shows "refined X vw (list_env_vars X C i)" "refined X vw (jwks_keys_of X U)"
  unfolding list_env_vars_def jwks_keys_of_def refined_def
  by (auto intro!: wp_select[OF assms] moves_same)

lemma refined_list_users [simp]:
  assumes "store_ok X vw"
  shows "refined X vw (list_users X U)"
  unfolding list_users_def
  by (intro refined_bind refined_mapE refined_reads[OF assms])
    (auto simp: refined_def intro!: wp_select[OF assms] moves_same)

text \<open>Operations of one step.\<close>

lemma env_var_made:
  "env_var_scope T i \<Longrightarrow> env_var_rows X C [i] T [r] \<Longrightarrow> move X T (add_env_vars [r] T)"
  by (rule env_vars_made[of "[i]"]) simp_all

lemma refined_creates [simp]:
  assumes "store_ok X vw"
  shows "refined X vw (create_environment X W i name)" "refined X vw (create_service X A svc)"
    "refined X vw (create_credential X C cred)" "refined X vw (create_env_var X C var)"
    "refined X vw (create_domain X D site)" "refined X vw (create_template X M tpl)"
    "refined X vw (create_server X S srv)"
proof -
  show "refined X vw (create_environment X W i name)"
    by (rule refinedI, rule wp_create_environment[OF assms])
      (blast intro: moves_rules environment_made)+
  show "refined X vw (create_service X A svc)"
    by (rule refinedI, rule wp_create_service[OF assms])
      (blast intro: moves_rules service_made)+
  show "refined X vw (create_credential X C cred)"
    by (rule refinedI, rule wp_create_credential[OF assms])
      (blast intro: moves_rules credential_made)+
  show "refined X vw (create_env_var X C var)"
    by (rule refinedI, rule wp_create_env_var[OF assms])
      (blast intro: moves_rules env_var_made)+
  show "refined X vw (create_domain X D site)"
    by (rule refinedI, rule wp_create_domain[OF assms])
      (blast intro: moves_rules domain_made)+
  show "refined X vw (create_template X M tpl)"
    by (rule refinedI, rule wp_create_template[OF assms])
      (blast intro: moves_rules template_made)+
  show "refined X vw (create_server X S srv)"
    by (rule refinedI, rule wp_create_server[OF assms])
      (blast intro: moves_rules server_made)+
qed

lemma refined_create_env_vars [simp]:
  assumes "store_ok X vw"
  shows "refined X vw (create_env_vars X C vars)"
  by (rule refinedI, rule wp_create_env_vars[OF assms])
    (blast intro: moves_rules env_vars_made)+

lemma refined_create_workspace [simp]:
  assumes "store_ok X vw"
  shows "refined X vw (create_workspace X W name d)"
  by (rule refinedI, rule wp_create_workspace[OF assms])
    (blast intro: moves_rules founded)+

lemma created_chain_moves:
  "created_chain d names T xs T' \<Longrightarrow> (move X)\<^sup>*\<^sup>* T T'"
  by (induction rule: created_chain.induct) (auto intro: rtranclp.rtrancl_into_rtrancl founded)

lemma refined_create_workspaces_from_template [simp]:
  assumes "store_ok X vw"
  shows "refined X vw (create_workspaces_from_template X M input)"
  by (rule refinedI, rule wp_create_workspaces_from_template[OF assms])
    (auto intro: moves_same simp: moves_def dest: created_chain_moves)

lemma recorded_row: "preview.recorded X i cs T r \<Longrightarrow> \<exists>status transcript.
    deployment_row i status transcript T r"
  unfolding preview.recorded_def by blast

lemma refined_deploys [simp]:
  assumes "store_ok X vw"
  shows "refined X vw (trigger_deploy X (new_deployment_service db config) i)"
    and "refined X vw (restart_service X (new_deployment_service db config) i)"
proof -
  let ?S = "new_deployment_service db config"
  have run: "dps_executor ?S = preview_run" by (simp add: new_deployment_service_def)
  have row: "moves X vw w w'"
    if "s \<in> t_app_services (vw w Conn)" "asr_id s = i"
      "vw w' = (vw w)(Conn := add_deployment r (vw w Conn))"
      "preview.recorded X i cs (vw w Conn) r" for s cs r and w w'
    using recorded_row[OF that(4)] deployed[of s "vw w Conn" _ _ r X] that(1-3)
    by (auto intro: moves_move)
  show "refined X vw (trigger_deploy X ?S i)"
    by (rule refinedI, rule preview.wp_trigger_deploy[OF assms run])
      (use row in \<open>blast intro: moves_same\<close> | simp add: moves_same)+
  show "refined X vw (restart_service X ?S i)"
    by (rule refinedI, rule preview.wp_restart_service[OF assms run])
      (use row in \<open>blast intro: moves_same\<close> | simp add: moves_same)+
qed

lemma refined_check_server [simp]:
  assumes "store_ok X vw"
  shows "refined X vw (check_server X S i)"
  by (rule refinedI, rule wp_check_server[OF assms])
    (auto intro!: moves_move checked simp: check_recorded_def record_check_only)

lemma refined_worker [simp]:
  assumes "store_ok X vw"
  shows "refined X vw (worker_loop X A busy events)"
  by (rule refinedI, rule wp_worker_loop[OF assms]) (blast intro: moves_rules checked)+

lemma refined_current_user [simp]:
  assumes "store_ok X vw"
  shows "refined X vw (current_user X st authorization)"
  by (rule refinedI, rule wp_current_user[OF assms]) (blast intro: moves_rules seen)+

lemma refined_admin_user [simp]:
  assumes "store_ok X vw"
  shows "refined X vw (admin_user X st authorization)"
  by (rule refinedI, rule wp_admin_user[OF assms]) (blast intro: moves_rules seen)+

lemma refined_login [simp]:
  assumes "store_ok X vw"
  shows "refined X vw (login X U input)"
  by (rule refinedI, rule wp_login[OF assms])
    (auto intro: moves_rules session_opened simp: credentials_ok_def)

lemma refined_refresh_session [simp]:
  assumes "store_ok X vw"
  shows "refined X vw (refresh_session X U input)"
  by (rule refinedI, rule wp_refresh_session[OF assms])
    (blast intro: moves_rules session_rotated)+

lemma refined_logout [simp]:
  assumes "store_ok X vw"
  shows "refined X vw (logout X U input)"
  by (rule refinedI, rule wp_logout[OF assms])
    (blast intro: moves_rules session_closed)+

lemma refined_invite_user [simp]:
  assumes "store_ok X vw"
  shows "refined X vw (invite_user X U input)"
  by (rule refinedI, rule wp_invite_user[OF assms]) (blast intro: moves_rules invited)+

lemma refined_accept_invite [simp]:
  assumes "store_ok X vw"
  shows "refined X vw (accept_invite X U input)"
  by (rule refinedI, rule wp_accept_invite[OF assms]) (blast intro: moves_rules accepted)+

lemma refined_revoke_api_token [simp]:
  assumes "store_ok X vw"
  shows "refined X vw (revoke_api_token X U u i)"
  by (rule refinedI, rule wp_revoke_api_token[OF assms])
    (blast intro: moves_rules token_revoked)+

lemma refined_disable_user [simp]:
  assumes "store_ok X vw"
  shows "refined X vw (disable_user X U i)"
  by (rule refinedI, rule wp_disable_user[OF assms]) (blast intro: moves_rules disabled)+

lemma refined_reactivate_user [simp]:
  assumes "store_ok X vw"
  shows "refined X vw (reactivate_user X U i)"
  by (rule refinedI, rule wp_reactivate_user[OF assms])
    (blast intro: moves_rules reactivated)+

lemma refined_change_user_role [simp]:
  assumes "store_ok X vw"
  shows "refined X vw (change_user_role X U input)"
  by (rule refinedI, rule wp_change_user_role[OF assms])
    (blast intro: moves_rules role_changed)+

text \<open>A new API token is its owner's: the caller has a row.\<close>

lemma touched_users: "touched T T' \<Longrightarrow> t_users T' = t_users T"
  by (auto dest!: touched_only_tokens)

lemma refined_create_api_token_route [simp]:
  assumes "store_ok X vw"
  shows "refined X vw (create_api_token_route X st authorization body)"
proof (rule refinedI)
  fix w
  have make: "wp (create_api_token X U \<lparr>ca_user = u, ca_name = n\<rparr>) (\<lambda>_. moves X vw w)
      (\<lambda>_. moves X vw w) w'"
    if "vw w' = (vw w)(Conn := T')" "touched (vw w Conn) T'" "r \<in> t_users (vw w Conn)"
      "u_id u = ur_id r" for U u n w' T' r
  proof -
    have before: "moves X vw w w'" using that(1,2) by (simp add: moves_move seen)
    have r: "r \<in> t_users (vw w' Conn)" using that touched_users[OF that(2)] by simp
    have owner: "u_id (ca_user \<lparr>ca_user = u, ca_name = n\<rparr>) = ur_id r" using that(4) by simp
    have "wp (create_api_token X U \<lparr>ca_user = u, ca_name = n\<rparr>) (\<lambda>_. moves X vw w')
      (\<lambda>_. moves X vw w') w'"
      by (rule wp_create_api_token[OF assms])
        (blast intro: moves_rules token_made[OF r owner])+
    then show ?thesis by (rule wp_mono) (auto intro: moves_trans[OF before])
  qed
  show "wp (create_api_token_route X st authorization body) (\<lambda>_. moves X vw w)
      (\<lambda>_. moves X vw w) w"
    unfolding create_api_token_route_def wp_bindE[of "current_user _ _ _"]
  proof (rule wp_current_user[OF assms], goal_cases)
    case (1 u w' T' token)
    then obtain r where r: "r \<in> t_users (vw w Conn)" "u_id u = ur_id r"
      using user_matches_sel unfolding authenticated_def by blast
    have "moves X vw w w'" using 1(1,2) by (simp add: moves_move seen)
    then show ?case using make[OF 1(1,2) r] by (simp split: sum.split)
  next
    case (2 e w' T')
    then show ?case by (simp add: moves_move seen)
  qed
qed

subsection \<open>Requests, start-up and the worker\<close>

lemma refined_invite [simp]:
  "store_ok X vw \<Longrightarrow> refined X vw (bindE (invite_user X U input) (\<lambda>out. returnE (f out)))"
  by (simp add: refined_bind)

lemma refined_serve:
  assumes "store_ok X vw"
  shows "refined X vw (serve X st authorization ep)"
proof (cases ep)
  case (CreateApiToken body)
  then show ?thesis using assms by (simp add: reply_as_def refined_bind)
qed (auto simp: reply_as_def route_defs login_route_def refresh_session_route_def logout_route_def
      accept_invite_route_def assms intro!: refined_bind)

lemma refined_request:
  assumes "store_ok X vw"
  shows "refined X vw (answer_request X st D h)"
proof -
  have api: "refined X vw (serve_api X st D h path)" for path
    unfolding serve_api_def run_route_def
    by (rule refined_handled) (auto simp: refined_serve[OF assms] split: dispatched.split)
  have keys: "refined X vw (matchE (jwks_route X st) (\<lambda>k. returnE (Keys k)) (\<lambda>e. returnE (f e)))" for f
    by (rule refined_handled) (simp add: jwks_route_def assms)
  show ?thesis
    unfolding answer_request_def by (auto simp: api keys split: list.split)
qed

text \<open>Start-up may leave the keys half switched, and it makes the first admin last.\<close>

lemma refined_bootstrap:
  assumes "store_ok X vw" "keys_unique (vw w Conn)"
  shows "wp (bootstrap_admin X U) (\<lambda>_. moves X vw w) (\<lambda>_. moves X vw w) w"
proof -
  have both: "moves X vw w w'"
    if "vw w' = (vw w)(Conn := add_user u T)" "keys_synced n e (vw w Conn) T"
      "t_users (vw w Conn) = {}" "bootstrap_row X (as_config U) u" for u T n e w'
  proof -
    have "keys_partly_synced n e (vw w Conn) T" using that(2) by (simp add: keys_partly_synced_def)
    then have "move X (vw w Conn) T" by (rule keyed)
    moreover have "t_users T = {}" using that(2,3) by (auto simp: keys_synced_def)
    moreover from this have "move X T (vw w' Conn)"
      using that(1,4) by (simp add: admin_made)
    ultimately show ?thesis
      unfolding moves_def by (meson converse_rtranclp_into_rtranclp r_into_rtranclp)
  qed
  have synced: "move X T T'" if "keys_synced n e T T'" for n e T T'
    using that by (auto intro: keyed simp: keys_partly_synced_def)
  show ?thesis
    by (rule wp_bootstrap_admin[OF assms])
      (blast intro: both moves_rules keyed synced)+
qed

subsection \<open>Reachable worlds\<close>

text \<open>
  A step of the installation: a start-up, a request or a run of the worker, each under any
  configuration, and whether it succeeds or fails.
\<close>

inductive step :: "('w, 'a) ext_scheme \<Rightarrow> 'w \<Rightarrow> 'w \<Rightarrow> bool" for X where
  starts: "bootstrap_admin X U w = (r, w') \<Longrightarrow> step X w w'"
| requests: "answer_request X st (D :: string decoders) h w = (r, w') \<Longrightarrow> step X w w'"
| checks: "run_server_connectivity_workflow X config db events w = (r, w') \<Longrightarrow> step X w w'"

inductive_cases stepE: "step X w w'"

lemma wp_result: "wp m (\<lambda>_. P) (\<lambda>_. P) w \<Longrightarrow> m w = (r, w') \<Longrightarrow> P w'"
  by (cases r) (auto simp: wp_def)

lemma refinedD: "refined X vw m \<Longrightarrow> m w = (r, w') \<Longrightarrow> moves X vw w w'"
  using wp_result[of m "moves X vw w" w] unfolding refined_def by blast

lemma step_moves:
  assumes "store_ok X vw" "step X w w'" "keys_unique (vw w Conn)"
  shows "moves X vw w w'"
  using assms(2)
proof (cases rule: step.cases)
  case (starts U r)
  then show ?thesis using wp_result[OF refined_bootstrap[OF assms(1,3)]] by simp
next
  case (requests st D h r)
  then show ?thesis by (rule refinedD[OF refined_request[OF assms(1)]])
next
  case (checks config db events r)
  have "refined X vw (run_server_connectivity_workflow X config db events)"
    unfolding run_server_connectivity_workflow_def using assms(1) by simp
  from refinedD[OF this checks] show ?thesis .
qed

lemma moves_keys: "moves X vw w w' \<Longrightarrow> keys_unique (vw w Conn) \<Longrightarrow> keys_unique (vw w' Conn)"
  unfolding moves_def by (induction rule: rtranclp_induct) (auto intro: keys_unique_move)

text \<open>An invariant of the transitions is one of the installation.\<close>

context kept
begin

lemma steps_keep:
  assumes "store_ok X vw" "(step X)\<^sup>*\<^sup>* w w'" "keys_unique (vw w Conn)" "I (vw w Conn)"
  shows "I (vw w' Conn)"
proof -
  have "keys_unique (vw w' Conn) \<and> moves X vw w w'"
    using assms(2)
  proof (induction rule: rtranclp_induct)
    case base
    then show ?case using assms(3) by (simp add: moves_same)
  next
    case (step y z)
    then have "moves X vw y z" using step_moves[OF assms(1)] by blast
    then show ?case using step.IH moves_keys moves_trans by metis
  qed
  then show ?thesis using run_keeps assms(4) unfolding moves_def by blast
qed

end

end
