(* ===== verification/Reference.thy ===== *)
theory Reference
  imports Config
begin

section \<open>One concrete choice of the parameters\<close>

text \<open>
  A database in memory, a clock that counts, identifiers in sequence, and small executable
  stand-ins for the packages.  It satisfies the laws the theorems assume (\<open>ref_store_ok\<close> and the
  lemmas next to it), so none of them is vacuous: the witnesses instantiate their theorems here.
  Nothing of the model depends on it.
\<close>

subsection \<open>Stand-ins for the pure functions\<close>

definition ref_byte_str :: "u8 list \<Rightarrow> string" where
  "ref_byte_str bs = map (\<lambda>b. char_of (unat b)) bs"

lemma ref_byte_str_code [code]: "ref_byte_str bs = map byte_char bs"
  by (simp add: ref_byte_str_def byte_char)

definition ref_sha256 :: "u8 list \<Rightarrow> u8 list" where
  "ref_sha256 bs = take 32 (bs @ replicate 32 42)"

definition ref_uuid_str :: "uuid \<Rightarrow> string" where
  "ref_uuid_str u = CHR ''u'' # replicate (unat (uuid_bits u)) (CHR ''1'')"

definition ref_uuid_parse :: "string \<Rightarrow> uuid option" where
  "ref_uuid_parse s =
    (case s of [] \<Rightarrow> None
     | c # cs \<Rightarrow> if c = CHR ''u'' \<and> cs = replicate (length cs) (CHR ''1'')
                then Some (Uuid (word_of_nat (length cs))) else None)"

definition ref_time_str :: "datetime \<Rightarrow> string" where
  "ref_time_str t =
    (if nanos t < 0 then CHR ''-'' # replicate (nat (- nanos t)) (CHR ''1'')
     else CHR ''t'' # replicate (nat (nanos t)) (CHR ''1''))"

definition ref_time_parse :: "string \<Rightarrow> string + datetime" where
  "ref_time_parse s =
    (case s of [] \<Rightarrow> Inl ''no time''
     | c # cs \<Rightarrow> if c = CHR ''-'' then Inr (DateTime (- int (length cs)))
                else Inr (DateTime (int (length cs))))"

text \<open>
  A text inside a longer one: each character after a one, closed by a zero, so that it can be
  read back from the front.
\<close>

definition ref_put :: "string \<Rightarrow> string" where
  "ref_put s = concat (map (\<lambda>c. [CHR 0x01, c]) s) @ [CHR 0x00]"

fun ref_get :: "string \<Rightarrow> (string \<times> string) option" where
  "ref_get (t # cs) =
    (if t = CHR 0x00 then Some ([], cs)
     else case cs of [] \<Rightarrow> None
       | c # rest \<Rightarrow> map_option (\<lambda>(xs, r). (c # xs, r)) (ref_get rest))"
| "ref_get [] = None"

fun ref_value :: "json \<Rightarrow> string option" where
  "ref_value (JStr s) = Some (CHR ''s'' # s)"
| "ref_value (JNum n) = Some (CHR ''n'' # replicate n (CHR ''1''))"
| "ref_value _ = None"

definition ref_unvalue :: "string \<Rightarrow> json" where
  "ref_unvalue s =
    (case s of [] \<Rightarrow> JNull
     | c # cs \<Rightarrow> if c = CHR ''s'' then JStr cs else JNum (length cs))"

fun ref_object :: "json_object \<Rightarrow> string option" where
  "ref_object [] = Some []"
| "ref_object ((k, v) # obj) =
    (case (ref_value v, ref_object obj) of
       (Some t, Some rest) \<Rightarrow> Some (ref_put k @ ref_put t @ rest)
     | _ \<Rightarrow> None)"

text \<open>The texts put one after the other, and the entries they stand for.\<close>

fun ref_texts :: "string \<Rightarrow> string \<Rightarrow> string list" where
  "ref_texts got (t # cs) =
    (if t = CHR 0x00 then rev got # ref_texts [] cs
     else case cs of [] \<Rightarrow> [] | c # rest \<Rightarrow> ref_texts (c # got) rest)"
| "ref_texts got [] = []"

fun ref_entries :: "string list \<Rightarrow> json_object" where
  "ref_entries (k # t # ts) = (k, ref_unvalue t) # ref_entries ts"
| "ref_entries _ = []"

definition ref_unobject :: "string \<Rightarrow> json_object" where
  "ref_unobject s = ref_entries (ref_texts [] s)"

text \<open>A token: its key identifier, the signing key and the claims.\<close>

definition ref_jwt_encode :: "jwt_header \<Rightarrow> json_object \<Rightarrow> string \<Rightarrow> string + string" where
  "ref_jwt_encode h obj key =
    (case ref_object obj of None \<Rightarrow> Inl ''unsupported claims''
     | Some body \<Rightarrow> Inr (ref_put (case kid h of None \<Rightarrow> [] | Some k \<Rightarrow> k) @ ref_put key @ body))"

definition ref_decode_header :: "string \<Rightarrow> string + jwt_header" where
  "ref_decode_header token =
    (case ref_get token of
       Some (k, _) \<Rightarrow> Inr \<lparr>kid = (if k = [] then None else Some k)\<rparr>
     | None \<Rightarrow> Inl ''not a token'')"

definition ref_decode :: "nat \<Rightarrow> string \<Rightarrow> string \<Rightarrow> validation \<Rightarrow> string + json_object" where
  "ref_decode now token key v =
    (case ref_get token of None \<Rightarrow> Inl ''not a token''
     | Some (_, r) \<Rightarrow>
        (case ref_get r of None \<Rightarrow> Inl ''not a token''
         | Some (signer, body) \<Rightarrow>
           (let obj = ref_unobject body in
            if signer = key \<and>
               list_all (\<lambda>a. json_str obj ''aud'' = Some a) (v_audience v) \<and>
               list_all (\<lambda>i. json_str obj ''iss'' = Some i) (v_issuer v) \<and>
               (case json_u64 obj ''exp'' of Some e \<Rightarrow> now < unat e | None \<Rightarrow> False)
            then Inr obj else Inl ''invalid token'')))"

text \<open>An error envelope: its texts one after the other.\<close>

definition ref_error_json :: "error_response \<Rightarrow> u8 list" where
  "ref_error_json b = as_bytes (ref_put (er_code b) @ ref_put (er_message b) @
    (case er_details b of None \<Rightarrow> [] | Some d \<Rightarrow> ref_put d))"

definition ref_error_parse :: "u8 list \<Rightarrow> error_response option" where
  "ref_error_parse bs =
    Option.bind (ref_get (ref_byte_str bs)) (\<lambda>(code, r1).
    Option.bind (ref_get r1) (\<lambda>(message, r2).
    if r2 = [] then Some \<lparr>er_code = code, er_message = message, er_details = None\<rparr>
    else map_option (\<lambda>(d, _). \<lparr>er_code = code, er_message = message, er_details = Some d\<rparr>)
      (ref_get r2)))"

subsection \<open>The database in memory\<close>

record rows =
  r_workspaces :: "workspace list"
  r_environments :: "environment list"
  r_servers :: "server_record list"
  r_app_services :: "app_service_record list"
  r_credentials :: "docker_credential_record list"
  r_env_vars :: "env_var_record list"
  r_domains :: "domain_record list"
  r_deployments :: "deployment_record list"
  r_templates :: "workspace_template_record list"
  r_users :: "user_record list"
  r_invites :: "user_invite_record list"
  r_api_tokens :: "user_api_token_record list"
  r_user_roles :: "workspace_user_role_record list"
  r_refresh_tokens :: "user_refresh_token_record list"
  r_jwt_keys :: "jwt_public_key_record list"

definition no_rows :: rows where
  "no_rows =
    \<lparr>r_workspaces = [],
     r_environments = [],
     r_servers = [],
     r_app_services = [],
     r_credentials = [],
     r_env_vars = [],
     r_domains = [],
     r_deployments = [],
     r_templates = [],
     r_users = [],
     r_invites = [],
     r_api_tokens = [],
     r_user_roles = [],
     r_refresh_tokens = [],
     r_jwt_keys = []\<rparr>"

record mem =
  m_conn :: rows
  m_tx :: rows
  m_time :: nat
  m_ids :: nat

definition side :: "executor \<Rightarrow> mem \<Rightarrow> rows" where
  "side ex m = (case ex of Conn \<Rightarrow> m_conn m | Tx \<Rightarrow> m_tx m)"

definition on_side :: "executor \<Rightarrow> (rows \<Rightarrow> rows) \<Rightarrow> mem \<Rightarrow> mem" where
  "on_side ex f m = (case ex of Conn \<Rightarrow> m\<lparr>m_conn := f (m_conn m)\<rparr> | Tx \<Rightarrow> m\<lparr>m_tx := f (m_tx m)\<rparr>)"

definition mem_select :: "(rows \<Rightarrow> 'r list) \<Rightarrow> executor \<Rightarrow> ('r \<Rightarrow> bool) \<Rightarrow> mem \<Rightarrow> (string + 'r list) \<times> mem" where
  "mem_select get ex P m = (Inr (remdups (filter P (get (side ex m)))), m)"

definition mem_first :: "(rows \<Rightarrow> 'r list) \<Rightarrow> executor \<Rightarrow> ('r \<Rightarrow> bool) \<Rightarrow> mem \<Rightarrow> (string + 'r option) \<times> mem" where
  "mem_first get ex P m = (Inr (find P (get (side ex m))), m)"

definition mem_insert ::
  "(rows \<Rightarrow> 'r list) \<Rightarrow> (('r list \<Rightarrow> 'r list) \<Rightarrow> rows \<Rightarrow> rows) \<Rightarrow> ('r \<Rightarrow> 'r \<Rightarrow> bool) \<Rightarrow>
   executor \<Rightarrow> 'r \<Rightarrow> mem \<Rightarrow> (string + 'r) \<times> mem" where
  "mem_insert get upd clash ex r m =
    (if list_ex (\<lambda>x. clash x r) (get (side ex m)) then (Inl ''duplicate key'', m)
     else (Inr r, on_side ex (upd (\<lambda>rs. rs @ [r])) m))"

definition mem_update ::
  "(('r list \<Rightarrow> 'r list) \<Rightarrow> rows \<Rightarrow> rows) \<Rightarrow> (nat \<times> sqlval \<Rightarrow> 'r \<Rightarrow> 'r) \<Rightarrow>
   executor \<Rightarrow> ('r \<Rightarrow> bool) \<Rightarrow> (nat \<times> sqlval) list \<Rightarrow> mem \<Rightarrow> (string + unit) \<times> mem" where
  "mem_update upd setc ex P cols m = (Inr (), on_side ex (upd (map (update_row setc P cols))) m)"

definition mem_table ::
  "(rows \<Rightarrow> 'r list) \<Rightarrow> (('r list \<Rightarrow> 'r list) \<Rightarrow> rows \<Rightarrow> rows) \<Rightarrow> ('r \<Rightarrow> 'r \<Rightarrow> bool) \<Rightarrow>
   (nat \<times> sqlval \<Rightarrow> 'r \<Rightarrow> 'r) \<Rightarrow> (mem, 'r) table" where
  "mem_table get upd clash setc =
    \<lparr>tbl_select = mem_select get, tbl_first = mem_first get,
     tbl_insert = mem_insert get upd clash, tbl_update = mem_update upd setc\<rparr>"

lemmas mem_calls = mem_select_def mem_first_def mem_insert_def mem_update_def

definition rows_view :: "rows \<Rightarrow> tables" where
  "rows_view r =
    \<lparr>t_workspaces = set (r_workspaces r),
     t_environments = set (r_environments r),
     t_servers = set (r_servers r),
     t_app_services = set (r_app_services r),
     t_credentials = set (r_credentials r),
     t_env_vars = set (r_env_vars r),
     t_domains = set (r_domains r),
     t_deployments = set (r_deployments r),
     t_templates = set (r_templates r),
     t_users = set (r_users r),
     t_invites = set (r_invites r),
     t_api_tokens = set (r_api_tokens r),
     t_user_roles = set (r_user_roles r),
     t_refresh_tokens = set (r_refresh_tokens r),
     t_jwt_keys = set (r_jwt_keys r)\<rparr>"

definition ref_view :: "mem \<Rightarrow> executor \<Rightarrow> tables" where
  "ref_view m ex = rows_view (side ex m)"

subsection \<open>The reference instance\<close>

text \<open>
  The operations of the reference instance, each a function with a name of its own: what evaluates
  a run never looks inside one that is not called.
\<close>

definition ref_b64_decode :: "string \<Rightarrow> string + u8 list" where
  "ref_b64_decode s = Inr (as_bytes s)"

definition ref_utf8_error_text :: "u8 list \<Rightarrow> string" where
  "ref_utf8_error_text x0 = ''invalid utf-8''"

definition ref_unicode_debug :: "string \<Rightarrow> string" where
  "ref_unicode_debug c = c"

definition ref_datetime_from_str :: "string \<Rightarrow> datetime option" where
  "ref_datetime_from_str s = (case ref_time_parse s of Inl _ \<Rightarrow> None | Inr t \<Rightarrow> Some t)"

definition ref_add_seconds :: "datetime \<Rightarrow> int \<Rightarrow> datetime option" where
  "ref_add_seconds t n = Some (DateTime (nanos t + n))"

definition ref_phc_parses :: "string \<Rightarrow> bool" where
  "ref_phc_parses h = (h \<noteq> [])"

definition ref_argon2_verifies :: "u8 list \<Rightarrow> string \<Rightarrow> bool" where
  "ref_argon2_verifies pw h = (h = CHR ''$'' # ref_byte_str pw)"

definition ref_encoding_key_from_rsa_pem :: "string \<Rightarrow> string + encoding_key" where
  "ref_encoding_key_from_rsa_pem s = Inr s"

definition ref_decoding_key_from_rsa_pem :: "string \<Rightarrow> string + decoding_key" where
  "ref_decoding_key_from_rsa_pem s = Inr s"

definition ref_decoding_key_from_rsa_components :: "string \<Rightarrow> string \<Rightarrow> string + decoding_key" where
  "ref_decoding_key_from_rsa_components n e = Inr n"

definition ref_rsa_public_key_parts :: "string \<Rightarrow> string + u8 list \<times> u8 list" where
  "ref_rsa_public_key_parts s = Inr (as_bytes s, [1])"

definition ref_serde_error_text :: "json_object \<Rightarrow> string" where
  "ref_serde_error_text x0 = ''missing field''"

definition ref_valid_email :: "string \<Rightarrow> bool" where
  "ref_valid_email s = (CHR ''@'' \<in> set s)"

definition ref_valid_url :: "string \<Rightarrow> bool" where
  "ref_valid_url s = (s \<noteq> [])"

definition ref_now :: "mem \<Rightarrow> datetime \<times> mem" where
  "ref_now m = ((DateTime (int (m_time m)), m\<lparr>m_time := Suc (m_time m)\<rparr>))"

definition ref_now_v7 :: "mem \<Rightarrow> uuid \<times> mem" where
  "ref_now_v7 m = ((Uuid (word_of_nat (m_ids m)), m\<lparr>m_ids := Suc (m_ids m)\<rparr>))"

definition ref_random32 :: "mem \<Rightarrow> u8 list \<times> mem" where
  "ref_random32 m = (([word_of_nat (33 + m_ids m mod 90)], m\<lparr>m_ids := Suc (m_ids m)\<rparr>))"

definition ref_timestamp :: "mem \<Rightarrow> u64 \<times> mem" where
  "ref_timestamp m = (word_of_nat (m_time m), m)"

definition ref_argon2_hash :: "u8 list \<Rightarrow> mem \<Rightarrow> (string + string) \<times> mem" where
  "ref_argon2_hash pw m = ((Inr (CHR ''$'' # ref_byte_str pw), m))"

definition ref_jwt_decode :: "string \<Rightarrow> decoding_key \<Rightarrow> validation \<Rightarrow> mem \<Rightarrow> (string + json_object) \<times> mem" where
  "ref_jwt_decode token key v m = (ref_decode (m_time m) token key v, m)"

definition ref_begin :: "(mem, string, unit) io" where
  "ref_begin m = ((Inr (), m\<lparr>m_tx := m_conn m\<rparr>))"

definition ref_commit :: "(mem, string, unit) io" where
  "ref_commit m = ((Inr (), m\<lparr>m_conn := m_tx m\<rparr>))"

lemmas ref_calls =
  ref_b64_decode_def ref_utf8_error_text_def ref_unicode_debug_def ref_datetime_from_str_def
  ref_add_seconds_def ref_phc_parses_def ref_argon2_verifies_def
  ref_encoding_key_from_rsa_pem_def ref_decoding_key_from_rsa_pem_def
  ref_decoding_key_from_rsa_components_def ref_rsa_public_key_parts_def ref_serde_error_text_def
  ref_valid_email_def ref_valid_url_def ref_now_def ref_now_v7_def ref_random32_def
  ref_timestamp_def ref_argon2_hash_def ref_jwt_decode_def ref_begin_def ref_commit_def

definition clash_workspaces :: "workspace \<Rightarrow> workspace \<Rightarrow> bool" where
  "clash_workspaces x y \<longleftrightarrow> w_id x = w_id y"

definition clash_environments :: "environment \<Rightarrow> environment \<Rightarrow> bool" where
  "clash_environments x y \<longleftrightarrow> e_id x = e_id y"

definition clash_servers :: "server_record \<Rightarrow> server_record \<Rightarrow> bool" where
  "clash_servers x y \<longleftrightarrow> sr_id x = sr_id y"

definition clash_app_services :: "app_service_record \<Rightarrow> app_service_record \<Rightarrow> bool" where
  "clash_app_services x y \<longleftrightarrow> asr_id x = asr_id y"

definition clash_credentials :: "docker_credential_record \<Rightarrow> docker_credential_record \<Rightarrow> bool" where
  "clash_credentials x y \<longleftrightarrow> dcr_id x = dcr_id y"

definition clash_env_vars :: "env_var_record \<Rightarrow> env_var_record \<Rightarrow> bool" where
  "clash_env_vars x y \<longleftrightarrow> evr_id x = evr_id y"

definition clash_domains :: "domain_record \<Rightarrow> domain_record \<Rightarrow> bool" where
  "clash_domains x y \<longleftrightarrow> dr_id x = dr_id y"

definition clash_deployments :: "deployment_record \<Rightarrow> deployment_record \<Rightarrow> bool" where
  "clash_deployments x y \<longleftrightarrow> dpr_id x = dpr_id y"

definition clash_templates :: "workspace_template_record \<Rightarrow> workspace_template_record \<Rightarrow> bool" where
  "clash_templates x y \<longleftrightarrow> wtr_id x = wtr_id y"

definition clash_users :: "user_record \<Rightarrow> user_record \<Rightarrow> bool" where
  "clash_users x y \<longleftrightarrow> ur_id x = ur_id y \<or> ur_email x = ur_email y"

definition clash_invites :: "user_invite_record \<Rightarrow> user_invite_record \<Rightarrow> bool" where
  "clash_invites x y \<longleftrightarrow> ui_id x = ui_id y \<or> ui_token_hash x = ui_token_hash y"

definition clash_api_tokens :: "user_api_token_record \<Rightarrow> user_api_token_record \<Rightarrow> bool" where
  "clash_api_tokens x y \<longleftrightarrow> ut_id x = ut_id y \<or> ut_token_hash x = ut_token_hash y"

definition clash_user_roles :: "workspace_user_role_record \<Rightarrow> workspace_user_role_record \<Rightarrow> bool" where
  "clash_user_roles x y \<longleftrightarrow> wu_id x = wu_id y"

definition clash_refresh_tokens :: "user_refresh_token_record \<Rightarrow> user_refresh_token_record \<Rightarrow> bool" where
  "clash_refresh_tokens x y \<longleftrightarrow> rt_id x = rt_id y"

definition clash_jwt_keys :: "jwt_public_key_record \<Rightarrow> jwt_public_key_record \<Rightarrow> bool" where
  "clash_jwt_keys x y \<longleftrightarrow> jk_id x = jk_id y"

lemmas clash_defs  =
  clash_workspaces_def[abs_def] clash_environments_def[abs_def] clash_servers_def[abs_def]
  clash_app_services_def[abs_def] clash_credentials_def[abs_def] clash_env_vars_def[abs_def]
  clash_domains_def[abs_def] clash_deployments_def[abs_def] clash_templates_def[abs_def]
  clash_users_def[abs_def] clash_invites_def[abs_def] clash_api_tokens_def[abs_def]
  clash_user_roles_def[abs_def] clash_refresh_tokens_def[abs_def] clash_jwt_keys_def[abs_def]

definition ref_ext :: "mem ext" where
  "ref_ext =
    \<lparr>sha256 = ref_sha256,
     b64_encode = ref_byte_str,
     b64_decode = ref_b64_decode,
     b64url_encode = ref_byte_str,
     utf8_error_text = ref_utf8_error_text,
     unicode_debug = ref_unicode_debug,
     uuid_to_string = ref_uuid_str,
     uuid_simple = ref_uuid_str,
     uuid_parse = ref_uuid_parse,
     to_rfc3339 = ref_time_str,
     parse_from_rfc3339 = ref_time_parse,
     datetime_from_str = ref_datetime_from_str,
     add_seconds = ref_add_seconds,
     timestamp = nanos,
     phc_parses = ref_phc_parses,
     argon2_verifies = ref_argon2_verifies,
     encoding_key_from_rsa_pem = ref_encoding_key_from_rsa_pem,
     decoding_key_from_rsa_pem = ref_decoding_key_from_rsa_pem,
     decoding_key_from_rsa_components = ref_decoding_key_from_rsa_components,
     rsa_public_key_parts = ref_rsa_public_key_parts,
     jwt_encode = ref_jwt_encode,
     jwt_decode_header = ref_decode_header,
     serde_error_text = ref_serde_error_text,
     error_response_to_json = ref_error_json,
     error_response_from_json = ref_error_parse,
     valid_email = ref_valid_email,
     valid_url = ref_valid_url,
     x_now = ref_now,
     x_now_v7 = ref_now_v7,
     x_random32 = ref_random32,
     x_timestamp = ref_timestamp,
     x_argon2_hash = ref_argon2_hash,
     x_jwt_decode = ref_jwt_decode,
     x_begin = ref_begin,
     x_commit = ref_commit,
     x_workspaces = mem_table r_workspaces r_workspaces_update clash_workspaces no_set,
     x_environments = mem_table r_environments r_environments_update clash_environments no_set,
     x_servers = mem_table r_servers r_servers_update clash_servers server_set,
     x_app_services = mem_table r_app_services r_app_services_update clash_app_services no_set,
     x_credentials = mem_table r_credentials r_credentials_update clash_credentials no_set,
     x_env_vars = mem_table r_env_vars r_env_vars_update clash_env_vars no_set,
     x_domains = mem_table r_domains r_domains_update clash_domains no_set,
     x_deployments = mem_table r_deployments r_deployments_update clash_deployments no_set,
     x_templates = mem_table r_templates r_templates_update clash_templates no_set,
     x_users = mem_table r_users r_users_update clash_users user_set,
     x_invites = mem_table r_invites r_invites_update clash_invites invite_set,
     x_api_tokens = mem_table r_api_tokens r_api_tokens_update clash_api_tokens api_token_set,
     x_user_roles = mem_table r_user_roles r_user_roles_update clash_user_roles no_set,
     x_refresh_tokens = mem_table r_refresh_tokens r_refresh_tokens_update 
       clash_refresh_tokens refresh_token_set,
     x_jwt_keys = mem_table r_jwt_keys r_jwt_keys_update clash_jwt_keys jwt_key_set\<rparr>"

subsection \<open>It satisfies the laws\<close>

lemma side_on_side [simp]:
  "side ex (on_side ex f m) = f (side ex m)"
  "ex' \<noteq> ex \<Longrightarrow> side ex' (on_side ex f m) = side ex' m"
  by (cases ex; cases ex'; simp add: side_def on_side_def)+

lemma ref_view_on_side:
  assumes "rows_view (f (side ex m)) = g (rows_view (side ex m))"
  shows "ref_view (on_side ex f m) = (ref_view m)(ex := g (ref_view m ex))"
proof
  fix ex' show "ref_view (on_side ex f m) ex' = ((ref_view m)(ex := g (ref_view m ex))) ex'"
    by (cases "ex' = ex") (simp_all add: ref_view_def assms)
qed

lemma mem_table_ok:
  assumes get: "\<And>r. set (get r) = tget (rows_view r)"
    and upd: "\<And>f g r. (\<And>xs. set (f xs) = g (set xs)) \<Longrightarrow>
      rows_view (upd f r) = tupd g (rows_view r)"
  shows "table_ok ref_view tget tupd clash setc (mem_table get upd clash setc)"
proof -
  have row: "{r \<in> set (get (side ex m)). P r} = {r \<in> tget (ref_view m ex). P r}" for ex m P
    by (simp add: ref_view_def get)
  have found: "find P xs = Some x \<Longrightarrow> x \<in> set xs \<and> P x" for P :: "'a \<Rightarrow> bool" and xs x
    by (auto simp: find_Some_iff)
  have ins: "ref_view (on_side ex (upd (\<lambda>rs. rs @ [r])) m) =
      (ref_view m)(ex := tupd (insert r) (ref_view m ex))" for ex r m
    by (rule ref_view_on_side, rule upd) simp
  have up: "ref_view (on_side ex (upd (map h)) m) =
      (ref_view m)(ex := tupd ((`) h) (ref_view m ex))" for ex h m
    by (rule ref_view_on_side, rule upd) simp
  show ?thesis
    unfolding table_ok_def mem_table_def wp_def Let_def mem_calls
    using row
    by (auto simp: ins up find_None_iff list_ex_iff get ref_view_def dest!: found
        split: option.splits)
qed

lemma mem_tables_ok:
  "table_ok ref_view t_workspaces t_workspaces_update c_workspaces s_workspaces
    (mem_table r_workspaces r_workspaces_update c_workspaces s_workspaces)"
  "table_ok ref_view t_environments t_environments_update c_environments s_environments
    (mem_table r_environments r_environments_update c_environments s_environments)"
  "table_ok ref_view t_servers t_servers_update c_servers s_servers
    (mem_table r_servers r_servers_update c_servers s_servers)"
  "table_ok ref_view t_app_services t_app_services_update c_app_services s_app_services
    (mem_table r_app_services r_app_services_update c_app_services s_app_services)"
  "table_ok ref_view t_credentials t_credentials_update c_credentials s_credentials
    (mem_table r_credentials r_credentials_update c_credentials s_credentials)"
  "table_ok ref_view t_env_vars t_env_vars_update c_env_vars s_env_vars
    (mem_table r_env_vars r_env_vars_update c_env_vars s_env_vars)"
  "table_ok ref_view t_domains t_domains_update c_domains s_domains
    (mem_table r_domains r_domains_update c_domains s_domains)"
  "table_ok ref_view t_deployments t_deployments_update c_deployments s_deployments
    (mem_table r_deployments r_deployments_update c_deployments s_deployments)"
  "table_ok ref_view t_templates t_templates_update c_templates s_templates
    (mem_table r_templates r_templates_update c_templates s_templates)"
  "table_ok ref_view t_users t_users_update c_users s_users
    (mem_table r_users r_users_update c_users s_users)"
  "table_ok ref_view t_invites t_invites_update c_invites s_invites
    (mem_table r_invites r_invites_update c_invites s_invites)"
  "table_ok ref_view t_api_tokens t_api_tokens_update c_api_tokens s_api_tokens
    (mem_table r_api_tokens r_api_tokens_update c_api_tokens s_api_tokens)"
  "table_ok ref_view t_user_roles t_user_roles_update c_user_roles s_user_roles
    (mem_table r_user_roles r_user_roles_update c_user_roles s_user_roles)"
  "table_ok ref_view t_refresh_tokens t_refresh_tokens_update c_refresh_tokens s_refresh_tokens
    (mem_table r_refresh_tokens r_refresh_tokens_update c_refresh_tokens s_refresh_tokens)"
  "table_ok ref_view t_jwt_keys t_jwt_keys_update c_jwt_keys s_jwt_keys
    (mem_table r_jwt_keys r_jwt_keys_update c_jwt_keys s_jwt_keys)"
  by (rule mem_table_ok; simp add: rows_view_def)+

lemma ref_silent:
  "silent ref_view (x_now ref_ext)" "silent ref_view (x_now_v7 ref_ext)"
  "silent ref_view (x_random32 ref_ext)" "silent ref_view (x_timestamp ref_ext)"
  "silent ref_view (x_argon2_hash ref_ext pw)" "silent ref_view (x_jwt_decode ref_ext t k v)"
  by (simp_all add: silent_def ref_ext_def ref_calls ref_view_def side_def fun_eq_iff split: executor.splits)

lemma ref_transactions: "transactions_ok ref_view ref_ext"
  by (auto simp: transactions_ok_def ref_ext_def ref_calls ref_view_def side_def wp_def fun_eq_iff
      split: executor.splits)

lemma ref_store_ok: "store_ok ref_ext ref_view"
  unfolding store_ok_def generators_ok_def
  using ref_silent ref_transactions
  by (simp add: mem_tables_ok ref_ext_def clash_defs)

lemma ref_b64_laws: "b64_laws ref_ext"
  by (simp add: b64_laws_def ref_ext_def ref_calls ref_byte_str_def as_bytes_def comp_def
      del: of_char_of)

lemma ref_sha256_laws: "sha256_laws ref_ext"
  by (auto simp: sha256_laws_def ref_ext_def ref_calls ref_sha256_def min_def)

lemma ref_byte_str_as_bytes [simp]: "ref_byte_str (as_bytes s) = s"
  by (simp add: ref_byte_str_def as_bytes_def comp_def)

lemma ref_get_put [simp]: "ref_get (ref_put s @ r) = Some (s, r)"
proof -
  have "ref_get (concat (map (\<lambda>c. [CHR 0x01, c]) s) @ CHR 0x00 # r) = Some (s, r)"
    by (induction s) auto
  then show ?thesis by (simp add: ref_put_def)
qed

lemma ref_get_put_end [simp]: "ref_get (ref_put s) = Some (s, [])"
  using ref_get_put[of s "[]"] by simp

lemma ref_put_nonempty [simp]: "ref_put s \<noteq> []"
  by (simp add: ref_put_def)

lemma ref_envelope_laws: "envelope_laws ref_ext"
  by (auto simp: envelope_laws_def ref_ext_def ref_calls ref_error_json_def ref_error_parse_def
      split: option.splits)

lemma ref_unvalue_value: "ref_value v = Some t \<Longrightarrow> ref_unvalue t = v"
  by (cases v) (auto simp: ref_unvalue_def)

lemma ref_texts_put [simp]: "ref_texts [] (ref_put s @ r) = s # ref_texts [] r"
proof -
  have "ref_texts got (concat (map (\<lambda>c. [CHR 0x01, c]) s) @ CHR 0x00 # r) =
      (rev got @ s) # ref_texts [] r" for got
    by (induction s arbitrary: got) auto
  then show ?thesis by (simp add: ref_put_def)
qed

lemma ref_unobject_object: "ref_object obj = Some body \<Longrightarrow> ref_unobject body = obj"
proof (induction obj arbitrary: body)
  case (Cons e obj)
  obtain k v where e: "e = (k, v)" by (cases e)
  with Cons.prems obtain t rest where t: "ref_value v = Some t" "ref_object obj = Some rest"
    and body: "body = ref_put k @ ref_put t @ rest"
    by (auto split: option.splits)
  then show ?case
    using Cons.IH[OF t(2)] ref_unvalue_value[OF t(1)] by (simp add: e ref_unobject_def)
qed (simp add: ref_unobject_def)

lemma ref_jwt_laws: "jwt_laws ref_ext"
  by (auto simp: jwt_laws_def ref_ext_def ref_calls ref_jwt_encode_def ref_decode_def Let_def
      ref_unobject_object split: option.splits if_splits)

lemma ref_uuid_laws: "uuid_laws ref_ext"
  by (simp add: uuid_laws_def ref_ext_def ref_calls ref_uuid_str_def ref_uuid_parse_def)

lemma ref_rfc3339_laws: "rfc3339_laws ref_ext"
  by (auto simp: rfc3339_laws_def ref_ext_def ref_calls ref_time_str_def ref_time_parse_def)

end
