(* ===== verification/Startup.thy ===== *)
theory Startup
  imports Platform
begin

section \<open>The processes\<close>

text \<open>
  \<open>main.rs\<close>, \<open>bin/temporal_worker.rs\<close>, \<open>bin/migrate.rs\<close> and what they need of \<open>libs/db.rs\<close> and
  \<open>libs/telemetry.rs\<close>: the order in which the server and the worker are started.  The connection
  to the database, the socket and the server loop of axum are fields of the record \<open>host\<close>; the
  server loop is given the handler of a request.
\<close>

record ('w, 'addr) host =
  ho_connect :: "string \<Rightarrow> ('w, string, unit) io"
  ho_push_schema :: "('w, string, unit) io"
  ho_parse_addr :: "string \<Rightarrow> string + 'addr"
  ho_bind :: "'addr \<Rightarrow> ('w, string, unit) io"
  ho_serve :: "(string http_request \<Rightarrow> ('w, exn, answer) io) \<Rightarrow> ('w, string, unit) io"

text \<open>How a process ends early: \<open>main\<close> returns an error, or it panics.\<close>

datatype ending = Failed wara_error | Aborted

text \<open>\<open>?\<close> on an API error; a rejection is made by an extractor only, and there is none here.\<close>

definition ending_of :: "exn \<Rightarrow> ending" where
  "ending_of e = (case e of Api a \<Rightarrow> Failed (wara_error_of_api a) | _ \<Rightarrow> Aborted)"

definition build_toasty :: "('w, 'addr) host \<Rightarrow> config \<Rightarrow> ('w, wara_error, unit) io" where
  "build_toasty H c = map_errE wara_error_of_toasty (ho_connect H (cfg_database_url c))"

definition connect_db :: "('w, 'addr) host \<Rightarrow> config \<Rightarrow> ('w, wara_error, database) io" where
  "connect_db H c =
    bindE (build_toasty H c) (\<lambda>_.
    bindE (if cfg_db_push_schema c then map_errE wara_error_of_toasty (ho_push_schema H) else returnE ()) (\<lambda>_.
    returnE \<lparr>db_url = cfg_database_url c, db_toasty = True\<rparr>))"

record telemetry_guard =
  tg_enabled :: bool

definition telemetry_init :: "config \<Rightarrow> wara_error + telemetry_guard" where
  "telemetry_init c = Inr \<lparr>tg_enabled = cfg_telemetry_enabled c\<rparr>"

definition telemetry_shutdown :: "telemetry_guard \<Rightarrow> wara_error + unit" where
  "telemetry_shutdown g = Inr ()"

text \<open>The server, up to the point where it listens.\<close>

definition start_server ::
  "('w, 'a) ext_scheme \<Rightarrow> ('w, 'addr) host \<Rightarrow> config \<Rightarrow>
   ('w, ending, app_state \<times> telemetry_guard) io" where
  "start_server X H config =
    bindE (map_errE Failed (validate_jwt_key_config X config)) (\<lambda>_.
    bindE (liftE (map_err Failed (telemetry_init config))) (\<lambda>guard.
    bindE (map_errE Failed (connect_db H config)) (\<lambda>db.
    bindE (map_errE ending_of (bootstrap_admin X \<lparr>as_db = db, as_config = config\<rparr>)) (\<lambda>_.
    let st = new_app_state config db in
    bindE (liftE (map_err (\<lambda>e. Failed (InvalidConfiguration ''BIND_ADDR'' e))
      (ho_parse_addr H (cfg_bind_addr config)))) (\<lambda>addr.
    bindE (map_errE (\<lambda>e. Failed (ConfigFile e)) (ho_bind H addr)) (\<lambda>_.
    returnE (st, guard)))))))"

definition server_main ::
  "('w, 'a) ext_scheme \<Rightarrow> ('w, 'addr) host \<Rightarrow> string decoders \<Rightarrow> config \<Rightarrow> ('w, ending, unit) io" where
  "server_main X H D config =
    bindE (start_server X H config) (\<lambda>(st, guard).
    bindE (map_errE (\<lambda>e. Failed (Telemetry e)) (ho_serve H (answer_request X st D))) (\<lambda>_.
    liftE (map_err Failed (telemetry_shutdown guard))))"

definition worker_main ::
  "('w, 'a) ext_scheme \<Rightarrow> ('w, 'addr) host \<Rightarrow> string list \<Rightarrow> config \<Rightarrow> worker_event list \<Rightarrow>
   ('w, ending, bool) io" where
  "worker_main X H args config events =
    bindE (liftE (map_err Failed (queue_of_args args))) (\<lambda>_.
    bindE (liftE (map_err Failed (telemetry_init config))) (\<lambda>guard.
    bindE (map_errE Failed (connect_db H config)) (\<lambda>db.
    bindE (map_errE ending_of (run_server_connectivity_workflow X config db events)) (\<lambda>ended.
    bindE (liftE (map_err Failed (telemetry_shutdown guard))) (\<lambda>_.
    returnE ended)))))"

text \<open>
  \<open>bin/migrate.rs\<close>: reading the migration settings and running the requested subcommand are
  operations of the migration tool.
\<close>

definition migrate_main ::
  "('w, 'addr) host \<Rightarrow> ('w, string, 'settings) io \<Rightarrow> ('settings \<Rightarrow> ('w, string, unit) io) \<Rightarrow> config \<Rightarrow>
   ('w, ending, unit) io" where
  "migrate_main H load parse_and_run config =
    bindE (map_errE Failed (build_toasty H config)) (\<lambda>_.
    bindE (map_errE (\<lambda>e. Failed (ConfigFile e)) load) (\<lambda>migration_config.
    map_errE (\<lambda>e. Failed (Database e)) (parse_and_run migration_config)))"

subsection \<open>What is relied on\<close>

text \<open>
  Connecting, bringing the schema up and binding the socket leave the stored rows alone.  Nothing is
  assumed of the server loop: it runs its requests concurrently, which the model does not.
\<close>

definition host_ok :: "('w, 'addr) host \<Rightarrow> 'w view \<Rightarrow> bool" where
  "host_ok H vw \<longleftrightarrow> (\<forall>url. silent vw (ho_connect H url)) \<and> silent vw (ho_push_schema H) \<and>
    (\<forall>addr. silent vw (ho_bind H addr))"

lemma wp_connect_db:
  assumes "host_ok H vw"
    and "\<And>w'. vw w' = vw w \<Longrightarrow> Q \<lparr>db_url = cfg_database_url c, db_toasty = True\<rparr> w'"
    and "\<And>e w'. vw w' = vw w \<Longrightarrow> E (Database e) w'"
  shows "wp (connect_db H c) Q E w"
proof -
  have push: "silent vw (ho_push_schema H)" and conn: "silent vw (ho_connect H url)" for url
    using assms(1) by (auto simp: host_ok_def)
  show ?thesis
    unfolding connect_db_def build_toasty_def
    by (auto intro!: wp_silent_io[OF conn] wp_silent_io[OF push] assms(2,3))
qed

subsection \<open>The server listens when it is ready\<close>

lemma wp_validate_silent:
  assumes "store_ok X vw"
  shows "wp (validate_jwt_key_config X c) (\<lambda>_ w'. vw w' = vw w) (\<lambda>_ w'. vw w' = vw w) w"
  unfolding validate_jwt_key_config_def verify_active_private_key_matches_public_key_def
    decode_probe_def Let_def
  by (auto intro!: wp_generators[OF assms] wp_jwt_decode[OF assms] split: sum.split option.split)

definition key_active :: "('w, 'a) ext_scheme \<Rightarrow> config \<Rightarrow> tables \<Rightarrow> bool" where
  "key_active X config T \<longleftrightarrow>
    (\<exists>k n e. rsa_public_key_components X (cfg_jwt_public_key config) = Inr (n, e) \<and>
      active_keys T = {k} \<and> configured_key n e k)"

text \<open>
  Who is there after a start: the users who were, or, if there were none, the configured admin.
\<close>

definition staffed :: "('w, 'a) ext_scheme \<Rightarrow> config \<Rightarrow> tables \<Rightarrow> tables \<Rightarrow> bool" where
  "staffed X config T T' \<longleftrightarrow>
    (if t_users T = {} then \<exists>u. t_users T' = {u} \<and> bootstrap_row X config u
     else t_users T' = t_users T)"

lemma staffed_not_empty: "staffed X config T T' \<Longrightarrow> t_users T' \<noteq> {}"
  by (auto simp: staffed_def split: if_splits)

lemma bootstrap_credentials:
  assumes "argon2_laws X" "bootstrap_row X c u"
  shows "credentials_ok X
    \<lparr>li_email = cfg_bootstrap_admin_email c, li_password = cfg_bootstrap_admin_password c\<rparr> u"
  using assms by (auto simp: bootstrap_row_def argon2_laws_def credentials_ok_def)

lemma wp_bootstrapped:
  assumes "store_ok X vw" "keys_unique (vw w Conn)"
  shows "wp (bootstrap_admin X S)
    (\<lambda>_ w'. moves X vw w w' \<and> key_active X (as_config S) (vw w' Conn) \<and>
      staffed X (as_config S) (vw w Conn) (vw w' Conn))
    (\<lambda>_ w'. moves X vw w w') w"
proof -
  have "wp (bootstrap_admin X S) (\<lambda>_ w'. key_active X (as_config S) (vw w' Conn) \<and>
      staffed X (as_config S) (vw w Conn) (vw w' Conn)) (\<lambda>_ _. True) w"
  proof (rule wp_bootstrap_admin[OF assms], goal_cases)
    case (1 n e T w')
    then show ?case by (auto simp: key_active_def keys_synced_def staffed_def)
  next
    case (2 n e T u w')
    then have "t_users (add_user u T) = {u}" by (auto simp: add_user_def keys_synced_def)
    moreover have "active_keys (add_user u T) = active_keys T"
      by (simp add: active_keys_def add_user_def)
    ultimately show ?case using 2 by (auto simp: key_active_def keys_synced_def staffed_def)
  qed simp_all
  from wp_conj[OF refined_bootstrap[OF assms] this] show ?thesis
    by (rule wp_mono) simp_all
qed

text \<open>What holds of the state and of the stored rows when the server begins to listen.\<close>

definition server_ready ::
  "('w, 'a) ext_scheme \<Rightarrow> config \<Rightarrow> app_state \<Rightarrow> tables \<Rightarrow> bool" where
  "server_ready X config st T \<longleftrightarrow>
    st_config st = config \<and> db_toasty (st_db st) \<and>
    not_blank (cfg_jwt_private_key_pem config) \<and> not_blank (cfg_jwt_public_key config) \<and>
    keys_match X config \<and> key_active X config T"

lemma wp_start_server:
  assumes "store_ok X vw" "host_ok H vw" "keys_unique (vw w Conn)"
  shows "wp (start_server X H config)
    (\<lambda>started w'. server_ready X config (fst started) (vw w' Conn) \<and> moves X vw w w' \<and>
      staffed X config (vw w Conn) (vw w' Conn))
    (\<lambda>_ w'. moves X vw w w') w"
    (is "wp _ ?Q ?E w")
proof -
  have bind: "silent vw (ho_bind H addr)" for addr using assms(2) by (simp add: host_ok_def)
  let ?db = "\<lparr>db_url = cfg_database_url config, db_toasty = True\<rparr>"
  let ?good = "not_blank (cfg_jwt_private_key_pem config) \<and>
    not_blank (cfg_jwt_public_key config) \<and> keys_match X config"
  let ?st = "\<lparr>st_config = config, st_db = ?db\<rparr>"
  have last: "wp (ho_bind H addr) (\<lambda>_ w'. server_ready X config ?st (vw w' Conn) \<and> moves X vw w w' \<and>
      staffed X config (vw w Conn) (vw w' Conn)) (\<lambda>e. moves X vw w) w2"
    if "?good" "moves X vw w w2" "key_active X config (vw w2 Conn)"
      "staffed X config (vw w Conn) (vw w2 Conn)" for addr w2
    by (rule wp_silent_io[OF bind])
      (use that in \<open>simp_all add: server_ready_def moves_def\<close>)
  have boot: "wp (bootstrap_admin X \<lparr>as_db = ?db, as_config = config\<rparr>) R (\<lambda>e. ?E f) w1"
    if "vw w1 = vw w" "\<And>w2. moves X vw w w2 \<Longrightarrow> key_active X config (vw w2 Conn) \<Longrightarrow>
        staffed X config (vw w Conn) (vw w2 Conn) \<Longrightarrow> R () w2" for R f w1
    by (rule wp_mono[OF wp_bootstrapped[OF assms(1)]])
      (use that assms(3) in \<open>auto simp: moves_def\<close>)
  have rest: "wp (bindE (map_errE Failed (connect_db H config)) (\<lambda>db.
      bindE (map_errE ending_of (bootstrap_admin X \<lparr>as_db = db, as_config = config\<rparr>)) (\<lambda>_.
      bindE (liftE (map_err (\<lambda>e. Failed (InvalidConfiguration ''BIND_ADDR'' e))
        (ho_parse_addr H (cfg_bind_addr config)))) (\<lambda>addr.
      bindE (map_errE (\<lambda>e. Failed (ConfigFile e)) (ho_bind H addr)) (\<lambda>_.
      returnE (\<lparr>st_config = config, st_db = db\<rparr>, guard)))))) ?Q ?E w0"
    if "?good" "vw w0 = vw w" for guard w0
    using that
    by (auto intro!: wp_connect_db[OF assms(2)] boot last moves_eq split: sum.split
        simp: map_err_def)
  have init: "map_err Failed (telemetry_init config) = Inr \<lparr>tg_enabled = cfg_telemetry_enabled config\<rparr>"
    by (simp add: telemetry_init_def map_err_def)
  show ?thesis
    unfolding start_server_def Let_def new_app_state_def wp_bindE[of "map_errE Failed (validate_jwt_key_config X config)"]
      wp_map_errE
    by (rule wp_mono[OF wp_conj[OF wp_validate_jwt_key_config wp_validate_silent[OF assms(1)]]])
      (auto simp del: wp_bindE simp: init intro!: rest moves_eq)
qed

text \<open>A start that fails ends the process before anything is served.\<close>

lemma server_main_not_ready:
  "start_server X H config w = (Inl e, w') \<Longrightarrow> server_main X H D config w = (Inl e, w')"
  by (simp add: server_main_def bindE_def)

end
