(* ===== verification/Progress.thy ===== *)
theory Progress
  imports Auth_Sessions Auth_Users Worker
begin

section \<open>What works when the database does\<close>

text \<open>
  The other theories say what a method has done when it answers and let it fail with the database
  at any point.  Here the database is up: no call to it fails, but for the insertion of a row that
  clashes with a stored one.  Then the methods the platform lives from do answer: whoever has good
  credentials is let in, and a round of the worker records a check of every server.
\<close>

subsection \<open>A database that is up\<close>

definition table_up ::
  "'w view \<Rightarrow> (tables \<Rightarrow> 'r set) \<Rightarrow> ('r \<Rightarrow> 'r \<Rightarrow> bool) \<Rightarrow> ('w, 'r) table \<Rightarrow> bool" where
  "table_up vw get clash t \<longleftrightarrow>
    (\<forall>ex P w. \<not> isl (fst (tbl_select t ex P w))) \<and>
    (\<forall>ex P w. \<not> isl (fst (tbl_first t ex P w))) \<and>
    (\<forall>ex P cols w. \<not> isl (fst (tbl_update t ex P cols w))) \<and>
    (\<forall>ex r w. (\<forall>x \<in> get (vw w ex). \<not> clash x r) \<longrightarrow> \<not> isl (fst (tbl_insert t ex r w)))"

text \<open>The tables these methods use.\<close>

definition store_up :: "('w, 'a) ext_scheme \<Rightarrow> 'w view \<Rightarrow> bool" where
  "store_up X vw \<longleftrightarrow>
    table_up vw t_servers (\<lambda>x y. sr_id x = sr_id y) (x_servers X) \<and>
    table_up vw t_users (\<lambda>x y. ur_id x = ur_id y \<or> ur_email x = ur_email y) (x_users X) \<and>
    table_up vw t_api_tokens (\<lambda>x y. ut_id x = ut_id y \<or> ut_token_hash x = ut_token_hash y)
      (x_api_tokens X) \<and>
    table_up vw t_user_roles (\<lambda>x y. wu_id x = wu_id y) (x_user_roles X) \<and>
    table_up vw t_refresh_tokens (\<lambda>x y. rt_id x = rt_id y) (x_refresh_tokens X) \<and>
    table_up vw t_jwt_keys (\<lambda>x y. jk_id x = jk_id y) (x_jwt_keys X)"

lemma store_upD:
  assumes "store_up X vw"
  shows servers_up: "table_up vw t_servers (\<lambda>x y. sr_id x = sr_id y) (x_servers X)"
    and users_up: "table_up vw t_users (\<lambda>x y. ur_id x = ur_id y \<or> ur_email x = ur_email y)
      (x_users X)"
    and api_tokens_up: "table_up vw t_api_tokens
      (\<lambda>x y. ut_id x = ut_id y \<or> ut_token_hash x = ut_token_hash y) (x_api_tokens X)"
    and user_roles_up: "table_up vw t_user_roles (\<lambda>x y. wu_id x = wu_id y) (x_user_roles X)"
    and refresh_tokens_up: "table_up vw t_refresh_tokens (\<lambda>x y. rt_id x = rt_id y)
      (x_refresh_tokens X)"
    and jwt_keys_up: "table_up vw t_jwt_keys (\<lambda>x y. jk_id x = jk_id y) (x_jwt_keys X)"
  using assms unfolding store_up_def by simp_all

text \<open>A call that does not fail owes nothing to its error case.\<close>

lemma wp_sure:
  assumes "\<not> isl (fst (m w))" "wp m Q E w"
  shows "wp m Q E' w"
  using assms by (auto simp: wp_def split: prod.splits sum.splits)

lemma isl_map_errE [simp]: "isl (fst (map_errE h m w)) = isl (fst (m w))"
  by (auto simp: map_errE_def split: prod.splits sum.splits)

lemma table_up_select:
  assumes "table_ok vw get upd clash setc t" "table_up vw get clash t"
    and "\<And>rs w'. vw w' = vw w \<Longrightarrow> distinct rs \<Longrightarrow> set rs = {r \<in> get (vw w ex). P r} \<Longrightarrow> Q rs w'"
  shows "wp (db_select t ex P) Q E w"
proof (rule wp_sure)
  show "\<not> isl (fst (db_select t ex P w))"
    using assms(2) by (simp add: table_up_def db_select_def)
  show "wp (db_select t ex P) Q (\<lambda>_ _. True) w"
    by (rule table_ok_select[OF assms(1)]) (simp_all add: assms(3))
qed

lemma table_up_first:
  assumes "table_ok vw get upd clash setc t" "table_up vw get clash t"
    and "\<And>r w'. vw w' = vw w \<Longrightarrow> r \<in> get (vw w ex) \<Longrightarrow> P r \<Longrightarrow> Q (Some r) w'"
    and "\<And>w'. vw w' = vw w \<Longrightarrow> \<forall>r \<in> get (vw w ex). \<not> P r \<Longrightarrow> Q None w'"
  shows "wp (db_first t ex P) Q E w"
proof (rule wp_sure)
  show "\<not> isl (fst (db_first t ex P w))"
    using assms(2) by (simp add: table_up_def db_first_def)
  show "wp (db_first t ex P) Q (\<lambda>_ _. True) w"
    by (rule table_ok_first[OF assms(1)]) (simp_all add: assms(3,4))
qed

lemma table_up_update:
  assumes "table_ok vw get upd clash setc t" "table_up vw get clash t"
    and "\<And>w'. vw w' = (vw w)(ex := upd ((`) (update_row setc P cols)) (vw w ex)) \<Longrightarrow> Q () w'"
  shows "wp (db_update t ex P cols) Q E w"
proof (rule wp_sure)
  show "\<not> isl (fst (db_update t ex P cols w))"
    using assms(2) by (simp add: table_up_def db_update_def)
  show "wp (db_update t ex P cols) Q (\<lambda>_ _. True) w"
    by (rule table_ok_update[OF assms(1)]) (simp_all add: assms(3))
qed

lemma table_up_insert:
  assumes "table_ok vw get upd clash setc t" "table_up vw get clash t"
    and "\<And>w'. vw w' = (vw w)(ex := upd (insert r) (vw w ex)) \<Longrightarrow> Q r w'"
    and "\<And>e w' x. vw w' = vw w \<Longrightarrow> x \<in> get (vw w ex) \<Longrightarrow> clash x r \<Longrightarrow> E (map_toasty_error e) w'"
  shows "wp (db_insert t ex r) Q E w"
proof (cases "\<forall>x \<in> get (vw w ex). \<not> clash x r")
  case True
  show ?thesis
  proof (rule wp_sure)
    show "\<not> isl (fst (db_insert t ex r w))"
      using assms(2) True by (simp add: table_up_def db_insert_def)
    show "wp (db_insert t ex r) Q (\<lambda>_ _. True) w"
      by (rule table_ok_insert[OF assms(1)]) (simp_all add: assms(3))
  qed
next
  case False
  then show ?thesis by (intro table_ok_insert[OF assms(1)]) (use assms(4) in blast)+
qed

lemmas up_reads =
  table_up_select[OF servers_ok servers_up]
  table_up_select[OF users_ok users_up]
  table_up_select[OF user_roles_ok user_roles_up]
  table_up_select[OF jwt_keys_ok jwt_keys_up]
  table_up_first[OF servers_ok servers_up]
  table_up_first[OF users_ok users_up]
  table_up_first[OF api_tokens_ok api_tokens_up]

lemmas up_writes =
  table_up_update[OF servers_ok servers_up]
  table_up_update[OF api_tokens_ok api_tokens_up]
  table_up_insert[OF refresh_tokens_ok refresh_tokens_up]

subsection \<open>Good credentials\<close>

lemma up_user_from_record:
  assumes "store_ok X vw" "store_up X vw" "db_toasty (as_db S)"
    and "\<And>u w'. vw w' = vw w \<Longrightarrow> user_matches (vw w Conn) r u \<Longrightarrow> Q u w'"
  shows "wp (user_from_record X S r) Q E w"
  unfolding user_from_record_def Let_def
  by (auto intro!: up_reads[OF assms(1,2)] assms(4) simp: user_matches_def assms(3))

lemma max_by_key_in:
  assumes "xs \<noteq> []"
  shows "\<exists>y \<in> set xs. max_by_key f xs = Some y"
proof -
  have "fold (\<lambda>y best. if f best \<le> f y then y else best) ys x \<in> insert x (set ys)" for x ys
    by (induction ys arbitrary: x) force+
  then show ?thesis using assms by (cases xs) auto
qed

text \<open>
  The configured private key signs whatever tokens the code signs, and there is an active signing
  key.
\<close>

definition signer_ready :: "('w, 'a) ext_scheme \<Rightarrow> auth_service \<Rightarrow> tables \<Rightarrow> bool" where
  "signer_ready X S T \<longleftrightarrow>
    (\<exists>key. encoding_key_from_rsa_pem X (cfg_jwt_private_key_pem (as_config S)) = Inr key \<and>
      (\<forall>h c. \<not> isl (jwt_encode X h (claims_json c) key)) \<and>
      (\<forall>h c. \<not> isl (jwt_encode X h (refresh_claims_json c) key))) \<and>
    (\<exists>k \<in> t_jwt_keys T. jk_is_active k) \<and>
    (\<forall>k \<in> t_jwt_keys T. jk_is_active k \<longrightarrow> valid_jwk_metadata k)"

lemma up_active_key:
  assumes "store_ok X vw" "store_up X vw" "db_toasty (as_db S)" "signer_ready X S (vw w Conn)"
    and "\<And>k w'. vw w' = vw w \<Longrightarrow> Q k w'"
  shows "wp (active_jwt_public_key_record X S) Q E w"
proof -
  have "\<exists>k. max_by_key jk_created_at (filter jk_is_active rs) = Some k \<and> valid_jwk_metadata k"
    if "set rs = t_jwt_keys (vw w Conn)" for rs
  proof -
    have "filter jk_is_active rs \<noteq> []"
      using assms(4) that by (auto simp: signer_ready_def filter_empty_conv)
    from max_by_key_in[OF this, of jk_created_at] show ?thesis
      using assms(4) that by (auto simp: signer_ready_def)
  qed
  then show ?thesis
    unfolding active_jwt_public_key_record_def
    by (fastforce intro!: up_reads[OF assms(1,2)] simp: assms(3) intro: assms(5))
qed

lemma up_sign_access_token:
  assumes "store_ok X vw" "store_up X vw" "db_toasty (as_db S)" "signer_ready X S (vw w Conn)"
    and "\<And>token w'. vw w' = vw w \<Longrightarrow> Q token w'"
  shows "wp (sign_access_token X S user i) Q E w"
proof -
  obtain key where key: "encoding_key_from_rsa_pem X (cfg_jwt_private_key_pem (as_config S)) = Inr key"
    "jwt_encode X h (claims_json c) key \<noteq> Inl e" for h c e
    using assms(4) unfolding signer_ready_def by (metis isl_def)
  show ?thesis
    unfolding sign_access_token_def Let_def
    by (auto intro!: wp_generators[OF assms(1)] up_active_key[OF assms(1-3)] assms(5)
        simp: key assms(4) split: sum.split)
qed

lemma up_sign_refresh_token:
  assumes "store_ok X vw" "store_up X vw" "db_toasty (as_db S)" "signer_ready X S (vw w Conn)"
    and "\<And>token w'. vw w' = vw w \<Longrightarrow> Q token w'"
  shows "wp (sign_refresh_token X S i user_id t1 t2) Q E w"
proof -
  obtain key where key: "encoding_key_from_rsa_pem X (cfg_jwt_private_key_pem (as_config S)) = Inr key"
    "jwt_encode X h (refresh_claims_json c) key \<noteq> Inl e" for h c e
    using assms(4) unfolding signer_ready_def by (metis isl_def)
  show ?thesis
    unfolding sign_refresh_token_def Let_def
    by (auto intro!: up_active_key[OF assms(1-3)] assms(5)
        simp: key assms(4) split: sum.split)
qed

text \<open>
  Issuing a refresh token draws an identifier and reads the clock.  It works from a world in which
  the identifier that is drawn is that of no stored row, and the end of the token's lifetime, from the
  instant that is read, is within the range of the calendar.
\<close>

definition can_issue :: "('w, 'a) ext_scheme \<Rightarrow> auth_service \<Rightarrow> tables \<Rightarrow> 'w \<Rightarrow> bool" where
  "can_issue X S T w \<longleftrightarrow>
    (case x_now_v7 X w of (i, w1) \<Rightarrow> i \<notin> rt_id ` t_refresh_tokens T \<and>
      (case x_now X w1 of (now, _) \<Rightarrow>
        add_seconds X now (sint (cfg_refresh_token_ttl_seconds (as_config S))) \<noteq> None))"

lemma signer_ready_refresh [simp]:
  "signer_ready X S (t_refresh_tokens_update f T) = signer_ready X S T"
  by (simp add: signer_ready_def)

lemma up_issue_refresh_token:
  assumes "store_ok X vw" "store_up X vw" "db_toasty (as_db S)" "signer_ready X S (vw w Conn)"
    and "can_issue X S (vw w Conn) w"
    and "\<And>issue w'. signer_ready X S (vw w' Conn) \<Longrightarrow> Q issue w'"
  shows "wp (issue_refresh_token X S Conn user_id) Q E w"
proof -
  obtain i w1 where i: "x_now_v7 X w = (i, w1)" by fastforce
  obtain now w2 where now: "x_now X w1 = (now, w2)" by fastforce
  have vw: "vw w1 = vw w" "vw w2 = vw w"
    using i now generators_silent(1,2)[OF assms(1)] unfolding silent_def by (metis snd_conv)+
  obtain t where t: "after_seconds X now (cfg_refresh_token_ttl_seconds (as_config S)) = Inr t"
    and new: "i \<notin> rt_id ` t_refresh_tokens (vw w Conn)"
    using assms(5) i now by (auto simp: can_issue_def after_seconds_def)
  show ?thesis
    unfolding issue_refresh_token_def wp_bindE wp_effectE_run i prod.case now
    using new by (auto intro!: up_writes[OF assms(1,2)] up_sign_refresh_token[OF assms(1-3)] assms(6)
        simp: t vw assms(4))
qed

subsection \<open>Good credentials\<close>

text \<open>A login in two parts: who it is, and the session of that user.\<close>

definition login_checks ::
  "('w, 'a) ext_scheme \<Rightarrow> auth_service \<Rightarrow> login_input \<Rightarrow> ('w, exn, user) io" where
  "login_checks X S input =
    bindE (find_user_by_email X S (li_email input)) (\<lambda>user_record.
    if ur_status user_record \<noteq> user_status_str Active then unauthorized
    else if ur_password_hash user_record = [] then unauthorized
    else bindE (liftE (verify_password X (li_password input) (ur_password_hash user_record))) (\<lambda>_.
      bindE (user_from_record X S user_record) (\<lambda>user.
      bindE (db_handle (as_db S)) (\<lambda>_. returnE user))))"

definition login_session ::
  "('w, 'a) ext_scheme \<Rightarrow> auth_service \<Rightarrow> user \<Rightarrow> ('w, exn, login_output) io" where
  "login_session X S user =
    bindE (issue_refresh_token X S Conn (u_id user)) (\<lambda>refresh_token.
    bindE (sign_access_token X S user (rt_id (ri_record refresh_token))) (\<lambda>token.
    returnE \<lparr>lo_token = token, lo_refresh_token = ri_token refresh_token, lo_user = user\<rparr>))"

lemma login_in_two_parts:
  "login X S input = bindE (login_checks X S input) (login_session X S)"
  by (rule ext) (auto simp: login_def login_checks_def login_session_def bindE_def returnE_def
      throwE_def split: prod.splits sum.splits)

lemma up_login_checks:
  assumes "store_ok X vw" "store_up X vw" "db_toasty (as_db S)"
    and "users_unique (vw w Conn)" "r \<in> t_users (vw w Conn)" "credentials_ok X input r"
  shows "wp (login_checks X S input) (\<lambda>u w'. vw w' = vw w \<and> user_matches (vw w Conn) r u)
    (\<lambda>_ _. False) w"
proof -
  have the_user: "r' = r" if "r' \<in> t_users (vw w Conn)" "ur_email r' = li_email input" for r'
    using that assms(4-6) by (auto simp: users_unique_def credentials_ok_def)
  have good: "ur_status r = ''active''" "ur_password_hash r \<noteq> []" "ur_email r = li_email input"
    "verify_password X (li_password input) (ur_password_hash r) = Inr ()"
    using assms(6) by (auto simp: credentials_ok_def verify_password_eq_Inr)
  have find: "wp (find_user_by_email X S (li_email input)) Q E w"
    if "\<And>w'. vw w' = vw w \<Longrightarrow> Q r w'" for Q E
  proof -
    have "wp (db_first (x_users X) Conn (\<lambda>r. ur_email r = li_email input))
        (\<lambda>x. wp (liftE (ok_or (Api Unauthorized) x)) Q E) E w"
    proof (rule table_up_first[OF users_ok[OF assms(1)] users_up[OF assms(2)]], goal_cases)
      case (1 r' w')
      with the_user[OF 1(2,3)] show ?case using that by simp
    next
      case (2 w')
      then show ?case using assms(5) good(3) by blast
    qed
    then show ?thesis by (simp add: find_user_by_email_def assms(3))
  qed
  show ?thesis
    unfolding login_checks_def
    by (auto intro!: find up_user_from_record[OF assms(1-3)] simp: good assms(3))
qed

lemma up_login_session:
  assumes "store_ok X vw" "store_up X vw" "db_toasty (as_db S)" "signer_ready X S (vw w Conn)"
    and "can_issue X S (vw w Conn) w"
  shows "wp (login_session X S user) (\<lambda>out _. lo_user out = user) (\<lambda>_ _. False) w"
  unfolding login_session_def wp_bindE
  by (rule up_issue_refresh_token[OF assms(1-5)])
    (auto intro!: up_sign_access_token[OF assms(1-3)])

text \<open>
  The checks of a login pass, and if a token can be issued from where they leave off, the login is
  answered.
\<close>

lemma up_login:
  assumes "store_ok X vw" "store_up X vw" "db_toasty (as_db S)" "signer_ready X S (vw w Conn)"
    and "users_unique (vw w Conn)" "r \<in> t_users (vw w Conn)" "credentials_ok X input r"
  obtains u w1 where "login_checks X S input w = (Inr u, w1)" "vw w1 = vw w"
    "user_matches (vw w Conn) r u"
    "can_issue X S (vw w Conn) w1 \<Longrightarrow> \<exists>out w'. login X S input w = (Inr out, w') \<and> lo_user out = u"
proof -
  obtain u w1 where checks: "login_checks X S input w = (Inr u, w1)" and same: "vw w1 = vw w"
    and u: "user_matches (vw w Conn) r u"
    using up_login_checks[OF assms(1-3,5-7)] by (auto simp: wp_def split: prod.splits sum.splits)
  have "\<exists>out w'. login X S input w = (Inr out, w') \<and> lo_user out = u" if "can_issue X S (vw w Conn) w1"
  proof -
    have "wp (login_session X S u) (\<lambda>out _. lo_user out = u) (\<lambda>_ _. False) w1"
      by (rule up_login_session[OF assms(1-3)]) (simp_all add: same assms(4) that)
    then obtain out w' where "login_session X S u w1 = (Inr out, w')" "lo_user out = u"
      by (auto simp: wp_def split: prod.splits sum.splits)
    then show ?thesis by (simp add: login_in_two_parts bindE_def checks)
  qed
  from that[OF checks same u this] show ?thesis .
qed

text \<open>A token that is no JWT is looked up as an API token.\<close>

lemma up_authenticate_api_token:
  assumes "store_ok X vw" "store_up X vw" "db_toasty (as_db S)"
    and "users_unique (vw w Conn)" "r \<in> t_users (vw w Conn)" "ur_status r = ''active''"
    and "inj_on ut_token_hash (t_api_tokens (vw w Conn))"
    and "api_token_accepted X (vw w Conn) token (ur_id r)"
    and "isl (jwt_decode_header X token)"
  shows "wp (authenticate_bearer X S token) (\<lambda>u _. user_matches (vw w Conn) r u) (\<lambda>_ _. False) w"
proof -
  obtain t where t: "t \<in> t_api_tokens (vw w Conn)" "ut_token_hash t = hash_api_token X token"
    "ut_revoked_at t = None" "ut_user_id t = ur_id r" and wara: "prefix ''wara_'' token"
    using assms(8) by (auto simp: api_token_accepted_def)
  have the_token: "t' = t" if "t' \<in> t_api_tokens (vw w Conn)"
    "ut_token_hash t' = hash_api_token X token" for t'
    using inj_onD[OF assms(7) _ that(1) t(1)] that(2) t(2) by simp
  have the_user: "r' = r" if "r' \<in> t_users (vw w Conn)" "ur_id r' = ur_id r" for r'
    using that assms(4,5) by (auto simp: users_unique_def)
  have user: "wp (get_user_record X S (ut_user_id t)) Q E w1"
    if "vw w1 = vw w" "\<And>w'. vw w' = vw w \<Longrightarrow> Q r w'" for Q E w1
  proof -
    have "wp (db_first (x_users X) Conn (\<lambda>x. ur_id x = ut_user_id t))
        (\<lambda>x. wp (liftE (ok_or (Api Unauthorized) x)) Q E) E w1"
    proof (rule table_up_first[OF users_ok[OF assms(1)] users_up[OF assms(2)]], goal_cases)
      case (1 r' w')
      then have "r' = r" using t(4) that(1) by (intro the_user) simp_all
      with 1 show ?case using that by simp
    next
      case (2 w')
      then show ?case using assms(5) t(4) that(1) by auto
    qed
    then show ?thesis by (simp add: get_user_record_def assms(3))
  qed
  have last: "wp (bindE (db_update (x_api_tokens X) Conn (\<lambda>r. ut_id r = ut_id t) cols) (\<lambda>_.
      user_from_record X S r)) (\<lambda>u _. user_matches (vw w Conn) r u) (\<lambda>_ _. False) w1"
    if "vw w1 = vw w" for cols w1
    by (auto intro!: up_writes[OF assms(1,2)] up_user_from_record[OF assms(1-3)] simp: that)
  have api: "wp (authenticate_api_token X S token) (\<lambda>u _. user_matches (vw w Conn) r u)
      (\<lambda>_ _. False) w"
  proof -
    have "wp (db_first (x_api_tokens X) Conn (\<lambda>x. ut_token_hash x = hash_api_token X token))
        (\<lambda>x. wp (bindE (liftE (ok_or (Api Unauthorized) x)) (\<lambda>record.
          if ut_revoked_at record \<noteq> None then unauthorized
          else bindE (get_user_record X S (ut_user_id record)) (\<lambda>user_record.
            if ur_status user_record \<noteq> user_status_str Active then unauthorized
            else bindE (effectE (x_now X)) (\<lambda>now.
              bindE (db_update (x_api_tokens X) Conn (\<lambda>r. ut_id r = ut_id record)
                [(7, VText (to_rfc3339 X now))]) (\<lambda>_. user_from_record X S user_record)))))
          (\<lambda>u _. user_matches (vw w Conn) r u) (\<lambda>_ _. False)) (\<lambda>_ _. False) w"
    proof (rule table_up_first[OF api_tokens_ok[OF assms(1)] api_tokens_up[OF assms(2)]], goal_cases)
      case (1 t' w')
      then have "t' = t" by (intro the_token)
      then show ?case
        using 1(1) by (auto intro!: user wp_generators(1)[OF assms(1)] last[unfolded wp_bindE]
            simp: t(3) assms(6))
    next
      case (2 w')
      then show ?case using t(1,2) by blast
    qed
    then show ?thesis using wara
      by (simp add: authenticate_api_token_def starts_with_def Let_def assms(3))
  qed
  show ?thesis
    using assms(9) api
    by (auto simp: authenticate_bearer_def verify_access_token_def decoding_key_for_token_def isl_def)
qed

subsection \<open>A round of checks\<close>

text \<open>The stored keys of every server can be decrypted.\<close>

definition keys_readable :: "'a prims_scheme \<Rightarrow> server_service \<Rightarrow> tables \<Rightarrow> bool" where
  "keys_readable P S T \<longleftrightarrow> (\<forall>r \<in> t_servers T. \<not> isl (ssh_target_of P S (server_of r)))"

definition recorded_available :: "server_record \<Rightarrow> bool" where
  "recorded_available r \<longleftrightarrow> sr_docker_status r = ''available'' \<and> sr_last_check_error r = []"

definition available_at :: "tables \<Rightarrow> uuid set \<Rightarrow> bool" where
  "available_at T A \<longleftrightarrow> (\<forall>r \<in> t_servers T. sr_id r \<in> A \<longrightarrow> recorded_available r)"

lemma target_of_core:
  "ssh_target_of P S (server_of (server_core r)) = ssh_target_of P S (server_of r)"
  by (simp add: ssh_target_of_def server_of_def server_core_def)

lemma keys_readable_checks:
  assumes "checks_only T T'"
  shows "keys_readable P S T' = keys_readable P S T"
    and "sr_id ` t_servers T' = sr_id ` t_servers T"
proof -
  have core: "server_core ` t_servers T' = server_core ` t_servers T"
    using assms by (simp add: checks_only_def)
  have readable: "keys_readable P S U \<longleftrightarrow>
      (\<forall>r \<in> server_core ` t_servers U. \<not> isl (ssh_target_of P S (server_of r)))" for U
    by (simp add: keys_readable_def target_of_core)
  show "keys_readable P S T' = keys_readable P S T" unfolding readable core ..
  have ids: "sr_id ` t_servers U = sr_id ` server_core ` t_servers U" for U
    by (simp add: image_image server_core_def)
  show "sr_id ` t_servers T' = sr_id ` t_servers T" unfolding ids core ..
qed

lemma record_check_available:
  "available_at T A \<Longrightarrow> available_at (record_check i ''available'' version at [] T) (insert i A)"
  by (auto simp: available_at_def record_check_def record_check_row recorded_available_def)

text \<open>A check of a server that is there does not fail.\<close>

lemma up_check_server:
  assumes "store_ok X vw" "store_up X vw" "db_toasty (svs_db S)"
    and "keys_readable X S (vw w Conn)" "i \<in> sr_id ` t_servers (vw w Conn)"
  shows "wp (check_server X S i) (\<lambda>_ _. True) (\<lambda>_ _. False) w"
proof -
  have get: "wp (get_server X S i) Q E w"
    if "\<And>r w'. vw w' = vw w \<Longrightarrow> \<not> isl (ssh_target_of X S (server_of r)) \<Longrightarrow> Q (server_of r) w'"
    for Q E
  proof -
    have "wp (db_first (x_servers X) Conn (\<lambda>r. sr_id r = i))
        (\<lambda>x. wp (liftE (ok_or (Api (NotFound ''server'')) (map_option server_of x))) Q E) E w"
    proof (rule table_up_first[OF servers_ok[OF assms(1)] servers_up[OF assms(2)]], goal_cases)
      case (1 r w')
      then show ?case using assms(4) that by (auto simp: keys_readable_def)
    next
      case (2 w')
      then show ?case using assms(5) by auto
    qed
    then show ?thesis by (simp add: get_server_def assms(3))
  qed
  show ?thesis
    unfolding check_server_def update_check_metadata_def Let_def
    by (auto intro!: get wp_generators(1)[OF assms(1)] up_writes[OF assms(1,2)]
        simp: assms(3) isl_def split: sum.split prod.split)
qed

lemma available_check_server:
  assumes "store_ok X vw" "store_up X vw" "db_toasty (svs_db S)"
    and "keys_readable X S (vw w Conn)" "i \<in> sr_id ` t_servers (vw w Conn)"
    and "available_at (vw w Conn) A"
    and "\<And>c w'. sk_server_id c = i \<Longrightarrow> checks_only (vw w Conn) (vw w' Conn) \<Longrightarrow>
      available_at (vw w' Conn) (insert i A) \<Longrightarrow> Q c w'"
  shows "wp (check_server X S i) Q E w"
proof -
  have "wp (check_server X S i) (\<lambda>c w'. sk_server_id c = i \<and> checks_only (vw w Conn) (vw w' Conn) \<and>
      available_at (vw w' Conn) (insert i A)) (\<lambda>_ _. True) w"
  proof (rule wp_check_server[OF assms(1)], goal_cases)
    case (1 c w' T')
    then obtain version err where
      T': "T' = record_check i ''available'' version (sk_checked_at c) err (vw w Conn)"
      and err: "non_empty err = None"
      by (auto simp: check_recorded_def)
    have "err = []" using err by (simp add: non_empty_def split: if_splits)
    then show ?case
      using 1(1,2) T' record_check_available[OF assms(6)] record_check_only
      by (simp add: check_recorded_def)
  qed simp
  from wp_conj[OF this up_check_server[OF assms(1-5)]] show ?thesis
    by (rule wp_mono) (use assms(7) in blast)+
qed

lemma available_check_each:
  assumes "store_ok X vw" "store_up X vw" "db_toasty (svs_db S)"
    and "keys_readable X S (vw w Conn)" "sv_id ` set servers \<subseteq> sr_id ` t_servers (vw w Conn)"
    and "available_at (vw w Conn) A"
    and "\<And>cs w'. map sk_server_id cs = map sk_server_id acc @ map sv_id servers \<Longrightarrow>
      checks_only (vw w Conn) (vw w' Conn) \<Longrightarrow>
      available_at (vw w' Conn) (sv_id ` set servers \<union> A) \<Longrightarrow> Q cs w'"
  shows "wp (check_each X S servers acc) Q E w"
  using assms(4-7)
proof (induction servers arbitrary: acc w A)
  case Nil
  then show ?case by simp
next
  case (Cons s servers)
  show ?case
    unfolding check_each.simps wp_matchE
  proof (rule available_check_server[OF assms(1-3) Cons.prems(1) _ Cons.prems(3)], goal_cases)
    case 1
    then show ?case using Cons.prems(2) by simp
  next
    case (2 c w1)
    note kept = keys_readable_checks(1)[OF 2(2), of X S] keys_readable_checks(2)[OF 2(2)]
    show ?case
    proof (rule Cons.IH[OF _ _ 2(3)], goal_cases)
      case (3 cs w2)
      then show ?case
        using 2(1) checks_only_trans[OF 2(2)] by (intro Cons.prems(4)) simp_all
    qed (use Cons.prems(1,2) kept in simp_all)
  qed
qed

lemma up_check_all_servers:
  assumes "store_ok X vw" "store_up X vw" "db_toasty (svs_db S)"
    and "keys_readable X S (vw w Conn)"
    and "\<And>cs w'. set (map sk_server_id cs) = sr_id ` t_servers (vw w Conn) \<Longrightarrow>
      checks_only (vw w Conn) (vw w' Conn) \<Longrightarrow>
      available_at (vw w' Conn) (sr_id ` t_servers (vw w' Conn)) \<Longrightarrow> Q cs w'"
  shows "wp (check_all_servers X S) Q E w"
proof -
  have round: "wp (check_each X S (map server_of rs) []) Q E w1"
    if "vw w1 = vw w" "set rs = t_servers (vw w Conn)" for rs w1
  proof (rule available_check_each[OF assms(1-3), where A = "{}"], goal_cases)
    case (4 cs w2)
    have ids: "sv_id ` set (map server_of rs) = sr_id ` t_servers (vw w Conn)"
      using that(2) by (simp add: image_image)
    from 4(1) have cs: "sk_server_id ` set cs = sr_id ` t_servers (vw w Conn)"
      by (simp add: ids[symmetric] flip: set_map)
    show ?case
      using 4(2,3) keys_readable_checks(2)[OF 4(2)] that ids cs
      by (intro assms(5)) simp_all
  qed (use that assms(4) in \<open>simp_all add: image_image available_at_def\<close>)
  show ?thesis
    unfolding check_all_servers_def list_servers_def
    by (auto intro!: up_reads[OF assms(1,2)] round simp: assms(3))
qed

text \<open>The worker: once its timer has ticked, every server has been checked.\<close>

definition ticked :: "worker_event list \<Rightarrow> bool" where
  "ticked events \<longleftrightarrow> Tick \<in> set (takeWhile (\<lambda>e. e \<noteq> Signal) events)"

lemma up_worker_loop:
  assumes "store_ok X vw" "store_up X vw" "db_toasty (svs_db (sca_service A))"
    and "keys_readable X (sca_service A) (vw w Conn)"
    and "\<not> busy \<and> ticked events \<or> available_at (vw w Conn) (sr_id ` t_servers (vw w Conn))"
  shows "wp (worker_loop X A busy events)
    (\<lambda>_ w'. available_at (vw w' Conn) (sr_id ` t_servers (vw w' Conn))) E w"
  using assms(4,5)
proof (induction events arbitrary: busy w)
  case Nil
  then show ?case by (simp add: ticked_def)
next
  case (Cons e events)
  show ?case
  proof (cases e)
    case Signal
    then show ?thesis using Cons by (auto simp: ticked_def)
  next
    case Round_Done
    then show ?thesis using Cons by (auto simp: ticked_def)
  next
    case Tick
    show ?thesis
    proof (cases busy)
      case True
      then show ?thesis using Tick Cons by simp
    next
      case False
      have "wp (check_all_servers X (sca_service A)) (\<lambda>_. wp (worker_loop X A True events)
          (\<lambda>_ w'. available_at (vw w' Conn) (sr_id ` t_servers (vw w' Conn))) E) E' w" for E'
        by (rule up_check_all_servers[OF assms(1-3) Cons.prems(1)], rule Cons.IH)
          (use Cons.prems(1) keys_readable_checks(1)[where P = X] keys_readable_checks(2) in auto)
      then show ?thesis using Tick False by (simp add: activity_check_all_servers_def)
    qed
  qed
qed

end
