(* ===== verification/Scenario.thy ===== *)
theory Scenario
  imports Startup Reference Progress
begin

section \<open>A concrete installation\<close>

text \<open>
  Small states of the reference instance for the witnesses: a configuration with texts short enough
  to evaluate, an admin, a member of one workspace and a signing key.
\<close>

definition demo_config :: config where
  "demo_config =
    \<lparr>cfg_app_env = Test, cfg_bind_addr = ''h:1'', cfg_config_file = None,
     cfg_postgres_user = ''x'', cfg_postgres_password = ''x'', cfg_postgres_db = ''x'',
     cfg_postgres_port = 1, cfg_database_url = ''x'', cfg_secret_key = ''k'',
     cfg_db_push_schema = False, cfg_docs_enabled = False, cfg_remote_services_root = ''/srv'',
     cfg_dockerfile_context_dir = ''ctx'', cfg_jwt_private_key_pem = ''K'',
     cfg_jwt_public_key = ''K'', cfg_jwt_issuer = ''i'', cfg_jwt_audience = ''a'',
     cfg_jwt_access_token_ttl_seconds = 3, cfg_refresh_token_ttl_seconds = 5,
     cfg_app_base_url = ''u'', cfg_invite_token_ttl_seconds = 4,
     cfg_bootstrap_admin_email = ''r@w'', cfg_bootstrap_admin_password = ''pw'',
     cfg_bootstrap_admin_name = ''Root'', cfg_telemetry_enabled = False,
     cfg_otel_service_name = ''x'', cfg_otel_exporter_otlp_endpoint = None, cfg_backend_port = 1,
     cfg_frontend_port = 1, cfg_temporal_address = ''x'', cfg_temporal_namespace = ''x'',
     cfg_temporal_namespaces = ''x'', cfg_temporal_version = ''x'',
     cfg_temporal_ui_version = ''x'', cfg_temporal_postgresql_version = ''x'',
     cfg_temporal_postgres_user = ''x'', cfg_temporal_postgres_password = ''x'',
     cfg_temporal_postgres_port = 1, cfg_temporal_frontend_port = 1, cfg_temporal_ui_port = 1,
     cfg_temporal_ui_cors_origins = ''x'', cfg_server_connectivity_check_interval_seconds = 300,
     cfg_prometheus_port = 1, cfg_jaeger_ui_port = 1, cfg_jaeger_grpc_port = 1,
     cfg_jaeger_http_port = 1, cfg_elastic_username = ''x'', cfg_elastic_password = ''x'',
     cfg_elastic_port = 1, cfg_grafana_port = 1, cfg_grafana_admin_user = ''x'',
     cfg_grafana_admin_password = ''x'', cfg_test_database_url = None\<rparr>"

definition demo_db :: database where
  "demo_db = \<lparr>db_url = ''pg'', db_toasty = True\<rparr>"

definition demo_auth :: auth_service where
  "demo_auth = \<lparr>as_db = demo_db, as_config = demo_config\<rparr>"

definition empty_world :: mem where
  "empty_world = \<lparr>m_conn = no_rows, m_tx = no_rows, m_time = 0, m_ids = 1\<rparr>"

text \<open>After start-up: a signing key and the first admin.\<close>

definition started_world :: mem where
  "started_world = snd (bootstrap_admin ref_ext demo_auth empty_world)"

text \<open>
  A running installation: the admin, a member who administers the one workspace, an invited user,
  and one row of every kind.
\<close>

definition demo_admin :: user_record where
  "demo_admin = \<lparr>ur_id = Uuid 1, ur_email = ''r@w'', ur_name = ''Root'',
    ur_role = ''super_admin'', ur_status = ''active'', ur_password_hash = ''$pw''\<rparr>"

definition demo_member :: user_record where
  "demo_member = \<lparr>ur_id = Uuid 2, ur_email = ''m@w'', ur_name = ''Mem'', ur_role = ''viewer'',
    ur_status = ''active'', ur_password_hash = ''$mw''\<rparr>"

definition demo_invited :: user_record where
  "demo_invited = \<lparr>ur_id = Uuid 3, ur_email = ''i@w'', ur_name = ''Inv'', ur_role = ''viewer'',
    ur_status = ''invited'', ur_password_hash = []\<rparr>"

definition demo_key :: jwt_public_key_record where
  "demo_key = \<lparr>jk_id = Uuid 4, jk_key_type = ''RSA'', jk_key_use = ''sig'',
    jk_algorithm = ''RS256'', jk_modulus = ''K'', jk_exponent = [CHR 0x01], jk_is_active = True,
    jk_created_at = ''t''\<rparr>"

definition demo_service_row :: app_service_record where
  "demo_service_row = \<lparr>asr_id = Uuid 7, asr_workspace_id = Uuid 5, asr_environment_id = Uuid 6,
    asr_name = ''web'', asr_deploy_kind = ''docker_image'', asr_image = Some ''nginx:1'',
    asr_compose_file = None, asr_dockerfile = None, asr_internal_port = None\<rparr>"

definition demo_server_row :: server_record where
  "demo_server_row = \<lparr>sr_id = Uuid 9, sr_name = ''s'', sr_host = ''h'', sr_port = 22,
    sr_username = ''u'', sr_public_key = ''ssh-k'', sr_private_key_fingerprint = ''f'',
    sr_encrypted_private_key = '';xc|k~o'' @ [CHR 0x0A] @ ''aos'',
    sr_encrypted_private_key_passphrase = None, sr_default_proxy = ''nginx'',
    sr_docker_status = ''unchecked'', sr_docker_version = [], sr_last_check_at = [],
    sr_last_check_error = []\<rparr>"

definition demo_rows :: rows where
  "demo_rows = no_rows
    \<lparr>r_users := [demo_admin, demo_member, demo_invited],
     r_jwt_keys := [demo_key],
     r_workspaces := [\<lparr>w_id = Uuid 5, w_name = ''ws'', w_description = None\<rparr>],
     r_environments := [\<lparr>e_id = Uuid 6, e_workspace_id = Uuid 5, e_name = ''production''\<rparr>],
     r_app_services := [demo_service_row],
     r_user_roles := [\<lparr>wu_id = Uuid 8, wu_user_id = Uuid 2, wu_workspace_id = Uuid 5,
       wu_role = ''admin''\<rparr>],
     r_servers := [demo_server_row],
     r_refresh_tokens := [\<lparr>rt_id = Uuid 10, rt_user_id = Uuid 2, rt_created_at = ''t'',
       rt_expires_at = ''t111111111'', rt_revoked_at = None\<rparr>],
     r_api_tokens := [\<lparr>ut_id = Uuid 11, ut_user_id = Uuid 2, ut_name = ''ci'',
       ut_token_hash = ''wara_x**************************'', ut_token_prefix = ''wara_x'',
       ut_created_at = ''t'', ut_revoked_at = None, ut_last_used_at = None\<rparr>],
     r_invites := [\<lparr>ui_id = Uuid 12, ui_user_id = Uuid 3,
       ui_token_hash = ''open****************************'', ui_expires_at = ''t111111111'',
       ui_accepted_at = [], ui_created_at = ''t''\<rparr>],
     r_templates := [\<lparr>wtr_id = Uuid 13, wtr_source_workspace_id = Uuid 5, wtr_name = ''tpl'',
       wtr_description = Some ''d''\<rparr>],
     r_domains := [\<lparr>dr_id = Uuid 14, dr_service_id = Uuid 7, dr_hostname = ''a.b'',
       dr_proxy = ''nginx'', dr_tls_enabled = True\<rparr>]\<rparr>"

text \<open>The stored forms in these rows are those of a private key and of two tokens.\<close>

lemma demo_stored_forms [simp]:
  "encrypt_secret ref_ext ''k'' ''PRIVATE KEY'' = sr_encrypted_private_key demo_server_row"
  "hash_api_token ref_ext ''wara_x'' = ''wara_x**************************''"
  "hash_invite_token ref_ext ''open'' = ''open****************************''"
  by code_simp+

definition demo_world :: mem where
  "demo_world = \<lparr>m_conn = demo_rows, m_tx = no_rows, m_time = 0, m_ids = 20\<rparr>"

text \<open>The same, with the member's tokens revoked.\<close>

definition revoked_world :: mem where
  "revoked_world = demo_world\<lparr>m_conn := demo_rows
    \<lparr>r_refresh_tokens := [\<lparr>rt_id = Uuid 10, rt_user_id = Uuid 2, rt_created_at = ''t'',
       rt_expires_at = ''t111111111'', rt_revoked_at = Some ''t1''\<rparr>],
     r_api_tokens := [\<lparr>ut_id = Uuid 11, ut_user_id = Uuid 2, ut_name = ''ci'',
       ut_token_hash = ''wara_x**************************'', ut_token_prefix = ''wara_x'',
       ut_created_at = ''t'', ut_revoked_at = Some ''t1'', ut_last_used_at = None\<rparr>]\<rparr>\<rparr>"

text \<open>Signed tokens of the member, and its value.\<close>

definition demo_sign :: "json_object \<Rightarrow> string" where
  "demo_sign obj =
    (case jwt_encode ref_ext \<lparr>kid = Some (uuid_to_string ref_ext (Uuid 4))\<rparr> obj ''K'' of
      Inl _ \<Rightarrow> [] | Inr token \<Rightarrow> token)"

definition demo_refresh_claims :: refresh_claims where
  "demo_refresh_claims =
    \<lparr>rc_jti = uuid_to_string ref_ext (Uuid 10), rc_sub = uuid_to_string ref_ext (Uuid 2),
     rc_typ = ''refresh'', rc_iss = ''i'', rc_aud = ''a'', rc_iat = 0, rc_exp = 9\<rparr>"

definition demo_refresh_token :: string where
  "demo_refresh_token = demo_sign (refresh_claims_json demo_refresh_claims)"

definition demo_access_token :: "uuid \<Rightarrow> string" where
  "demo_access_token i = demo_sign (claims_json
    \<lparr>cl_jti = ''j'', cl_ret = ''r'', cl_sub = uuid_to_string ref_ext i, cl_email = ''e'',
     cl_role = ''x'', cl_iss = ''i'', cl_aud = ''a'', cl_iat = 0, cl_exp = 9\<rparr>)"

definition demo_user :: user where
  "demo_user = (user_of demo_member)
    \<lparr>u_workspace_roles := [\<lparr>wro_workspace_id = Uuid 5, wro_role = Admin\<rparr>]\<rparr>"

definition demo_state :: app_state where
  "demo_state = \<lparr>st_config = demo_config, st_db = demo_db\<rparr>"

definition demo_invitation :: invite_user_input where
  "demo_invitation = \<lparr>ii_inviter = demo_user, ii_workspace_id = Uuid 5, ii_email = ''n@w'',
    ii_name = ''New'', ii_role = Operator\<rparr>"

text \<open>A matcher that tries the registered paths in their order.\<close>

fun first_match :: "segment_pattern list list \<Rightarrow> string list \<Rightarrow> (nat \<times> string list) option" where
  "first_match [] path = None"
| "first_match (pat # pats) path =
    (case match_path pat path of
       Some params \<Rightarrow> Some (0, params)
     | None \<Rightarrow> map_option (\<lambda>(i, params). (Suc i, params)) (first_match pats path))"

lemma first_match_ok:
  "case first_match pats path of
     None \<Rightarrow> \<forall>pat \<in> set pats. match_path pat path = None
   | Some (i, params) \<Rightarrow> i < length pats \<and> match_path (pats ! i) path = Some params"
  by (induction pats path rule: first_match.induct) (auto split: option.splits)

definition demo_decoders :: "string decoders" where
  "demo_decoders =
    \<lparr>dec_route = first_match,
     dec_segment = (\<lambda>s. case uuid_parse ref_ext s of Some i \<Rightarrow> Inr i | None \<Rightarrow> Inl (400, ''bad id'')),
     dec_login_request = (\<lambda>_. Unreadable 400 []),
     dec_refresh_session_request = (\<lambda>_. Unreadable 400 []),
     dec_logout_request = (\<lambda>_. Unreadable 400 []),
     dec_accept_invite_request = (\<lambda>_. Unreadable 400 []),
     dec_create_api_token_request = (\<lambda>b. Body \<lparr>tq_name = b\<rparr> 400 []),
     dec_create_server_request = (\<lambda>_. Unreadable 400 []),
     dec_create_workspace_request = (\<lambda>_. Unreadable 400 []),
     dec_create_environment_request = (\<lambda>_. Unreadable 400 []),
     dec_create_service_request = (\<lambda>_. Unreadable 400 []),
     dec_create_credential_request = (\<lambda>_. Unreadable 400 []),
     dec_create_env_var_request = (\<lambda>_. Unreadable 400 []),
     dec_create_env_vars_request = (\<lambda>_. Unreadable 400 []),
     dec_create_domain_request = (\<lambda>_. Unreadable 400 []),
     dec_create_template_request = (\<lambda>_. Unreadable 400 []),
     dec_create_workspaces_from_template_request = (\<lambda>_. Unreadable 400 []),
     dec_telemetry_settings = (\<lambda>_. Unreadable 400 []),
     dec_invite_user_request = (\<lambda>_. Unreadable 400 []),
     dec_change_user_role_request = (\<lambda>_. Unreadable 400 [])\<rparr>"

lemma demo_matcher_ok: "matcher_ok demo_decoders"
  using first_match_ok by (simp add: matcher_ok_def demo_decoders_def)

definition demo_request :: "http_method \<Rightarrow> string list \<Rightarrow> string option \<Rightarrow> string http_request" where
  "demo_request m path authorization =
    \<lparr>h_method = m, h_path = [''api'', ''v1''] @ path, h_authorization = authorization, h_body = ''tok''\<rparr>"

definition demo_service :: app_service where
  "demo_service =
    \<lparr>sc_id = Uuid 7, sc_workspace_id = Uuid 1, sc_environment_id = Uuid 2, sc_name = ''web'',
     sc_deploy_kind = DockerImage, sc_image = Some ''nginx:1'', sc_compose_file = None,
     sc_dockerfile = None, sc_internal_port = None\<rparr>"

definition demo_new_service :: create_app_service_input where
  "demo_new_service = \<lparr>cs_workspace_id = Uuid 5, cs_environment_id = Uuid 6, cs_name = ''api'',
    cs_deploy_kind = Dockerfile, cs_image = None, cs_compose_file = None, cs_dockerfile = None,
    cs_internal_port = Some 80\<rparr>"

definition demo_env_vars :: "create_env_var_input list" where
  "demo_env_vars =
    [\<lparr>ce_workspace_id = Uuid 5, ce_environment_id = Some (Uuid 6), ce_service_id = None,
      ce_key = ''A'', ce_value = ''1''\<rparr>,
     \<lparr>ce_workspace_id = Uuid 5, ce_environment_id = None, ce_service_id = Some (Uuid 7),
      ce_key = ''B'', ce_value = ''2''\<rparr>]"

definition demo_new_server :: create_server_input where
  "demo_new_server = \<lparr>cv_name = ''s'', cv_host = ''h'', cv_port = None, cv_username = ''u'',
    cv_public_key = ''ssh-k'', cv_private_key = ''PRIVATE KEY'',
    cv_private_key_passphrase = Some ''p'', cv_default_proxy = None\<rparr>"

text \<open>A request of the member for a new API token.\<close>

definition token_request :: "string http_request" where
  "token_request = demo_request POST [''auth'', ''api-tokens'']
    (Some ''Bearer wara_x'')"

text \<open>The database in memory is up.\<close>

lemma mem_table_up:
  assumes "\<And>r. set (get r) = tget (rows_view r)"
  shows "table_up ref_view tget clash (mem_table get upd clash setc)"
  by (simp add: table_up_def mem_table_def mem_calls ref_view_def list_ex_iff flip: assms)

lemma ref_store_up: "store_up ref_ext ref_view"
  unfolding store_up_def by (simp add: ref_ext_def clash_defs mem_table_up rows_view_def)

text \<open>The demo key signs.\<close>

lemma demo_signer_ready: "signer_ready ref_ext demo_auth (ref_view demo_world Conn)"
proof -
  have "\<not> isl (ref_jwt_encode h (claims_json c) key)"
    "\<not> isl (ref_jwt_encode h (refresh_claims_json rc) key)" for h c rc key
    by (simp_all add: ref_jwt_encode_def claims_json_def refresh_claims_json_def)
  then show ?thesis
    by (simp add: signer_ready_def ref_ext_def ref_calls ref_view_def rows_view_def
        side_def demo_world_def demo_rows_def demo_key_def valid_jwk_metadata_def)
qed

lemma ref_argon2_laws: "argon2_laws ref_ext"
  by (auto simp: argon2_laws_def ref_ext_def ref_argon2_hash_def ref_phc_parses_def
      ref_argon2_verifies_def)

text \<open>A host that connects to everything.\<close>

definition demo_host :: "(mem, string) host" where
  "demo_host =
    \<lparr>ho_connect = (\<lambda>_. returnE ()), ho_push_schema = returnE (), ho_parse_addr = Inr,
     ho_bind = (\<lambda>_. returnE ()), ho_serve = (\<lambda>_. returnE ())\<rparr>"

lemma demo_host_ok: "host_ok demo_host ref_view"
  by (simp add: host_ok_def demo_host_def silent_def returnE_def)

lemma demo_refresh_token_signed: "refresh_token_for ref_ext demo_refresh_token (Uuid 10) (Uuid 2)"
proof -
  have "jwt_encode ref_ext \<lparr>kid = Some (uuid_to_string ref_ext (Uuid 4))\<rparr>
      (refresh_claims_json demo_refresh_claims) ''K'' = Inr demo_refresh_token"
    by code_simp
  then show ?thesis unfolding refresh_token_for_def by (force simp: demo_refresh_claims_def)
qed

text \<open>A run that does not fail has a value.\<close>

lemma ran: "\<not> isl (fst (m w)) \<Longrightarrow> \<exists>x w'. m w = (Inr x, w')"
  by (metis isl_def prod.collapse sum.exhaust_sel)

text \<open>What a weakest precondition says of a run that does not fail.\<close>

lemma wp_ran:
  assumes "wp m Q E w" and "\<not> isl (fst (m w))"
  shows "\<exists>x w'. m w = (Inr x, w') \<and> Q x w'"
proof -
  from assms(2) obtain x w' where "m w = (Inr x, w')" using ran[of m w] by blast
  then show ?thesis using wp_okD[OF assms(1)] by blast
qed

text \<open>A run that has no way to fail.\<close>

lemma wp_total:
  assumes "wp m Q (\<lambda>_ _. False) w"
  shows "\<exists>x w'. m w = (Inr x, w') \<and> Q x w'"
  using assms by (auto simp: wp_def split: prod.splits sum.splits)

text \<open>The member's request is answered with a new token.\<close>

lemma token_request_served:
  "\<exists>r w'. answer_request ref_ext demo_state demo_decoders token_request demo_world = (Inr (Reply r), w')"
proof -
  let ?serve = "serve ref_ext demo_state (Some ''Bearer wara_x'')
      (CreateApiToken (Body \<lparr>tq_name = ''tok''\<rparr> 400 []))"
  have "answer_request ref_ext demo_state demo_decoders token_request =
      matchE ?serve (\<lambda>r. returnE (Reply r)) (\<lambda>e. returnE (api_failure ref_ext e))"
    by (simp add: answer_request_def token_request_def demo_request_def serve_api_def
        run_route_def dispatch_api_def dispatch_def api_routes_def auth_router_def demo_decoders_def)
  moreover have "\<not> isl (fst (?serve demo_world))" by code_simp
  ultimately show ?thesis
    using ran[of ?serve demo_world] by (auto simp: matchE_def returnE_def)
qed

end
