(* ===== verification/Observations.thy ===== *)
theory Observations
  imports Scenario Executor
begin

section \<open>What the model shows against the expectations\<close>

text \<open>
  Behaviour of the code that a comment, a document or a sibling of the function suggests
  otherwise, each on the model's own definitions: by evaluation in the concrete installation where
  a run is concerned.
\<close>

text \<open>
  A secret that contains another one is not redacted whole if the other one comes first, whatever
  the comment of \<open>redact_secrets\<close> says of captured output.
\<close>

lemma overlapping_secret_survives_in_part:
  "redact_secrets ''token=abXcd'' [''X'', ''abXcd''] = ''token=ab[redacted]cd''"
  by code_simp

text \<open>An image reference may look like an option of the command it is an argument of.\<close>

lemma image_reference_like_an_option:
  "validate_image_reference P ''--help'' = Inr ()"
  unfolding validate_image_reference_iff by code_simp

text \<open>A hostname is written into the configuration as it is: it can bring lines of its own.\<close>

lemma hostname_adds_lines:
  assumes "d_hostname d = ''a;'' @ nl @ line @ nl @ rest"
  shows "sublist (nl @ line @ nl) (generate_config P d upstream)"
proof -
  have mid: "sublist (nl @ line @ nl) (xs @ d_hostname d @ ys)" for xs ys
    unfolding assms sublist_def by (rule exI[of _ "xs @ ''a;''"], rule exI[of _ "rest @ ys"]) simp
  show ?thesis
  proof (cases "d_proxy d")
    case Nginx
    show ?thesis
      using mid[of "''server {'' @ nl @ ''    listen 80;'' @ nl @ ''    server_name ''"]
      by (simp add: generate_config_def Nginx)
  next
    case Traefik
    show ?thesis
      using mid[of "''http:'' @ nl @ ''  routers:'' @ nl @ ''    '' @ uuid_to_string P (d_id d) @
        '':'' @ nl @ ''      rule: Host(`''"]
      by (simp add: generate_config_def Traefik)
  qed
qed

text \<open>The copy mode of a template is read and has no effect.\<close>

lemma secret_copy_mode_ignored:
  "create_workspaces_from_template X S (input\<lparr>cw_secret_copy_mode := m\<rparr>) =
    create_workspaces_from_template X S input"
  by (simp add: create_workspaces_from_template_def)

text \<open>A service is stored under a name no deployment accepts.\<close>

lemma undeployable_service_stored:
  "let (s, _) = create_service ref_ext \<lparr>ss_db = demo_db\<rparr>
      (demo_new_service\<lparr>cs_name := ''Web app''\<rparr>) demo_world
   in \<not> isl s \<and> isl (planned_commands ref_ext (projr s) demo_config)"
  by code_simp

text \<open>
  An invited user with the platform role cannot be disabled while there is one active platform
  admin, although that admin would stay: \<open>disable_user\<close> does not look at the status of the user,
  as \<open>change_user_role\<close> does.
\<close>

definition invited_admin_world :: mem where
  "invited_admin_world = demo_world\<lparr>m_conn := demo_rows
    \<lparr>r_users := [demo_admin, demo_invited\<lparr>ur_role := ''super_admin''\<rparr>]\<rparr>\<rparr>"

lemma invited_admin_not_disabled:
  "fst (disable_user ref_ext demo_auth (Uuid 3) invited_admin_world) =
    Inl (Api (BadRequest ''cannot disable the last active platform admin''))"
  by code_simp

text \<open>
  The guard for the last platform admin reads and then writes, in two statements and no
  transaction.  Two requests that disable one of two admins each, and both read before either
  writes, leave none; one after the other, the second one is refused.
\<close>

definition disable_user_check ::
  "('w, 'a) ext_scheme \<Rightarrow> auth_service \<Rightarrow> uuid \<Rightarrow> ('w, exn, user_record) io" where
  "disable_user_check X S user_id =
    bindE (get_user_record X S user_id) (\<lambda>record.
    if ur_status record = user_status_str Disabled then returnE record
    else bindE (if ur_role record = role_str SuperAdmin
                then bindE (active_super_admin_count X S) (\<lambda>n. returnE (n \<le> 1))
                else returnE False) (\<lambda>last.
      if last then throwE (Api (BadRequest ''cannot disable the last active platform admin''))
      else returnE record))"

definition disable_user_act ::
  "('w, 'a) ext_scheme \<Rightarrow> auth_service \<Rightarrow> uuid \<Rightarrow> user_record \<Rightarrow> ('w, exn, user) io" where
  "disable_user_act X S user_id record =
    (if ur_status record = user_status_str Disabled then user_from_record X S record
     else update_user_status X S user_id Disabled)"

lemma disable_user_in_two_parts:
  "disable_user X S user_id = bindE (disable_user_check X S user_id) (disable_user_act X S user_id)"
  by (rule ext) (auto simp: disable_user_def disable_user_check_def disable_user_act_def bindE_def
      returnE_def throwE_def split: prod.splits sum.splits)

definition two_admins_world :: mem where
  "two_admins_world = demo_world\<lparr>m_conn := demo_rows
    \<lparr>r_users := [demo_admin, demo_member\<lparr>ur_role := ''super_admin''\<rparr>]\<rparr>\<rparr>"

definition admins_after :: "(mem, exn, 'a) io \<Rightarrow> (bool \<times> nat)" where
  "admins_after m =
    (let (r, w) = m two_admins_world
     in (\<not> isl r, length (filter (\<lambda>u. ur_role u = ''super_admin'' \<and> ur_status u = ''active'')
       (r_users (m_conn w)))))"

lemma interleaved_disables_leave_no_admin:
  "admins_after
    (bindE (disable_user_check ref_ext demo_auth (Uuid 1)) (\<lambda>r1.
     bindE (disable_user_check ref_ext demo_auth (Uuid 2)) (\<lambda>r2.
     bindE (disable_user_act ref_ext demo_auth (Uuid 1) r1) (\<lambda>_.
     disable_user_act ref_ext demo_auth (Uuid 2) r2)))) = (True, 0)"
  "admins_after
    (bindE (disable_user ref_ext demo_auth (Uuid 1)) (\<lambda>_.
     disable_user ref_ext demo_auth (Uuid 2))) = (False, 1)"
  by code_simp+

text \<open>
  A signal to stop that arrives while a round of checks runs is lost: the worker goes on with the
  next round, and stops at a later signal only.
\<close>

lemma signal_during_round_is_lost:
  "fst (run_server_connectivity_workflow ref_ext demo_config demo_db
    [Tick, Signal, Round_Done, Tick, Round_Done] demo_world) = Inr False"
  "fst (run_server_connectivity_workflow ref_ext demo_config demo_db
    [Tick, Signal, Round_Done, Signal] demo_world) = Inr True"
  by code_simp+

text \<open>The published key set holds the inactive keys as well as the active one.\<close>

lemma inactive_key_published:
  "case fst (jwks_keys_of ref_ext demo_auth
      (demo_world\<lparr>m_conn := demo_rows\<lparr>r_jwt_keys := [demo_key\<lparr>jk_is_active := False\<rparr>]\<rparr>\<rparr>)) of
    Inl _ \<Rightarrow> False | Inr keys \<Rightarrow> length (jwks_keys keys) = 1"
  by code_simp

end
