(* ===== verification/Api_Doc.thy ===== *)
theory Api_Doc
  imports Router Authorization
begin

section \<open>The description of the API\<close>

text \<open>
  \<open>openapi.rs\<close> and the \<open>utoipa::path\<close> annotations of the handlers: the operations the generated
  document lists, in its order, and the modifier that adds the error responses they have in
  common.  An operation keeps what the theorems speak of: its identifier, which is the name of the
  annotated function, its method and path, whether it asks for a bearer token, the type of its body, and its responses by status.  How the package prints the
  document is not modelled.
\<close>

datatype response_doc =
    Declared string
  | Listed string
  | Described string
  | Common string

record operation =
  op_id :: string
  op_method :: http_method
  op_path :: string
  op_secured :: bool
  op_request_body :: "string option"
  op_responses :: "(string \<times> response_doc) list"

record security_scheme =
  sec_scheme :: string
  sec_bearer_format :: string

record api_document =
  ad_operations :: "operation list"
  ad_schemas :: "string list"
  ad_security_schemes :: "(string \<times> security_scheme) list"

subsection \<open>The annotations\<close>

definition doc_health :: operation where
  "doc_health =
    \<lparr>op_id = ''health'', op_method = GET, op_path = ''/health'',
     op_secured = False, op_request_body = None,
     op_responses = [(''200'', Described ''Platform health check'')]\<rparr>"

definition doc_jwks :: operation where
  "doc_jwks =
    \<lparr>op_id = ''jwks'', op_method = GET, op_path = ''/.well-known/jwks.json'',
     op_secured = False, op_request_body = None,
     op_responses = [(''200'', Declared ''Jwks''), (''500'', Declared ''ErrorResponse'')]\<rparr>"

definition doc_login :: operation where
  "doc_login =
    \<lparr>op_id = ''login'', op_method = POST, op_path = ''/api/v1/auth/login'',
     op_secured = False, op_request_body = Some ''LoginRequest'',
     op_responses = [(''200'', Declared ''LoginResponse''), (''401'', Declared ''ErrorResponse'')]\<rparr>"

definition doc_refresh_session :: operation where
  "doc_refresh_session =
    \<lparr>op_id = ''refresh_session'', op_method = POST, op_path = ''/api/v1/auth/refresh'',
     op_secured = False, op_request_body = Some ''RefreshSessionRequest'',
     op_responses = [(''200'', Declared ''LoginResponse''), (''401'', Declared ''ErrorResponse'')]\<rparr>"

definition doc_logout :: operation where
  "doc_logout =
    \<lparr>op_id = ''logout'', op_method = POST, op_path = ''/api/v1/auth/logout'',
     op_secured = False, op_request_body = Some ''LogoutRequest'',
     op_responses = [(''204'', Described ''Refresh token revoked''), (''401'', Declared ''ErrorResponse'')]\<rparr>"

definition doc_accept_invite :: operation where
  "doc_accept_invite =
    \<lparr>op_id = ''accept_invite'', op_method = POST, op_path = ''/api/v1/auth/invites/accept'',
     op_secured = False, op_request_body = Some ''AcceptInviteRequest'',
     op_responses = [(''200'', Declared ''LoginResponse''), (''401'', Declared ''ErrorResponse'')]\<rparr>"

definition doc_me :: operation where
  "doc_me =
    \<lparr>op_id = ''me'', op_method = GET, op_path = ''/api/v1/auth/me'',
     op_secured = True, op_request_body = None,
     op_responses = [(''200'', Declared ''User''), (''401'', Declared ''ErrorResponse'')]\<rparr>"

definition doc_list_api_tokens :: operation where
  "doc_list_api_tokens =
    \<lparr>op_id = ''list_api_tokens'', op_method = GET, op_path = ''/api/v1/auth/api-tokens'',
     op_secured = True, op_request_body = None,
     op_responses = [(''200'', Listed ''ApiTokenResponse''), (''401'', Declared ''ErrorResponse'')]\<rparr>"

definition doc_create_api_token :: operation where
  "doc_create_api_token =
    \<lparr>op_id = ''create_api_token'', op_method = POST, op_path = ''/api/v1/auth/api-tokens'',
     op_secured = True, op_request_body = Some ''CreateApiTokenRequest'',
     op_responses = [(''200'', Declared ''CreateApiTokenResponse''), (''401'', Declared ''ErrorResponse'')]\<rparr>"

definition doc_revoke_api_token :: operation where
  "doc_revoke_api_token =
    \<lparr>op_id = ''revoke_api_token'', op_method = DELETE, op_path = ''/api/v1/auth/api-tokens/{id}'',
     op_secured = True, op_request_body = None,
     op_responses = [(''200'', Declared ''ApiTokenResponse''), (''401'', Declared ''ErrorResponse''), (''404'', Declared ''ErrorResponse'')]\<rparr>"

definition doc_list_servers :: operation where
  "doc_list_servers =
    \<lparr>op_id = ''list_servers'', op_method = GET, op_path = ''/api/v1/servers'',
     op_secured = True, op_request_body = None,
     op_responses = [(''200'', Listed ''Server'')]\<rparr>"

definition doc_create_server :: operation where
  "doc_create_server =
    \<lparr>op_id = ''create_server'', op_method = POST, op_path = ''/api/v1/servers'',
     op_secured = True, op_request_body = Some ''CreateServerRequest'',
     op_responses = [(''200'', Declared ''Server'')]\<rparr>"

definition doc_get_server :: operation where
  "doc_get_server =
    \<lparr>op_id = ''get_server'', op_method = GET, op_path = ''/api/v1/servers/{id}'',
     op_secured = True, op_request_body = None,
     op_responses = [(''200'', Declared ''Server''), (''404'', Declared ''ErrorResponse'')]\<rparr>"

definition doc_check_server :: operation where
  "doc_check_server =
    \<lparr>op_id = ''check_server'', op_method = POST, op_path = ''/api/v1/servers/{id}/check'',
     op_secured = True, op_request_body = None,
     op_responses = [(''200'', Declared ''ServerCheckResponse''), (''404'', Declared ''ErrorResponse'')]\<rparr>"

definition doc_list_workspaces :: operation where
  "doc_list_workspaces =
    \<lparr>op_id = ''list_workspaces'', op_method = GET, op_path = ''/api/v1/workspaces'',
     op_secured = True, op_request_body = None,
     op_responses = [(''200'', Listed ''Workspace'')]\<rparr>"

definition doc_create_workspace :: operation where
  "doc_create_workspace =
    \<lparr>op_id = ''create_workspace'', op_method = POST, op_path = ''/api/v1/workspaces'',
     op_secured = True, op_request_body = Some ''CreateWorkspaceRequest'',
     op_responses = [(''200'', Declared ''Workspace'')]\<rparr>"

definition doc_get_workspace :: operation where
  "doc_get_workspace =
    \<lparr>op_id = ''get_workspace'', op_method = GET, op_path = ''/api/v1/workspaces/{id}'',
     op_secured = True, op_request_body = None,
     op_responses = [(''200'', Declared ''Workspace'')]\<rparr>"

definition doc_list_environments :: operation where
  "doc_list_environments =
    \<lparr>op_id = ''list_environments'', op_method = GET, op_path = ''/api/v1/workspaces/{workspace_id}/environments'',
     op_secured = True, op_request_body = None,
     op_responses = [(''200'', Listed ''Environment'')]\<rparr>"

definition doc_create_environment :: operation where
  "doc_create_environment =
    \<lparr>op_id = ''create_environment'', op_method = POST, op_path = ''/api/v1/workspaces/{workspace_id}/environments'',
     op_secured = True, op_request_body = Some ''CreateEnvironmentRequest'',
     op_responses = [(''200'', Declared ''Environment'')]\<rparr>"

definition doc_list_services :: operation where
  "doc_list_services =
    \<lparr>op_id = ''list_services'', op_method = GET, op_path = ''/api/v1/workspaces/{workspace_id}/services'',
     op_secured = True, op_request_body = None,
     op_responses = [(''200'', Listed ''AppService'')]\<rparr>"

definition doc_create_service :: operation where
  "doc_create_service =
    \<lparr>op_id = ''create_service'', op_method = POST, op_path = ''/api/v1/workspaces/{workspace_id}/services'',
     op_secured = True, op_request_body = Some ''CreateServiceRequest'',
     op_responses = [(''200'', Declared ''AppService'')]\<rparr>"

definition doc_get_service :: operation where
  "doc_get_service =
    \<lparr>op_id = ''get_service'', op_method = GET, op_path = ''/api/v1/services/{id}'',
     op_secured = True, op_request_body = None,
     op_responses = [(''200'', Declared ''AppService'')]\<rparr>"

definition doc_list_credentials :: operation where
  "doc_list_credentials =
    \<lparr>op_id = ''list_credentials'', op_method = GET, op_path = ''/api/v1/workspaces/{workspace_id}/credentials'',
     op_secured = True, op_request_body = None,
     op_responses = [(''200'', Listed ''CredentialResponse'')]\<rparr>"

definition doc_create_credential :: operation where
  "doc_create_credential =
    \<lparr>op_id = ''create_credential'', op_method = POST, op_path = ''/api/v1/workspaces/{workspace_id}/credentials'',
     op_secured = True, op_request_body = Some ''CreateCredentialRequest'',
     op_responses = [(''200'', Declared ''CredentialResponse'')]\<rparr>"

definition doc_list_env_vars :: operation where
  "doc_list_env_vars =
    \<lparr>op_id = ''list_env_vars'', op_method = GET, op_path = ''/api/v1/workspaces/{workspace_id}/env-vars'',
     op_secured = True, op_request_body = None,
     op_responses = [(''200'', Listed ''EnvVarResponse'')]\<rparr>"

definition doc_create_env_var :: operation where
  "doc_create_env_var =
    \<lparr>op_id = ''create_env_var'', op_method = POST, op_path = ''/api/v1/workspaces/{workspace_id}/env-vars'',
     op_secured = True, op_request_body = Some ''CreateEnvVarRequest'',
     op_responses = [(''200'', Declared ''EnvVarResponse'')]\<rparr>"

definition doc_create_env_vars :: operation where
  "doc_create_env_vars =
    \<lparr>op_id = ''create_env_vars'', op_method = POST, op_path = ''/api/v1/workspaces/{workspace_id}/env-vars/bulk'',
     op_secured = True, op_request_body = Some ''CreateEnvVarsRequest'',
     op_responses = [(''200'', Listed ''EnvVarResponse'')]\<rparr>"

definition doc_list_domains :: operation where
  "doc_list_domains =
    \<lparr>op_id = ''list_domains'', op_method = GET, op_path = ''/api/v1/services/{service_id}/domains'',
     op_secured = True, op_request_body = None,
     op_responses = [(''200'', Listed ''Domain'')]\<rparr>"

definition doc_create_domain :: operation where
  "doc_create_domain =
    \<lparr>op_id = ''create_domain'', op_method = POST, op_path = ''/api/v1/services/{service_id}/domains'',
     op_secured = True, op_request_body = Some ''CreateDomainRequest'',
     op_responses = [(''200'', Declared ''Domain'')]\<rparr>"

definition doc_preview_proxy :: operation where
  "doc_preview_proxy =
    \<lparr>op_id = ''preview_proxy'', op_method = POST, op_path = ''/api/v1/domains/{id}/proxy-preview'',
     op_secured = True, op_request_body = None,
     op_responses = [(''200'', Declared ''ProxyPreviewResponse'')]\<rparr>"

definition doc_list_deployments :: operation where
  "doc_list_deployments =
    \<lparr>op_id = ''list_deployments'', op_method = GET, op_path = ''/api/v1/services/{service_id}/deployments'',
     op_secured = True, op_request_body = None,
     op_responses = [(''200'', Listed ''Deployment'')]\<rparr>"

definition doc_trigger_deploy :: operation where
  "doc_trigger_deploy =
    \<lparr>op_id = ''trigger_deploy'', op_method = POST, op_path = ''/api/v1/services/{service_id}/deployments'',
     op_secured = True, op_request_body = None,
     op_responses = [(''200'', Declared ''Deployment'')]\<rparr>"

definition doc_get_deployment :: operation where
  "doc_get_deployment =
    \<lparr>op_id = ''get_deployment'', op_method = GET, op_path = ''/api/v1/deployments/{id}'',
     op_secured = True, op_request_body = None,
     op_responses = [(''200'', Declared ''Deployment'')]\<rparr>"

definition doc_restart_service :: operation where
  "doc_restart_service =
    \<lparr>op_id = ''restart_service'', op_method = POST, op_path = ''/api/v1/services/{service_id}/restart'',
     op_secured = True, op_request_body = None,
     op_responses = [(''200'', Declared ''Deployment'')]\<rparr>"

definition doc_service_logs :: operation where
  "doc_service_logs =
    \<lparr>op_id = ''service_logs'', op_method = GET, op_path = ''/api/v1/services/{service_id}/logs'',
     op_secured = True, op_request_body = None,
     op_responses = [(''200'', Declared ''LogsResponse'')]\<rparr>"

definition doc_list_workspace_templates :: operation where
  "doc_list_workspace_templates =
    \<lparr>op_id = ''list_workspace_templates'', op_method = GET, op_path = ''/api/v1/workspaces/{workspace_id}/templates'',
     op_secured = True, op_request_body = None,
     op_responses = [(''200'', Listed ''WorkspaceTemplate'')]\<rparr>"

definition doc_create_template :: operation where
  "doc_create_template =
    \<lparr>op_id = ''create_template'', op_method = POST, op_path = ''/api/v1/workspaces/{workspace_id}/templates'',
     op_secured = True, op_request_body = Some ''CreateTemplateRequest'',
     op_responses = [(''200'', Declared ''WorkspaceTemplate'')]\<rparr>"

definition doc_create_workspaces_from_template :: operation where
  "doc_create_workspaces_from_template =
    \<lparr>op_id = ''create_workspaces_from_template'', op_method = POST, op_path = ''/api/v1/templates/{id}/workspaces'',
     op_secured = True, op_request_body = Some ''CreateWorkspacesFromTemplateRequest'',
     op_responses = [(''200'', Declared ''BulkWorkspaceCreateResponse'')]\<rparr>"

definition doc_get_settings :: operation where
  "doc_get_settings =
    \<lparr>op_id = ''get_settings'', op_method = GET, op_path = ''/api/v1/telemetry/settings'',
     op_secured = True, op_request_body = None,
     op_responses = [(''200'', Declared ''TelemetrySettings'')]\<rparr>"

definition doc_update_settings :: operation where
  "doc_update_settings =
    \<lparr>op_id = ''update_settings'', op_method = PUT, op_path = ''/api/v1/telemetry/settings'',
     op_secured = True, op_request_body = Some ''TelemetrySettings'',
     op_responses = [(''200'', Declared ''TelemetrySettings'')]\<rparr>"

definition doc_list_users :: operation where
  "doc_list_users =
    \<lparr>op_id = ''list_users'', op_method = GET, op_path = ''/api/v1/admin/users'',
     op_secured = True, op_request_body = None,
     op_responses = [(''200'', Listed ''User'')]\<rparr>"

definition doc_invite_user :: operation where
  "doc_invite_user =
    \<lparr>op_id = ''invite_user'', op_method = POST, op_path = ''/api/v1/admin/users'',
     op_secured = True, op_request_body = Some ''InviteUserRequest'',
     op_responses = [(''200'', Declared ''InviteUserResponse'')]\<rparr>"

definition doc_disable_user :: operation where
  "doc_disable_user =
    \<lparr>op_id = ''disable_user'', op_method = POST, op_path = ''/api/v1/admin/users/{id}/disable'',
     op_secured = True, op_request_body = None,
     op_responses = [(''200'', Declared ''User'')]\<rparr>"

definition doc_reactivate_user :: operation where
  "doc_reactivate_user =
    \<lparr>op_id = ''reactivate_user'', op_method = POST, op_path = ''/api/v1/admin/users/{id}/reactivate'',
     op_secured = True, op_request_body = None,
     op_responses = [(''200'', Declared ''User'')]\<rparr>"

definition doc_change_user_role :: operation where
  "doc_change_user_role =
    \<lparr>op_id = ''change_user_role'', op_method = PATCH, op_path = ''/api/v1/admin/users/{id}/role'',
     op_secured = True, op_request_body = Some ''ChangeUserRoleRequest'',
     op_responses = [(''200'', Declared ''User'')]\<rparr>"

text \<open>\<open>paths(...)\<close> and \<open>schemas(...)\<close>.\<close>

definition documented_operations :: "operation list" where
  "documented_operations =
   [doc_health, doc_jwks, doc_login, doc_refresh_session, doc_logout, doc_accept_invite,
    doc_me, doc_list_api_tokens, doc_create_api_token, doc_revoke_api_token,
    doc_list_servers, doc_create_server, doc_get_server, doc_check_server,
    doc_list_workspaces, doc_create_workspace, doc_get_workspace, doc_list_environments,
    doc_create_environment, doc_list_services, doc_create_service, doc_get_service,
    doc_list_credentials, doc_create_credential, doc_list_env_vars, doc_create_env_var,
    doc_create_env_vars, doc_list_domains, doc_create_domain, doc_preview_proxy,
    doc_list_deployments, doc_trigger_deploy, doc_get_deployment, doc_restart_service,
    doc_service_logs, doc_list_workspace_templates, doc_create_template,
    doc_create_workspaces_from_template, doc_get_settings, doc_update_settings,
    doc_list_users, doc_invite_user, doc_disable_user, doc_reactivate_user,
    doc_change_user_role]"

definition documented_schemas :: "string list" where
  "documented_schemas =
   [''ErrorResponse'', ''User'', ''Role'', ''WorkspaceRole'', ''UserStatus'',
    ''JwtPublicKey'', ''Jwks'', ''Server'', ''Workspace'', ''Environment'', ''AppService'',
    ''DockerCredential'', ''EnvVar'', ''Domain'', ''Deployment'', ''DeploymentStatus'',
    ''WorkspaceTemplate'', ''DeployKind'', ''ProxyKind'', ''LoginRequest'',
    ''LoginResponse'', ''RefreshSessionRequest'', ''LogoutRequest'',
    ''AcceptInviteRequest'', ''CreateApiTokenRequest'', ''ApiTokenResponse'',
    ''CreateApiTokenResponse'', ''CreateServerRequest'', ''ServerCheckResponse'',
    ''CreateWorkspaceRequest'', ''CreateEnvironmentRequest'', ''CreateServiceRequest'',
    ''CreateCredentialRequest'', ''CredentialResponse'', ''CreateEnvVarRequest'',
    ''CreateEnvVarsRequest'', ''EnvVarResponse'', ''CreateDomainRequest'',
    ''ProxyPreviewResponse'', ''LogsResponse'', ''CreateTemplateRequest'',
    ''CreateWorkspacesFromTemplateRequest'', ''BulkWorkspaceCreateResponse'',
    ''SecretCopyMode'', ''TelemetrySettings'', ''InviteUserRequest'',
    ''InviteUserResponse'', ''ChangeUserRoleRequest'']"

subsection \<open>The modifier\<close>

text \<open>\<open>entry(key).or_insert(value)\<close>.\<close>

definition or_insert :: "string \<Rightarrow> 'v \<Rightarrow> (string \<times> 'v) list \<Rightarrow> (string \<times> 'v) list" where
  "or_insert k v entries = (if k \<in> fst ` set entries then entries else entries @ [(k, v)])"

definition add_common_error_responses :: "operation \<Rightarrow> operation" where
  "add_common_error_responses operation = operation\<lparr>op_responses :=
    fold (\<lambda>(status, description). or_insert status (Common description))
      [(''400'', ''Invalid request''),
       (''401'', ''Authentication required''),
       (''403'', ''Forbidden''),
       (''404'', ''Resource not found''),
       (''500'', ''Internal server error'')]
      (op_responses operation)\<rparr>"

definition security_addon :: "api_document \<Rightarrow> api_document" where
  "security_addon openapi = openapi
    \<lparr>ad_security_schemes := (''bearer_auth'',
       \<lparr>sec_scheme = ''bearer'', sec_bearer_format = ''opaque-api-token''\<rparr>) #
       filter (\<lambda>(name, _). name \<noteq> ''bearer_auth'') (ad_security_schemes openapi),
     ad_operations := map add_common_error_responses (ad_operations openapi)\<rparr>"

definition api_doc :: api_document where
  "api_doc = security_addon
    \<lparr>ad_operations = documented_operations, ad_schemas = documented_schemas,
     ad_security_schemes = []\<rparr>"

subsection \<open>What a path stands for\<close>

definition segment_of :: "string \<Rightarrow> segment_pattern" where
  "segment_of s = (if take 1 s = ''{'' then Param else Lit s)"

definition template :: "operation \<Rightarrow> segment_pattern list" where
  "template operation = map segment_of (components (op_path operation))"

text \<open>An operation documents a method on a path.\<close>

definition describes :: "operation \<Rightarrow> http_method \<Rightarrow> string list \<Rightarrow> bool" where
  "describes operation m path \<longleftrightarrow>
    op_method operation = m \<and> match_path (template operation) path \<noteq> None"

text \<open>The handler function of an endpoint, and the segment of the path it is given.\<close>

primrec handled_by :: "endpoint \<Rightarrow> string \<times> segment option" where
  "handled_by (Login _) = (''login'', None)"
| "handled_by (Refresh _) = (''refresh_session'', None)"
| "handled_by (Logout _) = (''logout'', None)"
| "handled_by (AcceptInvite _) = (''accept_invite'', None)"
| "handled_by Me = (''me'', None)"
| "handled_by ListApiTokens = (''list_api_tokens'', None)"
| "handled_by (CreateApiToken _) = (''create_api_token'', None)"
| "handled_by (RevokeApiToken seg) = (''revoke_api_token'', Some seg)"
| "handled_by ListServers = (''list_servers'', None)"
| "handled_by (CreateServer _) = (''create_server'', None)"
| "handled_by (GetServer seg) = (''get_server'', Some seg)"
| "handled_by (CheckServer seg) = (''check_server'', Some seg)"
| "handled_by ListWorkspaces = (''list_workspaces'', None)"
| "handled_by (CreateWorkspace _) = (''create_workspace'', None)"
| "handled_by (GetWorkspace seg) = (''get_workspace'', Some seg)"
| "handled_by (ListEnvironments seg) = (''list_environments'', Some seg)"
| "handled_by (CreateEnvironment seg _) = (''create_environment'', Some seg)"
| "handled_by (ListServices seg) = (''list_services'', Some seg)"
| "handled_by (CreateService seg _) = (''create_service'', Some seg)"
| "handled_by (GetService seg) = (''get_service'', Some seg)"
| "handled_by (ListCredentials seg) = (''list_credentials'', Some seg)"
| "handled_by (CreateCredential seg _) = (''create_credential'', Some seg)"
| "handled_by (ListEnvVars seg) = (''list_env_vars'', Some seg)"
| "handled_by (CreateEnvVar seg _) = (''create_env_var'', Some seg)"
| "handled_by (CreateEnvVars seg _) = (''create_env_vars'', Some seg)"
| "handled_by (ListDomains seg) = (''list_domains'', Some seg)"
| "handled_by (CreateDomain seg _) = (''create_domain'', Some seg)"
| "handled_by (PreviewProxy seg) = (''preview_proxy'', Some seg)"
| "handled_by (ListDeployments seg) = (''list_deployments'', Some seg)"
| "handled_by (TriggerDeploy seg) = (''trigger_deploy'', Some seg)"
| "handled_by (GetDeployment seg) = (''get_deployment'', Some seg)"
| "handled_by (RestartService seg) = (''restart_service'', Some seg)"
| "handled_by (ServiceLogs seg) = (''service_logs'', Some seg)"
| "handled_by (ListTemplates seg) = (''list_workspace_templates'', Some seg)"
| "handled_by (CreateTemplate seg _) = (''create_template'', Some seg)"
| "handled_by (FromTemplate seg _) = (''create_workspaces_from_template'', Some seg)"
| "handled_by GetSettings = (''get_settings'', None)"
| "handled_by (UpdateSettings _) = (''update_settings'', None)"
| "handled_by ListUsers = (''list_users'', None)"
| "handled_by (InviteUser _) = (''invite_user'', None)"
| "handled_by (DisableUser seg) = (''disable_user'', Some seg)"
| "handled_by (ReactivateUser seg) = (''reactivate_user'', Some seg)"
| "handled_by (ChangeUserRole seg _) = (''change_user_role'', Some seg)"

text \<open>
  What the annotations say of the operations of the API is what the routers register: method, path
  and handler, one by one.
\<close>

definition signature_of_operation :: "operation \<Rightarrow> http_method \<times> segment_pattern list \<times> string" where
  "signature_of_operation operation = (op_method operation, template operation, op_id operation)"

definition signatures_of_route ::
  "string list \<Rightarrow> route \<Rightarrow> (http_method \<times> segment_pattern list \<times> string) list" where
  "signatures_of_route params route =
    map (\<lambda>(m, f). (m, [Lit ''api'', Lit ''v1''] @ fst route, fst (handled_by (f params)))) (snd route)"

lemmas router_defs = auth_router_def servers_router_def workspaces_router_def
  environments_router_def services_router_def credentials_router_def domains_router_def
  deployments_router_def templates_router_def telemetry_router_def admin_router_def

lemma documented_signatures:
  "map signature_of_operation (drop 2 documented_operations) =
    concat (map (signatures_of_route params) (api_routes D b))"
  by (simp add: api_routes_def router_defs signatures_of_route_def) code_simp

lemma two_other_operations:
  "documented_operations = [doc_health, doc_jwks] @ drop 2 documented_operations"
  by (simp add: documented_operations_def)

lemma tables_distinct: "r \<in> set (api_routes D b) \<Longrightarrow> distinct (map fst (snd r))"
  by (auto simp: api_routes_def router_defs)

text \<open>A handler is given the first parameter of its path, if that has one.\<close>

lemma route_segment:
  assumes "(pat, table) \<in> set (api_routes D b)" "(m, f) \<in> set table"
  shows "snd (handled_by (f params)) = (if Param \<in> set pat then Some (dec_segment D (hd params)) else None)"
  using assms by (auto simp: api_routes_def router_defs)

lemma match_path_params: "match_path pat path = Some params \<Longrightarrow> params = [] \<longleftrightarrow> Param \<notin> set pat"
  by (induction pat path arbitrary: params rule: match_path.induct) (auto split: if_splits)

subsection \<open>Who asks for a token\<close>

text \<open>Without a token, a handler that extracts the user answers nothing and does nothing.\<close>

definition refuses_anonymous ::
  "('w, 'a) ext_scheme \<Rightarrow> app_state \<Rightarrow> endpoint \<Rightarrow> bool" where
  "refuses_anonymous X st e \<longleftrightarrow>
    (\<forall>w. \<exists>er. serve X st None e w = (Inl er, w) \<and> (er = Api Unauthorized \<or> (\<exists>s txt. er = Rejected s txt)))"

text \<open>A handler that does not extract it never looks at the header.\<close>

definition ignores_token :: "('w, 'a) ext_scheme \<Rightarrow> app_state \<Rightarrow> endpoint \<Rightarrow> bool" where
  "ignores_token X st e \<longleftrightarrow> (\<forall>a a'. serve X st a e = serve X st a' e)"

definition open_handlers :: "string list" where
  "open_handlers = [''login'', ''refresh_session'', ''logout'', ''accept_invite'']"

lemma open_endpoints: "fst (handled_by e) \<in> set open_handlers \<Longrightarrow> ignores_token X st e"
  by (cases e) (simp_all add: open_handlers_def ignores_token_def)

lemma current_user_None: "current_user X st None = throwE (Api Unauthorized)"
  by (simp add: current_user_def bearer_token_def)

lemma bind_throw: "bindE (throwE e) f = throwE e"
  by (rule ext) (simp add: bindE_def throwE_def)

lemma other_endpoints: "fst (handled_by e) \<notin> set open_handlers \<Longrightarrow> refuses_anonymous X st e"
  by (cases e) (simp_all add: open_handlers_def refuses_anonymous_def reply_as_def route_defs
      admin_user_def current_user_None bind_throw path_uuid_def map_err_def split: sum.split,
      auto simp: throwE_def)

lemma secured_handlers:
  "x \<in> set (drop 2 documented_operations) \<Longrightarrow> op_secured x \<longleftrightarrow> op_id x \<notin> set open_handlers"
proof -
  have "list_all (\<lambda>x. op_secured x \<longleftrightarrow> op_id x \<notin> set open_handlers) (drop 2 documented_operations)"
    by code_simp
  then show "x \<in> set (drop 2 documented_operations) \<Longrightarrow> op_secured x \<longleftrightarrow> op_id x \<notin> set open_handlers"
    by (simp only: list_all_iff)
qed

subsection \<open>Document and router\<close>

lemma add_common_sel [simp]:
  "op_id (add_common_error_responses x) = op_id x"
  "op_method (add_common_error_responses x) = op_method x"
  "op_path (add_common_error_responses x) = op_path x"
  "op_secured (add_common_error_responses x) = op_secured x"
  by (simp_all add: add_common_error_responses_def)

lemma template_common [simp]: "template (add_common_error_responses x) = template x"
  by (simp add: template_def)

lemma describes_common [simp]:
  "describes (add_common_error_responses x) m path = describes x m path"
  by (simp add: describes_def)

lemma match_path_Lit:
  "match_path (Lit a # pat) path = Some x \<longleftrightarrow> (\<exists>rest. path = a # rest \<and> match_path pat rest = Some x)"
  by (cases path) auto

text \<open>The two operations outside the API, and the pages there that are not documented.\<close>

lemma other_templates:
  "template doc_health = [Lit ''health'']"
  "template doc_jwks = [Lit ''.well-known'', Lit ''jwks.json'']"
  by code_simp+

definition undocumented_pages :: "string list list" where
  "undocumented_pages = [[''metrics''], [''api'', ''openapi.json'']]"

lemma api_templates:
  assumes "x \<in> set (drop 2 documented_operations)"
  shows "\<exists>pat. template x = [Lit ''api'', Lit ''v1''] @ pat"
proof -
  have "list_all (\<lambda>x. take 2 (template x) = [Lit ''api'', Lit ''v1'']) (drop 2 documented_operations)"
    by code_simp
  then have "take 2 (template x) = [Lit ''api'', Lit ''v1'']" using assms by (simp only: list_all_iff)
  then show ?thesis by (metis append_take_drop_id)
qed

lemma api_doc_operations:
  "ad_operations api_doc = map add_common_error_responses documented_operations"
  by (simp add: api_doc_def security_addon_def)

lemma described_elsewhere:
  assumes "\<not> prefix [''api'', ''v1''] path"
  shows "(\<exists>x \<in> set (ad_operations api_doc). describes x m path) \<longleftrightarrow>
    m = GET \<and> (path = [''health''] \<or> path = [''.well-known'', ''jwks.json''])"
proof -
  have api: "\<not> describes x m path" if x: "x \<in> set (drop 2 documented_operations)" for x
  proof
    assume "describes x m path"
    moreover obtain pat where "template x = [Lit ''api'', Lit ''v1''] @ pat"
      using api_templates[OF x] by blast
    ultimately have "match_path (Lit ''api'' # Lit ''v1'' # pat) path \<noteq> None"
      by (simp add: describes_def)
    then obtain rest where "path = ''api'' # ''v1'' # rest"
      by (auto simp: match_path_Lit)
    then show False using assms by (simp add: prefix_def)
  qed
  have one: "match_path [Lit a] path \<noteq> None \<longleftrightarrow> path = [a]" for a
    by (cases path; cases "tl path") auto
  have two: "match_path [Lit a, Lit b] path \<noteq> None \<longleftrightarrow> path = [a, b]" for a b
    by (cases path; cases "tl path"; cases "tl (tl path)") auto
  have other: "describes doc_health m path \<longleftrightarrow> m = GET \<and> path = [''health'']"
    "describes doc_jwks m path \<longleftrightarrow> m = GET \<and> path = [''.well-known'', ''jwks.json'']"
    unfolding describes_def other_templates one two by (auto simp: doc_health_def doc_jwks_def)
  have "(\<exists>x \<in> set (ad_operations api_doc). describes x m path) \<longleftrightarrow>
      describes doc_health m path \<or> describes doc_jwks m path \<or>
      (\<exists>x \<in> set (drop 2 documented_operations). describes x m path)"
    using arg_cong[OF two_other_operations, of set] by (auto simp: api_doc_operations)
  then show ?thesis using api other by blast
qed

text \<open>A documented operation of the API is an entry of the table of a route with its path.\<close>

lemma described_in_api:
  assumes "x \<in> set documented_operations" "match_path (template x) (''api'' # path) \<noteq> None"
  shows "x \<in> set (drop 2 documented_operations)"
proof -
  have "x \<noteq> doc_health" "x \<noteq> doc_jwks" using assms(2) by (auto simp: other_templates)
  moreover have "x \<in> {doc_health, doc_jwks} \<union> set (drop 2 documented_operations)"
    using assms(1) two_other_operations by (metis set_append empty_set list.simps(15))
  ultimately show ?thesis by blast
qed

lemma documented_route:
  assumes "x \<in> set documented_operations"
    and "match_path (template x) (''api'' # ''v1'' # path) = Some params"
  obtains pat table f where "(pat, table) \<in> set (api_routes D b)"
    "template x = [Lit ''api'', Lit ''v1''] @ pat" "match_path pat path = Some params"
    "map_of table (op_method x) = Some f" "fst (handled_by (f params)) = op_id x"
    "snd (handled_by (f params)) = (case params of [] \<Rightarrow> None | p # _ \<Rightarrow> Some (dec_segment D p))"
proof -
  have "x \<in> set (drop 2 documented_operations)" using described_in_api[OF assms(1), of "''v1'' # path"] assms(2) by simp
  then have "signature_of_operation x \<in>
      set (concat (map (signatures_of_route params) (api_routes D b)))"
    unfolding documented_signatures[of params D b, symmetric] by simp
  then obtain pat table where route: "(pat, table) \<in> set (api_routes D b)"
    and "signature_of_operation x \<in> set (signatures_of_route params (pat, table))"
    by auto
  then obtain f where f: "(op_method x, f) \<in> set table"
    and sig: "template x = [Lit ''api'', Lit ''v1''] @ pat" "fst (handled_by (f params)) = op_id x"
    by (auto simp: signatures_of_route_def signature_of_operation_def)
  have table: "map_of table (op_method x) = Some f" using tables_distinct[OF route] f by simp
  have match: "match_path pat path = Some params" using assms(2) sig(1) by simp
  have "snd (handled_by (f params)) = (case params of [] \<Rightarrow> None | p # _ \<Rightarrow> Some (dec_segment D p))"
    using route_segment[OF route f, of params] match_path_params[OF match]
    by (cases params) simp_all
  from that[OF route sig(1) match table sig(2) this] show ?thesis .
qed

lemma route_documented:
  assumes "(pat, table) \<in> set (api_routes D b)" "map_of table m = Some f"
  shows "\<exists>x \<in> set documented_operations. op_method x = m \<and> template x = [Lit ''api'', Lit ''v1''] @ pat"
proof -
  have "(m, [Lit ''api'', Lit ''v1''] @ pat, fst (handled_by (f []))) \<in>
      set (concat (map (signatures_of_route []) (api_routes D b)))"
    using assms(1) map_of_SomeD[OF assms(2)] by (force simp: signatures_of_route_def)
  then obtain x where "x \<in> set (drop 2 documented_operations)"
    "signature_of_operation x = (m, [Lit ''api'', Lit ''v1''] @ pat, fst (handled_by (f [])))"
    unfolding documented_signatures[of "[]" D b, symmetric] by force
  then show ?thesis by (auto simp: signature_of_operation_def dest: in_set_dropD)
qed

lemma tables_not_empty: "(pat, table) \<in> set (api_routes D b) \<Longrightarrow> \<exists>m f. map_of table m = Some f"
  by (auto simp: api_routes_def router_defs intro: exI[of _ GET] exI[of _ POST])

text \<open>An operation is dispatched to its handler, with the segment of the path that is its parameter.\<close>

definition reaches :: "'b decoders \<Rightarrow> operation \<Rightarrow> string list \<Rightarrow> endpoint \<Rightarrow> bool" where
  "reaches D x path e \<longleftrightarrow>
    handled_by e = (op_id x, case match_path (template x) (''api'' # ''v1'' # path) of
      Some (p # _) \<Rightarrow> Some (dec_segment D p) | _ \<Rightarrow> None)"

lemma described_dispatch:
  assumes "matcher_ok D" "x \<in> set (ad_operations api_doc)" "describes x m (''api'' # ''v1'' # path)"
  shows "\<exists>e. dispatch_api D m path b = Endpoint e \<and> reaches D x path e"
proof -
  obtain y where y: "y \<in> set documented_operations" "x = add_common_error_responses y"
    using assms(2) by (auto simp: api_doc_operations)
  then obtain params where params: "match_path (template y) (''api'' # ''v1'' # path) = Some params"
    and m: "op_method y = m" using assms(3) by (auto simp: describes_def)
  from documented_route[OF y(1) params, of D b] obtain pat table f
    where route: "(pat, table) \<in> set (api_routes D b)" "match_path pat path = Some params"
      "map_of table m = Some f" and h: "fst (handled_by (f params)) = op_id y"
      "snd (handled_by (f params)) = (case params of [] \<Rightarrow> None | p # _ \<Rightarrow> Some (dec_segment D p))"
    unfolding m by blast
  have "reaches D x path (f params)"
    using h params unfolding reaches_def y(2)
    by (simp add: prod_eq_iff split: list.split)
  with dispatch_apart[OF assms(1) api_routes_apart route(1,2)] route(3) show ?thesis
    by (simp add: dispatch_api_def)
qed

lemma dispatched_described:
  assumes "matcher_ok D" "dispatch_api D m path b = Endpoint e"
  shows "\<exists>x \<in> set (ad_operations api_doc). describes x m (''api'' # ''v1'' # path)"
proof -
  have "dispatch D (api_routes D b) m path \<noteq> NoRoute" using assms(2) by (simp add: dispatch_api_def)
  then obtain pat table params where route: "(pat, table) \<in> set (api_routes D b)"
    "match_path pat path = Some params"
    unfolding dispatch_NoRoute[OF assms(1)] by force
  from dispatch_apart[OF assms(1) api_routes_apart route] assms(2) obtain f where "map_of table m = Some f"
    by (auto simp: dispatch_api_def split: option.splits)
  from route_documented[OF route(1) this] obtain x where x: "x \<in> set documented_operations"
    "op_method x = m" "template x = [Lit ''api'', Lit ''v1''] @ pat" by blast
  then have "describes x m (''api'' # ''v1'' # path)" using route(2) by (simp add: describes_def)
  then show ?thesis
    by (intro bexI[of _ "add_common_error_responses x"]) (simp_all add: api_doc_operations x(1))
qed

text \<open>A path is known to the router if and only if it is the path of a documented operation.\<close>

lemma documented_paths:
  assumes "matcher_ok D"
  shows "dispatch_api D m path b = NoRoute \<longleftrightarrow>
    (\<forall>x \<in> set (ad_operations api_doc). match_path (template x) (''api'' # ''v1'' # path) = None)"
proof -
  have "(\<exists>r \<in> set (api_routes D b). match_path (fst r) path \<noteq> None) \<longleftrightarrow>
      (\<exists>x \<in> set (ad_operations api_doc). match_path (template x) (''api'' # ''v1'' # path) \<noteq> None)"
  proof
    assume "\<exists>r \<in> set (api_routes D b). match_path (fst r) path \<noteq> None"
    then obtain pat table where route: "(pat, table) \<in> set (api_routes D b)" "match_path pat path \<noteq> None"
      by force
    obtain m f where "map_of table m = Some f" using tables_not_empty[OF route(1)] by blast
    from route_documented[OF route(1) this] obtain x where x: "x \<in> set documented_operations"
      "template x = [Lit ''api'', Lit ''v1''] @ pat" by blast
    have "match_path (template x) (''api'' # ''v1'' # path) \<noteq> None" using route(2) x(2) by simp
    then show "\<exists>x \<in> set (ad_operations api_doc). match_path (template x) (''api'' # ''v1'' # path) \<noteq> None"
      by (intro bexI[of _ "add_common_error_responses x"]) (simp_all add: api_doc_operations x(1))
  next
    assume "\<exists>x \<in> set (ad_operations api_doc). match_path (template x) (''api'' # ''v1'' # path) \<noteq> None"
    then obtain y params where "y \<in> set documented_operations"
      "match_path (template y) (''api'' # ''v1'' # path) = Some params"
      by (auto simp: api_doc_operations)
    from documented_route[OF this, of D b] obtain pat table
      where "(pat, table) \<in> set (api_routes D b)" "match_path pat path = Some params" by blast
    then show "\<exists>r \<in> set (api_routes D b). match_path (fst r) path \<noteq> None"
      by (intro bexI[of _ "(pat, table)"]) simp_all
  qed
  from arg_cong[OF this, of Not] show ?thesis
    unfolding dispatch_api_def dispatch_NoRoute[OF assms] by (simp only: bex_simps not_not)
qed

lemma reaches_secured:
  assumes "x \<in> set (ad_operations api_doc)" "describes x m (''api'' # ''v1'' # path)" "reaches D x path e"
  shows "if op_secured x then refuses_anonymous X st e else ignores_token X st e"
proof -
  obtain y where y: "y \<in> set documented_operations" "x = add_common_error_responses y"
    using assms(1) by (auto simp: api_doc_operations)
  then have "y \<in> set (drop 2 documented_operations)"
    using described_in_api[OF y(1), of "''v1'' # path"] assms(2) by (simp add: describes_def)
  from secured_handlers[OF this] have "op_secured x \<longleftrightarrow> fst (handled_by e) \<notin> set open_handlers"
    using assms(3) y(2) by (simp add: reaches_def)
  then show ?thesis using open_endpoints[of e X st] other_endpoints[of e X st] by simp
qed

subsection \<open>The common responses\<close>

lemma fst_or_insert [simp]: "fst ` set (or_insert k v es) = insert k (fst ` set es)"
  by (auto simp: or_insert_def)

lemma or_insert_keeps: "(k', v') \<in> set es \<Longrightarrow> (k', v') \<in> set (or_insert k v es)"
  by (simp add: or_insert_def)

lemma common_statuses:
  "fst ` set (op_responses (add_common_error_responses x)) =
    {''400'', ''401'', ''403'', ''404'', ''500''} \<union> fst ` set (op_responses x)"
  by (auto simp: add_common_error_responses_def)

lemma common_keeps: "set (op_responses x) \<subseteq> set (op_responses (add_common_error_responses x))"
  by (auto simp: add_common_error_responses_def intro!: or_insert_keeps)

lemma api_status_printed:
  "nat_str (api_status e) \<in> {''400'', ''401'', ''403'', ''404'', ''500''}"
proof -
  have "nat_str 400 = ''400'' \<and> nat_str 401 = ''401'' \<and> nat_str 403 = ''403'' \<and>
      nat_str 404 = ''404'' \<and> nat_str 500 = ''500''"
    by code_simp
  then show ?thesis by (cases e) simp_all
qed

lemma api_errors_documented:
  assumes "x \<in> set (ad_operations api_doc)"
  shows "nat_str (api_status er) \<in> fst ` set (op_responses x)"
proof -
  obtain y where "x = add_common_error_responses y"
    using assms by (auto simp: api_doc_operations)
  then show ?thesis
    using api_status_printed[of er] by (simp only: common_statuses) (rule UnI1)
qed

end
