(* ===== verification/Spec2Isabelle.thy ===== *)
theory Spec2Isabelle
  imports Platform Executor Reference Scenario Observations Api_Doc
begin

text \<open>
  \<^bold>\<open>Wara\<close>, the backend of a deployment platform (\<open>src/backend/src\<close>, Rust), as a library of
  definitions translated from its source and of theorems about them.

  \<^bold>\<open>The program.\<close>  An axum server answers an HTTP API from a PostgreSQL database through the package
  toasty: accounts and sessions, workspaces with their environments, services, credentials,
  environment variables, domains, deployments and templates, and the servers services are deployed
  to.  A worker process checks the registered servers at an interval.  Requests go through the
  router and its error middleware to a handler, which authenticates the caller, checks its right
  and its payload, and calls a service; the services share nothing but the database and the
  configuration.

  \<^bold>\<open>How code becomes a definition.\<close>  An asynchronous method is a function of the world it runs in:
  \<open>'w \<Rightarrow> ('e + 'a) \<times> 'w\<close>, the type \<open>io\<close> of \<open>Wara_Prelude\<close>, with \<open>bindE\<close> for \<open>?\<close> and \<open>throwE\<close> for
  an early return.  Structs are records, enumerations datatypes, \<open>u8\<close> to \<open>u64\<close> words of their
  width, strings their UTF-8 bytes.  Every error of the source is a value: \<open>wara_error\<close>,
  \<open>api_error\<close>, and in \<open>exn\<close> a rejection by an extractor and a panic.  What is not in the repository
  is a field of the records \<open>prims\<close> (pure: SHA-256, base64, argon2, JWT, RSA, UUID and time texts,
  JSON of the envelope) and \<open>ext\<close> (effects: clock, random bytes, the fifteen tables, begin and
  commit), and an argument of every definition that uses it.  The laws relied on are named:
  \<open>store_ok\<close> (a select answers the rows that fit, an insert adds its row or fails and changes
  nothing, an update rewrites the columns it names, what is written in a transaction is seen
  outside at its commit and not before, the clock writes nothing), \<open>b64_laws\<close>, \<open>sha256_laws\<close>,
  \<open>uuid_laws\<close>, \<open>rfc3339_laws\<close>, \<open>jwt_laws\<close>, \<open>envelope_laws\<close>, \<open>argon2_laws\<close> (a hash verifies the password
  it was made from), \<open>matcher_ok\<close> (axum routes a path to a registered one it fits) and \<open>host_ok\<close>
  (connecting, pushing the schema and binding the socket change no row).  \<open>Reference\<close> and \<open>Scenario\<close>
  hold a concrete choice that satisfies them all, on which the witnesses evaluate.

  \<^bold>\<open>The theories\<close>, in the order of the code:
  \<^item> \<open>Wara_Prelude\<close>: the \<open>io\<close> combinators, weakest preconditions \<open>wp m Q E w\<close> (value and error), the
    collections \<open>wp_rules\<close>, \<open>str_simps\<close>, \<open>codec_simps\<close>.  \<open>Rust_Str\<close>: bytes, UTF-8, \<open>trim\<close>,
    \<open>replace\<close>, \<open>split\<close> and the locale \<open>enum_codec\<close>.  \<open>Externals\<close>: \<open>prims\<close> with its laws.
  \<^item> \<open>Errors\<close>: \<open>errors/\<close>.  \<open>Crypto\<close>: \<open>libs/crypto.rs\<close>, through the locale \<open>involutive_cipher\<close>.
    \<open>Docker\<close>: \<open>libs/docker.rs\<close>, with a reading of shell words to state what quoting is for.
    \<open>Executor\<close>: \<open>libs/deploy_executor.rs\<close>, its trait as the locale \<open>deploy_executor\<close>.  \<open>Ssh\<close>:
    \<open>libs/ssh.rs\<close>.  \<open>Config\<close>: \<open>libs/config.rs\<close>.
  \<^item> \<open>Models\<close>: \<open>models/\<close>.  \<open>Store\<close>: \<open>libs/db.rs\<close> and the tables behind it.
  \<^item> \<open>Auth\<close>: the definitions of \<open>services/auth.rs\<close> and the extractors of \<open>state.rs\<close>;
    \<open>Auth_Access\<close>, \<open>Auth_Users\<close>, \<open>Auth_Keys\<close>, \<open>Auth_Sessions\<close>: what they read and write.
  \<^item> \<open>Workspaces\<close>, \<open>App_Services\<close>, \<open>Credentials\<close>, \<open>Domains\<close> (with \<open>proxy.rs\<close>), \<open>Deployments\<close>,
    \<open>Servers\<close>, \<open>Templates\<close>: \<open>services/\<close>, one theory each.  \<open>Worker\<close>: \<open>queues.rs\<close>, \<open>activities/\<close>
    and the loop of \<open>bin/temporal_worker.rs\<close>.  \<open>Progress\<close>: what answers while the database is up.
  \<^item> \<open>Routes_Auth\<close>, \<open>Routes_Workspace\<close>, \<open>Endpoints\<close>, \<open>Router\<close>: \<open>routes/\<close>, from the payloads to
    \<open>answer_request\<close>, the answer to any method, path, header and body.
  \<^item> \<open>Api_Doc\<close>: \<open>openapi.rs\<close> and the annotations of the handlers.
  \<^item> \<open>Startup\<close>: \<open>main.rs\<close>, \<open>bin/\<close>, and the rest of \<open>libs/db.rs\<close> and \<open>libs/telemetry.rs\<close>.
  \<^item> \<open>Authorization\<close>: the right each endpoint asks for, over the stored rows.  \<open>Transitions\<close>: the
    abstract specification, an inductive relation \<open>move\<close> of the ways in which the rows may change,
    each with its guard, and the invariants of it in the locale \<open>kept\<close>.  \<open>Platform\<close>: every
    operation refines it, and with them every request, start-up and run of the worker (\<open>step\<close>).
  \<^item> \<open>Reference\<close>, \<open>Scenario\<close>: a database in memory and small states of it.  \<open>Observations\<close>:
    evaluated runs where the code differs from what its texts suggest.

  \<^bold>\<open>What is shown\<close>, by the numbers of the properties below:
  \<^item> the whole backend (1 to 5): each endpoint asks for its right; every run is a sequence of
    guarded transitions; an admin remains; references and uniqueness are kept; what is revoked
    stays revoked;
  \<^item> accounts (6 to 16): soundness of authentication, logins, sessions that are rotated and spent
    once, good credentials that are admitted, invitations that are whole and accepted once, API
    tokens;
  \<^item> secrets and commands (17 to 24): round trip and weakness of the stored form, the words a shell
    reads, the transcript, paths, accepted names, redaction, the SSH allowlist;
  \<^item> servers, their checks and the signals the worker hears (25 to 28); workspaces and what they hold
    (29 to 33);
  \<^item> the routers wire every documented operation to its handler, every request is answered, no
    internal text leaves, and the document says which operations need a token (34 to 37); start-up
    and configuration (38, 39); stored names (40).

  Most of them say what holds when an operation answers, and what is left when it fails, with a
  database that may fail at any point.  That a method does answer needs more: \<open>store_up\<close> of
  \<open>Progress\<close>, no call to the database fails but for a clash of a new row with a stored one, is the
  hypothesis of the two liveness properties (8, 28).

  \<^bold>\<open>Bounds.\<close>  All recursion of the model is structural, on the list of requests, events, rows or
  characters; there is no fuel.  The worker's loop is over the list of what happens to it, ticks, ends
  of rounds and signals, so a run that is never told to stop is a list in which no signal is heard,
  and its value says that it goes on.
  Arithmetic on times is over \<open>int\<close> where chrono checks its range (\<open>add_seconds\<close> may fail, which is
  a panic of the code), on words where the code has \<open>u64\<close>.

  \<^bold>\<open>Assumptions worth knowing.\<close>  The steps of \<open>Platform\<close> are whole operations, one after the other.
  axum serves requests concurrently, and nothing here says that it does not: what the properties 2 to
  5 say of reachable states is about sequential runs, and no law is assumed of the server loop.  What
  would need a lock (the guard for the last admin reads and then writes) may fail when two requests
  overlap; \<open>interleaved_disables_leave_no_admin\<close> of \<open>Observations\<close> is such a run.  Random bytes and
  identifiers are fresh only where an insert accepts them.  Transactions are read-your-writes over a
  copy.

  \<^bold>\<open>Not modelled.\<close>  How utoipa prints the document of \<open>openapi.rs\<close>; log lines and the set-up of the
  subscriber; the cors and trace layers; the wait for a signal; \<open>HEAD\<close> requests and the documentation
  pages; \<open>middleware/\<close> and the workflow types nothing calls; the stubs of the command line client and
  the MCP server; the frontend.  Which bytes axum and serde accept as a payload, and which registered
  path axum picks for that of a request, are fields of the argument \<open>decoders\<close> of the router: the
  model starts with what the extractor made of a body.
\<close>

section \<open>Secrets\<close>

text \<open>
  C17: A stored secret is read back under the same key as the text it was made from, and two
  different texts never have the same stored form.
\<close>

theorem secrets_round_trip:
  assumes "b64_laws P" "utf8 plaintext"
  shows "decrypt_secret P key (encrypt_secret P key plaintext) = Inr plaintext \<and>
    (encrypt_secret P key other = encrypt_secret P key plaintext \<longleftrightarrow> other = plaintext)"
  using decrypt_encrypt_bytes[OF assms(1)] encrypt_secret_inj[OF assms(1)] assms(2) by simp

theorem secrets_round_trip_witness:
  "decrypt_secret ref_ext ''k'' (encrypt_secret ref_ext ''k'' ''pw'') = Inr ''pw'' \<and>
    encrypt_secret ref_ext ''k'' ''px'' \<noteq> encrypt_secret ref_ext ''k'' ''pw''"
proof -
  have "utf8 ''pw''" by code_simp
  then show ?thesis
    using secrets_round_trip[OF ref_b64_laws, of "''pw''" "''k''" "''px''"] by simp
qed

text \<open>
  C18: All secrets are combined with the same bytes.  Whoever has two stored secrets and the text
  of one of them has the text of the other, if that is not longer, without the key.
\<close>

theorem stored_secrets_share_keystream:
  assumes "b64_laws P" "length other \<le> length known"
  shows "\<exists>c d. b64_decode P (encrypt_secret P key other) = Inr c \<and>
    b64_decode P (encrypt_secret P key known) = Inr d \<and>
    as_bytes other = map2 (XOR) c (map2 (XOR) d (as_bytes known))"
proof -
  have "length (as_bytes other) \<le> length (as_bytes known)" using assms(2) by simp
  from known_secret_reveals_others[OF this, of P key] show ?thesis
    by (simp add: encrypt_secret_def b64_lawsD[OF assms(1)] ciphertext_bytes_def)
qed

theorem stored_secrets_share_keystream_witness:
  "\<exists>c d. b64_decode ref_ext (encrypt_secret ref_ext ''k'' ''ab'') = Inr c \<and>
    b64_decode ref_ext (encrypt_secret ref_ext ''k'' ''xyz'') = Inr d \<and>
    as_bytes ''ab'' = map2 (XOR) c (map2 (XOR) d (as_bytes ''xyz''))"
  by (rule stored_secrets_share_keystream[OF ref_b64_laws]) simp

section \<open>Commands\<close>

text \<open>
  C19: What a service is deployed with, as a shell reads the rendered lines.  Every name, image
  and path of the service is one word of its line, wherever it comes from, and the only
  operators are those of the code.
\<close>

theorem planned_commands_shell_words:
  assumes "planned_commands P service config = Inr cs"
    and "CHR 0x00 \<notin> set (cfg_remote_services_root config)"
    and "CHR 0x00 \<notin> set (cfg_dockerfile_context_dir config)"
  shows "map (\<lambda>c. sh_lex (render c)) cs = map Some
    (let container = ''wara-'' @ sc_name service;
         dir = service_dir (cfg_remote_services_root config) (sc_name service);
         remove = [Word ''docker'', Word ''rm'', Word ''-f'', Word container, Op ''||'', Word ''true''];
         run = (\<lambda>image. [Word ''docker'', Word ''run'', Word ''-d'', Word ''--name'', Word container,
           Word ''--restart'', Word ''unless-stopped'', Word image])
     in case sc_deploy_kind service of
       DockerImage \<Rightarrow>
        (let image = (case sc_image service of None \<Rightarrow> ''missing-image'' | Some i \<Rightarrow> i)
         in [[Word ''docker'', Word ''pull'', Word image], remove, run image])
     | DockerCompose \<Rightarrow>
        [[Word ''mkdir'', Word ''-p'', Word dir],
         [Word ''cd'', Word dir, Op ''&&'', Word ''docker'', Word ''compose'', Word ''up'', Word ''-d'']]
     | Dockerfile \<Rightarrow>
        (let built = ''wara/'' @ sc_name service @ '':latest''
         in [[Word ''docker'', Word ''build'', Word ''-t'', Word built,
              Word (path_join dir (cfg_dockerfile_context_dir config))], remove, run built]))"
proof -
  have name: "service_name_ok (sc_name service)"
    using assms(1) by (simp add: planned_commands_ok)
  have nul: "CHR 0x00 \<notin> set (sc_name service)" by (rule service_name_no_nul[OF name])
  have dir: "CHR 0x00 \<notin> set (service_dir (cfg_remote_services_root config) (sc_name service))"
    unfolding service_dir_def using assms(2) nul by (rule path_join_no_nul)
  have image: "CHR 0x00 \<notin> set i" if "validate_image_reference P i = Inr ()" for i
    using that by (auto simp: validate_image_reference_iff image_reference_char_def
        list_all_iff is_ascii_alphanumeric_def is_ascii_lowercase_def is_ascii_uppercase_def
        is_ascii_digit_def)
  show ?thesis
    using assms(1) nul dir image path_join_no_nul[OF dir assms(3)]
    by (cases "sc_deploy_kind service")
      (auto simp: planned_commands_ok sh_lex_render Let_def image_deploy_commands_def
        compose_deploy_commands_def dockerfile_deploy_commands_def container_name_def
        built_image_name_def)
qed

theorem planned_commands_shell_words_witness:
  "\<exists>cs. planned_commands ref_ext demo_service demo_config = Inr cs \<and>
    map (\<lambda>c. sh_lex (render c)) cs = map Some
      [[Word ''docker'', Word ''pull'', Word ''nginx:1''],
       [Word ''docker'', Word ''rm'', Word ''-f'', Word ''wara-web'', Op ''||'', Word ''true''],
       [Word ''docker'', Word ''run'', Word ''-d'', Word ''--name'', Word ''wara-web'',
        Word ''--restart'', Word ''unless-stopped'', Word ''nginx:1'']]"
proof -
  have ok: "\<not> isl (planned_commands ref_ext demo_service demo_config)" by code_simp
  then obtain cs where cs: "planned_commands ref_ext demo_service demo_config = Inr cs"
    by (cases "planned_commands ref_ext demo_service demo_config") auto
  have "CHR 0x00 \<notin> set (cfg_remote_services_root demo_config)"
    "CHR 0x00 \<notin> set (cfg_dockerfile_context_dir demo_config)" by code_simp+
  from planned_commands_shell_words[OF cs this] cs show ?thesis
    by (simp add: demo_service_def Let_def)
qed

text \<open>
  C21: The directory a service is deployed from is one level below the configured root, under the
  service's own name: an accepted name is a single path component and neither \<open>.\<close> nor \<open>..\<close>.  An
  absolute root gives an absolute directory.
\<close>

theorem service_dir_below_root:
  assumes "validate_service_name P name = Inr ()"
  shows "components (service_dir root name) = components root @ [name] \<and>
    name \<noteq> ''.'' \<and> name \<noteq> ''..'' \<and>
    (prefix ''/'' root \<longrightarrow> prefix ''/'' (service_dir root name))"
proof -
  have "service_name_ok name" using assms by (simp add: validate_service_name_iff)
  then show ?thesis
    using service_dir_components service_name_not_dots path_join_absolute
    by (simp add: service_dir_def)
qed

theorem service_dir_below_root_witness:
  "components (service_dir ''/srv//wara/'' ''web'') = [''srv'', ''wara'', ''web'']"
proof -
  have "validate_service_name ref_ext ''web'' = Inr ()"
    unfolding validate_service_name_iff by code_simp
  from service_dir_below_root[OF this, of "''/srv//wara/''"] show ?thesis
    by (simp add: components_def)
qed

text \<open>
  C22: The names and image references a deployment accepts: names of 1 to 63 characters that start
  with a lowercase letter or a digit and continue with the same, dots, dashes and underscores; references of 1 to 255
  letters, digits, dots, dashes, underscores, colons, slashes and at signs.  No character outside ascii is accepted.
\<close>

theorem accepted_names_and_images:
  "(validate_service_name P name = Inr () \<longleftrightarrow>
    (\<exists>c cs. name = c # cs \<and> length name \<le> 63 \<and>
      c \<in> set (''abcdefghijklmnopqrstuvwxyz'' @ ''0123456789'') \<and>
      set cs \<subseteq> set (''abcdefghijklmnopqrstuvwxyz'' @ ''0123456789'' @ ''._-''))) \<and>
   (validate_image_reference P reference = Inr () \<longleftrightarrow>
    reference \<noteq> [] \<and> length reference \<le> 255 \<and>
    set reference \<subseteq> 
      set (''abcdefghijklmnopqrstuvwxyz'' @ ''ABCDEFGHIJKLMNOPQRSTUVWXYZ'' @ ''0123456789'' @ ''._-:/@''))"
proof -
  have "service_name_char c" if "is_ascii_lowercase c \<or> is_ascii_digit c" for c
    using that by (auto simp: service_name_char_def)
  then have "service_name_ok name \<longleftrightarrow> (\<exists>c cs. name = c # cs \<and> length name \<le> 63 \<and>
      (is_ascii_lowercase c \<or> is_ascii_digit c) \<and> list_all service_name_char cs)"
    by (cases name) (auto simp: service_name_ok_def)
  then show ?thesis
    unfolding validate_service_name_iff validate_image_reference_iff ascii_classes list_all_iff
      subset_eq
    by blast
qed

text \<open>
  C23: No secret survives its redaction: a secret that shares no character with the marker does
  not occur in the redacted text, whatever the other secrets are and in whatever order they are
  replaced.  A text in which no secret occurs is left as it is; without any secret every text is.
\<close>

theorem redaction_removes_secrets:
  "(s \<in> set secrets \<longrightarrow> s \<noteq> [] \<longrightarrow> set s \<inter> set ''[redacted]'' = {} \<longrightarrow>
      \<not> sublist s (redact_secrets txt secrets)) \<and>
    ((\<forall>t \<in> set secrets. t = [] \<or> \<not> sublist t txt) \<longrightarrow> redact_secrets txt secrets = txt) \<and>
    redact_secrets txt [] = txt"
  using redact_secrets_removes[of s secrets] redact_secrets_no_match[of secrets "txt"]
    redact_secrets_no_match[of "[]" "txt"]
  by (simp add: redaction_marker_def)

theorem redaction_removes_secrets_witness:
  "\<not> sublist ''s3k'' (redact_secrets ''a s3k b s3ks3k'' [[], ''x'', ''s3k'']) \<and>
    redact_secrets ''a s3k b'' [[], ''x'', ''s3k''] = ''a [redacted] b'' \<and>
    redact_secrets ''a b'' [[], ''x''] = ''a b''"
proof -
  have "set ''s3k'' \<inter> set ''[redacted]'' = {}" by simp
  moreover have "redact_secrets ''a s3k b'' [[], ''x'', ''s3k''] = ''a [redacted] b''" by code_simp
  moreover have "\<forall>t \<in> set [[], ''x'']. t = [] \<or> \<not> sublist t ''a b''" by code_simp
  ultimately show ?thesis
    using redaction_removes_secrets[of "''s3k''" "[[], ''x'', ''s3k'']"]
      redaction_removes_secrets[of _ "[[], ''x'']" "''a b''"] by simp
qed

text \<open>
  C40: The names the enumerations are stored under are read back as the same value, and every
  other text as the default: a viewer, an invited user, a queued deployment, an image, nginx.  Of
  the settings of the environment, \<open>prod\<close> is read like \<open>production\<close>, and whatever is no name is
  development.
\<close>

theorem stored_names_round_trip:
  "(role_of s = q \<longleftrightarrow> s = role_str q \<or> q = Viewer \<and> s \<notin> range role_str) \<and>
   (user_status_of s = u \<longleftrightarrow> s = user_status_str u \<or> u = Invited \<and> s \<notin> range user_status_str) \<and>
   (deployment_status_of s = d \<longleftrightarrow>
     s = deployment_status_str d \<or> d = Queued \<and> s \<notin> range deployment_status_str) \<and>
   (deploy_kind_of s = k \<longleftrightarrow> s = deploy_kind_str k \<or> k = DockerImage \<and> s \<notin> range deploy_kind_str) \<and>
   (proxy_kind_of s = p \<longleftrightarrow> s = proxy_kind_str p \<or> p = Nginx \<and> s \<notin> range proxy_kind_str) \<and>
   (app_environment_from_value s = e \<longleftrightarrow>
     s = app_environment_str e \<or> e = Production \<and> s = ''prod'' \<or>
     e = Development \<and> s \<notin> insert ''prod'' (range app_environment_str))"
  using role.parse_eq_iff[of s q] ustat.parse_eq_iff[of s u] dstat.parse_eq_iff[of s d]
    dk.parse_eq_iff[of s k] pk.parse_eq_iff[of s p] app_environment_eq_iff[of s e]
  by (intro conjI)

text \<open>
  C24: Only the two commands of a server check are ever run over SSH: a list of commands is run if
  and only if each of them is one of the two, and otherwise nothing of it is.
\<close>

theorem ssh_runs_allowed_commands_only:
  "run_controlled_commands target commands =
    (if set commands \<subseteq> {ssh_connectivity_check_command, docker_version_check_command}
     then Inr (mock_controlled_output commands)
     else Inl (Ssh ''SSH command is not allowlisted''))"
  using run_controlled_commands_refused[of commands target]
    run_controlled_commands_ok[of target commands]
  by (simp add: server_check_commands_def)

section \<open>Accounts and sessions\<close>

text \<open>
  C6: Whoever \<open>authenticate_bearer\<close> accepts is an active user with a good token of its own: an
  access token signed by a stored key for the configured audience and issuer, or an API token
  that is stored and not revoked; the rights of the value it returns are those the store holds.
  All that an authentication ever writes is the time an API token was last used.
\<close>

theorem authentication_sound:
  assumes "store_ok X vw"
  shows "wp (authenticate_bearer X S token)
    (\<lambda>u w'. authenticated X S token (vw w Conn) u \<and>
      (\<exists>T'. vw w' = (vw w)(Conn := T') \<and> touched (vw w Conn) T'))
    (\<lambda>e w'. (server_error e \<or> e = Api Unauthorized) \<and>
      (\<exists>T'. vw w' = (vw w)(Conn := T') \<and> touched (vw w Conn) T')) w"
  by (rule wp_authenticate_bearer[OF assms]) blast+

theorem authentication_sound_witness:
  "\<exists>u w'. authenticate_bearer ref_ext demo_auth (demo_access_token (Uuid 2)) demo_world = (Inr u, w') \<and>
    authenticated ref_ext demo_auth (demo_access_token (Uuid 2)) (ref_view demo_world Conn) u"
proof -
  have "\<not> isl (fst (authenticate_bearer ref_ext demo_auth (demo_access_token (Uuid 2)) demo_world))"
    by code_simp
  from wp_ran[OF authentication_sound[OF ref_store_ok] this] show ?thesis by blast
qed

text \<open>
  C7: A login succeeds only for an active user with a password, whose stored hash the given
  password verifies; it writes one new refresh token row of that user and nothing else.  A login
  is \<open>Unauthorized\<close> only if the store has no row these credentials are good for, and then it writes
  nothing.
\<close>

theorem login_checks_credentials:
  assumes "store_ok X vw" "users_unique (vw w Conn)"
  shows "wp (login X S input)
    (\<lambda>out w'. \<exists>r \<in> t_users (vw w Conn). \<exists>n. credentials_ok X input r \<and>
      user_matches (vw w Conn) r (lo_user out) \<and>
      vw w' = (vw w)(Conn := add_refresh_row n (vw w Conn)) \<and>
      new_refresh_row (vw w Conn) (ur_id r) n \<and>
      refresh_token_for X (lo_refresh_token out) (rt_id n) (ur_id r))
    (\<lambda>e w'. vw w' = vw w \<and> (server_error e \<or> e = Panicked \<or>
        e = Api Unauthorized \<and> (\<forall>r \<in> t_users (vw w Conn). \<not> credentials_ok X input r)) \<or>
      (\<exists>r \<in> t_users (vw w Conn). \<exists>n. credentials_ok X input r \<and>
        vw w' = (vw w)(Conn := add_refresh_row n (vw w Conn)) \<and>
        new_refresh_row (vw w Conn) (ur_id r) n \<and> (server_error e \<or> e = Panicked))) w"
proof -
  have refused: "\<not> credentials_ok X input r"
    if "credentials_refused X input (vw w Conn)" "r \<in> t_users (vw w Conn)" for r
    using that assms(2) by (auto simp: credentials_refused_def credentials_ok_def users_unique_def)
  show ?thesis
  proof (rule wp_login[OF assms(1)], goal_cases)
    case (2 e w')
    then show ?case using refused by blast
  qed blast+
qed

theorem login_checks_credentials_witness:
  "\<exists>out w'. login ref_ext demo_auth \<lparr>li_email = ''r@w'', li_password = ''pw''\<rparr> demo_world =
      (Inr out, w') \<and>
    (\<exists>r \<in> t_users (ref_view demo_world Conn).
      credentials_ok ref_ext \<lparr>li_email = ''r@w'', li_password = ''pw''\<rparr> r)"
proof -
  have "\<not> isl (fst (login ref_ext demo_auth \<lparr>li_email = ''r@w'', li_password = ''pw''\<rparr> demo_world))"
    by code_simp
  moreover have "users_unique (ref_view demo_world Conn)"
    by (simp add: users_unique_def demo_world_def demo_rows_def demo_admin_def demo_member_def
        demo_invited_def ref_view_def rows_view_def side_def)
  ultimately show ?thesis using wp_ran[OF login_checks_credentials[OF ref_store_ok]] by blast
qed



text \<open>
  C9: A user no row of whom is active is locked out: no bearer token, no password and no refresh
  token makes the backend act as that user.
\<close>

theorem inactive_users_locked_out:
  assumes "store_ok X vw"
    and inactive: "\<forall>r \<in> t_users (vw w Conn). ur_id r = i \<longrightarrow> ur_status r \<noteq> ''active''"
  shows "wp (authenticate_bearer X S token) (\<lambda>u _. u_id u \<noteq> i) (\<lambda>_ _. True) w \<and>
    wp (login X S input) (\<lambda>out _. u_id (lo_user out) \<noteq> i) (\<lambda>_ _. True) w \<and>
    wp (refresh_session X S session) (\<lambda>out _. u_id (lo_user out) \<noteq> i) (\<lambda>_ _. True) w"
proof (intro conjI)
  show "wp (authenticate_bearer X S token) (\<lambda>u _. u_id u \<noteq> i) (\<lambda>_ _. True) w"
    by (rule wp_authenticate_bearer[OF assms(1)])
      (use inactive user_matches_sel in \<open>auto simp: authenticated_def\<close>)
  show "wp (login X S input) (\<lambda>out _. u_id (lo_user out) \<noteq> i) (\<lambda>_ _. True) w"
    by (rule wp_login[OF assms(1)])
      (use inactive user_matches_sel in \<open>auto simp: credentials_ok_def\<close>)
  show "wp (refresh_session X S session) (\<lambda>out _. u_id (lo_user out) \<noteq> i) (\<lambda>_ _. True) w"
    by (rule wp_refresh_session[OF assms(1)])
      (use inactive user_matches_sel in \<open>auto simp: rotated_def\<close>)
qed

theorem inactive_users_locked_out_witness:
  "\<exists>u w'. authenticate_bearer ref_ext demo_auth ''wara_x'' demo_world = (Inr u, w') \<and> u_id u \<noteq> Uuid 3"
proof -
  have "\<forall>r \<in> t_users (ref_view demo_world Conn). ur_id r = Uuid 3 \<longrightarrow> ur_status r \<noteq> ''active''"
    by code_simp
  from inactive_users_locked_out[OF ref_store_ok this]
  have "wp (authenticate_bearer ref_ext demo_auth ''wara_x'') (\<lambda>u _. u_id u \<noteq> Uuid 3) (\<lambda>_ _. True)
      demo_world" by blast
  moreover have "\<not> isl (fst (authenticate_bearer ref_ext demo_auth ''wara_x'' demo_world))"
    by code_simp
  ultimately show ?thesis by (rule wp_ran)
qed

text \<open>
  C10: A refresh replaces its token in one step: the new row is there and the old one is revoked,
  or nothing has changed, even if the answer is an error.  Only a token that is signed, not
  revoked, not ended and of an active user is accepted.
\<close>

theorem refresh_rotates:
  assumes "store_ok X vw"
  shows "wp (refresh_session X S input)
    (\<lambda>out w'. \<exists>old new u. rotated X S (rs_refresh_token input) (vw w Conn) old new u (vw w' Conn) \<and>
      user_matches (vw w Conn) u (lo_user out) \<and>
      refresh_token_for X (lo_refresh_token out) (rt_id new) (ur_id u))
    (\<lambda>e w'. vw w' Conn = vw w Conn \<and> (server_error e \<or> e = Panicked \<or> e = Api Unauthorized) \<or>
      (\<exists>old new u. rotated X S (rs_refresh_token input) (vw w Conn) old new u (vw w' Conn) \<and>
        server_error e)) w"
  by (rule wp_refresh_session[OF assms]) blast+

theorem refresh_rotates_witness:
  "\<exists>out w' old new u.
    refresh_session ref_ext demo_auth \<lparr>rs_refresh_token = demo_refresh_token\<rparr> demo_world = (Inr out, w') \<and>
    rotated ref_ext demo_auth demo_refresh_token (ref_view demo_world Conn) old new u (ref_view w' Conn)"
proof -
  have "\<not> isl (fst (refresh_session ref_ext demo_auth \<lparr>rs_refresh_token = demo_refresh_token\<rparr> demo_world))"
    by code_simp
  from wp_ran[OF refresh_rotates[OF ref_store_ok] this] show ?thesis
    unfolding refresh_session_input.simps by blast
qed

text \<open>
  C11: A refresh token is good once: after a refresh or a logout with a token that the backend
  signed, no row of the store makes that token good again.
\<close>

theorem refresh_token_spent_once:
  assumes "store_ok X vw" "jwt_laws X" "uuid_laws X" "refresh_token_for X token i u"
  shows "wp (refresh_session X S \<lparr>rs_refresh_token = token\<rparr>)
      (\<lambda>_ w'. \<forall>r. \<not> refresh_token_good X S (vw w' Conn) token r) (\<lambda>_ _. True) w \<and>
    wp (logout X S \<lparr>lg_refresh_token = token\<rparr>)
      (\<lambda>_ w'. \<forall>r. \<not> refresh_token_good X S (vw w' Conn) token r) (\<lambda>_ _. True) w"
proof (intro conjI)
  note row = good_token_row[OF assms(2-4)]
  note spent = revoked_not_good[OF assms(2-4)]
  show "wp (refresh_session X S \<lparr>rs_refresh_token = token\<rparr>)
      (\<lambda>_ w'. \<forall>r. \<not> refresh_token_good X S (vw w' Conn) token r) (\<lambda>_ _. True) w"
  proof (rule wp_refresh_session[OF assms(1)], goal_cases)
    case (1 old new usr out w')
    then have old: "refresh_token_good X S (vw w Conn) token old" by (simp add: rotated_def)
    obtain s where T': "vw w' Conn = revoke_refresh (rt_id old) s (add_refresh_row new (vw w Conn))"
      using 1(1) by (auto simp: rotated_def)
    have "\<exists>r \<in> t_refresh_tokens (add_refresh_row new (vw w Conn)). rt_id r = rt_id old"
      using old by (auto simp: refresh_token_good_def add_refresh_row_def)
    then show ?case
      using spent revoke_refresh_revoked row[OF old] unfolding T' by metis
  qed simp_all
  show "wp (logout X S \<lparr>lg_refresh_token = token\<rparr>)
      (\<lambda>_ w'. \<forall>r. \<not> refresh_token_good X S (vw w' Conn) token r) (\<lambda>_ _. True) w"
  proof (rule wp_logout[OF assms(1)], goal_cases)
    case (1 old s w')
    then have old: "refresh_token_good X S (vw w Conn) token old"
      and T': "vw w' Conn = revoke_refresh (rt_id old) s (vw w Conn)" by simp_all
    have "\<exists>r \<in> t_refresh_tokens (vw w Conn). rt_id r = rt_id old"
      using old by (auto simp: refresh_token_good_def)
    then show ?case
      using spent revoke_refresh_revoked row[OF old] unfolding T' by metis
  qed simp_all
qed

theorem refresh_token_spent_once_witness:
  "\<exists>out w'. logout ref_ext demo_auth \<lparr>lg_refresh_token = demo_refresh_token\<rparr> demo_world = (Inr out, w') \<and>
    (\<forall>r. \<not> refresh_token_good ref_ext demo_auth (ref_view w' Conn) demo_refresh_token r)"
proof -
  have "\<not> isl (fst (logout ref_ext demo_auth \<lparr>lg_refresh_token = demo_refresh_token\<rparr> demo_world))"
    by code_simp
  with refresh_token_spent_once[OF ref_store_ok ref_jwt_laws ref_uuid_laws demo_refresh_token_signed]
  show ?thesis by (intro wp_ran) blast+
qed

text \<open>
  C12: An access token is never read as a refresh token and a refresh token never as an access
  token, even with a valid signature; the claims of each are read back as they were signed.
\<close>

theorem token_kinds_are_apart:
  "claims_from_json (claims_json c) = Some c \<and>
   refresh_claims_from_json (refresh_claims_json rc) = Some rc \<and>
   claims_from_json (refresh_claims_json rc) = None \<and>
   refresh_claims_from_json (claims_json c) = None"
  by (simp add: claims_round claims_of_other_kind)

text \<open>
  C15: Of a new API token only the digest and the first 12 characters are stored; the token itself
  is in the answer and nowhere else, and it is accepted for its owner as long as it is not
  revoked.
\<close>

theorem api_token_stored_as_digest:
  assumes "store_ok X vw"
  shows "wp (create_api_token X S input)
    (\<lambda>out w'. \<exists>t. vw w' = (vw w)(Conn := add_api_token t (vw w Conn)) \<and>
      fresh_api_token (vw w Conn) t \<and> api_token_row X input (co_token out) t \<and>
      co_api_token out = t \<and>
      api_token_accepted X (vw w' Conn) (co_token out) (u_id (ca_user input)))
    (\<lambda>e w'. server_error e \<and> (vw w' = vw w \<or>
      (\<exists>raw t. vw w' = (vw w)(Conn := add_api_token t (vw w Conn)) \<and>
        fresh_api_token (vw w Conn) t \<and> api_token_row X input raw t))) w"
proof (rule wp_create_api_token[OF assms], goal_cases)
  case (1 bs t out w')
  then have "api_token_accepted X (vw w' Conn) (co_token out) (u_id (ca_user input))"
    by (auto simp: api_token_accepted_def add_api_token_def api_token_row_def)
  with 1 show ?case by auto
qed blast+

theorem api_token_stored_as_digest_witness:
  "\<exists>out w'. create_api_token ref_ext demo_auth \<lparr>ca_user = demo_user, ca_name = ''ci''\<rparr> demo_world =
      (Inr out, w') \<and>
    api_token_accepted ref_ext (ref_view w' Conn) (co_token out) (Uuid 2)"
proof -
  have "\<not> isl (fst (create_api_token ref_ext demo_auth \<lparr>ca_user = demo_user, ca_name = ''ci''\<rparr>
      demo_world))"
    by code_simp
  moreover have "u_id demo_user = Uuid 2" by code_simp
  ultimately show ?thesis
    using wp_ran[OF api_token_stored_as_digest[OF ref_store_ok]] by fastforce
qed

text \<open>
  C16: A user revokes its own API tokens only: another user's token is \<open>NotFound\<close>, as if it did
  not exist, and stays as it was.  A revoked token keeps the time it was first revoked at, and is
  not accepted any more.
\<close>

theorem own_api_tokens_are_revoked:
  assumes "store_ok X vw"
  shows "wp (revoke_api_token X S user i)
    (\<lambda>r w'. \<exists>t \<in> t_api_tokens (vw w Conn). \<exists>s. ut_id t = i \<and> ut_user_id t = u_id user \<and>
      vw w' = (vw w)(Conn := revoke_api i s (vw w Conn)) \<and> ut_revoked_at r = Some s \<and>
      (\<forall>s'. ut_revoked_at t = Some s' \<longrightarrow> s' = s) \<and>
      (\<forall>x \<in> t_api_tokens (vw w' Conn). ut_id x = i \<longrightarrow> ut_revoked_at x \<noteq> None))
    (\<lambda>e w'. (server_error e \<or> e = Api (NotFound ''api token'')) \<and> vw w' = vw w \<or>
      (\<exists>t \<in> t_api_tokens (vw w Conn). \<exists>s. ut_id t = i \<and> ut_user_id t = u_id user \<and>
        vw w' = (vw w)(Conn := revoke_api i s (vw w Conn)))) w"
proof (rule wp_revoke_api_token[OF assms], goal_cases)
  case (1 t s r w')
  then have "\<forall>x \<in> t_api_tokens (vw w' Conn). ut_id x = i \<longrightarrow> ut_revoked_at x \<noteq> None"
    by (auto simp: revoke_api_def update_row_if)
  with 1 show ?case by blast
qed blast+

theorem own_api_tokens_are_revoked_witness:
  "\<exists>r w'. revoke_api_token ref_ext demo_auth demo_user (Uuid 11) demo_world = (Inr r, w') \<and>
    (\<forall>x \<in> t_api_tokens (ref_view w' Conn). ut_id x = Uuid 11 \<longrightarrow> ut_revoked_at x \<noteq> None)"
proof -
  have "\<not> isl (fst (revoke_api_token ref_ext demo_auth demo_user (Uuid 11) demo_world))"
    by code_simp
  from wp_ran[OF own_api_tokens_are_revoked[OF ref_store_ok] this] show ?thesis by blast
qed

text \<open>
  C13: An invitation is made by an administrator of the workspace only, never for the role of a
  platform admin, and its three rows (the invited user, the invitation with the digest of its
  token, the role in the workspace) are written together or not at all.
\<close>

theorem invitation_guarded_and_atomic:
  assumes "store_ok X vw"
  shows "wp (invite_user X S input)
    (\<lambda>out w'. can_administer_workspace (ii_inviter input) (ii_workspace_id input) \<and>
      (\<exists>u i r raw. vw w' Conn = add_invitation u i r (vw w Conn) \<and>
        invited_rows input (vw w Conn) u i r \<and> ui_token_hash i = hash_invite_token X raw \<and>
        io_invite_link out = invite_link (cfg_app_base_url (as_config S)) raw))
    (\<lambda>e w'. vw w' Conn = vw w Conn \<or> server_error e \<and>
      can_administer_workspace (ii_inviter input) (ii_workspace_id input) \<and>
      (\<exists>u i r. vw w' Conn = add_invitation u i r (vw w Conn) \<and>
        invited_rows input (vw w Conn) u i r)) w"
  by (rule wp_invite_user[OF assms]) blast+

theorem invitation_guarded_and_atomic_witness:
  "\<exists>out w' u i r. invite_user ref_ext demo_auth demo_invitation demo_world = (Inr out, w') \<and>
    ref_view w' Conn = add_invitation u i r (ref_view demo_world Conn) \<and>
    invited_rows demo_invitation (ref_view demo_world Conn) u i r"
proof -
  have "\<not> isl (fst (invite_user ref_ext demo_auth demo_invitation demo_world))"
    by code_simp
  from wp_ran[OF invitation_guarded_and_atomic[OF ref_store_ok] this] show ?thesis by blast
qed

text \<open>
  C14: An invitation is accepted once: only an open one is (its token's digest is stored, it has
  not been accepted, it has not ended, its user is neither active nor disabled), and once any of
  it has been written, even if the acceptance then fails, the token opens nothing.
\<close>

theorem invitation_accepted_once:
  assumes "store_ok X vw"
    and unique: "\<forall>x \<in> t_invites (vw w Conn). \<forall>y \<in> t_invites (vw w Conn).
      ui_token_hash x = ui_token_hash y \<longrightarrow> x = y"
  shows "wp (accept_invite X S input)
    (\<lambda>out w'. \<exists>i u. open_invite X (vw w Conn) (ai_token input) i u \<and>
      u_id (lo_user out) = ui_user_id i \<and> acceptance X input i (vw w Conn) 3 (vw w' Conn) \<and>
      (\<forall>i' u'. \<not> open_invite X (vw w' Conn) (ai_token input) i' u'))
    (\<lambda>e w'. vw w' Conn = vw w Conn \<or>
      (\<forall>i' u'. \<not> open_invite X (vw w' Conn) (ai_token input) i' u')) w"
proof -
  have spent: "\<not> open_invite X T' (ai_token input) i' u'"
    if "open_invite X (vw w Conn) (ai_token input) i u" "acceptance X input i (vw w Conn) n T'"
    for i u n T' i' u'
    by (rule accepted_not_open[OF that(2)]) (use that(1) unique in \<open>auto simp: open_invite_def\<close>)
  show ?thesis
    by (rule wp_accept_invite[OF assms(1)]) (use spent in blast)+
qed

theorem invitation_accepted_once_witness:
  "\<exists>out w'. accept_invite ref_ext demo_auth \<lparr>ai_token = ''open'', ai_password = ''pw''\<rparr> demo_world =
      (Inr out, w') \<and>
    (\<forall>i u. \<not> open_invite ref_ext (ref_view w' Conn) ''open'' i u)"
proof -
  have "\<forall>x \<in> t_invites (ref_view demo_world Conn). \<forall>y \<in> t_invites (ref_view demo_world Conn).
      ui_token_hash x = ui_token_hash y \<longrightarrow> x = y"
    by (simp add: demo_world_def demo_rows_def ref_view_def rows_view_def side_def)
  note once = invitation_accepted_once[OF ref_store_ok this]
  have "\<not> isl (fst (accept_invite ref_ext demo_auth \<lparr>ai_token = ''open'', ai_password = ''pw''\<rparr>
      demo_world))"
    by code_simp
  from wp_ran[OF once this] show ?thesis unfolding accept_invite_input.simps by blast
qed

text \<open>
  After a start-up the configured signing key is the one active key, and there is a user; if
  there was none, it is the configured admin, active and with the platform role.
\<close>

theorem startup_bootstraps:
  assumes "store_ok X vw" "keys_unique (vw w Conn)"
  shows "wp (bootstrap_admin X S)
    (\<lambda>_ w'. \<exists>n e T. rsa_public_key_components X (cfg_jwt_public_key (as_config S)) = Inr (n, e) \<and>
      keys_synced n e (vw w Conn) T \<and>
      (vw w' = (vw w)(Conn := T) \<and> t_users (vw w Conn) \<noteq> {} \<or>
       t_users (vw w Conn) = {} \<and>
       (\<exists>u. vw w' = (vw w)(Conn := add_user u T) \<and> bootstrap_row X (as_config S) u)))
    (\<lambda>_ _. True) w"
  by (rule wp_bootstrap_admin[OF assms]) blast+

theorem startup_bootstraps_witness:
  "\<exists>w' n e T u. bootstrap_admin ref_ext demo_auth empty_world = (Inr (), w') \<and>
    keys_synced n e (ref_view empty_world Conn) T \<and>
    ref_view w' Conn = add_user u T \<and> bootstrap_row ref_ext demo_config u"
proof -
  have "keys_unique (ref_view empty_world Conn)"
    by (simp add: keys_unique_def empty_world_def no_rows_def ref_view_def rows_view_def side_def)
  note boot = startup_bootstraps[OF ref_store_ok this]
  have empty: "t_users (ref_view empty_world Conn) = {}"
    by (simp add: empty_world_def no_rows_def ref_view_def rows_view_def side_def)
  have "\<not> isl (fst (bootstrap_admin ref_ext demo_auth empty_world))"
    by code_simp
  from wp_ran[OF boot this] empty obtain w' n e T u
    where "bootstrap_admin ref_ext demo_auth empty_world = (Inr (), w')"
      "keys_synced n e (ref_view empty_world Conn) T"
      "ref_view w' = (ref_view empty_world)(Conn := add_user u T)"
      "bootstrap_row ref_ext (as_config demo_auth) u"
    by auto
  then show ?thesis by (intro exI[of _ w'] exI[of _ n] exI[of _ e] exI[of _ T] exI[of _ u])
    (simp add: demo_auth_def)
qed

section \<open>Workspaces and what they hold\<close>

text \<open>
  C33: The workspaces a user is shown are exactly those it may enter: all of them for a platform
  admin, and for anyone else those the store has a role of it for; each once.
\<close>

theorem shown_workspaces_are_the_accessible_ones:
  assumes "store_ok X vw" "user_matches (vw w Conn) r u" "inj_on w_id (t_workspaces (vw w Conn))"
  shows "wp (list_accessible_workspaces X S u)
    (\<lambda>rs w'. vw w' = vw w \<and> distinct rs \<and>
      set rs = {x \<in> t_workspaces (vw w Conn). may_access (vw w Conn) r (w_id x)})
    (\<lambda>e w'. vw w' = vw w \<and> server_error e) w"
proof (rule wp_list_accessible_workspaces[OF assms(1)], goal_cases)
  case (1 rs w')
  let ?T = "vw w Conn"
  have role: "u_role u = SuperAdmin \<longleftrightarrow> ur_role r = ''super_admin''"
    using user_matches_sel[OF assms(2)] by (simp add: codec_simps)
  have "set rs = {x \<in> t_workspaces ?T. may_access ?T r (w_id x)} \<and> distinct rs"
  proof (cases "u_role u = SuperAdmin")
    case True
    then show ?thesis using 1(2) role by (auto simp: visible_def may_access_def)
  next
    case False
    then have "sorted_wrt (<) (map w_id rs)" "set rs \<subseteq> t_workspaces ?T"
      and ids: "w_id ` set rs = role_ids u \<inter> w_id ` t_workspaces ?T"
      using 1(2) by (auto simp: visible_def)
    have roles: "i \<in> role_ids u \<longleftrightarrow> may_access ?T r i" for i
      using can_access_workspace_iff[OF assms(2), of i] False
      by (auto simp: can_access_workspace_def role_ids_def list_ex_iff)
    have "x \<in> set rs \<longleftrightarrow> may_access ?T r (w_id x)" if "x \<in> t_workspaces ?T" for x
    proof -
      have "x \<in> set rs \<longleftrightarrow> w_id x \<in> w_id ` set rs"
        using inj_on_image_mem_iff[OF assms(3) that \<open>set rs \<subseteq> _\<close>] by simp
      then show ?thesis using that roles by (simp add: ids)
    qed
    moreover have "distinct rs"
      using \<open>sorted_wrt (<) (map w_id rs)\<close> by (metis distinct_map strict_sorted_iff)
    ultimately show ?thesis using \<open>set rs \<subseteq> _\<close> by blast
  qed
  with 1(1) show ?case by blast
qed blast

theorem shown_workspaces_are_the_accessible_ones_witness:
  "\<exists>rs w'. list_accessible_workspaces ref_ext \<lparr>ws_db = demo_db\<rparr> demo_user demo_world = (Inr rs, w') \<and>
    set rs = {x \<in> t_workspaces (ref_view demo_world Conn).
      may_access (ref_view demo_world Conn) demo_member (w_id x)}"
proof -
  have "user_matches (ref_view demo_world Conn) demo_member demo_user"
    by (auto simp: user_matches_def demo_user_def demo_member_def demo_world_def demo_rows_def
        ref_view_def rows_view_def side_def user_of_def role_of_def workspace_role_of_def image_iff)
  moreover have "inj_on w_id (t_workspaces (ref_view demo_world Conn))"
    by (simp add: demo_world_def demo_rows_def ref_view_def rows_view_def side_def)
  moreover have "\<not> isl (fst (list_accessible_workspaces ref_ext \<lparr>ws_db = demo_db\<rparr> demo_user
      demo_world))"
    by code_simp
  ultimately show ?thesis
    using wp_ran[OF shown_workspaces_are_the_accessible_ones[OF ref_store_ok]] by blast
qed

text \<open>
  C29: A workspace is there with its environment \<open>production\<close>, under new identifiers, or nothing
  of it is, whatever the answer was.
\<close>

theorem workspace_created_whole:
  assumes "store_ok X vw"
  shows "wp (create_workspace X S name description)
    (\<lambda>x w'. \<exists>e. vw w' Conn = add_workspace x e (vw w Conn) \<and>
      new_workspace name description (vw w Conn) x e)
    (\<lambda>er w'. server_error er \<and> (vw w' Conn = vw w Conn \<or>
      (\<exists>x e. vw w' Conn = add_workspace x e (vw w Conn) \<and>
        new_workspace name description (vw w Conn) x e))) w"
  by (rule wp_create_workspace[OF assms]) blast+

theorem workspace_created_whole_witness:
  "\<exists>x w' e. create_workspace ref_ext \<lparr>ws_db = demo_db\<rparr> ''n'' None demo_world = (Inr x, w') \<and>
    ref_view w' Conn = add_workspace x e (ref_view demo_world Conn)"
proof -
  have "\<not> isl (fst (create_workspace ref_ext \<lparr>ws_db = demo_db\<rparr> ''n'' None demo_world))"
    by code_simp
  from wp_ran[OF workspace_created_whole[OF ref_store_ok] this] show ?thesis by blast
qed

text \<open>
  C30: A service is stored as it was asked for, in an environment of its own workspace.  It is
  refused, with nothing written, exactly for a workspace that is not there, for an environment
  that is not one of it, or for a failure of the database.
\<close>

theorem service_created_in_its_workspace:
  assumes "store_ok X vw"
  shows "wp (create_service X S input)
    (\<lambda>s w'. \<exists>r. vw w' = (vw w)(Conn := add_service r (vw w Conn)) \<and>
      service_row input (vw w Conn) r \<and> s = app_service_of r)
    (\<lambda>e w'. vw w' = vw w \<and> service_refused input (vw w Conn) e \<or>
      (\<exists>r. vw w' = (vw w)(Conn := add_service r (vw w Conn)) \<and>
        service_row input (vw w Conn) r \<and> server_error e)) w"
  by (rule wp_create_service[OF assms]) blast+

theorem service_created_in_its_workspace_witness:
  "\<exists>s w' r. create_service ref_ext \<lparr>ss_db = demo_db\<rparr> demo_new_service demo_world = (Inr s, w') \<and>
    ref_view w' Conn = add_service r (ref_view demo_world Conn) \<and>
    service_row demo_new_service (ref_view demo_world Conn) r"
proof -
  have "\<not> isl (fst (create_service ref_ext \<lparr>ss_db = demo_db\<rparr> demo_new_service demo_world))"
    by code_simp
  from wp_ran[OF service_created_in_its_workspace[OF ref_store_ok] this]
  obtain s w' r where "create_service ref_ext \<lparr>ss_db = demo_db\<rparr> demo_new_service demo_world = (Inr s, w')"
    "ref_view w' = (ref_view demo_world)(Conn := add_service r (ref_view demo_world Conn))"
    "service_row demo_new_service (ref_view demo_world Conn) r" by blast
  then show ?thesis by (metis fun_upd_same)
qed

text \<open>
  C31: A batch of environment variables is stored whole or not at all, each in a scope that was
  checked (its workspace is there, its environment and service belong to it), with its value
  encrypted; the answer shows no value.
\<close>

theorem env_vars_stored_whole_and_encrypted:
  assumes "store_ok X vw"
  shows "wp (create_env_vars X S inputs)
    (\<lambda>out w'. (\<exists>rs. vw w' Conn = add_env_vars rs (vw w Conn) \<and>
        env_var_rows X S inputs (vw w Conn) rs \<and> out = map env_var_response_of rs) \<and>
      (\<forall>input \<in> set inputs. env_var_scope (vw w Conn) input) \<and>
      list_all (\<lambda>v. evp_value v = ''********'') out)
    (\<lambda>e w'. vw w' Conn = vw w Conn \<and> (server_error e \<or> not_found e) \<or>
      server_error e \<and> (\<exists>rs. vw w' Conn = add_env_vars rs (vw w Conn) \<and>
        env_var_rows X S inputs (vw w Conn) rs) \<and>
      (\<forall>input \<in> set inputs. env_var_scope (vw w Conn) input)) w"
  by (rule wp_create_env_vars[OF assms]) (auto simp: list_all_iff responses_redacted)

theorem env_vars_stored_whole_and_encrypted_witness:
  "\<exists>out w' rs. create_env_vars ref_ext \<lparr>cred_db = demo_db, cred_secret_key = ''k''\<rparr> demo_env_vars
      demo_world = (Inr out, w') \<and>
    ref_view w' Conn = add_env_vars rs (ref_view demo_world Conn) \<and> length rs = 2"
proof -
  have "\<not> isl (fst (create_env_vars ref_ext \<lparr>cred_db = demo_db, cred_secret_key = ''k''\<rparr>
      demo_env_vars demo_world))"
    by code_simp
  from wp_ran[OF env_vars_stored_whole_and_encrypted[OF ref_store_ok] this]
  obtain out w' rs where run: "create_env_vars ref_ext \<lparr>cred_db = demo_db, cred_secret_key = ''k''\<rparr>
      demo_env_vars demo_world = (Inr out, w')"
    and T': "ref_view w' Conn = add_env_vars rs (ref_view demo_world Conn)"
    and rows: "env_var_rows ref_ext \<lparr>cred_db = demo_db, cred_secret_key = ''k''\<rparr> demo_env_vars
      (ref_view demo_world Conn) rs" by blast
  have "length rs = 2"
    using list_all2_lengthD[of _ demo_env_vars rs] rows
    by (fastforce simp: env_var_rows_def demo_env_vars_def)
  with run T' show ?thesis by blast
qed



section \<open>Servers, the worker and deployments\<close>

text \<open>
  C25: What a server is registered with is what a check connects with, although its private key
  and passphrase are stored encrypted only, and neither form leaves with the answer.
\<close>

theorem registered_keys_round_trip:
  assumes "store_ok X vw" "b64_laws X" "utf8 (cv_private_key payload)"
    and "\<forall>p. cv_private_key_passphrase payload = Some p \<longrightarrow> utf8 p"
  shows "wp (create_server X S payload)
    (\<lambda>out w'. \<exists>r. vw w' = (vw w)(Conn := add_server r (vw w Conn)) \<and>
      no_server (vw w Conn) (sr_id r) \<and> out = server_of r \<and>
      validate_ssh_key_pair payload = Inr () \<and>
      ssh_target_of X S out = Inr
        \<lparr>st_host = cv_host payload,
         st_port = (case cv_port payload of None \<Rightarrow> 22 | Some p \<Rightarrow> p),
         st_username = cv_username payload, st_public_key = cv_public_key payload,
         st_private_key = cv_private_key payload,
         st_private_key_passphrase = cv_private_key_passphrase payload\<rparr> \<and>
      {''encrypted_private_key'', ''encrypted_private_key_passphrase''} \<inter>
        fst ` set (server_json X out) = {})
    (\<lambda>e w'. vw w' = vw w \<and> (server_error e \<or> (\<exists>m. e = Api (BadRequest m))) \<or>
      server_error e \<and> (\<exists>r. vw w' = (vw w)(Conn := add_server r (vw w Conn)) \<and>
        server_row X S payload r)) w"
proof (rule wp_create_server[OF assms(1)], goal_cases)
  case (1 r w')
  have "{''encrypted_private_key'', ''encrypted_private_key_passphrase''} \<inter>
      fst ` set (server_json X (server_of r)) = {}"
    by (simp add: server_json_def)
  then show ?case using 1 ssh_target_of_row[OF assms(2) 1(3) assms(3,4)] by blast
qed blast+

theorem registered_keys_round_trip_witness:
  "\<exists>out w' target. create_server ref_ext \<lparr>svs_db = demo_db, svs_secret_key = ''k''\<rparr> demo_new_server
      demo_world = (Inr out, w') \<and>
    ssh_target_of ref_ext \<lparr>svs_db = demo_db, svs_secret_key = ''k''\<rparr> out = Inr target \<and>
    st_private_key target = ''PRIVATE KEY'' \<and> st_private_key_passphrase target = Some ''p''"
proof -
  have utf8: "utf8 (cv_private_key demo_new_server)"
    "\<forall>p. cv_private_key_passphrase demo_new_server = Some p \<longrightarrow> utf8 p"
    by (simp_all add: demo_new_server_def) code_simp+
  have "\<not> isl (fst (create_server ref_ext \<lparr>svs_db = demo_db, svs_secret_key = ''k''\<rparr> demo_new_server
      demo_world))"
    by code_simp
  from wp_ran[OF registered_keys_round_trip[OF ref_store_ok ref_b64_laws utf8] this] show ?thesis
    by (auto simp: demo_new_server_def)
qed

text \<open>
  C26: A check of a server answers what it has written: the four columns of that server that
  record it, and no other column, row or table.  With the transport the code ships, a server that
  is there and whose keys can be decrypted is always reported as available.
\<close>

theorem check_recorded_as_answered:
  assumes "store_ok X vw"
  shows "wp (check_server X S i)
    (\<lambda>c w'. \<exists>T'. vw w' = (vw w)(Conn := T') \<and> check_recorded (vw w Conn) i c T' \<and>
      checks_only (vw w Conn) T' \<and> sk_docker_status c = ''available'' \<and> sk_error c = None)
    (\<lambda>e w'. \<exists>T'. vw w' = (vw w)(Conn := T') \<and> checks_only (vw w Conn) T' \<and>
      (server_error e \<or>
       e = Api (NotFound ''server'') \<and> no_server (vw w Conn) i \<and> T' = vw w Conn)) w"
proof (rule wp_check_server[OF assms], goal_cases)
  case (1 c w' T')
  then have "checks_only (vw w Conn) T'"
    using record_check_only by (auto simp: check_recorded_def)
  with 1 show ?case by blast
qed blast

theorem check_recorded_as_answered_witness:
  "\<exists>c w' T'. check_server ref_ext \<lparr>svs_db = demo_db, svs_secret_key = ''k''\<rparr> (Uuid 9) demo_world =
      (Inr c, w') \<and> check_recorded (ref_view demo_world Conn) (Uuid 9) c T'"
proof -
  have "\<not> isl (fst (check_server ref_ext \<lparr>svs_db = demo_db, svs_secret_key = ''k''\<rparr> (Uuid 9)
      demo_world))"
    by code_simp
  from wp_ran[OF check_recorded_as_answered[OF ref_store_ok] this] show ?thesis by blast
qed

text \<open>
  C27: The worker survives every round of checks, whatever fails in it, and ends if and only if a
  signal arrives while no round is running: one that arrives during a round is lost.  With the
  checks switched off any signal ends it.  All it ever writes are the columns of checks.
\<close>

theorem worker_survives_checks:
  assumes "store_ok X vw"
  shows "wp (run_server_connectivity_workflow X config d events)
    (\<lambda>stopped w'. stopped =
        (if cfg_server_connectivity_check_interval_seconds config = 0 then Signal \<in> set events
         else \<exists>past later. events = past @ Signal # later \<and> \<not> round_running past) \<and>
      (\<exists>T'. vw w' = (vw w)(Conn := T') \<and> checks_only (vw w Conn) T'))
    (\<lambda>_ _. False) w"
proof (cases "cfg_server_connectivity_check_interval_seconds config = 0")
  case True
  then show ?thesis
    by (auto simp: run_server_connectivity_workflow_def intro!: exI[of _ "vw w Conn"])
next
  case False
  then show ?thesis
    unfolding signal_heard_def[symmetric] hears_iff[symmetric]
    by (auto simp: run_server_connectivity_workflow_def intro!: wp_worker_loop[OF assms])
qed

theorem worker_survives_checks_witness:
  "\<exists>stopped w'. run_server_connectivity_workflow ref_ext demo_config demo_db
      [Tick, Signal, Round_Done, Tick] demo_world = (Inr stopped, w') \<and>
    (stopped \<longleftrightarrow> (\<exists>past later. [Tick, Signal, Round_Done, Tick] = past @ Signal # later \<and>
      \<not> round_running past))"
proof -
  have "\<not> isl (fst (run_server_connectivity_workflow ref_ext demo_config demo_db
      [Tick, Signal, Round_Done, Tick] demo_world))"
    by code_simp
  moreover have "cfg_server_connectivity_check_interval_seconds demo_config \<noteq> 0"
    by (simp add: demo_config_def)
  ultimately show ?thesis using wp_ran[OF worker_survives_checks[OF ref_store_ok]] by fastforce
qed

text \<open>
  C28: A run of the worker checks every server: once its timer has ticked before it is told to
  stop, with the database up and the stored keys readable, every stored server is recorded as
  available and without an error, whatever was recorded of it before.
\<close>

theorem every_server_is_checked:
  assumes "store_ok X vw" "store_up X vw" "db_toasty d"
    and "cfg_server_connectivity_check_interval_seconds config \<noteq> 0" "ticked events"
    and "keys_readable X \<lparr>svs_db = d, svs_secret_key = cfg_secret_key config\<rparr> (vw w Conn)"
  shows "wp (run_server_connectivity_workflow X config d events)
    (\<lambda>_ w'. \<forall>r \<in> t_servers (vw w' Conn). recorded_available r) (\<lambda>_ _. False) w"
proof -
  let ?A = "new_server_check_activities d (cfg_secret_key config)"
  have A: "sca_service ?A = \<lparr>svs_db = d, svs_secret_key = cfg_secret_key config\<rparr>"
    by (simp add: new_server_check_activities_def)
  have "wp (worker_loop X ?A False events)
      (\<lambda>_ w'. available_at (vw w' Conn) (sr_id ` t_servers (vw w' Conn))) (\<lambda>_ _. False) w"
    by (rule up_worker_loop[OF assms(1,2)]) (simp_all add: A assms(3,5,6))
  then show ?thesis
    using assms(4)
    by (auto simp: run_server_connectivity_workflow_def available_at_def elim!: wp_mono)
qed

theorem every_server_is_checked_witness:
  "\<exists>x w'. run_server_connectivity_workflow ref_ext demo_config demo_db [Tick, Signal] demo_world =
      (Inr x, w') \<and>
    (\<forall>r \<in> t_servers (ref_view w' Conn). recorded_available r) \<and>
    (\<exists>r \<in> t_servers (ref_view demo_world Conn). \<not> recorded_available r)"
proof -
  have "db_toasty demo_db" "cfg_server_connectivity_check_interval_seconds demo_config \<noteq> 0"
    "ticked [Tick, Signal]"
    by (simp_all add: demo_db_def demo_config_def ticked_def)
  moreover have "keys_readable ref_ext
      \<lparr>svs_db = demo_db, svs_secret_key = cfg_secret_key demo_config\<rparr> (ref_view demo_world Conn)"
    by code_simp
  moreover have "\<exists>r \<in> t_servers (ref_view demo_world Conn). \<not> recorded_available r"
    by code_simp
  moreover have "\<not> isl (fst (run_server_connectivity_workflow ref_ext demo_config demo_db
      [Tick, Signal] demo_world))"
    by code_simp
  ultimately show ?thesis
    using wp_ran[OF every_server_is_checked[OF ref_store_ok ref_store_up]] by blast
qed

text \<open>
  C20: A deployment is recorded with the transcript of exactly the commands planned for its
  service, and as queued, because the executor the code uses runs none of them; a restart is
  recorded likewise, for a service with an accepted name.  A service that is not there, or whose
  name or image is refused, leaves no record: whatever fails, nothing is written but such a record.
\<close>

theorem deployment_records_its_plan:
  fixes X :: "('w, 'a) ext_scheme" and w :: 'w and i :: uuid
  assumes "store_ok X vw"
  defines "queued \<equiv> \<lambda>cs r w'. vw w' = (vw w)(Conn := add_deployment r (vw w Conn)) \<and>
      deployment_row i Queued (join [CHR 0x0A] (map (\<lambda>c. ''$ '' @ render c) cs @ [preview_line]))
        (vw w Conn) r"
    and "refused \<equiv> \<lambda>e w'. vw w' = vw w \<and> (server_error e \<or> (\<exists>m. e = Api (BadRequest m)) \<or>
      e = Api (NotFound ''service'') \<and> no_service (vw w Conn) i)"
  shows "wp (trigger_deploy X (new_deployment_service d config) i)
    (\<lambda>out w'. \<exists>s \<in> t_app_services (vw w Conn). \<exists>cs r. asr_id s = i \<and>
      planned_commands X (app_service_of s) config = Inr cs \<and> queued cs r w' \<and> deployment_read X r out)
    (\<lambda>e w'. refused e w' \<or> server_error e \<and> (\<exists>s \<in> t_app_services (vw w Conn). \<exists>cs r. asr_id s = i \<and>
      planned_commands X (app_service_of s) config = Inr cs \<and> queued cs r w')) w \<and>
   wp (restart_service X (new_deployment_service d config) i)
    (\<lambda>out w'. \<exists>s \<in> t_app_services (vw w Conn). \<exists>r. asr_id s = i \<and>
      validate_service_name X (asr_name s) = Inr () \<and>
      queued [restart_command (asr_name s)] r w' \<and> deployment_read X r out)
    (\<lambda>e w'. refused e w' \<or> server_error e \<and> (\<exists>s \<in> t_app_services (vw w Conn). \<exists>r. asr_id s = i \<and>
      validate_service_name X (asr_name s) = Inr () \<and> queued [restart_command (asr_name s)] r w')) w"
proof -
  have row: "queued cs r w'"
    if "vw w' = (vw w)(Conn := add_deployment r (vw w Conn))" "preview.recorded X i cs (vw w Conn) r"
    for cs r w'
  proof -
    from that(2) obtain run where run: "fst (preview_run cs w) = Inr run"
      and r: "deployment_row i (deploy_status run) (to_output run []) (vw w Conn) r"
      by (auto simp: preview.recorded_def preview_run_def returnE_def)
    have "deploy_status run = Queued"
      using run by (auto simp: preview_run_def returnE_def deploy_status_def)
    then show ?thesis using r that(1) preview_transcript[OF run] by (simp add: queued_def)
  qed
  have new: "dps_executor (new_deployment_service d config) = preview_run"
    "dps_config (new_deployment_service d config) = config"
    by (simp_all add: new_deployment_service_def)
  note ok = validate_service_name_iff
  show ?thesis
    by (intro conjI preview.wp_trigger_deploy[OF assms(1) new(1), unfolded new(2)]
        preview.wp_restart_service[OF assms(1) new(1)])
      (use row in \<open>unfold refused_def ok, blast+\<close>)
qed

theorem deployment_records_its_plan_witness:
  "\<exists>out w' r cs. trigger_deploy ref_ext (new_deployment_service demo_db demo_config) (Uuid 7) demo_world =
      (Inr out, w') \<and>
    dpr_status r = ''queued'' \<and> r \<in> t_deployments (ref_view w' Conn) \<and>
    dpr_output r = join [CHR 0x0A] (map (\<lambda>c. ''$ '' @ render c) cs @ [preview_line])"
proof -
  have "\<not> isl (fst (trigger_deploy ref_ext (new_deployment_service demo_db demo_config) (Uuid 7)
      demo_world))"
    by code_simp
  from wp_ran[OF conjunct1[OF deployment_records_its_plan[OF ref_store_ok]] this]
  obtain out w' r cs where run:
      "trigger_deploy ref_ext (new_deployment_service demo_db demo_config) (Uuid 7) demo_world = (Inr out, w')"
    and r: "ref_view w' = (ref_view demo_world)(Conn := add_deployment r (ref_view demo_world Conn))"
      "deployment_row (Uuid 7) Queued (join [CHR 0x0A] (map (\<lambda>c. ''$ '' @ render c) cs @ [preview_line]))
        (ref_view demo_world Conn) r"
    by blast
  show ?thesis
    by (rule exI[of _ out], rule exI[of _ w'], rule exI[of _ r], rule exI[of _ cs])
      (use run r in \<open>simp add: add_deployment_def deployment_row_def\<close>)
qed

section \<open>Configuration and errors\<close>

text \<open>
  C39: Whatever the environment and the file say, the configured signing keys are not blank, and a
  configuration file that cannot be read, or that does not parse, counts as an empty one.
\<close>

theorem configured_keys_not_blank:
  "not_blank (cfg_jwt_private_key_pem (from_env env fs from_yaml)) \<and>
   not_blank (cfg_jwt_public_key (from_env env fs from_yaml)) \<and>
   from_env env (\<lambda>_. Some (Inl failure)) from_yaml = from_sources env empty_config_file \<and>
   from_env env fs (\<lambda>_. Inl failure) = from_sources env empty_config_file"
proof -
  have "from_env env (\<lambda>_. Some (Inl failure)) from_yaml = from_sources env empty_config_file"
    "from_env env fs (\<lambda>_. Inl failure) = from_sources env empty_config_file"
    by (auto simp: from_env_def load_default_def bind_result_def map_err_def
        split: option.split sum.split)
  then show ?thesis
    by (simp add: from_env_def from_sources_def default_keys_not_blank non_empty_setting_not_blank)
qed

text \<open>
  C38: The server listens only when it is ready: the two configured keys are a pair (a token signed
  with the private one has been accepted under the public one), and the configured key is the one
  active key of the store.  The users are those who were there; on an empty store there is one, a
  platform admin whom the configured e-mail address and password log in.  What a start-up does to the
  store, whether it succeeds or fails, is made of transitions, and one that fails ends the process
  before it serves anything.
\<close>

theorem server_listens_when_ready:
  assumes "store_ok X vw" "argon2_laws X" "host_ok H vw" "keys_unique (vw w Conn)"
  shows "wp (start_server X H config)
    (\<lambda>started w'. server_ready X config (fst started) (vw w' Conn) \<and> moves X vw w w' \<and>
      (if t_users (vw w Conn) = {}
       then \<exists>u. t_users (vw w' Conn) = {u} \<and> ur_role u = ''super_admin'' \<and>
         credentials_ok X \<lparr>li_email = cfg_bootstrap_admin_email config,
           li_password = cfg_bootstrap_admin_password config\<rparr> u
       else t_users (vw w' Conn) = t_users (vw w Conn)))
    (\<lambda>e w'. moves X vw w w' \<and> server_main X H D config w = (Inl e, w')) w"
proof (rule wp_runI)
  note start = wp_start_server[OF assms(1,3,4), of config]
  fix started w' assume "start_server X H config w = (Inr started, w')"
  from wp_okD[OF start this]
  show "server_ready X config (fst started) (vw w' Conn) \<and> moves X vw w w' \<and>
      (if t_users (vw w Conn) = {}
       then \<exists>u. t_users (vw w' Conn) = {u} \<and> ur_role u = ''super_admin'' \<and>
         credentials_ok X \<lparr>li_email = cfg_bootstrap_admin_email config,
           li_password = cfg_bootstrap_admin_password config\<rparr> u
       else t_users (vw w' Conn) = t_users (vw w Conn))"
    using bootstrap_credentials[OF assms(2), of config]
    by (cases "t_users (vw w Conn) = {}") (auto simp: staffed_def, simp add: bootstrap_row_def)
next
  fix e w' assume run: "start_server X H config w = (Inl e, w')"
  show "moves X vw w w' \<and> server_main X H D config w = (Inl e, w')"
    using wp_errD[OF wp_start_server[OF assms(1,3,4)] run] server_main_not_ready[OF run] by blast
qed

theorem server_listens_when_ready_witness:
  "\<exists>started w' u. start_server ref_ext demo_host demo_config empty_world = (Inr started, w') \<and>
    keys_match ref_ext demo_config \<and> t_users (ref_view w' Conn) = {u} \<and>
    credentials_ok ref_ext \<lparr>li_email = ''r@w'', li_password = ''pw''\<rparr> u"
proof -
  have empty: "keys_unique (ref_view empty_world Conn)" "t_users (ref_view empty_world Conn) = {}"
    by (simp_all add: keys_unique_def empty_world_def no_rows_def ref_view_def rows_view_def
        side_def)
  have "\<not> isl (fst (start_server ref_ext demo_host demo_config empty_world))"
    by code_simp
  from wp_ran[OF server_listens_when_ready[OF ref_store_ok ref_argon2_laws demo_host_ok empty(1)] this]
  have "\<exists>started w'. start_server ref_ext demo_host demo_config empty_world = (Inr started, w') \<and>
      keys_match ref_ext demo_config \<and> (\<exists>u. t_users (ref_view w' Conn) = {u} \<and>
        credentials_ok ref_ext \<lparr>li_email = cfg_bootstrap_admin_email demo_config,
          li_password = cfg_bootstrap_admin_password demo_config\<rparr> u)"
    using empty(2) by (auto simp: server_ready_def)
  then show ?thesis unfolding demo_config_def config.simps by blast
qed

text \<open>
  C36: The text of an internal error never leaves the backend: after the middleware its response
  has status 500 and the one fixed envelope, whatever the text is.
\<close>

theorem internal_text_never_leaves:
  assumes "envelope_laws P"
  shows "r_status (normalize_error_response P (into_response P (Internal txt))) = 500 \<and>
    envelope_of P (normalize_error_response P (into_response P (Internal txt))) =
      Some \<lparr>er_code = ''internal_error'', er_message = ''internal server error'', er_details = None\<rparr>"
proof -
  have body: "response_body (Internal s) =
      \<lparr>er_code = ''internal_error'', er_message = ''internal server error'', er_details = None\<rparr>" for s
    by (simp add: response_body_def)
  have int: "r_status (into_response P (Internal s)) = 500"
    "envelope_of P (into_response P (Internal s)) = Some (response_body (Internal s))" for s
    by (simp add: into_response_def json_response_def) (rule envelope_into_response[OF assms])
  have "normalize_error_response P (into_response P (Internal txt)) \<in>
      {into_response P (Internal txt), into_response P (Internal ''failed to serialize error response'')}"
    using assms by (simp add: normalize_error_response_def into_response_def json_response_def
        to_bytes_def envelope_laws_def Let_def)
  then show ?thesis using int body by fastforce
qed

theorem internal_text_never_leaves_witness:
  "envelope_of ref_ext (normalize_error_response ref_ext (into_response ref_ext (Internal ''secret''))) =
    Some \<lparr>er_code = ''internal_error'', er_message = ''internal server error'', er_details = None\<rparr>"
  using internal_text_never_leaves[OF ref_envelope_laws] by blast

text \<open>
  Every error response carries an envelope after the middleware, with its status unchanged or
  500 if its body could not be read; a response that is no error passes as it is.
\<close>

theorem errors_have_an_envelope:
  assumes "envelope_laws P"
  shows "(if is_client_error (r_status r) \<or> is_server_error (r_status r)
     then (\<exists>b. envelope_of P (normalize_error_response P r) = Some b)
     else normalize_error_response P r = r) \<and>
    (r_status (normalize_error_response P r) = r_status r \<or>
     r_status (normalize_error_response P r) = 500 \<and> to_bytes (r_body r) (64 * 1024) = None)"
proof (cases "is_client_error (r_status r) \<or> is_server_error (r_status r)")
  case True
  have "r_status (normalize_error_response P r) = r_status r \<or>
      r_status (normalize_error_response P r) = 500 \<and> to_bytes (r_body r) (64 * 1024) = None"
    by (simp add: normalize_error_response_def Let_def into_response_def json_response_def
        split: option.split)
  then show ?thesis using normalize_error_has_envelope[OF assms True] True by auto
qed (simp add: normalize_error_response_simps(1))

theorem errors_have_an_envelope_witness:
  "\<exists>b. envelope_of ref_ext (normalize_error_response ref_ext
    \<lparr>r_status = 405, r_content_type = None, r_body = Inr []\<rparr>) = Some b"
  using errors_have_an_envelope[OF ref_envelope_laws,
      of "\<lparr>r_status = 405, r_content_type = None, r_body = Inr []\<rparr>"]
  by (simp add: is_client_error_def)

section \<open>The router\<close>

text \<open>
  C34: The routers wire each documented operation to the function its annotation is on.  A request
  that an operation describes reaches the handler of that name, with the segment of the path that
  stands for the parameter, and only such requests reach a handler; a path of an operation with
  another method is refused with \<open>405\<close>, and a path of none is unknown.
\<close>

theorem every_operation_has_its_handler:
  assumes "matcher_ok D"
  shows "(\<forall>x \<in> set (ad_operations api_doc). describes x m (''api'' # ''v1'' # path) \<longrightarrow>
      (\<exists>e. dispatch_api D m path b = Endpoint e \<and> reaches D x path e)) \<and>
    (\<forall>e. dispatch_api D m path b = Endpoint e \<longrightarrow>
      (\<exists>x \<in> set (ad_operations api_doc). describes x m (''api'' # ''v1'' # path) \<and> reaches D x path e)) \<and>
    (dispatch_api D m path b = NoRoute \<longleftrightarrow>
      (\<forall>x \<in> set (ad_operations api_doc). match_path (template x) (''api'' # ''v1'' # path) = None)) \<and>
    (dispatch_api D m path b = MethodNotAllowed \<longleftrightarrow>
      (\<exists>x \<in> set (ad_operations api_doc). match_path (template x) (''api'' # ''v1'' # path) \<noteq> None) \<and>
      \<not> (\<exists>x \<in> set (ad_operations api_doc). describes x m (''api'' # ''v1'' # path)))"
proof -
  note to = described_dispatch[OF assms, of _ m path b]
  note described = dispatched_described[OF assms, of m path b]
  have reached: "\<exists>x \<in> set (ad_operations api_doc). describes x m (''api'' # ''v1'' # path) \<and> reaches D x path e"
    if e: "dispatch_api D m path b = Endpoint e" for e
  proof -
    obtain x where x: "x \<in> set (ad_operations api_doc)" "describes x m (''api'' # ''v1'' # path)"
      using described[OF e] by blast
    with to[OF x] e show ?thesis by auto
  qed
  have known: "dispatch_api D m path b = NoRoute \<longleftrightarrow>
      (\<forall>x \<in> set (ad_operations api_doc). match_path (template x) (''api'' # ''v1'' # path) = None)"
    by (rule documented_paths[OF assms])
  then have fits: "dispatch_api D m path b \<noteq> NoRoute \<longleftrightarrow>
      (\<exists>x \<in> set (ad_operations api_doc). match_path (template x) (''api'' # ''v1'' # path) \<noteq> None)"
    by (simp only: ball_simps not_not)
  have "dispatch_api D m path b = MethodNotAllowed \<longleftrightarrow> dispatch_api D m path b \<noteq> NoRoute \<and>
      (\<forall>e. dispatch_api D m path b \<noteq> Endpoint e)"
    by (cases "dispatch_api D m path b") simp_all
  moreover have "(\<exists>e. dispatch_api D m path b = Endpoint e) \<longleftrightarrow>
      (\<exists>x \<in> set (ad_operations api_doc). describes x m (''api'' # ''v1'' # path))"
    using to described by blast
  ultimately have "dispatch_api D m path b = MethodNotAllowed \<longleftrightarrow>
      (\<exists>x \<in> set (ad_operations api_doc). match_path (template x) (''api'' # ''v1'' # path) \<noteq> None) \<and>
      \<not> (\<exists>x \<in> set (ad_operations api_doc). describes x m (''api'' # ''v1'' # path))"
    unfolding fits by metis
  then show ?thesis using to reached known by blast
qed

theorem every_operation_has_its_handler_witness:
  "\<exists>e. dispatch_api demo_decoders GET [''servers'', ''x''] ([] :: string) = Endpoint e \<and>
    handled_by e = (''get_server'', Some (dec_segment demo_decoders ''x''))"
proof -
  let ?x = "add_common_error_responses doc_get_server"
  have x: "?x \<in> set (ad_operations api_doc)"
    by (simp add: api_doc_operations documented_operations_def)
  have "template doc_get_server = [Lit ''api'', Lit ''v1'', Lit ''servers'', Param]" by code_simp
  then have t: "template ?x = [Lit ''api'', Lit ''v1'', Lit ''servers'', Param]" by simp
  then have "describes ?x GET (''api'' # ''v1'' # [''servers'', ''x''])"
    by (simp add: describes_def) (simp add: doc_get_server_def)
  with conjunct1[OF every_operation_has_its_handler[OF demo_matcher_ok]] x obtain e
    where e: "dispatch_api demo_decoders GET [''servers'', ''x''] [] = Endpoint e"
      "reaches demo_decoders ?x [''servers'', ''x''] e" by blast
  have "op_id ?x = ''get_server''" by simp (simp add: doc_get_server_def)
  moreover have "match_path (template ?x) (''api'' # ''v1'' # [''servers'', ''x'']) = Some [''x'']"
    unfolding t by simp
  ultimately show ?thesis using e unfolding reaches_def by (intro exI[of _ e]) (simp only: option.case list.case)
qed



text \<open>
  C35: Every request has an answer.  Under \<open>/api/v1\<close> the reply of the handler is the answer; an error of
  the application is answered with its own status and its public envelope (or, if that is longer
  than the middleware reads, with the envelope of an internal error and status 500); a rejection
  keeps its status and gets an envelope; and only a handler that panics leaves a request without an
  answer.  Elsewhere only a panic of the one handler there does.
\<close>

theorem every_request_is_answered:
  assumes "envelope_laws X"
  shows "(\<forall>path. h_path h = ''api'' # ''v1'' # path \<longrightarrow>
      (case run_route X st D h path w of
         (Inr r, w') \<Rightarrow> answer_request X st D h w = (Inr (Reply r), w')
       | (Inl (Api er), w') \<Rightarrow> \<exists>r. answer_request X st D h w = (Inr (Failure r), w') \<and>
           (if length (error_response_to_json X (response_body er)) \<le> 64 * 1024
            then r_status r = api_status er \<and> envelope_of X r = Some (response_body er)
            else r_status r = 500 \<and> envelope_of X r = Some (response_body (Internal [])))
       | (Inl (Rejected s txt), w') \<Rightarrow> \<exists>r. answer_request X st D h w = (Inr (Failure r), w') \<and>
           (length txt \<le> 64 * 1024 \<longrightarrow> r_status r = s) \<and>
           (is_client_error s \<or> is_server_error s \<longrightarrow> (\<exists>e. envelope_of X r = Some e))
       | (Inl Panicked, w') \<Rightarrow> answer_request X st D h w = (Inr Dropped, w'))) \<and>
    (\<not> prefix [''api'', ''v1''] (h_path h) \<longrightarrow>
      (\<exists>a w'. answer_request X st D h w = (Inr a, w') \<and>
        (a = Dropped \<longrightarrow> jwks_route X st w = (Inl Panicked, w'))))"
proof (intro conjI allI impI)
  fix path assume "h_path h = ''api'' # ''v1'' # path"
  then have answer: "answer_request X st D h = serve_api X st D h path"
    by (simp add: answer_request_def)
  obtain x w' where run: "run_route X st D h path w = (x, w')" by fastforce
  have failed: "answer_request X st D h w = (Inr (api_failure X e), w')" if "x = Inl e" for e
    using run that by (simp add: answer serve_api_def matchE_def returnE_def)
  show "case run_route X st D h path w of
         (Inr r, w') \<Rightarrow> answer_request X st D h w = (Inr (Reply r), w')
       | (Inl (Api er), w') \<Rightarrow> \<exists>r. answer_request X st D h w = (Inr (Failure r), w') \<and>
           (if length (error_response_to_json X (response_body er)) \<le> 64 * 1024
            then r_status r = api_status er \<and> envelope_of X r = Some (response_body er)
            else r_status r = 500 \<and> envelope_of X r = Some (response_body (Internal [])))
       | (Inl (Rejected s txt), w') \<Rightarrow> \<exists>r. answer_request X st D h w = (Inr (Failure r), w') \<and>
           (length txt \<le> 64 * 1024 \<longrightarrow> r_status r = s) \<and>
           (is_client_error s \<or> is_server_error s \<longrightarrow> (\<exists>e. envelope_of X r = Some e))
       | (Inl Panicked, w') \<Rightarrow> answer_request X st D h w = (Inr Dropped, w')"
  proof (cases x)
    case (Inr r)
    then show ?thesis using run by (simp add: answer serve_api_def matchE_def returnE_def)
  next
    case (Inl e)
    show ?thesis
    proof (cases e)
      case (Api er)
      obtain r where r: "api_failure X (Api er) = Failure r"
        "r_status r = (if length (error_response_to_json X (response_body er)) \<le> 64 * 1024
          then api_status er else 500)"
        "envelope_of X r = Some (if length (error_response_to_json X (response_body er)) \<le> 64 * 1024
          then response_body er else response_body (Internal []))"
        by (rule api_failure_Api[OF assms])
      then show ?thesis using failed[OF Inl] run Inl Api by simp
    next
      case (Rejected s t)
      obtain r where "api_failure X (Rejected s t) = Failure r"
        "is_client_error s \<or> is_server_error s \<Longrightarrow> \<exists>b. envelope_of X r = Some b"
        "length t \<le> 64 * 1024 \<Longrightarrow> r_status r = s"
        by (rule api_failure_Rejected[OF assms, of s t]) blast
      then show ?thesis using failed[OF Inl] run Inl Rejected by auto
    next
      case Panicked
      then show ?thesis using failed[OF Inl] run Inl by (simp add: api_failure_Panicked)
    qed
  qed
next
  assume "\<not> prefix [''api'', ''v1''] (h_path h)"
  then show "\<exists>a w'. answer_request X st D h w = (Inr a, w') \<and>
      (a = Dropped \<longrightarrow> jwks_route X st w = (Inl Panicked, w'))"
    by (rule page_answers)
qed

theorem every_request_is_answered_witness:
  "\<exists>r w'. answer_request ref_ext demo_state demo_decoders (demo_request GET [''auth'', ''me''] None)
      demo_world = (Inr (Failure r), w') \<and>
    r_status r = 401 \<and> envelope_of ref_ext r = Some (response_body Unauthorized)"
proof -
  let ?h = "demo_request GET [''auth'', ''me''] None"
  have run: "run_route ref_ext demo_state demo_decoders ?h [''auth'', ''me''] demo_world =
      (Inl (Api Unauthorized), demo_world)"
    by (simp add: run_route_def demo_request_def dispatch_api_def dispatch_def demo_decoders_def
        api_routes_def auth_router_def reply_as_def me_route_def current_user_def
        bearer_token_def bindE_def throwE_def returnE_def)
  have short: "length (error_response_to_json ref_ext (response_body Unauthorized)) \<le> 64 * 1024"
    by (simp add: ref_ext_def ref_error_json_def ref_put_def response_body_def)
  have "h_path ?h = ''api'' # ''v1'' # [''auth'', ''me'']" by (simp add: demo_request_def)
  then show ?thesis
    using conjunct1[OF every_request_is_answered[OF ref_envelope_laws, of ?h demo_state demo_decoders demo_world],
        rule_format, of "[''auth'', ''me'']"] run short
    by force
qed

section \<open>The platform as a whole\<close>

text \<open>
  C1: But for the four public ones, an endpoint answers, or changes more than the time an API
  token was last used, only for an active user with a good token of its own who has the right the
  endpoint asks for: the platform role, access to the workspace that is named or that the named
  service, domain or deployment belongs to, or the administration of the workspace invited to.
\<close>

theorem endpoints_ask_for_their_right:
  assumes "store_ok X vw" "\<not> public_endpoint ep"
  shows "wp (serve X st authorization ep)
    (\<lambda>_ _. authorized X st authorization (vw w Conn) ep)
    (\<lambda>_ w'. authorized X st authorization (vw w Conn) ep \<or> only_seen vw w w') w"
  using serve_guarded[OF assms] unfolding guarded_def .

theorem endpoints_ask_for_their_right_witness:
  "\<exists>r w'. serve ref_ext demo_state (Some ''Bearer wara_x'')
      (GetWorkspace (Inr (Uuid 5))) demo_world = (Inr r, w') \<and>
    authorized ref_ext demo_state (Some ''Bearer wara_x'')
      (ref_view demo_world Conn) (GetWorkspace (Inr (Uuid 5)))"
proof -
  have "\<not> isl (fst (serve ref_ext demo_state (Some ''Bearer wara_x'')
      (GetWorkspace (Inr (Uuid 5))) demo_world))"
    by code_simp
  moreover have "\<not> public_endpoint (GetWorkspace (Inr (Uuid 5)))" by simp
  ultimately show ?thesis
    using wp_ran[OF endpoints_ask_for_their_right[OF ref_store_ok]] by blast
qed

text \<open>
  C2: Whatever the backend runs (a start-up, a request of any method and path, a run of the
  worker) changes the stored rows by a sequence of the transitions of the platform, each taken
  under its guard, even when it fails on the way.
\<close>

theorem steps_refine_transitions:
  assumes "store_ok X vw" "keys_unique (vw w Conn)" "step X w w'"
  shows "(move X)\<^sup>*\<^sup>* (vw w Conn) (vw w' Conn)"
  using step_moves[OF assms(1,3,2)] unfolding moves_def .

theorem steps_refine_transitions_witness:
  "\<exists>r w'. answer_request ref_ext demo_state demo_decoders token_request demo_world = (Inr (Reply r), w') \<and>
    (move ref_ext)\<^sup>*\<^sup>* (ref_view demo_world Conn) (ref_view w' Conn)"
proof -
  obtain r w' where run:
    "answer_request ref_ext demo_state demo_decoders token_request demo_world = (Inr (Reply r), w')"
    using token_request_served by blast
  have "keys_unique (ref_view demo_world Conn)"
    by (simp add: keys_unique_def demo_world_def demo_rows_def ref_view_def rows_view_def side_def)
  from steps_refine_transitions[OF ref_store_ok this requests[OF run]] run show ?thesis by blast
qed

text \<open>
  C4: References stay whole: from rows in which every workspace, environment, service and user
  that is named exists, and users and signing keys are unique, no run of the backend leads to rows
  in which that is not so.
\<close>

theorem rows_stay_consistent:
  assumes "store_ok X vw" "consistent (vw w Conn)" "(step X)\<^sup>*\<^sup>* w w'"
  shows "consistent (vw w' Conn)"
  by (rule consistency.steps_keep[OF assms(1,3)]) (use assms(2) in \<open>simp_all add: consistent_def\<close>)

theorem rows_stay_consistent_witness:
  "\<exists>r w'. answer_request ref_ext demo_state demo_decoders token_request demo_world = (Inr (Reply r), w') \<and>
    consistent (ref_view w' Conn)"
proof -
  obtain r w' where run:
    "answer_request ref_ext demo_state demo_decoders token_request demo_world = (Inr (Reply r), w')"
    using token_request_served by blast
  have "consistent (ref_view demo_world Conn)"
    by code_simp
  from rows_stay_consistent[OF ref_store_ok this r_into_rtranclp[where r = "step ref_ext", OF requests[OF run]]] run
  show ?thesis by blast
qed

text \<open>
  C3: There is always somebody to administer the platform: once a start-up has made the first
  admin, every later state has an active user with the platform role, whatever is requested.
\<close>

theorem an_admin_remains:
  assumes "store_ok X vw" "keys_unique (vw w Conn)" "t_users (vw w Conn) = {}"
    and "bootstrap_admin X U w = (Inr x, w1)" and "(step X)\<^sup>*\<^sup>* w1 w'"
  shows "\<exists>r \<in> t_users (vw w' Conn). ur_role r = ''super_admin'' \<and> ur_status r = ''active''"
proof -
  have "wp (bootstrap_admin X U) (\<lambda>_ w'. administered (vw w' Conn)) (\<lambda>_ _. True) w"
    by (rule wp_bootstrap_admin[OF assms(1,2)])
      (use assms(3) in \<open>auto simp: administered_def users_unique_def active_admins_def
        add_user_def bootstrap_row_def keys_synced_def\<close>)
  from wp_okD[OF this assms(4)] have admin: "administered (vw w1 Conn)" .
  have "step X w w1" using assms(4) by (rule starts)
  note keys = moves_keys[OF step_moves[OF assms(1) this assms(2)] assms(2)]
  from administration.steps_keep[OF assms(1,5) keys admin] show ?thesis
    by (auto simp: administered_def active_admins_def)
qed

text \<open>
  C5: What is revoked stays revoked: an API token whose rows are revoked, and a refresh token
  whose row is, are refused in every later state, whatever has been requested since.
\<close>

theorem revoked_stays_revoked:
  assumes "store_ok X vw" "jwt_laws X" "uuid_laws X" "keys_unique (vw w Conn)"
    and "(step X)\<^sup>*\<^sup>* w w'"
    and "api_revoked (vw w Conn) (hash_api_token X token)"
    and "refresh_token_for X session i u" "refresh_revoked (vw w Conn) i"
  shows "wp (authenticate_api_token X S token) (\<lambda>_ _. False) (\<lambda>_ _. True) w' \<and>
    wp (refresh_session X S \<lparr>rs_refresh_token = session\<rparr>) (\<lambda>_ _. False) (\<lambda>_ _. True) w'"
proof
  have "api_revoked (vw w' Conn) (hash_api_token X token)"
    by (rule api_revocation.steps_keep[OF assms(1,5,4,6)])
  then show "wp (authenticate_api_token X S token) (\<lambda>_ _. False) (\<lambda>_ _. True) w'"
    by (intro wp_authenticate_api_token[OF assms(1)])
      (auto simp: api_token_accepted_def api_revoked_def)
  have "refresh_revoked (vw w' Conn) i"
    by (rule revocation.steps_keep[OF assms(1,5,4,8)])
  note refused = revoked_not_good[OF assms(2,3,7) this]
  show "wp (refresh_session X S \<lparr>rs_refresh_token = session\<rparr>) (\<lambda>_ _. False) (\<lambda>_ _. True) w'"
    by (rule wp_refresh_session[OF assms(1)]) (use refused in \<open>auto simp: rotated_def\<close>)
qed

theorem an_admin_remains_witness:
  "\<exists>x w1 r w'. bootstrap_admin ref_ext demo_auth empty_world = (Inr x, w1) \<and>
    answer_request ref_ext demo_state demo_decoders
      (demo_request POST [''admin'', ''users'', ''1'', ''disable''] None) w1 = (r, w') \<and>
    (\<exists>r \<in> t_users (ref_view w' Conn). ur_role r = ''super_admin'' \<and> ur_status r = ''active'')"
proof -
  have empty: "keys_unique (ref_view empty_world Conn)" "t_users (ref_view empty_world Conn) = {}"
    by (simp_all add: keys_unique_def empty_world_def no_rows_def ref_view_def rows_view_def side_def)
  have "\<not> isl (fst (bootstrap_admin ref_ext demo_auth empty_world))" by code_simp
  then obtain x w1 where boot: "bootstrap_admin ref_ext demo_auth empty_world = (Inr x, w1)"
    using ran[of "bootstrap_admin ref_ext demo_auth" empty_world] by blast
  obtain r w' where run: "answer_request ref_ext demo_state demo_decoders
      (demo_request POST [''admin'', ''users'', ''1'', ''disable''] None) w1 = (r, w')"
    by (rule prod.exhaust)
  have "(step ref_ext)\<^sup>*\<^sup>* w1 w'" using requests[OF run] by blast
  from an_admin_remains[OF ref_store_ok empty boot this] boot run show ?thesis by blast
qed

theorem revoked_stays_revoked_witness:
  "\<exists>r w'. answer_request ref_ext demo_state demo_decoders token_request revoked_world = (r, w') \<and>
    wp (authenticate_api_token ref_ext demo_auth ''wara_x'') (\<lambda>_ _. False) (\<lambda>_ _. True) w' \<and>
    wp (refresh_session ref_ext demo_auth \<lparr>rs_refresh_token = demo_refresh_token\<rparr>)
      (\<lambda>_ _. False) (\<lambda>_ _. True) w'"
proof -
  let ?T = "ref_view revoked_world Conn"
  have revoked: "keys_unique ?T" "api_revoked ?T (hash_api_token ref_ext ''wara_x'')"
    "refresh_revoked ?T (Uuid 10)"
    by (simp_all add: keys_unique_def api_revoked_def refresh_revoked_def revoked_world_def
        demo_world_def demo_rows_def ref_view_def rows_view_def side_def)
  obtain r w' where run:
    "answer_request ref_ext demo_state demo_decoders token_request revoked_world = (r, w')"
    by (rule prod.exhaust)
  have "(step ref_ext)\<^sup>*\<^sup>* revoked_world w'" using requests[OF run] by blast
  from revoked_stays_revoked[OF ref_store_ok ref_jwt_laws ref_uuid_laws revoked(1) this revoked(2)
      demo_refresh_token_signed revoked(3)] run
  show ?thesis by blast
qed

end
